(* ===== verification/Prelude.thy ===== *)
theory Prelude
  imports Main "HOL-Library.AList" "HOL-Library.Sublist"
begin

text \<open>
  What every component of the development shares: how a Go function that may
  panic is written, how a Go map is written, and the collections of rewrite
  rules the component theories fill.

  A Go \<^verbatim>\<open>string\<close> is a sequence of bytes, and so is a HOL \<open>char list\<close>: a \<open>char\<close> of
  Isabelle has eight bits.  A Go \<^verbatim>\<open>[]byte\<close> is written with the same type, and
  \<open>bytes option\<close> where the code tells \<^verbatim>\<open>nil\<close> from the empty slice.
\<close>

type_synonym bytes = "char list"

named_theorems go_simps "unfolding rules of the models of the Go standard library"
named_theorems model_defs "definitions of the program that its proofs unfold together"

section \<open>Panics\<close>

text \<open>
  A Go function that may panic returns an outcome: \<open>Panicked\<close> when the run-time
  stops it (a slice expression out of range, a nil dereference).
\<close>

datatype 'a outcome = Panicked | Returned 'a

fun bind_outcome :: "'a outcome \<Rightarrow> ('a \<Rightarrow> 'b outcome) \<Rightarrow> 'b outcome" where
  "bind_outcome Panicked f = Panicked"
| "bind_outcome (Returned x) f = f x"

lemma bind_outcome_eq_Returned:
  "bind_outcome m f = Returned y \<longleftrightarrow> (\<exists>x. m = Returned x \<and> f x = Returned y)"
  by (cases m) auto

lemma bind_outcome_eq_Panicked:
  "bind_outcome m f = Panicked \<longleftrightarrow> m = Panicked \<or> (\<exists>x. m = Returned x \<and> f x = Panicked)"
  by (cases m) auto

section \<open>Go maps\<close>

text \<open>
  A Go map that the code only looks up, stores into and deletes from is a HOL map.
  A Go map the code ranges over is an association list with distinct keys: the list
  is the order in which one run visits the entries.  The order of Go is not
  specified and changes from run to run, so a property of such a loop speaks of
  every list with the same entries.
\<close>

definition same_entries :: "('k \<times> 'v) list \<Rightarrow> ('k \<times> 'v) list \<Rightarrow> bool" where
  "same_entries xs ys \<longleftrightarrow> distinct (map fst xs) \<and> distinct (map fst ys) \<and> set xs = set ys"

lemma same_entries_sym: "same_entries xs ys \<Longrightarrow> same_entries ys xs"
  by (simp add: same_entries_def)

lemma same_entries_map_of: "same_entries xs ys \<Longrightarrow> map_of xs = map_of ys"
  by (auto simp: same_entries_def intro: map_of_inject_set [THEN iffD2])

lemma same_entries_set: "same_entries xs ys \<Longrightarrow> set xs = set ys"
  by (simp add: same_entries_def)

text \<open>
  \<^verbatim>\<open>for k, v := range src { if _, ok := dst[k]; !ok { dst[k] = v } }\<close>: the entries of
  \<^verbatim>\<open>dst\<close> win.  Each key is visited once, so the order does not matter.
\<close>

definition fill_missing :: "('k \<rightharpoonup> 'v) \<Rightarrow> ('k \<rightharpoonup> 'v) \<Rightarrow> ('k \<rightharpoonup> 'v)" where
  "fill_missing src dst = src ++ dst"

lemma fill_missing_present: "dst k = Some v \<Longrightarrow> fill_missing src dst k = Some v"
  by (simp add: fill_missing_def)

lemma fill_missing_absent: "dst k = None \<Longrightarrow> fill_missing src dst k = src k"
  by (simp add: fill_missing_def map_add_def)

text \<open>Every entry of a map is still there in another, with a value related to its own.\<close>

definition map_evolves :: "('v \<Rightarrow> 'v \<Rightarrow> bool) \<Rightarrow> ('k \<rightharpoonup> 'v) \<Rightarrow> ('k \<rightharpoonup> 'v) \<Rightarrow> bool" where
  "map_evolves R m m' \<longleftrightarrow> (\<forall>k v. m k = Some v \<longrightarrow> (\<exists>v'. m' k = Some v' \<and> R v v'))"

lemma map_evolvesD: "map_evolves R m m' \<Longrightarrow> m k = Some v \<Longrightarrow> \<exists>v'. m' k = Some v' \<and> R v v'"
  by (simp add: map_evolves_def)

lemma map_evolves_refl: "(\<And>v. R v v) \<Longrightarrow> map_evolves R m m"
  by (simp add: map_evolves_def)

lemma map_evolves_trans:
  "map_evolves R a b \<Longrightarrow> map_evolves R b d \<Longrightarrow> (\<And>x y z. R x y \<Longrightarrow> R y z \<Longrightarrow> R x z) \<Longrightarrow> map_evolves R a d"
  unfolding map_evolves_def by meson

lemma map_evolves_upd:
  "m k = Some v \<Longrightarrow> R v w \<Longrightarrow> (\<And>v. R v v) \<Longrightarrow> map_evolves R m (m(k \<mapsto> w))"
  by (simp add: map_evolves_def)

section \<open>Generic lemmas\<close>

lemma prefix_append_iff_drop: "prefix p s \<longleftrightarrow> s = p @ drop (length p) s"
  by (metis append_eq_conv_conj prefix_def)

lemma fold_invariant:
  assumes "P s" and "\<And>x s. x \<in> set xs \<Longrightarrow> P s \<Longrightarrow> P (f x s)"
  shows "P (fold f xs s)"
  using assms by (induction xs arbitrary: s) auto

lemma map_of_rev: "distinct (map fst fs) \<Longrightarrow> map_of (rev fs) = map_of fs"
proof
  fix n assume d: "distinct (map fst fs)"
  then have "distinct (map fst (rev fs))" by (simp add: rev_map [symmetric])
  then show "map_of (rev fs) n = map_of fs n"
    using d by (metis map_of_eq_Some_iff not_None_eq set_rev)
qed

end
