(* ===== verification/GoStrings.thy ===== *)
theory GoStrings
  imports Prelude
begin

text \<open>
  The functions of Go's packages \<^verbatim>\<open>strings\<close> and \<^verbatim>\<open>strconv\<close> that the program uses, on
  byte strings.  Case conversion of a string with bytes of 128 and above goes
  through the Unicode tables of the standard library; they are the first argument
  of \<open>to_upper\<close> and \<open>to_lower\<close>, and every result of the development holds for
  whatever they contain.
\<close>

section \<open>Case\<close>

definition byte_val :: "char \<Rightarrow> nat" where
  "byte_val c = of_char c"

definition is_ascii :: "string \<Rightarrow> bool" where
  "is_ascii s \<longleftrightarrow> list_all (\<lambda>c. byte_val c < 128) s"

definition upper_byte :: "char \<Rightarrow> char" where
  "upper_byte c = (if 97 \<le> byte_val c \<and> byte_val c \<le> 122 then char_of (byte_val c - 32) else c)"

definition lower_byte :: "char \<Rightarrow> char" where
  "lower_byte c = (if 65 \<le> byte_val c \<and> byte_val c \<le> 90 then char_of (byte_val c + 32) else c)"

definition to_upper :: "(string \<Rightarrow> string) \<Rightarrow> string \<Rightarrow> string" where
  "to_upper uc s = (if is_ascii s then map upper_byte s else uc s)"

definition to_lower :: "(string \<Rightarrow> string) \<Rightarrow> string \<Rightarrow> string" where
  "to_lower lc s = (if is_ascii s then map lower_byte s else lc s)"

lemma byte_val_less: "byte_val c < 256"
  unfolding byte_val_def by (cases c) (simp add: of_char_def)

lemma byte_val_upper:
  "byte_val (upper_byte c) = (if 97 \<le> byte_val c \<and> byte_val c \<le> 122 then byte_val c - 32 else byte_val c)"
  by (auto simp: upper_byte_def byte_val_def)

lemma upper_byte_idem [simp]: "upper_byte (upper_byte c) = upper_byte c"
  by (subst upper_byte_def) (auto simp: byte_val_upper)

lemma is_ascii_upper: "is_ascii s \<Longrightarrow> is_ascii (map upper_byte s)"
  by (auto simp: is_ascii_def list_all_iff byte_val_upper)

lemma to_upper_idem: "is_ascii s \<Longrightarrow> to_upper uc (to_upper uc s) = to_upper uc s"
  by (simp add: to_upper_def is_ascii_upper)

lemma length_to_upper: "is_ascii s \<Longrightarrow> length (to_upper uc s) = length s"
  by (simp add: to_upper_def)

section \<open>Prefixes, trimming, searching\<close>

definition has_prefix :: "string \<Rightarrow> string \<Rightarrow> bool" where
  "has_prefix s p \<longleftrightarrow> prefix p s"

definition has_suffix :: "string \<Rightarrow> string \<Rightarrow> bool" where
  "has_suffix s p \<longleftrightarrow> suffix p s"

definition trim_prefix :: "string \<Rightarrow> string \<Rightarrow> string" where
  "trim_prefix s p = (if has_prefix s p then drop (length p) s else s)"

text \<open>\<^verbatim>\<open>strings.Trim(s, cutset)\<close> for a cutset of one ASCII byte.\<close>

definition trim_char :: "char \<Rightarrow> string \<Rightarrow> string" where
  "trim_char c s = rev (dropWhile (\<lambda>x. x = c) (rev (dropWhile (\<lambda>x. x = c) s)))"

text \<open>\<^verbatim>\<open>strings.Index\<close>: the first occurrence, \<open>None\<close> for -1.\<close>

fun index_of :: "string \<Rightarrow> string \<Rightarrow> nat option" where
  "index_of sub [] = (if sub = [] then Some 0 else None)"
| "index_of sub (c # cs) =
     (if prefix sub (c # cs) then Some 0 else map_option Suc (index_of sub cs))"

definition contains :: "string \<Rightarrow> string \<Rightarrow> bool" where
  "contains s sub \<longleftrightarrow> index_of sub s \<noteq> None"

lemma index_of_Some:
  "index_of sub s = Some i \<Longrightarrow>
     i + length sub \<le> length s \<and> take (length sub) (drop i s) = sub"
proof (induction s arbitrary: i)
  case Nil
  then show ?case by (auto split: if_splits)
next
  case (Cons c cs)
  show ?case
  proof (cases "prefix sub (c # cs)")
    case True
    with Cons.prems have "i = 0" by simp
    with True show ?thesis
      by (metis add_0 append_eq_conv_conj drop_0 prefix_def prefix_length_le)
  next
    case False
    with Cons.prems obtain j where "index_of sub cs = Some j" "i = Suc j" by auto
    with Cons.IH [of j] show ?thesis by simp
  qed
qed

lemma index_of_None: "index_of sub s = None \<longleftrightarrow> \<not> sublist sub s"
proof (induction s)
  case Nil
  then show ?case by auto
next
  case (Cons c cs)
  then show ?case by (auto simp: sublist_Cons_right)
qed

lemma contains_iff: "contains s sub \<longleftrightarrow> sublist sub s"
  by (simp add: contains_def index_of_None)

section \<open>Split and Join\<close>

text \<open>\<^verbatim>\<open>strings.Split\<close> for the non-empty separators the program uses.\<close>

function split :: "string \<Rightarrow> string \<Rightarrow> string list" where
  "split s sep =
     (if sep = [] then [s]
      else case index_of sep s of
        None \<Rightarrow> [s]
      | Some i \<Rightarrow> take i s # split (drop (i + length sep) s) sep)"
  by pat_completeness auto
termination
proof (relation "measure (\<lambda>(s, sep). length s)")
  fix s sep :: string and i
  assume "sep \<noteq> []" "index_of sep s = Some i"
  then show "((drop (i + length sep) s, sep), s, sep) \<in> measure (\<lambda>(s, sep). length s)"
    using index_of_Some [of sep s i] by (cases sep) auto
qed simp

declare split.simps [simp del]

fun join :: "string list \<Rightarrow> string \<Rightarrow> string" where
  "join [] sep = []"
| "join [x] sep = x"
| "join (x # y # ys) sep = x @ sep @ join (y # ys) sep"

lemma split_not_Nil [simp]: "split s sep \<noteq> []"
  by (subst split.simps) (auto split: option.split)

lemma join_Cons: "xs \<noteq> [] \<Longrightarrow> join (x # xs) sep = x @ sep @ join xs sep"
  by (cases xs) auto

theorem join_split: "join (split s sep) sep = s"
proof (induction s sep rule: split.induct)
  case (1 s sep)
  show ?case
  proof (cases "sep = [] \<or> index_of sep s = None")
    case True
    then show ?thesis by (subst split.simps) auto
  next
    case False
    then obtain i where i: "sep \<noteq> []" "index_of sep s = Some i" by auto
    then have "join (split s sep) sep = take i s @ sep @ drop (i + length sep) s"
      using 1 by (subst split.simps) (simp add: join_Cons)
    also have "\<dots> = s"
      using index_of_Some [OF i(2)] by (metis append_take_drop_id drop_drop add.commute)
    finally show ?thesis .
  qed
qed

text \<open>Splitting at a single byte: the equations that evaluate it.\<close>

lemma index_of_char: "index_of [c] s = (if c \<in> set s then Some (length (takeWhile (\<lambda>x. x \<noteq> c) s)) else None)"
  by (induction s) auto

lemma split_char_free: "c \<notin> set s \<Longrightarrow> split s [c] = [s]"
  by (subst split.simps) (simp add: index_of_char)

lemma index_of_char_append: "c \<notin> set x \<Longrightarrow> index_of [c] (x @ c # s) = Some (length x)"
  by (induction x) auto

lemma split_char_append: "c \<notin> set x \<Longrightarrow> split (x @ c # s) [c] = x # split s [c]"
  by (subst split.simps) (simp add: index_of_char_append)

lemma split_join:
  "xs \<noteq> [] \<Longrightarrow> \<forall>x \<in> set xs. c \<notin> set x \<Longrightarrow> split (join xs [c]) [c] = xs"
proof (induction xs "[c]" rule: join.induct)
  case (3 x y ys)
  then show ?case by (simp add: split_char_append)
qed (auto simp: split_char_free)

lemma length_split_char: "length (split s [c]) = Suc (count_list s c)"
proof (induction s rule: length_induct)
  case (1 s)
  show ?case
  proof (cases "c \<in> set s")
    case True
    then obtain x t where s: "s = x @ c # t" "c \<notin> set x" by (meson split_list_first)
    then have "length (split t [c]) = Suc (count_list t c)" using 1 by simp
    then show ?thesis using s by (simp add: split_char_append)
  next
    case False
    then show ?thesis by (simp add: split_char_free)
  qed
qed

lemma count_list_dropWhile: "count_list (dropWhile P s) c \<le> count_list s c"
  by (induction s) auto

lemma count_list_trim_char: "count_list (trim_char c s) d \<le> count_list s d"
  using count_list_dropWhile [of "\<lambda>x. x = c" "rev (dropWhile (\<lambda>x. x = c) s)" d]
    count_list_dropWhile [of "\<lambda>x. x = c" s d]
  by (simp add: trim_char_def)

lemma split_char_parts: "x \<in> set (split s [c]) \<Longrightarrow> c \<notin> set x"
proof (induction s "[c]" rule: split.induct)
  case (1 s)
  show ?case
  proof (cases "c \<in> set s")
    case True
    then have "split s [c] = takeWhile (\<lambda>x. x \<noteq> c) s # split (drop (Suc (length (takeWhile (\<lambda>x. x \<noteq> c) s))) s) [c]"
      by (subst split.simps) (simp add: index_of_char takeWhile_eq_take [symmetric])
    with 1 True show ?thesis
      by (auto simp: index_of_char dest: set_takeWhileD)
  next
    case False
    with 1 show ?thesis by (simp add: split_char_free)
  qed
qed

section \<open>Decimal numbers\<close>

text \<open>\<^verbatim>\<open>strconv.Itoa\<close>, which is also the \<^verbatim>\<open>%d\<close> of \<^verbatim>\<open>fmt\<close>.\<close>

definition hex_digit :: "nat \<Rightarrow> char" where
  "hex_digit d = (if d < 10 then char_of (48 + d) else char_of (87 + d))"

definition digit_char :: "nat \<Rightarrow> char" where
  "digit_char d = char_of (48 + d)"

fun digits :: "nat \<Rightarrow> string" where
  "digits n = (if n < 10 then [digit_char n] else digits (n div 10) @ [digit_char (n mod 10)])"

declare digits.simps [simp del]

definition itoa :: "int \<Rightarrow> string" where
  "itoa i = (if i < 0 then CHR ''-'' # digits (nat (- i)) else digits (nat i))"

definition is_digit :: "char \<Rightarrow> bool" where
  "is_digit c \<longleftrightarrow> 48 \<le> byte_val c \<and> byte_val c \<le> 57"

definition digits_val :: "string \<Rightarrow> nat" where
  "digits_val s = foldl (\<lambda>n c. n * 10 + (byte_val c - 48)) 0 s"

lemma byte_val_digit: "d < 10 \<Longrightarrow> byte_val (digit_char d) = 48 + d"
  by (simp add: byte_val_def digit_char_def)

lemma digits_all: "c \<in> set (digits n) \<Longrightarrow> is_digit c"
proof (induction n rule: digits.induct)
  case (1 n)
  have "is_digit (digit_char (k mod 10))" for k by (simp add: is_digit_def byte_val_digit)
  moreover have "is_digit (digit_char n)" if "n < 10" using that by (simp add: is_digit_def byte_val_digit)
  ultimately show ?case using 1 by (subst (asm) (2) digits.simps) (auto split: if_splits)
qed

lemma digits_nonempty [simp]: "digits n \<noteq> []"
  by (subst digits.simps) simp

lemma digits_val_digits: "digits_val (digits n) = n"
proof (induction n rule: digits.induct)
  case (1 n)
  then show ?case
    by (subst digits.simps) (auto simp: digits_val_def byte_val_digit)
qed

section \<open>64-bit integers and \<^verbatim>\<open>strconv.Atoi\<close>\<close>

text \<open>Go's \<^verbatim>\<open>int\<close> is 64 bits wide on every platform the SDK is compiled for by Go itself.\<close>

definition max_int64 :: int where "max_int64 = 9223372036854775807"
definition min_int64 :: int where "min_int64 = - 9223372036854775808"

definition wrap64 :: "int \<Rightarrow> int" where
  "wrap64 i = (i + 9223372036854775808) mod 18446744073709551616 - 9223372036854775808"

lemma wrap64_id: "min_int64 \<le> i \<Longrightarrow> i \<le> max_int64 \<Longrightarrow> wrap64 i = i"
  by (simp add: wrap64_def min_int64_def max_int64_def)

lemma wrap64_bounds: "min_int64 \<le> wrap64 i \<and> wrap64 i \<le> max_int64"
  using pos_mod_bound [of 18446744073709551616 "i + 9223372036854775808"]
    pos_mod_sign [of 18446744073709551616 "i + 9223372036854775808"]
  unfolding wrap64_def min_int64_def max_int64_def by linarith

text \<open>
  \<^verbatim>\<open>strconv.Atoi\<close> returns a value even with an error: 0 for a string that is no
  decimal number, the nearest 64-bit integer for one out of range.  The flag is
  \<open>True\<close> when there is no error.
\<close>

definition atoi :: "string \<Rightarrow> int \<times> bool" where
  "atoi s =
     (let neg = (case s of c # _ \<Rightarrow> c = CHR ''-'' | [] \<Rightarrow> False);
          ds = (case s of c # cs \<Rightarrow> if c = CHR ''-'' \<or> c = CHR ''+'' then cs else s | [] \<Rightarrow> s)
      in if ds = [] \<or> \<not> list_all is_digit ds then (0, False)
         else let n = (if neg then - int (digits_val ds) else int (digits_val ds))
              in if n < min_int64 then (min_int64, False)
                 else if max_int64 < n then (max_int64, False)
                 else (n, True))"

lemma digit_not_sign: "is_digit c \<Longrightarrow> c \<noteq> CHR ''-'' \<and> c \<noteq> CHR ''+''"
  by (auto simp: is_digit_def byte_val_def)

lemma atoi_itoa:
  assumes "min_int64 \<le> i" "i \<le> max_int64"
  shows "atoi (itoa i) = (i, True)"
proof -
  have all: "list_all is_digit (digits n)" for n using digits_all by (auto simp: list_all_iff)
  show ?thesis
  proof (cases "i < 0")
    case True
    then show ?thesis using assms all by (simp add: itoa_def atoi_def digits_val_digits)
  next
    case False
    obtain c cs where c: "digits (nat i) = c # cs" by (cases "digits (nat i)") auto
    then have "is_digit c" using digits_all [of c "nat i"] by simp
    then have "c \<noteq> CHR ''-''" "c \<noteq> CHR ''+''" using digit_not_sign by auto
    then show ?thesis
      using False assms all [of "nat i"] digits_val_digits [of "nat i"]
      by (simp add: itoa_def atoi_def c Let_def)
  qed
qed

lemma atoi_bounds: "min_int64 \<le> fst (atoi s) \<and> fst (atoi s) \<le> max_int64"
  by (auto simp: atoi_def Let_def min_int64_def max_int64_def)

lemma atoi_Nil [simp]: "atoi [] = (0, False)"
  by (simp add: atoi_def)

section \<open>White space\<close>

text \<open>
  \<^verbatim>\<open>unicode.IsSpace\<close>: the six ASCII white spaces and the UTF-8 encodings of the others
  (U+0085, U+00A0, U+1680, U+2000 to U+200A, U+2028, U+2029, U+202F, U+205F, U+3000).
\<close>

definition ascii_space :: "char \<Rightarrow> bool" where
  "ascii_space c \<longleftrightarrow> byte_val c = 32 \<or> 9 \<le> byte_val c \<and> byte_val c \<le> 13"

definition wide_spaces :: "string list" where
  "wide_spaces = map (map (\<lambda>n. char_of (n :: nat)))
     ([[194, 133], [194, 160], [225, 154, 128], [226, 128, 168], [226, 128, 169], [226, 128, 175],
       [226, 129, 159], [227, 128, 128]] @ map (\<lambda>k. [226, 128, 128 + k]) [0..<11])"

definition space_len :: "string \<Rightarrow> nat" where
  "space_len s = (case s of [] \<Rightarrow> 0
     | c # _ \<Rightarrow> if ascii_space c then 1
                else case find (\<lambda>w. prefix w s) wide_spaces of Some w \<Rightarrow> length w | None \<Rightarrow> 0)"

definition space_suffix_len :: "string \<Rightarrow> nat" where
  "space_suffix_len s = (if s = [] then 0 else if ascii_space (last s) then 1
     else case find (\<lambda>w. suffix w s) wide_spaces of Some w \<Rightarrow> length w | None \<Rightarrow> 0)"

function trim_left_space :: "string \<Rightarrow> string" where
  "trim_left_space s = (if space_len s = 0 \<or> s = [] then s else trim_left_space (drop (space_len s) s))"
  by pat_completeness auto
termination
  by (relation "measure length") auto

function trim_right_space :: "string \<Rightarrow> string" where
  "trim_right_space s =
     (if space_suffix_len s = 0 \<or> s = [] then s
      else trim_right_space (take (length s - space_suffix_len s) s))"
  by pat_completeness auto
termination
  by (relation "measure length") auto

declare trim_left_space.simps [simp del] trim_right_space.simps [simp del]

definition trim_space :: "string \<Rightarrow> string" where
  "trim_space s = trim_right_space (trim_left_space s)"

lemma trim_space_Nil [simp]: "trim_space [] = []"
  by (simp add: trim_space_def trim_left_space.simps trim_right_space.simps)

text \<open>\<^verbatim>\<open>strings.Fields\<close>: the maximal runs without white space.\<close>

fun fields_aux :: "nat \<Rightarrow> string \<Rightarrow> string \<Rightarrow> string list" where
  "fields_aux 0 acc s = (if acc = [] then [] else [acc])"
| "fields_aux (Suc n) acc s =
     (case s of
        [] \<Rightarrow> (if acc = [] then [] else [acc])
      | c # cs \<Rightarrow>
          (if space_len s = 0 then fields_aux n (acc @ [c]) cs
           else (if acc = [] then [] else [acc]) @ fields_aux n [] (drop (space_len s) s)))"

definition fields :: "string \<Rightarrow> string list" where
  "fields s = fields_aux (length s) [] s"

section \<open>Evaluation\<close>

text \<open>Equations with which the simplifier evaluates characters and texts in few steps.\<close>

definition byte :: "nat \<Rightarrow> char" where
  "byte n = char_of n"

lemma byte_code [code]:
  "byte n = Char (n mod 2 = 1) (n div 2 mod 2 = 1) (n div 4 mod 2 = 1) (n div 8 mod 2 = 1)
     (n div 16 mod 2 = 1) (n div 32 mod 2 = 1) (n div 64 mod 2 = 1) (n div 128 mod 2 = 1)"
  by (simp add: byte_def char_of_def bit_iff_odd odd_iff_mod_2_eq_one)

lemma char_of_byte [code_unfold]: "char_of = byte"
  by (rule ext) (simp add: byte_def)

lemma byte_val_code [code]:
  "byte_val (Char b0 b1 b2 b3 b4 b5 b6 b7) =
     (if b0 then 1 else 0) + (if b1 then 2 else 0) + (if b2 then 4 else 0) + (if b3 then 8 else 0) +
     (if b4 then 16 else 0) + (if b5 then 32 else 0) + (if b6 then 64 else 0) + (if b7 then 128 else 0)"
  by (simp add: byte_val_def)

fun seven_bit :: "char \<Rightarrow> bool" where
  "seven_bit (Char b0 b1 b2 b3 b4 b5 b6 b7) \<longleftrightarrow> \<not> b7"

lemma seven_bit_iff: "byte_val c < 128 \<longleftrightarrow> seven_bit c"
  by (cases c) (simp add: byte_val_def)

lemma ascii_space_code [code]:
  "ascii_space (Char b0 b1 b2 b3 b4 b5 b6 b7) \<longleftrightarrow> \<not> b7 \<and> \<not> b6 \<and>
     (if b5 then \<not> b4 \<and> \<not> b3 \<and> \<not> b2 \<and> \<not> b1 \<and> \<not> b0
      else \<not> b4 \<and> b3 \<and> (if b2 then \<not> b1 else b0 \<or> b1))"
  by (cases b0; cases b1; cases b2; cases b3; cases b4; cases b5; cases b6; cases b7) (simp_all add: ascii_space_def byte_val_def)

lemma wide_no_ascii: "list_all (\<lambda>w. w \<noteq> [] \<and> \<not> seven_bit (hd w) \<and> \<not> seven_bit (last w)) wide_spaces"
  by code_simp

lemma space_len_code [code]:
  "space_len s = (case s of [] \<Rightarrow> 0
     | c # _ \<Rightarrow> if ascii_space c then 1 else if seven_bit c then 0
                else case find (\<lambda>w. prefix w s) wide_spaces of Some w \<Rightarrow> length w | None \<Rightarrow> 0)"
proof -
  have "find (\<lambda>w. prefix w (c # t)) wide_spaces = None" if "seven_bit c" for c t
    using wide_no_ascii that by (auto simp: find_None_iff list_all_iff prefix_Cons)
  then show ?thesis by (cases s) (simp_all add: space_len_def)
qed

lemma space_suffix_len_code [code]:
  "space_suffix_len s = (if s = [] then 0 else let c = last s in if ascii_space c then 1 else if seven_bit c then 0
     else case find (\<lambda>w. suffix w s) wide_spaces of Some w \<Rightarrow> length w | None \<Rightarrow> 0)"
proof -
  have "find (\<lambda>w. suffix w s) wide_spaces = None" if "seven_bit (last s)"
    using wide_no_ascii that by (auto simp: find_None_iff list_all_iff suffix_def last_append)
  then show ?thesis by (simp add: space_suffix_len_def Let_def)
qed


lemma contains_code [code]:
  "contains s sub \<longleftrightarrow> (case s of [] \<Rightarrow> sub = [] | c # cs \<Rightarrow> prefix sub s \<or> contains cs sub)"
  by (simp add: contains_def split: list.split)

end
