(* ===== verification/GitTypes.thy ===== *)
theory GitTypes
  imports GoStrings
begin

text \<open>
  \<^verbatim>\<open>gitprovider/types.go\<close>: the data of the Git provider contract.  A Go struct is a record
  whose fields carry a prefix per type and the field's JSON name; the two struct types
  that refer to each other (\<^verbatim>\<open>SetupStep\<close> and \<^verbatim>\<open>Identity\<close>) are datatypes with the same
  selectors.  The enumerations of the contract are open string types in Go, and so they
  are here, with their constants.  \<^verbatim>\<open>int\<close> is an unbounded integer in the data; the code
  that computes with one states its width.
\<close>

named_theorems wire_consts "the string constants of the contract"

text \<open>\<^verbatim>\<open>time.Time\<close>: nanoseconds since the zero time, which is 0.\<close>

type_synonym gotime = int

section \<open>Enumerations\<close>

type_synonym Permission = string
type_synonym IdentityKind = string
type_synonym CredentialModel = string
type_synonym WebhookScope = string
type_synonym StatusKind = string
type_synonym Access = string
type_synonym TriggerKind = string
type_synonym SubjectKind = string
type_synonym SetupScope = string
type_synonym SetupStepKind = string
type_synonym EventKind = string
type_synonym ActorKind = string
type_synonym AddressVia = string
type_synonym CRState = string
type_synonym CheckState = string
type_synonym Verdict = string
type_synonym RunState = string

definition SPIVersion :: string where [wire_consts]: "SPIVersion = ''gitprovider.v1''"

definition PermissionNone :: Permission where [wire_consts]: "PermissionNone = ''none''"
definition PermissionRead :: Permission where [wire_consts]: "PermissionRead = ''read''"
definition PermissionTriage :: Permission where [wire_consts]: "PermissionTriage = ''triage''"
definition PermissionWrite :: Permission where [wire_consts]: "PermissionWrite = ''write''"
definition PermissionMaintain :: Permission where [wire_consts]: "PermissionMaintain = ''maintain''"
definition PermissionAdmin :: Permission where [wire_consts]: "PermissionAdmin = ''admin''"

definition IdentityApp :: IdentityKind where [wire_consts]: "IdentityApp = ''app''"
definition IdentityBotUser :: IdentityKind where [wire_consts]: "IdentityBotUser = ''bot_user''"
definition IdentityToken :: IdentityKind where [wire_consts]: "IdentityToken = ''token''"

definition CredentialEphemeral :: CredentialModel where [wire_consts]: "CredentialEphemeral = ''ephemeral''"
definition CredentialStatic :: CredentialModel where [wire_consts]: "CredentialStatic = ''static''"

definition WebhookApp :: WebhookScope where [wire_consts]: "WebhookApp = ''app''"
definition WebhookGroup :: WebhookScope where [wire_consts]: "WebhookGroup = ''group''"
definition WebhookRepo :: WebhookScope where [wire_consts]: "WebhookRepo = ''repo''"

definition StatusCheckRun :: StatusKind where [wire_consts]: "StatusCheckRun = ''check_run''"
definition StatusCommitStatus :: StatusKind where [wire_consts]: "StatusCommitStatus = ''commit_status''"
definition StatusComment :: StatusKind where [wire_consts]: "StatusComment = ''comment''"

definition AccessRead :: Access where [wire_consts]: "AccessRead = ''read''"
definition AccessWrite :: Access where [wire_consts]: "AccessWrite = ''write''"

definition TriggerMention :: TriggerKind where [wire_consts]: "TriggerMention = ''mention''"
definition TriggerLabel :: TriggerKind where [wire_consts]: "TriggerLabel = ''label''"
definition TriggerReviewRequest :: TriggerKind where [wire_consts]: "TriggerReviewRequest = ''review_request''"
definition TriggerAssignment :: TriggerKind where [wire_consts]: "TriggerAssignment = ''assignment''"
definition TriggerCIFailure :: TriggerKind where [wire_consts]: "TriggerCIFailure = ''ci_failure''"
definition TriggerOwnCRFeedback :: TriggerKind where [wire_consts]: "TriggerOwnCRFeedback = ''own_cr_feedback''"
definition TriggerAutoReview :: TriggerKind where [wire_consts]: "TriggerAutoReview = ''auto_review''"

definition SubjectIssue :: SubjectKind where [wire_consts]: "SubjectIssue = ''issue''"
definition SubjectChangeRequest :: SubjectKind where [wire_consts]: "SubjectChangeRequest = ''change_request''"

definition SetupShared :: SetupScope where [wire_consts]: "SetupShared = ''shared''"
definition SetupAgent :: SetupScope where [wire_consts]: "SetupAgent = ''agent''"

definition StepRedirect :: SetupStepKind where [wire_consts]: "StepRedirect = ''redirect''"
definition StepFormPost :: SetupStepKind where [wire_consts]: "StepFormPost = ''form_post''"
definition StepTokenForm :: SetupStepKind where [wire_consts]: "StepTokenForm = ''token_form''"
definition StepDone :: SetupStepKind where [wire_consts]: "StepDone = ''done''"

definition EventComment :: EventKind where [wire_consts]: "EventComment = ''comment''"
definition EventChangeRequest :: EventKind where [wire_consts]: "EventChangeRequest = ''change_request''"
definition EventReview :: EventKind where [wire_consts]: "EventReview = ''review''"
definition EventCheck :: EventKind where [wire_consts]: "EventCheck = ''check''"
definition EventPush :: EventKind where [wire_consts]: "EventPush = ''push''"
definition EventLabel :: EventKind where [wire_consts]: "EventLabel = ''label''"
definition EventAssignment :: EventKind where [wire_consts]: "EventAssignment = ''assignment''"
definition EventReviewRequest :: EventKind where [wire_consts]: "EventReviewRequest = ''review_request''"

definition ActorUser :: ActorKind where [wire_consts]: "ActorUser = ''user''"
definition ActorBot :: ActorKind where [wire_consts]: "ActorBot = ''bot''"

definition ViaMention :: AddressVia where [wire_consts]: "ViaMention = ''mention''"
definition ViaReviewRequest :: AddressVia where [wire_consts]: "ViaReviewRequest = ''review_request''"
definition ViaAssignment :: AddressVia where [wire_consts]: "ViaAssignment = ''assignment''"
definition ViaLabel :: AddressVia where [wire_consts]: "ViaLabel = ''label''"

definition CROpen :: CRState where [wire_consts]: "CROpen = ''open''"
definition CRClosed :: CRState where [wire_consts]: "CRClosed = ''closed''"
definition CRMerged :: CRState where [wire_consts]: "CRMerged = ''merged''"

definition CheckPending :: CheckState where [wire_consts]: "CheckPending = ''pending''"
definition CheckSuccess :: CheckState where [wire_consts]: "CheckSuccess = ''success''"
definition CheckFailure :: CheckState where [wire_consts]: "CheckFailure = ''failure''"
definition CheckCancelled :: CheckState where [wire_consts]: "CheckCancelled = ''cancelled''"
definition CheckSkipped :: CheckState where [wire_consts]: "CheckSkipped = ''skipped''"

definition VerdictComment :: Verdict where [wire_consts]: "VerdictComment = ''comment''"
definition VerdictApprove :: Verdict where [wire_consts]: "VerdictApprove = ''approve''"
definition VerdictRequestChanges :: Verdict where [wire_consts]: "VerdictRequestChanges = ''request_changes''"

definition RunQueued :: RunState where [wire_consts]: "RunQueued = ''queued''"
definition RunInProgress :: RunState where [wire_consts]: "RunInProgress = ''in_progress''"
definition RunSuccess :: RunState where [wire_consts]: "RunSuccess = ''success''"
definition RunFailure :: RunState where [wire_consts]: "RunFailure = ''failure''"
definition RunCancelled :: RunState where [wire_consts]: "RunCancelled = ''cancelled''"

definition AllTriggerKinds :: "TriggerKind list" where
  "AllTriggerKinds = [TriggerMention, TriggerLabel, TriggerReviewRequest, TriggerAssignment,
     TriggerCIFailure, TriggerOwnCRFeedback, TriggerAutoReview]"

definition AllEventKinds :: "EventKind list" where
  "AllEventKinds = [EventComment, EventChangeRequest, EventReview, EventCheck, EventPush,
     EventLabel, EventAssignment, EventReviewRequest]"

section \<open>Structs\<close>

record KindProfile =
  kp_kind :: IdentityKind
  kp_credential_model :: CredentialModel
  kp_webhook_scope :: WebhookScope
  kp_access_grants :: bool

record IdentityRef =
  ir_id :: string
  ir_handle :: string
  ir_provider_ref :: bytes

record RepoRef =
  rr_host :: string
  rr_full_path :: string
  rr_external_id :: string
  rr_default_branch :: string
  rr_clone_url :: string
  rr_provider_ref :: bytes

record Target =
  tg_identity :: IdentityRef
  tg_repo :: RepoRef

record SubjectRef =
  sr_kind :: SubjectKind
  sr_number :: string

record Terms =
  tm_change_request :: string
  tm_change_request_plural :: string
  tm_repository :: string

record Capabilities =
  cap_identity_kinds :: "IdentityKind list"
  cap_credential_model :: CredentialModel
  cap_webhook_scope :: WebhookScope
  cap_status_kind :: StatusKind
  cap_triggers :: "TriggerKind list"
  cap_multiple_identities :: bool
  cap_kinds :: "KindProfile list"
  cap_issue_list :: bool
  cap_resolve_threads :: bool
  cap_file_read :: bool
  cap_code_search :: bool
  cap_labels :: bool
  cap_reviewer_requests :: bool
  cap_assignees :: bool
  cap_merge :: bool
  cap_rerun_checks :: bool
  cap_reactions :: bool
  cap_webhook_management :: bool
  cap_identity_deletion :: bool
  cap_identity_description :: bool
  cap_branches :: bool
  cap_access_grants :: bool
  cap_batch_review :: bool
  cap_idempotent_writes :: bool
  cap_hidden_markers :: bool
  cap_fork_change_requests :: bool
  cap_draft_change_requests :: bool
  cap_nested_paths :: bool
  cap_ci_config_globs :: "string list"

record Info =
  info_spi_version :: string
  info_id :: string
  info_display_name :: string
  info_icon :: string
  info_hosts :: "string list"
  info_self_hosted_hosts :: bool
  info_terms :: Terms
  info_capabilities :: Capabilities

record BeginSetupRequest =
  bs_scope :: SetupScope
  bs_host :: string
  bs_agent_id :: string
  bs_agent_name :: string
  bs_return_url :: string
  bs_callback_url :: string
  bs_webhook_url :: string
  bs_params :: "(string \<times> string) list"

record FormField =
  ff_name :: string
  ff_label :: string
  ff_help :: string
  ff_secret :: bool
  ff_required :: bool

record CompleteSetupRequest =
  cs_scope :: SetupScope
  cs_host :: string
  cs_state :: string
  cs_params :: "(string \<times> string) list"

datatype SetupStep = SetupStep
    (ss_kind: SetupStepKind)
    (ss_url: string)
    (ss_fields: "(string \<times> string) list")
    (ss_form: "FormField list")
    (ss_prompt: string)
    (ss_state: string)
    (ss_identity: "Identity option")
  and Identity = Identity
    (idn_ref: IdentityRef)
    (idn_host: string)
    (idn_kind: IdentityKind)
    (idn_display_name: string)
    (idn_expires_at: gotime)
    (idn_next: "SetupStep option")

record BeginAccessRequest =
  ba_identity :: IdentityRef
  ba_owner :: string
  ba_return_url :: string
  ba_callback_url :: string

record CompleteAccessRequest =
  ca_identity :: IdentityRef
  ca_state :: string
  ca_params :: "(string \<times> string) list"

record AccessGrant =
  ag_owner :: string

record DeleteIdentityRequest =
  di_identity :: IdentityRef

record DescribeIdentityRequest =
  de_identity :: IdentityRef

record Repository =
  rp_ref :: RepoRef
  rp_private :: bool
  rp_description :: string

record ListReposRequest =
  lr_identity :: IdentityRef
  lr_query :: string
  lr_cursor :: string
  lr_page_size :: int

record RepositoryPage =
  rpg_items :: "Repository list"
  rpg_next_cursor :: string

record ResolveRepoRequest =
  rq_host :: string
  rq_path_or_url :: string
  rq_candidates :: "IdentityRef list"

record ResolvedRepository =
  rd_repository :: Repository
  rd_identity :: IdentityRef

record WebhookRequest =
  wr_identity :: IdentityRef
  wr_method :: string
  wr_headers :: "(string \<times> string) list"
  wr_query :: "(string \<times> string) list"
  wr_body :: bytes

record Actor =
  ac_login :: string
  ac_kind :: ActorKind
  ac_permission :: Permission

record Branch =
  br_ref :: string
  br_sha :: string
  br_repo :: string
  br_from_fork :: bool

record EventSubject =
  es_kind :: SubjectKind
  es_number :: string
  es_head :: "Branch option"
  es_base :: string
  es_draft :: bool
  es_author :: string
  es_url :: string

record Location =
  lo_path :: string
  lo_line :: int
  lo_thread_id :: string
  lo_comment_id :: string

record CheckInfo =
  ci_name :: string
  ci_conclusion :: string
  ci_run_id :: string
  ci_sha :: string

record PushInfo =
  pu_ref :: string
  pu_sha :: string
  pu_created :: bool
  pu_deleted :: bool

record Addressed =
  ad_identity_id :: string
  ad_via :: AddressVia

record Event =
  ev_id :: string
  ev_kind :: EventKind
  ev_action :: string
  ev_repo :: RepoRef
  ev_subject :: "EventSubject option"
  ev_actor :: Actor
  ev_text :: string
  ev_location :: "Location option"
  ev_check :: "CheckInfo option"
  ev_push :: "PushInfo option"
  ev_label :: string
  ev_addressed :: "Addressed list"
  ev_raw_ref :: string

record MintRequest =
  mr_target :: Target
  mr_access :: Access
  mr_ttl_seconds :: int

record Credential =
  cd_username :: string
  cd_secret :: string
  cd_expires_at :: gotime

record ActorPermissionRequest =
  ap_target :: Target
  ap_login :: string

record BranchProtectionRequest =
  bq_target :: Target
  bq_branch :: string

record BranchProtection =
  bp_protected :: bool
  bp_requires_review :: bool
  bp_requires_status_checks :: bool
  bp_allows_force_push :: bool

record ChangeRequest =
  cr_number :: string
  cr_title :: string
  cr_body :: string
  cr_state :: CRState
  cr_draft :: bool
  cr_head :: Branch
  cr_base :: Branch
  cr_author :: string
  cr_url :: string
  cr_labels :: "string list"
  cr_reviewers :: "string list"
  cr_updated_at :: gotime

record CRRequest =
  crq_target :: Target
  crq_number :: string

record PagedCRRequest =
  pcr_target :: Target
  pcr_number :: string
  pcr_cursor :: string

record ChangedFile =
  cf_path :: string
  cf_old_path :: string
  cf_status :: string
  cf_additions :: int
  cf_deletions :: int

record ChangedFilePage =
  cfp_items :: "ChangedFile list"
  cfp_next_cursor :: string

record DiffRequest =
  dr_target :: Target
  dr_number :: string
  dr_path :: string
  dr_max_bytes :: int

record Diff =
  df_text :: string
  df_truncated :: bool

record Comment =
  co_id :: string
  co_author :: string
  co_author_kind :: ActorKind
  co_body :: string
  co_url :: string
  co_created_at :: gotime

record Thread =
  th_id :: string
  th_path :: string
  th_line :: int
  th_resolved :: bool
  th_outdated :: bool
  th_comments :: "Comment list"

record ThreadPage =
  thp_items :: "Thread list"
  thp_next_cursor :: string

record ListCommentsRequest =
  lc_target :: Target
  lc_subject :: SubjectRef
  lc_cursor :: string

record CommentPage =
  cop_items :: "Comment list"
  cop_next_cursor :: string

record IssueRequest =
  iq_target :: Target
  iq_number :: string

record ListIssuesRequest =
  li_target :: Target
  li_state :: string
  li_cursor :: string

record Issue =
  iss_number :: string
  iss_title :: string
  iss_body :: string
  iss_state :: string
  iss_author :: string
  iss_url :: string
  iss_labels :: "string list"
  iss_assignees :: "string list"

record IssuePage =
  ip_items :: "Issue list"
  ip_next_cursor :: string

record Check =
  ch_id :: string
  ch_name :: string
  ch_state :: CheckState
  ch_required :: bool
  ch_url :: string
  ch_summary :: string

record ChecksRequest =
  chq_target :: Target
  chq_ref :: string

record CheckLogsRequest =
  cl_target :: Target
  cl_check_id :: string
  cl_tail_bytes :: int

record Logs =
  lg_text :: string
  lg_truncated :: bool

record FileRequest =
  fr_target :: Target
  fr_ref :: string
  fr_path :: string
  fr_max_bytes :: int

record File =
  fi_path :: string
  fi_content :: bytes
  fi_sha :: string
  fi_truncated :: bool

record CodeSearchRequest =
  csq_target :: Target
  csq_query :: string

record CodeHit =
  hit_path :: string
  hit_line :: int
  hit_snippet :: string

record CodeHits =
  hits_items :: "CodeHit list"

record OpenCRRequest =
  oc_target :: Target
  oc_title :: string
  oc_body :: string
  oc_head :: string
  oc_base :: string
  oc_draft :: bool
  oc_labels :: "string list"
  oc_reviewers :: "string list"
  oc_idempotency_key :: string

record UpdateCRRequest =
  uc_target :: Target
  uc_number :: string
  uc_title :: "string option"
  uc_body :: "string option"
  uc_draft :: "bool option"
  uc_state :: "CRState option"

record CommentRequest =
  cmq_target :: Target
  cmq_subject :: SubjectRef
  cmq_body :: string
  cmq_idempotency_key :: string

record CommentResult =
  cmr_id :: string
  cmr_url :: string

record ReplyThreadRequest =
  rt_target :: Target
  rt_number :: string
  rt_thread_id :: string
  rt_body :: string
  rt_idempotency_key :: string

record InlineComment =
  ic_path :: string
  ic_line :: int
  ic_side :: string
  ic_body :: string

record SubmitReviewRequest =
  sv_target :: Target
  sv_number :: string
  sv_verdict :: Verdict
  sv_summary :: string
  sv_comments :: "InlineComment list"
  sv_head_sha :: string
  sv_idempotency_key :: string

record ReviewResult =
  rv_id :: string
  rv_url :: string
  rv_posted :: int
  rv_emulated :: bool

record SetStatusRequest =
  st_target :: Target
  st_subject :: SubjectRef
  st_sha :: string
  st_state :: RunState
  st_title :: string
  st_summary :: string
  st_url :: string
  st_status_ref :: string

record StatusResult =
  str_status_ref :: string

record ResolveThreadRequest =
  rth_target :: Target
  rth_number :: string
  rth_thread_id :: string
  rth_resolved :: bool

record LabelsRequest =
  lb_target :: Target
  lb_subject :: SubjectRef
  lb_labels :: "string list"

record PeopleRequest =
  pp_target :: Target
  pp_subject :: SubjectRef
  pp_logins :: "string list"

record MergeRequest =
  mg_target :: Target
  mg_number :: string
  mg_method :: string
  mg_expected_head_sha :: string

record MergeResult =
  mgr_sha :: string

record RerunRequest =
  rru_target :: Target
  rru_ref :: string
  rru_check_id :: string

record ReactRequest =
  re_target :: Target
  re_comment_id :: string
  re_emoji :: string

record EnsureWebhookRequest =
  ew_target :: Target
  ew_url :: string

record WebhookRef =
  wh_id :: string

record RemoveWebhookRequest =
  rw_target :: Target
  rw_webhook :: WebhookRef

record GetBranchRequest =
  gb_target :: Target
  gb_name :: string

record CreateBranchRequest =
  cb_target :: Target
  cb_name :: string
  cb_from :: string
  cb_idempotency_key :: string

record BranchInfo =
  bi_name :: string
  bi_sha :: string
  bi_url :: string

section \<open>Zero values\<close>

text \<open>What a Go struct literal leaves out, and what \<^verbatim>\<open>encoding/json\<close> decodes into.\<close>

definition zero_KindProfile :: KindProfile where
  "zero_KindProfile = \<lparr>kp_kind = '''', kp_credential_model = '''', kp_webhook_scope = '''',
    kp_access_grants = False\<rparr>"

definition zero_IdentityRef :: IdentityRef where
  "zero_IdentityRef = \<lparr>ir_id = '''', ir_handle = '''', ir_provider_ref = []\<rparr>"

definition zero_RepoRef :: RepoRef where
  "zero_RepoRef = \<lparr>rr_host = '''', rr_full_path = '''', rr_external_id = '''', rr_default_branch =
    '''', rr_clone_url = '''', rr_provider_ref = []\<rparr>"

definition zero_Target :: Target where
  "zero_Target = \<lparr>tg_identity = zero_IdentityRef, tg_repo = zero_RepoRef\<rparr>"

definition zero_SubjectRef :: SubjectRef where
  "zero_SubjectRef = \<lparr>sr_kind = '''', sr_number = ''''\<rparr>"

definition zero_Terms :: Terms where
  "zero_Terms = \<lparr>tm_change_request = '''', tm_change_request_plural = '''', tm_repository =
    ''''\<rparr>"

definition zero_Capabilities :: Capabilities where
  "zero_Capabilities = \<lparr>cap_identity_kinds = [], cap_credential_model = '''', cap_webhook_scope = '''',
    cap_status_kind = '''', cap_triggers = [], cap_multiple_identities = False, cap_kinds =
    [], cap_issue_list = False, cap_resolve_threads = False, cap_file_read = False,
    cap_code_search = False, cap_labels = False, cap_reviewer_requests = False, cap_assignees
    = False, cap_merge = False, cap_rerun_checks = False, cap_reactions = False,
    cap_webhook_management = False, cap_identity_deletion = False, cap_identity_description =
    False, cap_branches = False, cap_access_grants = False, cap_batch_review = False,
    cap_idempotent_writes = False, cap_hidden_markers = False, cap_fork_change_requests =
    False, cap_draft_change_requests = False, cap_nested_paths = False, cap_ci_config_globs =
    []\<rparr>"

definition zero_Info :: Info where
  "zero_Info = \<lparr>info_spi_version = '''', info_id = '''', info_display_name = '''', info_icon =
    '''', info_hosts = [], info_self_hosted_hosts = False, info_terms = zero_Terms,
    info_capabilities = zero_Capabilities\<rparr>"

definition zero_BeginSetupRequest :: BeginSetupRequest where
  "zero_BeginSetupRequest = \<lparr>bs_scope = '''', bs_host = '''', bs_agent_id = '''', bs_agent_name = '''',
    bs_return_url = '''', bs_callback_url = '''', bs_webhook_url = '''', bs_params =
    []\<rparr>"

definition zero_FormField :: FormField where
  "zero_FormField = \<lparr>ff_name = '''', ff_label = '''', ff_help = '''', ff_secret = False, ff_required =
    False\<rparr>"

definition zero_CompleteSetupRequest :: CompleteSetupRequest where
  "zero_CompleteSetupRequest = \<lparr>cs_scope = '''', cs_host = '''', cs_state = '''', cs_params = []\<rparr>"

definition zero_SetupStep :: SetupStep where
  "zero_SetupStep = SetupStep '''' '''' [] [] '''' '''' None"

definition zero_Identity :: Identity where
  "zero_Identity = Identity zero_IdentityRef '''' '''' '''' 0 None"

definition zero_BeginAccessRequest :: BeginAccessRequest where
  "zero_BeginAccessRequest = \<lparr>ba_identity = zero_IdentityRef, ba_owner = '''', ba_return_url = '''',
    ba_callback_url = ''''\<rparr>"

definition zero_CompleteAccessRequest :: CompleteAccessRequest where
  "zero_CompleteAccessRequest = \<lparr>ca_identity = zero_IdentityRef, ca_state = '''', ca_params = []\<rparr>"

definition zero_AccessGrant :: AccessGrant where
  "zero_AccessGrant = \<lparr>ag_owner = ''''\<rparr>"

definition zero_DeleteIdentityRequest :: DeleteIdentityRequest where
  "zero_DeleteIdentityRequest = \<lparr>di_identity = zero_IdentityRef\<rparr>"

definition zero_DescribeIdentityRequest :: DescribeIdentityRequest where
  "zero_DescribeIdentityRequest = \<lparr>de_identity = zero_IdentityRef\<rparr>"

definition zero_Repository :: Repository where
  "zero_Repository = \<lparr>rp_ref = zero_RepoRef, rp_private = False, rp_description = ''''\<rparr>"

definition zero_ListReposRequest :: ListReposRequest where
  "zero_ListReposRequest = \<lparr>lr_identity = zero_IdentityRef, lr_query = '''', lr_cursor = '''', lr_page_size =
    0\<rparr>"

definition zero_RepositoryPage :: RepositoryPage where
  "zero_RepositoryPage = \<lparr>rpg_items = [], rpg_next_cursor = ''''\<rparr>"

definition zero_ResolveRepoRequest :: ResolveRepoRequest where
  "zero_ResolveRepoRequest = \<lparr>rq_host = '''', rq_path_or_url = '''', rq_candidates = []\<rparr>"

definition zero_ResolvedRepository :: ResolvedRepository where
  "zero_ResolvedRepository = \<lparr>rd_repository = zero_Repository, rd_identity = zero_IdentityRef\<rparr>"

definition zero_WebhookRequest :: WebhookRequest where
  "zero_WebhookRequest = \<lparr>wr_identity = zero_IdentityRef, wr_method = '''', wr_headers = [], wr_query = [],
    wr_body = []\<rparr>"

definition zero_Actor :: Actor where
  "zero_Actor = \<lparr>ac_login = '''', ac_kind = '''', ac_permission = ''''\<rparr>"

definition zero_Branch :: Branch where
  "zero_Branch = \<lparr>br_ref = '''', br_sha = '''', br_repo = '''', br_from_fork = False\<rparr>"

definition zero_EventSubject :: EventSubject where
  "zero_EventSubject = \<lparr>es_kind = '''', es_number = '''', es_head = None, es_base = '''', es_draft =
    False, es_author = '''', es_url = ''''\<rparr>"

definition zero_Location :: Location where
  "zero_Location = \<lparr>lo_path = '''', lo_line = 0, lo_thread_id = '''', lo_comment_id = ''''\<rparr>"

definition zero_CheckInfo :: CheckInfo where
  "zero_CheckInfo = \<lparr>ci_name = '''', ci_conclusion = '''', ci_run_id = '''', ci_sha = ''''\<rparr>"

definition zero_PushInfo :: PushInfo where
  "zero_PushInfo = \<lparr>pu_ref = '''', pu_sha = '''', pu_created = False, pu_deleted = False\<rparr>"

definition zero_Addressed :: Addressed where
  "zero_Addressed = \<lparr>ad_identity_id = '''', ad_via = ''''\<rparr>"

definition zero_Event :: Event where
  "zero_Event = \<lparr>ev_id = '''', ev_kind = '''', ev_action = '''', ev_repo = zero_RepoRef, ev_subject
    = None, ev_actor = zero_Actor, ev_text = '''', ev_location = None, ev_check = None,
    ev_push = None, ev_label = '''', ev_addressed = [], ev_raw_ref = ''''\<rparr>"

definition zero_MintRequest :: MintRequest where
  "zero_MintRequest = \<lparr>mr_target = zero_Target, mr_access = '''', mr_ttl_seconds = 0\<rparr>"

definition zero_Credential :: Credential where
  "zero_Credential = \<lparr>cd_username = '''', cd_secret = '''', cd_expires_at = 0\<rparr>"

definition zero_ActorPermissionRequest :: ActorPermissionRequest where
  "zero_ActorPermissionRequest = \<lparr>ap_target = zero_Target, ap_login = ''''\<rparr>"

definition zero_BranchProtectionRequest :: BranchProtectionRequest where
  "zero_BranchProtectionRequest = \<lparr>bq_target = zero_Target, bq_branch = ''''\<rparr>"

definition zero_BranchProtection :: BranchProtection where
  "zero_BranchProtection = \<lparr>bp_protected = False, bp_requires_review = False, bp_requires_status_checks =
    False, bp_allows_force_push = False\<rparr>"

definition zero_ChangeRequest :: ChangeRequest where
  "zero_ChangeRequest = \<lparr>cr_number = '''', cr_title = '''', cr_body = '''', cr_state = '''', cr_draft =
    False, cr_head = zero_Branch, cr_base = zero_Branch, cr_author = '''', cr_url = '''',
    cr_labels = [], cr_reviewers = [], cr_updated_at = 0\<rparr>"

definition zero_CRRequest :: CRRequest where
  "zero_CRRequest = \<lparr>crq_target = zero_Target, crq_number = ''''\<rparr>"

definition zero_PagedCRRequest :: PagedCRRequest where
  "zero_PagedCRRequest = \<lparr>pcr_target = zero_Target, pcr_number = '''', pcr_cursor = ''''\<rparr>"

definition zero_ChangedFile :: ChangedFile where
  "zero_ChangedFile = \<lparr>cf_path = '''', cf_old_path = '''', cf_status = '''', cf_additions = 0,
    cf_deletions = 0\<rparr>"

definition zero_ChangedFilePage :: ChangedFilePage where
  "zero_ChangedFilePage = \<lparr>cfp_items = [], cfp_next_cursor = ''''\<rparr>"

definition zero_DiffRequest :: DiffRequest where
  "zero_DiffRequest = \<lparr>dr_target = zero_Target, dr_number = '''', dr_path = '''', dr_max_bytes =
    0\<rparr>"

definition zero_Diff :: Diff where
  "zero_Diff = \<lparr>df_text = '''', df_truncated = False\<rparr>"

definition zero_Comment :: Comment where
  "zero_Comment = \<lparr>co_id = '''', co_author = '''', co_author_kind = '''', co_body = '''', co_url =
    '''', co_created_at = 0\<rparr>"

definition zero_Thread :: Thread where
  "zero_Thread = \<lparr>th_id = '''', th_path = '''', th_line = 0, th_resolved = False, th_outdated =
    False, th_comments = []\<rparr>"

definition zero_ThreadPage :: ThreadPage where
  "zero_ThreadPage = \<lparr>thp_items = [], thp_next_cursor = ''''\<rparr>"

definition zero_ListCommentsRequest :: ListCommentsRequest where
  "zero_ListCommentsRequest = \<lparr>lc_target = zero_Target, lc_subject = zero_SubjectRef, lc_cursor = ''''\<rparr>"

definition zero_CommentPage :: CommentPage where
  "zero_CommentPage = \<lparr>cop_items = [], cop_next_cursor = ''''\<rparr>"

definition zero_IssueRequest :: IssueRequest where
  "zero_IssueRequest = \<lparr>iq_target = zero_Target, iq_number = ''''\<rparr>"

definition zero_ListIssuesRequest :: ListIssuesRequest where
  "zero_ListIssuesRequest = \<lparr>li_target = zero_Target, li_state = '''', li_cursor = ''''\<rparr>"

definition zero_Issue :: Issue where
  "zero_Issue = \<lparr>iss_number = '''', iss_title = '''', iss_body = '''', iss_state = '''', iss_author
    = '''', iss_url = '''', iss_labels = [], iss_assignees = []\<rparr>"

definition zero_IssuePage :: IssuePage where
  "zero_IssuePage = \<lparr>ip_items = [], ip_next_cursor = ''''\<rparr>"

definition zero_Check :: Check where
  "zero_Check = \<lparr>ch_id = '''', ch_name = '''', ch_state = '''', ch_required = False, ch_url = '''',
    ch_summary = ''''\<rparr>"

definition zero_ChecksRequest :: ChecksRequest where
  "zero_ChecksRequest = \<lparr>chq_target = zero_Target, chq_ref = ''''\<rparr>"

definition zero_CheckLogsRequest :: CheckLogsRequest where
  "zero_CheckLogsRequest = \<lparr>cl_target = zero_Target, cl_check_id = '''', cl_tail_bytes = 0\<rparr>"

definition zero_Logs :: Logs where
  "zero_Logs = \<lparr>lg_text = '''', lg_truncated = False\<rparr>"

definition zero_FileRequest :: FileRequest where
  "zero_FileRequest = \<lparr>fr_target = zero_Target, fr_ref = '''', fr_path = '''', fr_max_bytes = 0\<rparr>"

definition zero_File :: File where
  "zero_File = \<lparr>fi_path = '''', fi_content = [], fi_sha = '''', fi_truncated = False\<rparr>"

definition zero_CodeSearchRequest :: CodeSearchRequest where
  "zero_CodeSearchRequest = \<lparr>csq_target = zero_Target, csq_query = ''''\<rparr>"

definition zero_CodeHit :: CodeHit where
  "zero_CodeHit = \<lparr>hit_path = '''', hit_line = 0, hit_snippet = ''''\<rparr>"

definition zero_CodeHits :: CodeHits where
  "zero_CodeHits = \<lparr>hits_items = []\<rparr>"

definition zero_OpenCRRequest :: OpenCRRequest where
  "zero_OpenCRRequest = \<lparr>oc_target = zero_Target, oc_title = '''', oc_body = '''', oc_head = '''', oc_base
    = '''', oc_draft = False, oc_labels = [], oc_reviewers = [], oc_idempotency_key =
    ''''\<rparr>"

definition zero_UpdateCRRequest :: UpdateCRRequest where
  "zero_UpdateCRRequest = \<lparr>uc_target = zero_Target, uc_number = '''', uc_title = None, uc_body = None,
    uc_draft = None, uc_state = None\<rparr>"

definition zero_CommentRequest :: CommentRequest where
  "zero_CommentRequest = \<lparr>cmq_target = zero_Target, cmq_subject = zero_SubjectRef, cmq_body = '''',
    cmq_idempotency_key = ''''\<rparr>"

definition zero_CommentResult :: CommentResult where
  "zero_CommentResult = \<lparr>cmr_id = '''', cmr_url = ''''\<rparr>"

definition zero_ReplyThreadRequest :: ReplyThreadRequest where
  "zero_ReplyThreadRequest = \<lparr>rt_target = zero_Target, rt_number = '''', rt_thread_id = '''', rt_body = '''',
    rt_idempotency_key = ''''\<rparr>"

definition zero_InlineComment :: InlineComment where
  "zero_InlineComment = \<lparr>ic_path = '''', ic_line = 0, ic_side = '''', ic_body = ''''\<rparr>"

definition zero_SubmitReviewRequest :: SubmitReviewRequest where
  "zero_SubmitReviewRequest = \<lparr>sv_target = zero_Target, sv_number = '''', sv_verdict = '''', sv_summary = '''',
    sv_comments = [], sv_head_sha = '''', sv_idempotency_key = ''''\<rparr>"

definition zero_ReviewResult :: ReviewResult where
  "zero_ReviewResult = \<lparr>rv_id = '''', rv_url = '''', rv_posted = 0, rv_emulated = False\<rparr>"

definition zero_SetStatusRequest :: SetStatusRequest where
  "zero_SetStatusRequest = \<lparr>st_target = zero_Target, st_subject = zero_SubjectRef, st_sha = '''', st_state =
    '''', st_title = '''', st_summary = '''', st_url = '''', st_status_ref = ''''\<rparr>"

definition zero_StatusResult :: StatusResult where
  "zero_StatusResult = \<lparr>str_status_ref = ''''\<rparr>"

definition zero_ResolveThreadRequest :: ResolveThreadRequest where
  "zero_ResolveThreadRequest = \<lparr>rth_target = zero_Target, rth_number = '''', rth_thread_id = '''', rth_resolved =
    False\<rparr>"

definition zero_LabelsRequest :: LabelsRequest where
  "zero_LabelsRequest = \<lparr>lb_target = zero_Target, lb_subject = zero_SubjectRef, lb_labels = []\<rparr>"

definition zero_PeopleRequest :: PeopleRequest where
  "zero_PeopleRequest = \<lparr>pp_target = zero_Target, pp_subject = zero_SubjectRef, pp_logins = []\<rparr>"

definition zero_MergeRequest :: MergeRequest where
  "zero_MergeRequest = \<lparr>mg_target = zero_Target, mg_number = '''', mg_method = '''', mg_expected_head_sha
    = ''''\<rparr>"

definition zero_MergeResult :: MergeResult where
  "zero_MergeResult = \<lparr>mgr_sha = ''''\<rparr>"

definition zero_RerunRequest :: RerunRequest where
  "zero_RerunRequest = \<lparr>rru_target = zero_Target, rru_ref = '''', rru_check_id = ''''\<rparr>"

definition zero_ReactRequest :: ReactRequest where
  "zero_ReactRequest = \<lparr>re_target = zero_Target, re_comment_id = '''', re_emoji = ''''\<rparr>"

definition zero_EnsureWebhookRequest :: EnsureWebhookRequest where
  "zero_EnsureWebhookRequest = \<lparr>ew_target = zero_Target, ew_url = ''''\<rparr>"

definition zero_WebhookRef :: WebhookRef where
  "zero_WebhookRef = \<lparr>wh_id = ''''\<rparr>"

definition zero_RemoveWebhookRequest :: RemoveWebhookRequest where
  "zero_RemoveWebhookRequest = \<lparr>rw_target = zero_Target, rw_webhook = zero_WebhookRef\<rparr>"

definition zero_GetBranchRequest :: GetBranchRequest where
  "zero_GetBranchRequest = \<lparr>gb_target = zero_Target, gb_name = ''''\<rparr>"

definition zero_CreateBranchRequest :: CreateBranchRequest where
  "zero_CreateBranchRequest = \<lparr>cb_target = zero_Target, cb_name = '''', cb_from = '''', cb_idempotency_key =
    ''''\<rparr>"

definition zero_BranchInfo :: BranchInfo where
  "zero_BranchInfo = \<lparr>bi_name = '''', bi_sha = '''', bi_url = ''''\<rparr>"

section \<open>Methods\<close>

text \<open>\<^verbatim>\<open>permissionRank\<close>: the lookup in the Go map literal.\<close>

definition permissionRank :: "Permission \<rightharpoonup> int" where
  "permissionRank = map_of [(PermissionNone, 0), (PermissionRead, 1), (PermissionTriage, 2),
     (PermissionWrite, 3), (PermissionMaintain, 4), (PermissionAdmin, 5)]"

definition Permission_Valid :: "Permission \<Rightarrow> bool" where
  "Permission_Valid p \<longleftrightarrow> permissionRank p \<noteq> None"

definition Rank :: "Permission \<Rightarrow> int" where
  "Rank p = (case permissionRank p of Some r \<Rightarrow> r | None \<Rightarrow> - 1)"

definition AtLeast :: "Permission \<Rightarrow> Permission \<Rightarrow> bool" where
  "AtLeast p m \<longleftrightarrow> Rank m \<le> Rank p \<and> Permission_Valid p"

fun find_profile :: "KindProfile list \<Rightarrow> IdentityKind \<Rightarrow> KindProfile option" where
  "find_profile [] kind = None"
| "find_profile (k # ks) kind = (if kp_kind k = kind then Some k else find_profile ks kind)"

definition Profile :: "Capabilities \<Rightarrow> IdentityKind \<Rightarrow> KindProfile" where
  "Profile c kind = (case find_profile (cap_kinds c) kind of
       Some k \<Rightarrow> k
     | None \<Rightarrow> \<lparr>kp_kind = kind, kp_credential_model = cap_credential_model c,
                kp_webhook_scope = cap_webhook_scope c, kp_access_grants = cap_access_grants c\<rparr>)"

definition SupportsTrigger :: "Capabilities \<Rightarrow> TriggerKind \<Rightarrow> bool" where
  "SupportsTrigger c k \<longleftrightarrow> list_ex (\<lambda>t. t = k) (cap_triggers c)"

definition CheckState_Valid :: "CheckState \<Rightarrow> bool" where
  "CheckState_Valid s \<longleftrightarrow> s \<in> {CheckPending, CheckSuccess, CheckFailure, CheckCancelled, CheckSkipped}"

section \<open>Properties of the methods\<close>

lemma permissionRank_values:
  "permissionRank p = Some r \<longleftrightarrow>
     p = PermissionNone \<and> r = 0 \<or> p = PermissionRead \<and> r = 1 \<or> p = PermissionTriage \<and> r = 2 \<or>
     p = PermissionWrite \<and> r = 3 \<or> p = PermissionMaintain \<and> r = 4 \<or> p = PermissionAdmin \<and> r = 5"
  by (auto simp: permissionRank_def wire_consts)

lemma Rank_valid: "Permission_Valid p \<longleftrightarrow> 0 \<le> Rank p"
proof (cases "permissionRank p")
  case (Some r)
  then have "0 \<le> r" by (auto simp: permissionRank_values)
  with Some show ?thesis by (simp add: Permission_Valid_def Rank_def)
qed (simp add: Permission_Valid_def Rank_def)

lemma Rank_inject: "Permission_Valid p \<Longrightarrow> Rank p = Rank q \<Longrightarrow> p = q"
proof -
  assume "Permission_Valid p" and eq: "Rank p = Rank q"
  then have "Permission_Valid q" by (simp add: Rank_valid)
  with \<open>Permission_Valid p\<close> obtain r r' where r: "permissionRank p = Some r" "permissionRank q = Some r'"
    by (auto simp: Permission_Valid_def)
  with eq have "r = r'" by (simp add: Rank_def)
  with r have "permissionRank p = Some r" "permissionRank q = Some r" by auto
  then show "p = q" unfolding permissionRank_values by (elim disjE) auto
qed

lemma AtLeast_refl: "AtLeast p p \<longleftrightarrow> Permission_Valid p"
  by (simp add: AtLeast_def)

lemma AtLeast_trans: "AtLeast p q \<Longrightarrow> AtLeast q r \<Longrightarrow> AtLeast p r"
  by (simp add: AtLeast_def)

lemma find_profile_kind: "find_profile ks kind = Some k \<Longrightarrow> kp_kind k = kind \<and> k \<in> set ks"
  by (induction ks) (auto split: if_splits)

lemma find_profile_None: "find_profile ks kind = None \<longleftrightarrow> kind \<notin> kp_kind ` set ks"
  by (induction ks) auto

lemma Profile_kind: "kp_kind (Profile c kind) = kind"
  using find_profile_kind by (auto simp: Profile_def split: option.split)

lemma SupportsTrigger_iff: "SupportsTrigger c k \<longleftrightarrow> k \<in> set (cap_triggers c)"
  by (auto simp: SupportsTrigger_def list_ex_iff)

end
