(* ===== verification/GitErrors.thy ===== *)
theory GitErrors
  imports GitTypes
begin

text \<open>
  \<^verbatim>\<open>gitprovider/errors.go\<close>: the error codes of the contract, the typed error, how any Go
  error becomes one, and the HTTP status of a code.  Also the reply of an operation of
  a provider: it answers, fails with an error, or panics.
\<close>

section \<open>Codes\<close>

type_synonym ErrorCode = string

definition CodeNotFound :: ErrorCode where [wire_consts]: "CodeNotFound = ''not_found''"
definition CodeForbidden :: ErrorCode where [wire_consts]: "CodeForbidden = ''forbidden''"
definition CodeInvalidSignature :: ErrorCode where [wire_consts]: "CodeInvalidSignature = ''invalid_signature''"
definition CodeConflict :: ErrorCode where [wire_consts]: "CodeConflict = ''conflict''"
definition CodeRateLimited :: ErrorCode where [wire_consts]: "CodeRateLimited = ''rate_limited''"
definition CodeValidation :: ErrorCode where [wire_consts]: "CodeValidation = ''validation''"
definition CodeUnsupported :: ErrorCode where [wire_consts]: "CodeUnsupported = ''unsupported''"
definition CodeTransient :: ErrorCode where [wire_consts]: "CodeTransient = ''transient''"
definition CodeInternal :: ErrorCode where [wire_consts]: "CodeInternal = ''internal''"

definition AllErrorCodes :: "ErrorCode list" where
  "AllErrorCodes = [CodeNotFound, CodeForbidden, CodeInvalidSignature, CodeConflict,
     CodeRateLimited, CodeValidation, CodeUnsupported, CodeTransient, CodeInternal]"

definition HTTPStatus :: "ErrorCode \<Rightarrow> int" where
  "HTTPStatus c =
     (if c = CodeNotFound then 404
      else if c = CodeForbidden then 403
      else if c = CodeInvalidSignature then 401
      else if c = CodeConflict then 409
      else if c = CodeRateLimited then 429
      else if c = CodeValidation then 400
      else if c = CodeUnsupported then 501
      else if c = CodeTransient then 503
      else 500)"

section \<open>Errors\<close>

record Error =
  er_code :: ErrorCode
  er_message :: string
  er_retry_after_seconds :: int

definition Error_string :: "Error \<Rightarrow> string" where
  "Error_string e = ''gitprovider: '' @ er_code e @ '': '' @ er_message e"

definition Retryable :: "Error \<Rightarrow> bool" where
  "Retryable e \<longleftrightarrow> er_code e = CodeRateLimited \<or> er_code e = CodeTransient"

text \<open>Building an error; the message is the formatted one.\<close>

definition Errorf :: "ErrorCode \<Rightarrow> string \<Rightarrow> Error" where
  "Errorf c msg = \<lparr>er_code = c, er_message = msg, er_retry_after_seconds = 0\<rparr>"

definition RateLimited :: "int \<Rightarrow> string \<Rightarrow> Error" where
  "RateLimited secs msg = \<lparr>er_code = CodeRateLimited, er_message = msg, er_retry_after_seconds = secs\<rparr>"

definition ErrUnsupported :: Error where
  "ErrUnsupported = Errorf CodeUnsupported ''operation not supported by this provider''"

text \<open>
  A Go \<^verbatim>\<open>error\<close> is a typed error of the contract, one that wraps another (\<^verbatim>\<open>%w\<close>), or one
  of any other type; \<^verbatim>\<open>errors.As\<close> and \<^verbatim>\<open>errors.Is\<close> walk the chain.
\<close>

datatype goerr = GpErr Error | WrapErr string goerr | PlainErr string

fun errors_As :: "goerr \<Rightarrow> Error option" where
  "errors_As (GpErr e) = Some e"
| "errors_As (WrapErr t e) = errors_As e"
| "errors_As (PlainErr t) = None"

definition internalError :: Error where
  "internalError = Errorf CodeInternal ''internal provider error''"

definition AsError :: "goerr \<Rightarrow> Error" where
  "AsError err = (case errors_As err of Some e \<Rightarrow> e | None \<Rightarrow> internalError)"

definition Error_Is :: "Error \<Rightarrow> Error \<Rightarrow> bool" where
  "Error_Is e target \<longleftrightarrow> er_code e = er_code target"

section \<open>Replies\<close>

datatype 'a reply = Fails goerr | Answers 'a | Panics

definition fails :: "ErrorCode \<Rightarrow> string \<Rightarrow> 'a reply" where
  "fails c msg = Fails (GpErr (Errorf c msg))"

lemma fails_inject: "fails c msg = fails c' msg' \<longleftrightarrow> c = c' \<and> msg = msg'"
  by (simp add: fails_def Errorf_def)

lemma fails_not [simp]: "fails c msg \<noteq> Answers v" "fails c msg \<noteq> Panics"
    "Answers v \<noteq> fails c msg" "Panics \<noteq> fails c msg"
  by (simp_all add: fails_def)

lemma case_fails [simp]:
  "(case fails c msg of Fails e \<Rightarrow> f e | Answers v \<Rightarrow> g v | Panics \<Rightarrow> h) = f (GpErr (Errorf c msg))"
  by (simp add: fails_def)

definition fails_with :: "'a reply \<Rightarrow> ErrorCode \<Rightarrow> bool" where
  "fails_with r c \<longleftrightarrow> (\<exists>e. r = Fails e \<and> er_code (AsError e) = c)"

lemma fails_with_fails [simp]: "fails_with (fails c msg) c' \<longleftrightarrow> c = c'"
  by (auto simp: fails_with_def fails_def AsError_def Errorf_def)

lemma fails_with_others [simp]: "\<not> fails_with (Answers v) c" "\<not> fails_with Panics c"
  by (simp_all add: fails_with_def)

lemma HTTPStatus_range: "HTTPStatus c \<in> {400, 401, 403, 404, 409, 429, 500, 501, 503}"
  by (auto simp: HTTPStatus_def)

lemma HTTPStatus_inject:
  "c \<in> set AllErrorCodes \<Longrightarrow> c' \<in> set AllErrorCodes \<Longrightarrow> HTTPStatus c = HTTPStatus c' \<Longrightarrow> c = c'"
proof -
  have "distinct (map HTTPStatus AllErrorCodes)" by code_simp
  then show "c \<in> set AllErrorCodes \<Longrightarrow> c' \<in> set AllErrorCodes \<Longrightarrow> HTTPStatus c = HTTPStatus c' \<Longrightarrow> c = c'"
    by (auto simp: distinct_map inj_on_def)
qed

end
