(* ===== verification/GoUtf8.thy ===== *)
theory GoUtf8
  imports GoStrings
begin

text \<open>
  UTF-8 as Go's \<^verbatim>\<open>unicode/utf8\<close> reads it: the runes of a byte string, the strings that
  are valid, the replacement of every invalid byte by U+FFFD that \<^verbatim>\<open>encoding/json\<close>
  makes, and \<^verbatim>\<open>utf8.RuneStart\<close>.
\<close>

section \<open>Runes\<close>

definition cont_byte :: "char \<Rightarrow> bool" where
  "cont_byte c \<longleftrightarrow> 128 \<le> byte_val c \<and> byte_val c < 192"

definition byte_in :: "nat \<Rightarrow> nat \<Rightarrow> char \<Rightarrow> bool" where
  "byte_in lo hi c \<longleftrightarrow> lo \<le> byte_val c \<and> byte_val c \<le> hi"

text \<open>The bytes the second byte of a rune may be, after its first byte.\<close>

definition second_ok :: "char \<Rightarrow> char \<Rightarrow> bool" where
  "second_ok a b \<longleftrightarrow>
     (if byte_val a = 224 then byte_in 160 191 b
      else if byte_val a = 237 then byte_in 128 159 b
      else if byte_val a = 240 then byte_in 144 191 b
      else if byte_val a = 244 then byte_in 128 143 b
      else byte_in 128 191 b)"

text \<open>The number of bytes a first byte announces; 0 for a byte that starts no rune.\<close>

definition lead_len :: "char \<Rightarrow> nat" where
  "lead_len a =
     (if byte_val a < 128 then 1
      else if byte_in 194 223 a then 2
      else if byte_in 224 239 a then 3
      else if byte_in 240 244 a then 4
      else 0)"

text \<open>
  The width of the rune a string starts with, 0 when it starts with none (Go decodes
  such a byte as U+FFFD of width 1).
\<close>

definition rune_len :: "string \<Rightarrow> nat" where
  "rune_len s =
     (case s of
        [] \<Rightarrow> 0
      | a # cs \<Rightarrow>
          (let n = lead_len a
           in if n \<le> 1 then n
              else if n - 1 \<le> length cs \<and> second_ok a (cs ! 0) \<and> list_all cont_byte (take (n - 2) (drop 1 cs))
              then n else 0))"

definition RuneStart :: "char \<Rightarrow> bool" where
  "RuneStart c \<longleftrightarrow> \<not> cont_byte c"

lemma rune_len_le: "rune_len s \<le> length s"
  by (cases s) (auto simp: rune_len_def Let_def lead_len_def)

lemma rune_len_4: "rune_len s \<le> 4"
  by (cases s) (auto simp: rune_len_def Let_def lead_len_def)

function valid_utf8 :: "string \<Rightarrow> bool" where
  "valid_utf8 s \<longleftrightarrow> (if s = [] then True else rune_len s \<noteq> 0 \<and> valid_utf8 (drop (max 1 (rune_len s)) s))"
  by pat_completeness auto
termination
  by (relation "measure length") auto

declare valid_utf8.simps [simp del]

definition replacement :: string where
  "replacement = [char_of (239::nat), char_of (191::nat), char_of (189::nat)]"

text \<open>Every byte that starts no rune becomes U+FFFD.\<close>

function to_valid_utf8 :: "string \<Rightarrow> string" where
  "to_valid_utf8 s =
     (if s = [] then []
      else if rune_len s = 0 then replacement @ to_valid_utf8 (drop 1 s)
      else take (rune_len s) s @ to_valid_utf8 (drop (rune_len s) s))"
  by pat_completeness auto
termination
  by (relation "measure length") auto

declare to_valid_utf8.simps [simp del]

lemma valid_utf8_Nil [simp]: "valid_utf8 []"
  by (simp add: valid_utf8.simps)

lemma to_valid_utf8_Nil [simp]: "to_valid_utf8 [] = []"
  by (simp add: to_valid_utf8.simps)

lemma valid_utf8_step:
  "s \<noteq> [] \<Longrightarrow> valid_utf8 s \<longleftrightarrow> 0 < rune_len s \<and> valid_utf8 (drop (rune_len s) s)"
  by (subst valid_utf8.simps) (auto simp: max_def)

lemma to_valid_id: "valid_utf8 s \<Longrightarrow> to_valid_utf8 s = s"
proof (induction s rule: to_valid_utf8.induct)
  case (1 s)
  show ?case
  proof (cases "s = []")
    case False
    then have v: "0 < rune_len s" "valid_utf8 (drop (rune_len s) s)" using 1 valid_utf8_step by auto
    then show ?thesis using 1 False by (subst to_valid_utf8.simps) simp
  qed simp
qed

text \<open>The width of the first rune depends on its own bytes only.\<close>

lemma rune_len_append: "0 < rune_len s \<Longrightarrow> rune_len (take (rune_len s) s @ t) = rune_len s"
proof (cases s)
  case (Cons a cs)
  assume p: "0 < rune_len s"
  define n where "n = lead_len a"
  have r: "rune_len s = n" using p Cons by (auto simp: rune_len_def n_def Let_def split: if_splits)
  show ?thesis
  proof (cases "n \<le> 1")
    case True
    then show ?thesis using r p Cons by (auto simp: rune_len_def n_def Let_def take_Cons' split: if_splits)
  next
    case False
    then have c: "n - 1 \<le> length cs" "second_ok a (cs ! 0)" "list_all cont_byte (take (n - 2) (drop 1 cs))"
      using p Cons by (auto simp: rune_len_def n_def Let_def split: if_splits)
    obtain m where n: "n = Suc (Suc m)" using False by (cases n; cases "n - 1") auto
    obtain b ds where cs: "cs = b # ds" using c(1) n by (cases cs) auto
    have "take n s @ t = a # b # take m ds @ t" by (simp add: Cons cs n)
    moreover have "rune_len (a # b # take m ds @ t) = n"
      using c n cs unfolding rune_len_def by (simp add: n_def [symmetric])
    ultimately show ?thesis by (simp add: r)
  qed
qed (simp add: rune_len_def)

lemma valid_rune_append: "0 < rune_len s \<Longrightarrow> valid_utf8 t \<Longrightarrow> valid_utf8 (take (rune_len s) s @ t)"
proof -
  assume a: "0 < rune_len s" "valid_utf8 t"
  have "length (take (rune_len s) s) = rune_len s" using rune_len_le by simp
  then show ?thesis
    using a rune_len_append [OF a(1), of t] rune_len_le [of s]
    by (subst valid_utf8_step) auto
qed

lemma valid_replacement: "valid_utf8 t \<Longrightarrow> valid_utf8 (replacement @ t)"
proof -
  have "rune_len replacement = 3" by code_simp
  then show "valid_utf8 t \<Longrightarrow> valid_utf8 (replacement @ t)"
    using valid_rune_append [of replacement t] by (simp add: replacement_def)
qed

theorem to_valid_utf8_valid: "valid_utf8 (to_valid_utf8 s)"
proof (induction s rule: to_valid_utf8.induct)
  case (1 s)
  then show ?case
    by (subst to_valid_utf8.simps) (auto intro: valid_replacement valid_rune_append)
qed

lemma is_ascii_valid: "is_ascii s \<Longrightarrow> valid_utf8 s"
proof (induction s)
  case (Cons c cs)
  then have "rune_len (c # cs) = 1" by (simp add: rune_len_def is_ascii_def lead_len_def)
  with Cons show ?case by (subst valid_utf8_step) (auto simp: is_ascii_def)
qed simp

lemma to_valid_ascii: "is_ascii s \<Longrightarrow> to_valid_utf8 s = s"
  by (simp add: to_valid_id is_ascii_valid)

section \<open>Cutting on a rune boundary\<close>

text \<open>Only the first byte of a rune is a \<open>RuneStart\<close>.\<close>

lemma rune_tail_cont:
  assumes "0 < i" "i < rune_len s"
  shows "\<not> RuneStart (s ! i)"
proof (cases s)
  case (Cons a cs)
  define n where "n = lead_len a"
  have n: "1 < n" "rune_len s = n" "n - 1 \<le> length cs" "second_ok a (cs ! 0)"
      "list_all cont_byte (take (n - 2) (drop 1 cs))"
    using assms Cons by (auto simp: rune_len_def n_def Let_def split: if_splits)
  show ?thesis
  proof (cases "i = 1")
    case True
    with n Cons show ?thesis
      by (auto simp: RuneStart_def cont_byte_def second_ok_def byte_in_def split: if_splits)
  next
    case False
    then have "Suc (i - 2) = i - Suc 0" using assms(1) by simp
    with False assms n have "i - 2 < length (take (n - 2) (drop 1 cs))" "s ! i = take (n - 2) (drop 1 cs) ! (i - 2)"
      by (auto simp: Cons nth_Cons')
    then show ?thesis using n(5) by (auto simp: RuneStart_def list_all_length)
  qed
qed (use assms in \<open>simp add: rune_len_def\<close>)

lemma valid_cut:
  assumes "valid_utf8 s" "n \<le> length s" "n < length s \<Longrightarrow> RuneStart (s ! n)"
  shows "valid_utf8 (take n s) \<and> valid_utf8 (drop n s)"
  using assms
proof (induction s arbitrary: n rule: to_valid_utf8.induct)
  case (1 s)
  show ?case
  proof (cases "s = [] \<or> n = 0")
    case True
    with 1 show ?thesis by auto
  next
    case False
    let ?k = "rune_len s"
    have k: "0 < ?k" "valid_utf8 (drop ?k s)" "?k \<le> length s"
      using 1 False valid_utf8_step rune_len_le by auto
    have kn: "?k \<le> n"
    proof (rule ccontr)
      assume "\<not> ?k \<le> n"
      then have "\<not> RuneStart (s ! n)" "n < length s" using False k rune_tail_cont [of n s] by auto
      then show False using "1.prems"(3) by blast
    qed
    then have "valid_utf8 (take (n - ?k) (drop ?k s)) \<and> valid_utf8 (drop (n - ?k) (drop ?k s))"
      using False 1 k by (intro "1.IH"(2)) auto
    moreover have "take n s = take ?k s @ take (n - ?k) (drop ?k s)"
      using kn by (metis le_add_diff_inverse take_add)
    ultimately show ?thesis using kn k valid_rune_append by simp
  qed
qed

text \<open>A rune start is never more than three bytes away.\<close>

lemma rune_starts: "0 < rune_len (c # t) \<Longrightarrow> RuneStart c"
proof (rule ccontr)
  assume c: "0 < rune_len (c # t)" "\<not> RuneStart c"
  then have "128 \<le> byte_val c" "byte_val c < 192" by (simp_all add: RuneStart_def cont_byte_def)
  then have "lead_len c = 0" by (simp add: lead_len_def byte_in_def)
  then show False using c(1) by (simp add: rune_len_def)
qed

lemma rune_start_near:
  assumes "valid_utf8 s" "n \<le> length s"
  shows "\<exists>m \<le> n. n - m \<le> 3 \<and> (m < length s \<longrightarrow> RuneStart (s ! m))"
  using assms
proof (induction s arbitrary: n rule: to_valid_utf8.induct)
  case (1 s)
  show ?case
  proof (cases "s = []")
    case False
    let ?k = "rune_len s"
    have k: "0 < ?k" "valid_utf8 (drop ?k s)" "?k \<le> length s" "?k \<le> 4"
      using 1 False valid_utf8_step rune_len_le rune_len_4 by auto
    show ?thesis
    proof (cases "n < ?k")
      case True
      have "RuneStart (s ! 0)"
        using k(1) False rune_starts by (cases s) auto
      with True k show ?thesis by (intro exI [of _ 0]) auto
    next
      case False
      then obtain m where "m \<le> n - ?k" "n - ?k - m \<le> 3" "m < length (drop ?k s) \<longrightarrow> RuneStart (drop ?k s ! m)"
        using "1.IH"(2) [of "n - ?k"] 1 k \<open>s \<noteq> []\<close> by fastforce
      with False k show ?thesis by (intro exI [of _ "?k + m"]) auto
    qed
  qed (use 1 in auto)
qed

section \<open>Evaluation\<close>

lemma rune_len_seven: "seven_bit c \<Longrightarrow> rune_len (c # t) = 1"
  by (simp add: rune_len_def lead_len_def seven_bit_iff)

lemma seven_valid: "list_all seven_bit s \<Longrightarrow> valid_utf8 s"
  by (induction s) (simp_all add: valid_utf8_step rune_len_seven)

lemma valid_utf8_code [code]:
  "valid_utf8 s \<longleftrightarrow> (if list_all seven_bit s then True else rune_len s \<noteq> 0 \<and> valid_utf8 (drop (max 1 (rune_len s)) s))"
proof (cases "list_all seven_bit s")
  case True
  then show ?thesis by (simp add: seven_valid)
next
  case False
  then show ?thesis by (subst valid_utf8.simps) auto
qed

lemma to_valid_utf8_code [code]:
  "to_valid_utf8 s = (if list_all seven_bit s then s
      else if rune_len s = 0 then replacement @ to_valid_utf8 (drop 1 s)
      else take (rune_len s) s @ to_valid_utf8 (drop (rune_len s) s))"
proof (cases "list_all seven_bit s")
  case True
  then show ?thesis by (simp add: seven_valid to_valid_id)
next
  case False
  then show ?thesis by (subst to_valid_utf8.simps) auto
qed

lemma RuneStart_code [code]: "RuneStart (Char b0 b1 b2 b3 b4 b5 b6 b7) \<longleftrightarrow> \<not> b7 \<or> b6"
  by (cases b0; cases b1; cases b2; cases b3; cases b4; cases b5; cases b6; cases b7) (simp_all add: RuneStart_def cont_byte_def byte_val_def)

end
