(* ===== verification/FakeState.thy ===== *)
theory FakeState
  imports GitErrors GoUtf8
begin

text \<open>
  \<^verbatim>\<open>gitprovider/fakeprovider/fake.go\<close>: the world the reference provider keeps in memory,
  its seed data, and the helpers its operations share.  A Go map the code ranges over is
  an association list (in the order of the iteration), the others are HOL maps; what a
  handler reaches through the pointers \<^verbatim>\<open>*repoState\<close> and \<^verbatim>\<open>*cr\<close> is stored back under its
  key.  Slices are values: a slice shared with a direct Go caller is not modelled.
\<close>

section \<open>Seed data\<close>

definition Host :: string where [wire_consts]: "Host = ''fake.test''"
definition IdentityID :: string where [wire_consts]: "IdentityID = ''ident-1''"
definition IdentityHandle :: string where [wire_consts]: "IdentityHandle = ''paca-bot''"
definition WebhookSecret :: string where [wire_consts]: "WebhookSecret = ''whsec_fake_secret_value''"
definition StaticSecret :: string where [wire_consts]: "StaticSecret = ''static_fake_secret_value''"
definition RepoPath :: string where [wire_consts]: "RepoPath = ''acme/web''"
definition SeedCRNumber :: string where [wire_consts]: "SeedCRNumber = ''1''"
definition SeedHeadSHA :: string where [wire_consts]: "SeedHeadSHA = ''abc123''"

definition allRepoPaths :: "string list" where
  "allRepoPaths = [''acme/web'', ''acme/api'', ''tools/docs'']"

section \<open>State\<close>

record crState =
  crs_cr :: ChangeRequest
  crs_files :: "ChangedFile list"
  crs_threads :: "Thread list"

record repoState =
  rs_ref :: RepoRef
  rs_private :: bool
  rs_crs :: "(string \<times> crState) list"
  rs_issues :: "(string \<times> Issue) list"
  rs_comments :: "string \<rightharpoonup> Comment list"
  rs_perms :: "string \<rightharpoonup> Permission"
  rs_files :: "(string \<times> bytes) list"
  rs_protected :: "string \<rightharpoonup> bool"
  rs_checks :: "(string \<times> Check list) list"
  rs_reactions :: "string list"
  rs_hooks :: "(string \<times> string) list"
  rs_nextID :: int
  rs_statuses :: "string \<rightharpoonup> SetStatusRequest"
  rs_branches :: "string \<rightharpoonup> string"

text \<open>
  A memoised result is the JSON of one of four types; the key's prefix names the
  operation and so the type (\<open>wf_idem\<close> below).
\<close>

datatype memo = MemoCR ChangeRequest | MemoComment CommentResult | MemoReview ReviewResult | MemoBranch BranchInfo

record Core =
  caps :: Capabilities
  repos :: "(string \<times> repoState) list"
  idem :: "string \<rightharpoonup> memo"
  seq :: int
  grants :: "string \<rightharpoonup> bool"
  Deleted :: "string list"

section \<open>Seeding\<close>

definition slash_to_dash :: "string \<Rightarrow> string" where
  "slash_to_dash s = map (\<lambda>c. if c = CHR ''/'' then CHR ''-'' else c) s"

definition nl :: string where "nl = [CHR 0x0A]"

definition seed_cr :: "string \<Rightarrow> crState" where
  "seed_cr path =
     \<lparr>crs_cr = zero_ChangeRequest\<lparr>
        cr_number := SeedCRNumber, cr_title := ''Add feature'', cr_body := ''Implements the feature.'',
        cr_state := CROpen,
        cr_head := \<lparr>br_ref = ''feat/x'', br_sha = SeedHeadSHA, br_repo = path, br_from_fork = False\<rparr>,
        cr_base := \<lparr>br_ref = ''main'', br_sha = ''base000'', br_repo = path, br_from_fork = False\<rparr>,
        cr_author := ''octocat'', cr_url := ''https://'' @ Host @ ''/'' @ path @ ''/pulls/1'',
        cr_labels := [''enhancement'']\<rparr>,
      crs_files =
        [\<lparr>cf_path = ''src/main.go'', cf_old_path = '''', cf_status = ''modified'', cf_additions = 3, cf_deletions = 1\<rparr>,
         \<lparr>cf_path = ''src/util.go'', cf_old_path = '''', cf_status = ''added'', cf_additions = 10, cf_deletions = 0\<rparr>,
         \<lparr>cf_path = ''docs/guide.md'', cf_old_path = '''', cf_status = ''added'', cf_additions = 5, cf_deletions = 0\<rparr>],
      crs_threads =
        [\<lparr>th_id = ''thr-1'', th_path = ''src/main.go'', th_line = 3, th_resolved = False, th_outdated = False,
          th_comments = [\<lparr>co_id = ''c-1'', co_author = ''reader'', co_author_kind = ActorUser,
             co_body = ''Why not use a constant here?'', co_url = '''', co_created_at = 0\<rparr>]\<rparr>]\<rparr>"

definition seedRepo :: "string \<Rightarrow> bool \<Rightarrow> repoState" where
  "seedRepo path private =
     \<lparr>rs_ref = \<lparr>rr_host = Host, rr_full_path = path, rr_external_id = ''ext-'' @ slash_to_dash path,
                rr_default_branch = ''main'', rr_clone_url = ''https://'' @ Host @ ''/'' @ path @ ''.git'',
                rr_provider_ref = []\<rparr>,
      rs_private = private,
      rs_crs = [(SeedCRNumber, seed_cr path)],
      rs_issues = [(''7'', zero_Issue\<lparr>iss_number := ''7'', iss_title := ''A bug'', iss_body := ''It crashes.'',
         iss_state := ''open'', iss_author := ''octocat'', iss_url := ''https://'' @ Host @ ''/'' @ path @ ''/issues/7''\<rparr>)],
      rs_comments = Map.empty,
      rs_perms = [''octocat'' \<mapsto> PermissionWrite, ''reader'' \<mapsto> PermissionRead, ''owner'' \<mapsto> PermissionAdmin,
         IdentityHandle \<mapsto> PermissionWrite],
      rs_files = [(''README.md'', ''# '' @ path @ nl), (''src/main.go'', ''package main'' @ nl @ nl @ ''func main() {}'' @ nl)],
      rs_protected = [''main'' \<mapsto> True],
      rs_checks = [(SeedHeadSHA,
         [\<lparr>ch_id = ''chk-1'', ch_name = ''ci/test'', ch_state = CheckFailure, ch_required = True,
           ch_url = ''https://'' @ Host @ ''/chk-1'', ch_summary = ''''\<rparr>,
          \<lparr>ch_id = ''chk-2'', ch_name = ''ci/lint'', ch_state = CheckSuccess, ch_required = False,
           ch_url = '''', ch_summary = ''''\<rparr>])],
      rs_reactions = [], rs_hooks = [], rs_nextID = 0, rs_statuses = Map.empty,
      rs_branches = [''main'' \<mapsto> ''base000'', ''feat/x'' \<mapsto> SeedHeadSHA]\<rparr>"

definition newCore :: "Capabilities \<Rightarrow> Core" where
  "newCore cs =
     \<lparr>caps = cs,
      repos = map (\<lambda>(i, path). (path, seedRepo path (i = 2))) (enumerate 0 allRepoPaths),
      idem = Map.empty, seq = 0, grants = Map.empty, Deleted = []\<rparr>"

section \<open>Helpers\<close>

definition find_repo :: "Core \<Rightarrow> Target \<Rightarrow> repoState option" where
  "find_repo c t =
     (case map_of (repos c) (rr_full_path (tg_repo t)) of
        None \<Rightarrow> None
      | Some r \<Rightarrow> if ir_id (tg_identity t) \<noteq> IdentityID then None else Some r)"

text \<open>\<^verbatim>\<open>c.repo(t)\<close> and the early return every handler makes on its error.\<close>

definition with_repo :: "Core \<Rightarrow> Target \<Rightarrow> (repoState \<Rightarrow> Core \<times> 'a reply) \<Rightarrow> Core \<times> 'a reply" where
  "with_repo c t k =
     (case find_repo c t of
        None \<Rightarrow> (c, fails CodeNotFound ''repository not found'')
      | Some r \<Rightarrow> k r)"

text \<open>\<^verbatim>\<open>c.cr(t, n)\<close>, likewise.\<close>

definition with_cr :: "Core \<Rightarrow> Target \<Rightarrow> string \<Rightarrow> (repoState \<Rightarrow> crState \<Rightarrow> Core \<times> 'a reply) \<Rightarrow> Core \<times> 'a reply" where
  "with_cr c t n k =
     with_repo c t (\<lambda>r.
       case map_of (rs_crs r) n of
         None \<Rightarrow> (c, fails CodeNotFound ''change request not found'')
       | Some x \<Rightarrow> k r x)"

text \<open>Storing what a handler changed through \<^verbatim>\<open>*repoState\<close> or \<^verbatim>\<open>*cr\<close>.\<close>

definition put_repo :: "Target \<Rightarrow> repoState \<Rightarrow> Core \<Rightarrow> Core" where
  "put_repo t r c = c\<lparr>repos := AList.update (rr_full_path (tg_repo t)) r (repos c)\<rparr>"

definition put_cr :: "Target \<Rightarrow> string \<Rightarrow> crState \<Rightarrow> repoState \<Rightarrow> Core \<Rightarrow> Core" where
  "put_cr t n x r c = put_repo t (r\<lparr>rs_crs := AList.update n x (rs_crs r)\<rparr>) c"

fun cut_index :: "string \<Rightarrow> nat \<Rightarrow> nat" where
  "cut_index s 0 = 0"
| "cut_index s (Suc n) = (if Suc n < length s \<and> \<not> RuneStart (s ! Suc n) then cut_index s n else Suc n)"

definition cutHead :: "string \<Rightarrow> nat \<Rightarrow> string" where
  "cutHead s n = take (cut_index s n) s"

function skip_index :: "string \<Rightarrow> nat \<Rightarrow> nat" where
  "skip_index s i = (if i < length s \<and> \<not> RuneStart (s ! i) then skip_index s (Suc i) else i)"
  by pat_completeness auto
termination
  by (relation "measure (\<lambda>(s, i). length s - i)") auto

declare skip_index.simps [simp del]

definition cutTail :: "string \<Rightarrow> nat \<Rightarrow> string" where
  "cutTail s n = drop (skip_index s (length s - n)) s"

definition next_id :: "string \<Rightarrow> Core \<Rightarrow> string \<times> Core" where
  "next_id pre c = (pre @ ''-'' @ itoa (seq c + 1), c\<lparr>seq := seq c + 1\<rparr>)"

definition idemKey :: "string \<Rightarrow> string \<Rightarrow> string" where
  "idemKey opn key = (if key = '''' then '''' else opn @ '':'' @ key)"

text \<open>
  \<^verbatim>\<open>once\<close>: the memoised value is read back from its JSON, \<open>to_memo\<close> and \<open>of_memo\<close> are
  the two halves.
\<close>

definition once ::
    "Core \<Rightarrow> string \<Rightarrow> ('a \<Rightarrow> memo) \<Rightarrow> (memo \<Rightarrow> 'a) \<Rightarrow> (Core \<Rightarrow> Core \<times> 'a reply) \<Rightarrow> Core \<times> 'a reply" where
  "once c key to_memo of_memo fn =
     (if key = '''' \<or> \<not> cap_idempotent_writes (caps c) then fn c
      else case idem c key of
        Some m \<Rightarrow> (c, Answers (of_memo m))
      | None \<Rightarrow>
          (case fn c of
             (c', Answers v) \<Rightarrow> (c'\<lparr>idem := (idem c')(key \<mapsto> to_memo v)\<rparr>, Answers v)
           | (c', r) \<Rightarrow> (c', r)))"

text \<open>
  A round through \<^verbatim>\<open>json.Marshal\<close> and \<^verbatim>\<open>json.Unmarshal\<close> keeps a value but for the invalid
  UTF-8 in its strings.
\<close>

definition json_Branch :: "Branch \<Rightarrow> Branch" where
  "json_Branch b = b\<lparr>br_ref := to_valid_utf8 (br_ref b), br_sha := to_valid_utf8 (br_sha b),
     br_repo := to_valid_utf8 (br_repo b)\<rparr>"

definition json_ChangeRequest :: "ChangeRequest \<Rightarrow> ChangeRequest" where
  "json_ChangeRequest x = x\<lparr>cr_number := to_valid_utf8 (cr_number x), cr_title := to_valid_utf8 (cr_title x),
     cr_body := to_valid_utf8 (cr_body x), cr_state := to_valid_utf8 (cr_state x),
     cr_head := json_Branch (cr_head x), cr_base := json_Branch (cr_base x),
     cr_author := to_valid_utf8 (cr_author x), cr_url := to_valid_utf8 (cr_url x),
     cr_labels := map to_valid_utf8 (cr_labels x), cr_reviewers := map to_valid_utf8 (cr_reviewers x)\<rparr>"

definition json_CommentResult :: "CommentResult \<Rightarrow> CommentResult" where
  "json_CommentResult x = x\<lparr>cmr_id := to_valid_utf8 (cmr_id x), cmr_url := to_valid_utf8 (cmr_url x)\<rparr>"

definition json_ReviewResult :: "ReviewResult \<Rightarrow> ReviewResult" where
  "json_ReviewResult x = x\<lparr>rv_id := to_valid_utf8 (rv_id x), rv_url := to_valid_utf8 (rv_url x)\<rparr>"

definition json_BranchInfo :: "BranchInfo \<Rightarrow> BranchInfo" where
  "json_BranchInfo x = x\<lparr>bi_name := to_valid_utf8 (bi_name x), bi_sha := to_valid_utf8 (bi_sha x),
     bi_url := to_valid_utf8 (bi_url x)\<rparr>"

fun memo_cr :: "memo \<Rightarrow> ChangeRequest" where
  "memo_cr (MemoCR x) = x"
| "memo_cr _ = zero_ChangeRequest"

fun memo_comment :: "memo \<Rightarrow> CommentResult" where
  "memo_comment (MemoComment x) = x"
| "memo_comment _ = zero_CommentResult"

fun memo_review :: "memo \<Rightarrow> ReviewResult" where
  "memo_review (MemoReview x) = x"
| "memo_review _ = zero_ReviewResult"

fun memo_branch :: "memo \<Rightarrow> BranchInfo" where
  "memo_branch (MemoBranch x) = x"
| "memo_branch _ = zero_BranchInfo"

definition once_cr where
  "once_cr c key = once c key (\<lambda>v. MemoCR (json_ChangeRequest v)) memo_cr"
definition once_comment where
  "once_comment c key = once c key (\<lambda>v. MemoComment (json_CommentResult v)) memo_comment"
definition once_review where
  "once_review c key = once c key (\<lambda>v. MemoReview (json_ReviewResult v)) memo_review"
definition once_branch where
  "once_branch c key = once c key (\<lambda>v. MemoBranch (json_BranchInfo v)) memo_branch"

end
