(* ===== verification/FakeCore.thy ===== *)
theory FakeCore
  imports FakeState "HOL-Library.List_Lexorder" "HOL-Library.Char_ord"
begin

text \<open>
  \<^verbatim>\<open>gitprovider/fakeprovider/fake.go\<close>: the operations of the required surface, one
  definition each.  An operation takes the request and the state and gives the state
  after it and its reply; the mutex makes each one atomic.
\<close>

section \<open>Identity setup\<close>

definition seedIdentity :: Identity where
  "seedIdentity = Identity \<lparr>ir_id = IdentityID, ir_handle = IdentityHandle, ir_provider_ref = []\<rparr>
     Host IdentityBotUser ''Paca Bot'' 0 None"

definition Describe :: "Core \<Rightarrow> Info" where
  "Describe c = \<lparr>info_spi_version = SPIVersion, info_id = ''com.paca.fake'', info_display_name = ''Fake Git'',
     info_icon = ''git'', info_hosts = [Host], info_self_hosted_hosts = True,
     info_terms = \<lparr>tm_change_request = ''Change request'', tm_change_request_plural = ''Change requests'',
                   tm_repository = ''Repository''\<rparr>,
     info_capabilities = caps c\<rparr>"

text \<open>\<^verbatim>\<open>%q\<close> of \<^verbatim>\<open>fmt\<close> is the argument \<open>quote\<close>: it consults the Unicode tables.\<close>

definition BeginIdentitySetup :: "(string \<Rightarrow> string) \<Rightarrow> BeginSetupRequest \<Rightarrow> Core \<Rightarrow> Core \<times> SetupStep reply" where
  "BeginIdentitySetup quote req c =
     (if bs_host req \<noteq> Host then (c, fails CodeValidation (''unknown host '' @ quote (bs_host req)))
      else if bs_scope req = SetupAgent \<and> \<not> cap_multiple_identities (caps c)
        then (c, fails CodeUnsupported ''per-agent identities are not supported'')
      else (c, Answers (SetupStep StepTokenForm '''' []
        [\<lparr>ff_name = ''token'', ff_label = ''Access token'', ff_help = ''Needs repository read/write access'',
          ff_secret = True, ff_required = True\<rparr>]
        ''Paste a token with repo access'' (''setup-'' @ bs_scope req) None)))"

definition param :: "(string \<times> string) list \<Rightarrow> string \<Rightarrow> string" where
  "param ps k = (case map_of ps k of Some v \<Rightarrow> v | None \<Rightarrow> '''')"

definition CompleteIdentitySetup :: "CompleteSetupRequest \<Rightarrow> Core \<Rightarrow> Core \<times> Identity reply" where
  "CompleteIdentitySetup req c =
     (if cs_state req = '''' \<or> param (cs_params req) ''token'' = ''''
      then (c, fails CodeValidation ''state and token are required'')
      else (c, Answers seedIdentity))"

section \<open>Repositories\<close>

text \<open>
  A slice expression \<^verbatim>\<open>xs[start:end]\<close>: it panics outside \<open>0 \<le> start \<le> end\<close> (the callers
  never pass an end beyond the length).
\<close>

definition go_slice :: "'a list \<Rightarrow> int \<Rightarrow> int \<Rightarrow> 'a list option" where
  "go_slice xs lo hi =
     (if 0 \<le> lo \<and> lo \<le> hi \<and> hi \<le> int (length xs)
      then Some (take (nat (hi - lo)) (drop (nat lo) xs)) else None)"

definition defaultPageSize :: int where "defaultPageSize = 50"

definition repository_of :: "repoState \<Rightarrow> Repository" where
  "repository_of r = \<lparr>rp_ref = rs_ref r, rp_private = rs_private r, rp_description = ''''\<rparr>"

definition ListRepositories :: "ListReposRequest \<Rightarrow> Core \<Rightarrow> Core \<times> RepositoryPage reply" where
  "ListRepositories req c =
     (if ir_id (lr_identity req) \<noteq> IdentityID then (c, fails CodeForbidden ''unknown identity'')
      else
        let paths = sort (filter (\<lambda>p. lr_query req = '''' \<or> contains p (lr_query req)) (map fst (repos c)));
            start = fst (atoi (lr_cursor req));
            psize = (if lr_page_size req \<le> 0 then defaultPageSize else lr_page_size req);
            stop = wrap64 (start + psize);
            n = int (length paths);
            nextc = (if stop < n then itoa stop else '''');
            stop' = (if stop < n then stop else n)
        in if start < n
           then (case go_slice paths start stop' of
                   None \<Rightarrow> (c, Panics)
                 | Some ps \<Rightarrow>
                     (c, Answers \<lparr>rpg_items = map (\<lambda>p. repository_of (the (map_of (repos c) p))) ps,
                                  rpg_next_cursor = nextc\<rparr>))
           else (c, Answers \<lparr>rpg_items = [], rpg_next_cursor = nextc\<rparr>))"

text \<open>
  The expression \<^verbatim>\<open>^(?:https?://[^/]+/)?([^?#]+?)(?:\.git)?/?$\<close>.  The scheme and host are
  taken off when they are there and the rest matches; the group is the shortest
  non-empty run without \<^verbatim>\<open>?\<close> and \<^verbatim>\<open>#\<close> that leaves one of four endings.
\<close>

definition strip_host :: "string \<Rightarrow> string option" where
  "strip_host s =
     (let after = (if has_prefix s ''https://'' then Some (drop 8 s)
                   else if has_prefix s ''http://'' then Some (drop 7 s) else None)
      in case after of
           None \<Rightarrow> None
         | Some t \<Rightarrow>
             (case index_of ''/'' t of
                None \<Rightarrow> None
              | Some i \<Rightarrow> if i = 0 then None else Some (drop (i + 1) t)))"

definition path_group :: "string \<Rightarrow> string option" where
  "path_group s =
     map_option (\<lambda>k. take k s)
       (find (\<lambda>k. list_all (\<lambda>ch. ch \<noteq> CHR ''?'' \<and> ch \<noteq> CHR ''#'') (take k s) \<and>
                  drop k s \<in> {''.git/'', ''.git'', ''/'', ''''})
         [1..<length s + 1])"

definition urlPath :: "string \<Rightarrow> string option" where
  "urlPath s =
     (case strip_host s of
        None \<Rightarrow> path_group s
      | Some rest \<Rightarrow> (case path_group rest of Some p \<Rightarrow> Some p | None \<Rightarrow> path_group s))"

definition ResolveRepository :: "ResolveRepoRequest \<Rightarrow> Core \<Rightarrow> Core \<times> ResolvedRepository reply" where
  "ResolveRepository req c =
     (case urlPath (trim_space (rq_path_or_url req)) of
        None \<Rightarrow> (c, fails CodeValidation ''not a repository path or URL'')
      | Some path \<Rightarrow>
          (case map_of (repos c) path of
             None \<Rightarrow> (c, fails CodeNotFound ''repository not found'')
           | Some r \<Rightarrow>
               (case find (\<lambda>cand. ir_id cand = IdentityID) (rq_candidates req) of
                  Some cand \<Rightarrow> (c, Answers \<lparr>rd_repository = repository_of r, rd_identity = cand\<rparr>)
                | None \<Rightarrow> (c, fails CodeForbidden ''no candidate identity can see this repository''))))"

section \<open>Credentials and policy\<close>

definition hour :: int where "hour = 3600000000000"
definition tenMinutes :: int where "tenMinutes = 600000000000"

text \<open>\<open>now\<close> is the reading of \<^verbatim>\<open>c.Now\<close>; a \<^verbatim>\<open>time.Duration\<close> is 64 bits of nanoseconds.\<close>

definition MintCredential :: "gotime \<Rightarrow> MintRequest \<Rightarrow> Core \<Rightarrow> Core \<times> Credential reply" where
  "MintCredential now req c =
     with_repo c (mr_target req) (\<lambda>r.
       if mr_access req \<noteq> AccessRead \<and> mr_access req \<noteq> AccessWrite
       then (c, fails CodeValidation ''access must be read or write'')
       else if cap_credential_model (caps c) = CredentialStatic
       then (c, Answers \<lparr>cd_username = ''oauth2'', cd_secret = StaticSecret, cd_expires_at = 0\<rparr>)
       else
         let t = wrap64 (mr_ttl_seconds req * 1000000000);
             ttl = (if t \<le> 0 \<or> hour < t then tenMinutes else t);
             (secret, c') = next_id (''tok-'' @ mr_access req) c
         in (c', Answers \<lparr>cd_username = ''x-access-token'', cd_secret = secret, cd_expires_at = now + ttl\<rparr>))"

definition GetActorPermission :: "ActorPermissionRequest \<Rightarrow> Core \<Rightarrow> Core \<times> Permission reply" where
  "GetActorPermission req c =
     with_repo c (ap_target req) (\<lambda>r.
       case rs_perms r (ap_login req) of
         Some p \<Rightarrow> (c, Answers p)
       | None \<Rightarrow> (c, Answers PermissionNone))"

definition flag :: "(string \<rightharpoonup> bool) \<Rightarrow> string \<Rightarrow> bool" where
  "flag m k \<longleftrightarrow> m k = Some True"

definition GetBranchProtection :: "BranchProtectionRequest \<Rightarrow> Core \<Rightarrow> Core \<times> BranchProtection reply" where
  "GetBranchProtection req c =
     with_repo c (bq_target req) (\<lambda>r.
       (c, Answers \<lparr>bp_protected = flag (rs_protected r) (bq_branch req),
                    bp_requires_review = flag (rs_protected r) (bq_branch req),
                    bp_requires_status_checks = False, bp_allows_force_push = False\<rparr>))"

section \<open>Reads\<close>

definition GetChangeRequest :: "CRRequest \<Rightarrow> Core \<Rightarrow> Core \<times> ChangeRequest reply" where
  "GetChangeRequest req c = with_cr c (crq_target req) (crq_number req) (\<lambda>r x. (c, Answers (crs_cr x)))"

definition ListChangedFiles :: "PagedCRRequest \<Rightarrow> Core \<Rightarrow> Core \<times> ChangedFilePage reply" where
  "ListChangedFiles req c =
     with_cr c (pcr_target req) (pcr_number req) (\<lambda>r x.
       let start = fst (atoi (pcr_cursor req));
           stop = wrap64 (start + 2);
           n = int (length (crs_files x));
           nextc = (if stop < n then itoa stop else '''');
           stop' = (if stop < n then stop else n)
       in if start < n
          then (case go_slice (crs_files x) start stop' of
                  None \<Rightarrow> (c, Panics)
                | Some fs \<Rightarrow> (c, Answers \<lparr>cfp_items = fs, cfp_next_cursor = nextc\<rparr>))
          else (c, Answers \<lparr>cfp_items = [], cfp_next_cursor = nextc\<rparr>))"

definition diff_of_file :: "ChangedFile \<Rightarrow> string" where
  "diff_of_file f =
     ''diff --git a/'' @ cf_path f @ '' b/'' @ cf_path f @ nl @ ''--- a/'' @ cf_path f @ nl @
     ''+++ b/'' @ cf_path f @ nl @ ''@@ -1,1 +1,'' @ itoa (cf_additions f) @ '' @@'' @ nl @
     ''+changed '' @ cf_path f @ nl"

definition GetDiff :: "DiffRequest \<Rightarrow> Core \<Rightarrow> Core \<times> Diff reply" where
  "GetDiff req c =
     with_cr c (dr_target req) (dr_number req) (\<lambda>r x.
       let fs = filter (\<lambda>f. \<not> (dr_path req \<noteq> '''' \<and> cf_path f \<noteq> dr_path req)) (crs_files x);
           out = concat (map diff_of_file fs)
       in if \<not> (dr_path req = '''' \<or> fs \<noteq> [])
          then (c, fails CodeNotFound ''file is not part of this change request'')
          else if 0 < dr_max_bytes req \<and> dr_max_bytes req < int (length out)
          then (c, Answers \<lparr>df_text = cutHead out (nat (dr_max_bytes req)), df_truncated = True\<rparr>)
          else (c, Answers \<lparr>df_text = out, df_truncated = False\<rparr>))"

definition ListThreads :: "PagedCRRequest \<Rightarrow> Core \<Rightarrow> Core \<times> ThreadPage reply" where
  "ListThreads req c =
     with_cr c (pcr_target req) (pcr_number req) (\<lambda>r x.
       (c, Answers \<lparr>thp_items = crs_threads x, thp_next_cursor = ''''\<rparr>))"

definition subjectKey :: "SubjectRef \<Rightarrow> string" where
  "subjectKey s = sr_kind s @ ''#'' @ sr_number s"

definition comments_of :: "repoState \<Rightarrow> string \<Rightarrow> Comment list" where
  "comments_of r k = (case rs_comments r k of Some cs \<Rightarrow> cs | None \<Rightarrow> [])"

definition ListComments :: "ListCommentsRequest \<Rightarrow> Core \<Rightarrow> Core \<times> CommentPage reply" where
  "ListComments req c =
     with_repo c (lc_target req) (\<lambda>r.
       (c, Answers \<lparr>cop_items = comments_of r (subjectKey (lc_subject req)), cop_next_cursor = ''''\<rparr>))"

definition GetIssue :: "IssueRequest \<Rightarrow> Core \<Rightarrow> Core \<times> Issue reply" where
  "GetIssue req c =
     with_repo c (iq_target req) (\<lambda>r.
       case map_of (rs_issues r) (iq_number req) of
         None \<Rightarrow> (c, fails CodeNotFound ''issue not found'')
       | Some i \<Rightarrow> (c, Answers i))"

definition GetChecks :: "ChecksRequest \<Rightarrow> Core \<Rightarrow> Core \<times> Check list reply" where
  "GetChecks req c =
     with_repo c (chq_target req) (\<lambda>r.
       (c, Answers (case map_of (rs_checks r) (chq_ref req) of Some l \<Rightarrow> l | None \<Rightarrow> [])))"

definition check_log :: string where
  "check_log = ''step 1 ok'' @ nl @ ''step 2 FAILED: expected 1, got 2'' @ nl"

definition GetCheckLogs :: "CheckLogsRequest \<Rightarrow> Core \<Rightarrow> Core \<times> Logs reply" where
  "GetCheckLogs req c =
     with_repo c (cl_target req) (\<lambda>r.
       if list_ex (\<lambda>(sha, l). list_ex (\<lambda>ch. ch_id ch = cl_check_id req) l) (rs_checks r)
       then (if 0 < cl_tail_bytes req \<and> cl_tail_bytes req < int (length check_log)
             then (c, Answers \<lparr>lg_text = cutTail check_log (nat (cl_tail_bytes req)), lg_truncated = True\<rparr>)
             else (c, Answers \<lparr>lg_text = check_log, lg_truncated = False\<rparr>))
       else (c, fails CodeNotFound ''check not found''))"

section \<open>Writes\<close>

definition new_cr :: "OpenCRRequest \<Rightarrow> string \<Rightarrow> ChangeRequest" where
  "new_cr req n =
     \<lparr>cr_number = n, cr_title = oc_title req, cr_body = oc_body req, cr_state = CROpen, cr_draft = oc_draft req,
      cr_head = \<lparr>br_ref = oc_head req, br_sha = ''sha-'' @ n, br_repo = rr_full_path (tg_repo (oc_target req)),
                 br_from_fork = False\<rparr>,
      cr_base = \<lparr>br_ref = oc_base req, br_sha = '''', br_repo = '''', br_from_fork = False\<rparr>,
      cr_author = IdentityHandle,
      cr_url = ''https://'' @ Host @ ''/'' @ rr_full_path (tg_repo (oc_target req)) @ ''/pulls/'' @ n,
      cr_labels = oc_labels req, cr_reviewers = oc_reviewers req, cr_updated_at = 0\<rparr>"

definition open_for_head :: "repoState \<Rightarrow> string \<Rightarrow> bool" where
  "open_for_head r h \<longleftrightarrow>
     list_ex (\<lambda>(n, x). br_ref (cr_head (crs_cr x)) = h \<and> cr_state (crs_cr x) = CROpen) (rs_crs r)"

definition OpenChangeRequest :: "OpenCRRequest \<Rightarrow> Core \<Rightarrow> Core \<times> ChangeRequest reply" where
  "OpenChangeRequest req c =
     with_repo c (oc_target req) (\<lambda>r.
       if trim_space (oc_title req) = '''' \<or> oc_head req = '''' \<or> oc_base req = ''''
       then (c, fails CodeValidation ''title, head and base are required'')
       else if oc_draft req \<and> \<not> cap_draft_change_requests (caps c)
       then (c, fails CodeValidation ''draft change requests are not supported'')
       else once_cr c (idemKey ''open'' (oc_idempotency_key req)) (\<lambda>c.
         if open_for_head r (oc_head req)
         then (c, fails CodeConflict ''an open change request already exists for this branch'')
         else
           let n = itoa (100 + (rs_nextID r + 1));
               x = \<lparr>crs_cr = new_cr req n, crs_files = [], crs_threads = []\<rparr>
           in (put_cr (oc_target req) n x (r\<lparr>rs_nextID := rs_nextID r + 1\<rparr>) c, Answers (crs_cr x))))"

definition set_opt :: "'a option \<Rightarrow> ('a \<Rightarrow> 's \<Rightarrow> 's) \<Rightarrow> 's \<Rightarrow> 's" where
  "set_opt v upd s = (case v of Some a \<Rightarrow> upd a s | None \<Rightarrow> s)"

definition UpdateChangeRequest :: "UpdateCRRequest \<Rightarrow> Core \<Rightarrow> Core \<times> ChangeRequest reply" where
  "UpdateChangeRequest req c =
     with_cr c (uc_target req) (uc_number req) (\<lambda>r x.
       let y = set_opt (uc_draft req) (\<lambda>v. cr_draft_update (\<lambda>_. v))
                 (set_opt (uc_body req) (\<lambda>v. cr_body_update (\<lambda>_. v))
                   (set_opt (uc_title req) (\<lambda>v. cr_title_update (\<lambda>_. v)) (crs_cr x)));
           store = (\<lambda>z. put_cr (uc_target req) (uc_number req) (x\<lparr>crs_cr := z\<rparr>) r c)
       in case uc_state req of
            Some s \<Rightarrow>
              (if s \<noteq> CROpen \<and> s \<noteq> CRClosed
               then (store y, fails CodeValidation ''state must be open or closed'')
               else (store (y\<lparr>cr_state := s\<rparr>), Answers (y\<lparr>cr_state := s\<rparr>)))
          | None \<Rightarrow> (store y, Answers y))"

definition bot_comment :: "string \<Rightarrow> string \<Rightarrow> Comment" where
  "bot_comment i body = \<lparr>co_id = i, co_author = IdentityHandle, co_author_kind = ActorBot, co_body = body,
     co_url = '''', co_created_at = 0\<rparr>"

text \<open>The check both \<^verbatim>\<open>Comment\<close> and \<^verbatim>\<open>Full.subject\<close> make on a subject.\<close>

definition missing_subject :: "repoState \<Rightarrow> SubjectRef \<Rightarrow> string option" where
  "missing_subject r s =
     (if sr_kind s = SubjectChangeRequest
      then (if map_of (rs_crs r) (sr_number s) = None then Some ''change request not found'' else None)
      else (if map_of (rs_issues r) (sr_number s) = None then Some ''issue not found'' else None))"

definition PostComment :: "CommentRequest \<Rightarrow> Core \<Rightarrow> Core \<times> CommentResult reply" where
  "PostComment req c =
     with_repo c (cmq_target req) (\<lambda>r.
       if trim_space (cmq_body req) = '''' then (c, fails CodeValidation ''comment body is required'')
       else case missing_subject r (cmq_subject req) of
         Some msg \<Rightarrow> (c, fails CodeNotFound msg)
       | None \<Rightarrow>
           once_comment c (idemKey ''comment'' (cmq_idempotency_key req)) (\<lambda>c.
             let (i, c') = next_id ''cm'' c; k = subjectKey (cmq_subject req)
             in (put_repo (cmq_target req)
                   (r\<lparr>rs_comments := (rs_comments r)(k \<mapsto> comments_of r k @ [bot_comment i (cmq_body req)])\<rparr>) c',
                 Answers \<lparr>cmr_id = i, cmr_url = ''https://'' @ Host @ ''/c/'' @ i\<rparr>)))"

text \<open>Changing the first thread with an id, the one the loop over \<^verbatim>\<open>x.threads\<close> stops at.\<close>

fun update_thread :: "string \<Rightarrow> (Thread \<Rightarrow> Thread) \<Rightarrow> Thread list \<Rightarrow> Thread list" where
  "update_thread i f [] = []"
| "update_thread i f (t # ts) = (if th_id t = i then f t # ts else t # update_thread i f ts)"

definition has_thread :: "crState \<Rightarrow> string \<Rightarrow> bool" where
  "has_thread x i \<longleftrightarrow> list_ex (\<lambda>t. th_id t = i) (crs_threads x)"

definition ReplyThread :: "ReplyThreadRequest \<Rightarrow> Core \<Rightarrow> Core \<times> CommentResult reply" where
  "ReplyThread req c =
     with_cr c (rt_target req) (rt_number req) (\<lambda>r x.
       if has_thread x (rt_thread_id req)
       then once_comment c (idemKey ''reply'' (rt_idempotency_key req)) (\<lambda>c.
         let (i, c') = next_id ''cm'' c;
             x' = x\<lparr>crs_threads := update_thread (rt_thread_id req)
                      (\<lambda>t. t\<lparr>th_comments := th_comments t @ [bot_comment i (rt_body req)]\<rparr>) (crs_threads x)\<rparr>
         in (put_cr (rt_target req) (rt_number req) x' r c', Answers \<lparr>cmr_id = i, cmr_url = ''''\<rparr>))
       else (c, fails CodeNotFound ''thread not found''))"

definition off_diff :: "crState \<Rightarrow> InlineComment \<Rightarrow> bool" where
  "off_diff x ic \<longleftrightarrow> ic_path ic \<notin> set (map cf_path (crs_files x)) \<or> ic_line ic \<le> 0"

definition SubmitReview :: "(string \<Rightarrow> string) \<Rightarrow> SubmitReviewRequest \<Rightarrow> Core \<Rightarrow> Core \<times> ReviewResult reply" where
  "SubmitReview quote req c =
     with_cr c (sv_target req) (sv_number req) (\<lambda>r x.
       if sv_verdict req \<notin> {VerdictComment, VerdictApprove, VerdictRequestChanges}
       then (c, fails CodeValidation (''unknown verdict '' @ quote (sv_verdict req)))
       else if sv_verdict req = VerdictApprove \<and> cr_author (crs_cr x) = IdentityHandle
       then (c, fails CodeConflict ''an author cannot approve their own change request'')
       else if sv_verdict req = VerdictRequestChanges \<and> trim_space (sv_summary req) = '''' \<and> sv_comments req = []
       then (c, fails CodeValidation ''requesting changes needs a summary or comments'')
       else case find (off_diff x) (sv_comments req) of
         Some ic \<Rightarrow> (c, fails CodeValidation
           (''inline comment on '' @ ic_path ic @ '':'' @ itoa (ic_line ic) @ '' is not on the diff''))
       | None \<Rightarrow>
           once_review c (idemKey ''review'' (sv_idempotency_key req)) (\<lambda>c.
             let (i, c') = next_id ''rv'' c
             in (c', Answers \<lparr>rv_id = i, rv_url = ''https://'' @ Host @ ''/r/'' @ i,
                              rv_posted = int (length (sv_comments req)),
                              rv_emulated = (\<not> cap_batch_review (caps c))\<rparr>)))"

definition SetStatus :: "SetStatusRequest \<Rightarrow> Core \<Rightarrow> Core \<times> StatusResult reply" where
  "SetStatus req c =
     with_repo c (st_target req) (\<lambda>r.
       if st_status_ref req = ''''
       then (let (ref, c') = next_id ''st'' c
             in (put_repo (st_target req) (r\<lparr>rs_statuses := (rs_statuses r)(ref \<mapsto> req)\<rparr>) c',
                 Answers \<lparr>str_status_ref = ref\<rparr>))
       else if rs_statuses r (st_status_ref req) = None then (c, fails CodeNotFound ''status not found'')
       else (put_repo (st_target req) (r\<lparr>rs_statuses := (rs_statuses r)(st_status_ref req \<mapsto> req)\<rparr>) c,
             Answers \<lparr>str_status_ref = st_status_ref req\<rparr>))"

definition StatusOf :: "string \<Rightarrow> string \<Rightarrow> Core \<Rightarrow> SetStatusRequest option" where
  "StatusOf path ref c =
     (case map_of (repos c) path of None \<Rightarrow> None | Some r \<Rightarrow> rs_statuses r ref)"

end
