(* ===== verification/FakeFull.thy ===== *)
theory FakeFull
  imports FakeCore
begin

text \<open>
  \<^verbatim>\<open>gitprovider/fakeprovider/variants.go\<close>: the two providers of the package and the
  optional operations the full one adds.
\<close>

section \<open>Capabilities of the two providers\<close>

definition minimalCapabilities :: Capabilities where
  "minimalCapabilities = zero_Capabilities\<lparr>
     cap_identity_kinds := [IdentityToken], cap_credential_model := CredentialStatic,
     cap_webhook_scope := WebhookRepo, cap_status_kind := StatusComment,
     cap_triggers := [TriggerMention], cap_nested_paths := True\<rparr>"

definition NewMinimal :: Core where
  "NewMinimal = newCore minimalCapabilities"

definition fullCapabilities :: Capabilities where
  "fullCapabilities = zero_Capabilities\<lparr>
     cap_identity_kinds := [IdentityApp, IdentityBotUser], cap_credential_model := CredentialEphemeral,
     cap_webhook_scope := WebhookApp, cap_status_kind := StatusCheckRun, cap_triggers := AllTriggerKinds,
     cap_multiple_identities := True, cap_issue_list := True, cap_resolve_threads := True,
     cap_file_read := True, cap_code_search := True, cap_labels := True, cap_reviewer_requests := True,
     cap_assignees := True, cap_merge := True, cap_rerun_checks := True, cap_reactions := True,
     cap_branches := True, cap_webhook_management := True, cap_identity_deletion := True,
     cap_identity_description := True, cap_access_grants := True, cap_batch_review := True,
     cap_idempotent_writes := True, cap_hidden_markers := True, cap_fork_change_requests := True,
     cap_draft_change_requests := True, cap_ci_config_globs := [''.fake-ci/**'']\<rparr>"

definition NewFull :: Core where
  "NewFull = newCore fullCapabilities"

section \<open>Branches\<close>

definition contains_any :: "string \<Rightarrow> string \<Rightarrow> bool" where
  "contains_any s chars \<longleftrightarrow> list_ex (\<lambda>c. c \<in> set chars) s"

text \<open>
  The loop over the runes only looks for ASCII control characters, which are single
  bytes in every string.
\<close>

definition validBranchName :: "string \<Rightarrow> bool" where
  "validBranchName name \<longleftrightarrow>
     \<not> (name = '''' \<or> name = ''@'' \<or> has_prefix name ''-'' \<or> has_prefix name ''/'' \<or>
        has_suffix name ''/'' \<or> has_suffix name ''.'' \<or>
        contains name ''..'' \<or> contains name ''//'' \<or> contains name (''@'' @ ''{'')) \<and>
     \<not> list_ex (\<lambda>c. byte_val c < 32 \<or> byte_val c = 127) name \<and>
     \<not> contains_any name (''~^:?*['' @ [CHR 0x20, CHR 0x5C]) \<and>
     list_all (\<lambda>part. \<not> (has_prefix part ''.'' \<or> has_suffix part ''.lock'')) (split name ''/'')"

definition branch_info :: "repoState \<Rightarrow> string \<Rightarrow> string \<Rightarrow> BranchInfo" where
  "branch_info r name sha = \<lparr>bi_name = name, bi_sha = sha,
     bi_url = ''https://'' @ Host @ ''/'' @ rr_full_path (rs_ref r) @ ''/tree/'' @ name\<rparr>"

definition GetBranch :: "GetBranchRequest \<Rightarrow> Core \<Rightarrow> Core \<times> BranchInfo reply" where
  "GetBranch req c =
     with_repo c (gb_target req) (\<lambda>r.
       if gb_name req = '''' then (c, fails CodeValidation ''branch name is required'')
       else case rs_branches r (gb_name req) of
         None \<Rightarrow> (c, fails CodeNotFound ''branch not found'')
       | Some sha \<Rightarrow> (c, Answers (branch_info r (gb_name req) sha)))"

definition CreateBranch :: "CreateBranchRequest \<Rightarrow> Core \<Rightarrow> Core \<times> BranchInfo reply" where
  "CreateBranch req c =
     with_repo c (cb_target req) (\<lambda>r.
       if \<not> validBranchName (cb_name req) then (c, fails CodeValidation ''invalid branch name'')
       else once_branch c (idemKey ''branch'' (cb_idempotency_key req)) (\<lambda>c.
         let frm = (if cb_from req = '''' then rr_default_branch (rs_ref r) else cb_from req)
         in case rs_branches r frm of
              None \<Rightarrow> (c, fails CodeNotFound ''source branch not found'')
            | Some sha \<Rightarrow>
                (if rs_branches r (cb_name req) \<noteq> None then (c, fails CodeConflict ''branch already exists'')
                 else (put_repo (cb_target req) (r\<lparr>rs_branches := (rs_branches r)(cb_name req \<mapsto> sha)\<rparr>) c,
                       Answers (branch_info r (cb_name req) sha)))))"

section \<open>Issues\<close>

definition ListIssues :: "ListIssuesRequest \<Rightarrow> Core \<Rightarrow> Core \<times> IssuePage reply" where
  "ListIssues req c =
     with_repo c (li_target req) (\<lambda>r.
       let state = (if li_state req = '''' then ''open'' else li_state req)
       in if state \<notin> {''open'', ''closed'', ''all''} then (c, fails CodeValidation ''invalid issue state'')
          else let (start, ok) = (if li_cursor req = '''' then (0, True) else atoi (li_cursor req))
          in if \<not> ok \<or> start < 0 then (c, fails CodeValidation ''invalid cursor'')
             else let items = sort_key iss_number
                        (filter (\<lambda>i. state = ''all'' \<or> iss_state i = state) (map snd (rs_issues r)));
                      n = int (length items)
                  in if start < n
                     then (let stop = start + 2
                           in if stop < n
                              then (c, Answers \<lparr>ip_items = take 2 (drop (nat start) items), ip_next_cursor = itoa stop\<rparr>)
                              else (c, Answers \<lparr>ip_items = drop (nat start) items, ip_next_cursor = ''''\<rparr>))
                     else (c, Answers \<lparr>ip_items = [], ip_next_cursor = ''''\<rparr>))"

section \<open>Threads, files, code\<close>

definition ResolveThread :: "ResolveThreadRequest \<Rightarrow> Core \<Rightarrow> Core \<times> unit reply" where
  "ResolveThread req c =
     with_cr c (rth_target req) (rth_number req) (\<lambda>r x.
       if has_thread x (rth_thread_id req)
       then (put_cr (rth_target req) (rth_number req)
               (x\<lparr>crs_threads := update_thread (rth_thread_id req)
                   (\<lambda>t. t\<lparr>th_resolved := rth_resolved req\<rparr>) (crs_threads x)\<rparr>) r c, Answers ())
       else (c, fails CodeNotFound ''thread not found''))"

definition GetFile :: "FileRequest \<Rightarrow> Core \<Rightarrow> Core \<times> File reply" where
  "GetFile req c =
     with_repo c (fr_target req) (\<lambda>r.
       case map_of (rs_files r) (fr_path req) of
         None \<Rightarrow> (c, fails CodeNotFound ''file not found'')
       | Some b \<Rightarrow>
           (if 0 < fr_max_bytes req \<and> fr_max_bytes req < int (length b)
            then (c, Answers \<lparr>fi_path = fr_path req, fi_content = take (nat (fr_max_bytes req)) b,
                              fi_sha = '''', fi_truncated = True\<rparr>)
            else (c, Answers \<lparr>fi_path = fr_path req, fi_content = b, fi_sha = ''blob-'' @ fr_path req,
                              fi_truncated = False\<rparr>)))"

definition SearchCode :: "CodeSearchRequest \<Rightarrow> Core \<Rightarrow> Core \<times> CodeHits reply" where
  "SearchCode req c =
     with_repo c (csq_target req) (\<lambda>r.
       if trim_space (csq_query req) = '''' then (c, fails CodeValidation ''query is required'')
       else (c, Answers \<lparr>hits_items =
         map (\<lambda>(p, b). \<lparr>hit_path = p, hit_line = 1, hit_snippet = csq_query req\<rparr>)
           (filter (\<lambda>(p, b). contains b (csq_query req)) (rs_files r))\<rparr>))"

section \<open>Labels and people\<close>

definition with_subject :: "Core \<Rightarrow> Target \<Rightarrow> SubjectRef \<Rightarrow> (repoState \<Rightarrow> Core \<times> 'a reply) \<Rightarrow> Core \<times> 'a reply" where
  "with_subject c t s k =
     with_repo c t (\<lambda>r. case missing_subject r s of
       Some msg \<Rightarrow> (c, fails CodeNotFound msg)
     | None \<Rightarrow> k r)"

definition update_cr :: "Target \<Rightarrow> string \<Rightarrow> (ChangeRequest \<Rightarrow> ChangeRequest) \<Rightarrow> repoState \<Rightarrow> Core \<Rightarrow> Core" where
  "update_cr t n f r c =
     (let x = the (map_of (rs_crs r) n) in put_cr t n (x\<lparr>crs_cr := f (crs_cr x)\<rparr>) r c)"

definition update_issue :: "Target \<Rightarrow> string \<Rightarrow> (Issue \<Rightarrow> Issue) \<Rightarrow> repoState \<Rightarrow> Core \<Rightarrow> Core" where
  "update_issue t n f r c =
     put_repo t (r\<lparr>rs_issues := AList.update n (f (the (map_of (rs_issues r) n))) (rs_issues r)\<rparr>) c"

definition AddLabels :: "LabelsRequest \<Rightarrow> Core \<Rightarrow> Core \<times> unit reply" where
  "AddLabels req c =
     with_subject c (lb_target req) (lb_subject req) (\<lambda>r.
       (if sr_kind (lb_subject req) = SubjectChangeRequest
        then update_cr (lb_target req) (sr_number (lb_subject req))
               (\<lambda>x. x\<lparr>cr_labels := cr_labels x @ lb_labels req\<rparr>) r c
        else update_issue (lb_target req) (sr_number (lb_subject req))
               (\<lambda>i. i\<lparr>iss_labels := iss_labels i @ lb_labels req\<rparr>) r c,
        Answers ()))"

definition RequestReviewers :: "PeopleRequest \<Rightarrow> Core \<Rightarrow> Core \<times> unit reply" where
  "RequestReviewers req c =
     with_subject c (pp_target req) (pp_subject req) (\<lambda>r.
       if sr_kind (pp_subject req) \<noteq> SubjectChangeRequest
       then (c, fails CodeValidation ''reviewers apply to change requests'')
       else (update_cr (pp_target req) (sr_number (pp_subject req))
               (\<lambda>x. x\<lparr>cr_reviewers := cr_reviewers x @ pp_logins req\<rparr>) r c, Answers ()))"

definition SetAssignees :: "PeopleRequest \<Rightarrow> Core \<Rightarrow> Core \<times> unit reply" where
  "SetAssignees req c =
     with_subject c (pp_target req) (pp_subject req) (\<lambda>r.
       (if sr_kind (pp_subject req) = SubjectIssue
        then update_issue (pp_target req) (sr_number (pp_subject req))
               (\<lambda>i. i\<lparr>iss_assignees := pp_logins req\<rparr>) r c
        else c,
        Answers ()))"

section \<open>Merging and checks\<close>

definition MergeChangeRequest :: "MergeRequest \<Rightarrow> Core \<Rightarrow> Core \<times> MergeResult reply" where
  "MergeChangeRequest req c =
     with_cr c (mg_target req) (mg_number req) (\<lambda>r x.
       if mg_expected_head_sha req = '''' then (c, fails CodeValidation ''expected_head_sha is required'')
       else if br_sha (cr_head (crs_cr x)) \<noteq> mg_expected_head_sha req
       then (c, fails CodeConflict ''head moved since it was reviewed'')
       else if cr_state (crs_cr x) \<noteq> CROpen
       then (c, fails CodeConflict ''change request is not open'')
       else (put_cr (mg_target req) (mg_number req) (x\<lparr>crs_cr := (crs_cr x)\<lparr>cr_state := CRMerged\<rparr>\<rparr>) r c,
             Answers \<lparr>mgr_sha = ''merge-'' @ br_sha (cr_head (crs_cr x))\<rparr>))"

definition rerun_check :: "string \<Rightarrow> Check \<Rightarrow> Check" where
  "rerun_check i ch =
     (if ch_state ch = CheckFailure \<and> (i = '''' \<or> ch_id ch = i) then ch\<lparr>ch_state := CheckPending\<rparr> else ch)"

definition RerunChecks :: "RerunRequest \<Rightarrow> Core \<Rightarrow> Core \<times> unit reply" where
  "RerunChecks req c =
     with_repo c (rru_target req) (\<lambda>r.
       case map_of (rs_checks r) (rru_ref req) of
         None \<Rightarrow> (c, fails CodeNotFound ''no checks for this ref'')
       | Some l \<Rightarrow>
           (put_repo (rru_target req)
              (r\<lparr>rs_checks := AList.update (rru_ref req) (map (rerun_check (rru_check_id req)) l) (rs_checks r)\<rparr>) c,
            Answers ()))"

definition React :: "ReactRequest \<Rightarrow> Core \<Rightarrow> Core \<times> unit reply" where
  "React req c =
     with_repo c (re_target req) (\<lambda>r.
       if re_emoji req \<notin> {''eyes'', ''rocket'', ''confused'', ''+1''}
       then (c, fails CodeValidation ''unsupported emoji'')
       else (put_repo (re_target req)
               (r\<lparr>rs_reactions := rs_reactions r @ [re_comment_id req @ '':'' @ re_emoji req]\<rparr>) c, Answers ()))"

section \<open>Webhooks\<close>

definition EnsureWebhook :: "EnsureWebhookRequest \<Rightarrow> Core \<Rightarrow> Core \<times> WebhookRef reply" where
  "EnsureWebhook req c =
     with_repo c (ew_target req) (\<lambda>r.
       if ew_url req = '''' then (c, fails CodeValidation ''url is required'')
       else case find (\<lambda>(i, u). u = ew_url req) (rs_hooks r) of
         Some (i, _) \<Rightarrow> (c, Answers \<lparr>wh_id = i\<rparr>)
       | None \<Rightarrow>
           (let (i, c') = next_id ''hook'' c
            in (put_repo (ew_target req) (r\<lparr>rs_hooks := AList.update i (ew_url req) (rs_hooks r)\<rparr>) c',
                Answers \<lparr>wh_id = i\<rparr>)))"

definition RemoveWebhook :: "RemoveWebhookRequest \<Rightarrow> Core \<Rightarrow> Core \<times> unit reply" where
  "RemoveWebhook req c =
     with_repo c (rw_target req) (\<lambda>r.
       (put_repo (rw_target req) (r\<lparr>rs_hooks := AList.delete (wh_id (rw_webhook req)) (rs_hooks r)\<rparr>) c,
        Answers ()))"

section \<open>Identities and access grants\<close>

definition DeleteIdentity :: "DeleteIdentityRequest \<Rightarrow> Core \<Rightarrow> Core \<times> unit reply" where
  "DeleteIdentity req c = (c\<lparr>Deleted := Deleted c @ [ir_id (di_identity req)]\<rparr>, Answers ())"

definition DescribeIdentity :: "DescribeIdentityRequest \<Rightarrow> Core \<Rightarrow> Core \<times> Identity reply" where
  "DescribeIdentity req c =
     (if ir_id (de_identity req) \<noteq> IdentityID then (c, fails CodeNotFound ''identity not found'')
      else (c, Answers seedIdentity))"

text \<open>\<^verbatim>\<open>url.QueryEscape\<close>.\<close>

definition upper_hex_digit :: "nat \<Rightarrow> char" where
  "upper_hex_digit d = (if d < 10 then char_of (48 + d) else char_of (55 + d))"

definition query_byte :: "char \<Rightarrow> string" where
  "query_byte c =
     (let n = byte_val c
      in if is_digit c \<or> 65 \<le> n \<and> n \<le> 90 \<or> 97 \<le> n \<and> n \<le> 122 \<or> c \<in> set ''-_.~'' then [c]
         else if n = 32 then ''+''
         else [CHR ''%'', upper_hex_digit (n div 16), upper_hex_digit (n mod 16)])"

definition query_escape :: "string \<Rightarrow> string" where
  "query_escape s = concat (map query_byte s)"

definition BeginAccessGrant :: "BeginAccessRequest \<Rightarrow> Core \<Rightarrow> Core \<times> SetupStep reply" where
  "BeginAccessGrant req c =
     (if ir_id (ba_identity req) \<noteq> IdentityID then (c, fails CodeNotFound ''identity not found'')
      else if ba_callback_url req = '''' then (c, fails CodeValidation ''callback_url is required'')
      else let (state, c') = next_id ''grant'' c
           in (c'\<lparr>grants := (grants c')(state \<mapsto> False)\<rparr>,
               Answers (SetupStep StepRedirect (''https://fake.example/grant?owner='' @ query_escape (ba_owner req))
                 [] [] '''' state None)))"

definition CompleteAccessGrant :: "CompleteAccessRequest \<Rightarrow> Core \<Rightarrow> Core \<times> AccessGrant reply" where
  "CompleteAccessGrant req c =
     (if ir_id (ca_identity req) \<noteq> IdentityID then (c, fails CodeNotFound ''identity not found'')
      else if ca_state req = '''' then (c, fails CodeValidation ''state is required'')
      else if grants c (ca_state req) \<noteq> Some False
      then (c, fails CodeForbidden ''unknown or already used state'')
      else (c\<lparr>grants := (grants c)(ca_state req \<mapsto> True)\<rparr>,
            Answers \<lparr>ag_owner = param (ca_params req) ''owner''\<rparr>))"

end
