(* ===== verification/FakeWebhook.thy ===== *)
theory FakeWebhook
  imports FakeCore
begin

text \<open>
  \<^verbatim>\<open>fake.go\<close>, webhooks: the delivery as the fake's platform sends it, its signature, and
  \<^verbatim>\<open>VerifyAndParseWebhook\<close>.  HMAC-SHA256 is the parameter \<open>mac\<close> (of the key and the
  body) and the decoding of the JSON body the parameter \<open>parse\<close>.
\<close>

section \<open>Deliveries\<close>

record fakeHook =
  fh_delivery :: string
  fh_type :: string
  fh_action :: string
  fh_repo :: string
  fh_subject :: string
  fh_number :: string
  fh_actor :: string
  fh_actor_kind :: string
  fh_text :: string
  fh_path :: string
  fh_line :: int
  fh_thread :: string
  fh_comment :: string
  fh_head_ref :: string
  fh_head_sha :: string
  fh_base :: string
  fh_draft :: bool
  fh_label :: string
  fh_check :: string
  fh_created :: bool
  fh_deleted :: bool
  fh_conclusion :: string
  fh_requested :: string
  fh_assignee :: string

definition hex_encode :: "bytes \<Rightarrow> string" where
  "hex_encode bs = concat (map (\<lambda>b. [hex_digit (byte_val b div 16), hex_digit (byte_val b mod 16)]) bs)"

definition Sign :: "(bytes \<Rightarrow> bytes \<Rightarrow> bytes) \<Rightarrow> bytes \<Rightarrow> string" where
  "Sign mac body = ''sha256='' @ hex_encode (mac WebhookSecret body)"

section \<open>Mentions\<close>

text \<open>
  The expression \<^verbatim>\<open>(?i)(^|[^\w@])@handle\b\<close>.  A word character is an ASCII letter, digit or
  underscore; before the at sign, where the class is folded, also U+017F and U+212A,
  which fold to letters.  The handle is ASCII without \<^verbatim>\<open>k\<close> and \<^verbatim>\<open>s\<close>, the letters with
  such folds.
\<close>

definition word_char :: "char \<Rightarrow> bool" where
  "word_char c \<longleftrightarrow> is_digit c \<or> c = CHR ''_'' \<or> 65 \<le> byte_val c \<and> byte_val c \<le> 90 \<or>
     97 \<le> byte_val c \<and> byte_val c \<le> 122"

definition folded_word_end :: "string \<Rightarrow> bool" where
  "folded_word_end s \<longleftrightarrow> s \<noteq> [] \<and>
     (word_char (last s) \<or> suffix [char_of (197::nat), char_of (191::nat)] s \<or>
      suffix [char_of (226::nat), char_of (132::nat), char_of (170::nat)] s)"

definition mention_at :: "string \<Rightarrow> string \<Rightarrow> nat \<Rightarrow> bool" where
  "mention_at text handle i \<longleftrightarrow>
     text ! i = CHR ''@'' \<and>
     \<not> folded_word_end (take i text) \<and> (i = 0 \<or> text ! (i - 1) \<noteq> CHR ''@'') \<and>
     prefix (map lower_byte handle) (map lower_byte (drop (i + 1) text)) \<and>
     (case drop (i + 1 + length handle) text of
        [] \<Rightarrow> word_char (last handle)
      | c # _ \<Rightarrow> word_char (last handle) \<noteq> word_char c)"

definition mentions :: "string \<Rightarrow> string \<Rightarrow> bool" where
  "mentions text handle \<longleftrightarrow> list_ex (mention_at text handle) [0..<length text]"

section \<open>Events\<close>

definition event_kind :: "string \<Rightarrow> EventKind" where
  "event_kind t = param
     [(''comment'', EventComment), (''change_request'', EventChangeRequest), (''review'', EventReview),
      (''check'', EventCheck), (''push'', EventPush), (''label'', EventLabel),
      (''assignment'', EventAssignment), (''review_request'', EventReviewRequest)] t"

definition hook_subject :: "fakeHook \<Rightarrow> EventSubject option" where
  "hook_subject h =
     (if fh_number h = '''' then None
      else Some \<lparr>es_kind = (if fh_subject h = '''' then SubjectChangeRequest else fh_subject h),
        es_number = fh_number h,
        es_head = (if fh_head_ref h = '''' then None
                   else Some \<lparr>br_ref = fh_head_ref h, br_sha = fh_head_sha h, br_repo = fh_repo h, br_from_fork = False\<rparr>),
        es_base = fh_base h, es_draft = fh_draft h, es_author = '''', es_url = ''''\<rparr>)"

definition hook_addressed :: "Capabilities \<Rightarrow> fakeHook \<Rightarrow> Addressed list" where
  "hook_addressed cs h =
     (if SupportsTrigger cs TriggerMention \<and> mentions (fh_text h) IdentityHandle
      then [\<lparr>ad_identity_id = IdentityID, ad_via = ViaMention\<rparr>] else []) @
     (if SupportsTrigger cs TriggerReviewRequest \<and> fh_requested h = IdentityHandle
      then [\<lparr>ad_identity_id = IdentityID, ad_via = ViaReviewRequest\<rparr>] else []) @
     (if SupportsTrigger cs TriggerAssignment \<and> fh_assignee h = IdentityHandle
      then [\<lparr>ad_identity_id = IdentityID, ad_via = ViaAssignment\<rparr>] else [])"

definition hook_event :: "Capabilities \<Rightarrow> repoState \<Rightarrow> fakeHook \<Rightarrow> EventKind \<Rightarrow> Event" where
  "hook_event cs r h kind =
     \<lparr>ev_id = fh_delivery h @ '':'' @ fh_type h, ev_kind = kind, ev_action = fh_action h, ev_repo = rs_ref r,
      ev_subject = hook_subject h,
      ev_actor = \<lparr>ac_login = fh_actor h, ac_kind = (if fh_actor_kind h = ''bot'' then ActorBot else ActorUser),
        ac_permission = (case rs_perms r (fh_actor h) of Some p \<Rightarrow> p | None \<Rightarrow> '''')\<rparr>,
      ev_text = fh_text h,
      ev_location = (if fh_path h \<noteq> '''' \<or> fh_thread h \<noteq> '''' \<or> fh_comment h \<noteq> ''''
        then Some \<lparr>lo_path = fh_path h, lo_line = fh_line h, lo_thread_id = fh_thread h, lo_comment_id = fh_comment h\<rparr>
        else None),
      ev_check = (if kind = EventCheck
        then Some \<lparr>ci_name = fh_check h, ci_conclusion = fh_conclusion h, ci_run_id = '''', ci_sha = fh_head_sha h\<rparr>
        else None),
      ev_push = (if kind = EventPush
        then Some \<lparr>pu_ref = fh_head_ref h, pu_sha = fh_head_sha h, pu_created = fh_created h, pu_deleted = fh_deleted h\<rparr>
        else None),
      ev_label = fh_label h, ev_addressed = hook_addressed cs h, ev_raw_ref = fh_delivery h\<rparr>"

definition VerifyAndParseWebhook ::
    "(bytes \<Rightarrow> bytes \<Rightarrow> bytes) \<Rightarrow> (bytes \<Rightarrow> fakeHook option) \<Rightarrow> WebhookRequest \<Rightarrow> Core \<Rightarrow> Core \<times> Event list reply" where
  "VerifyAndParseWebhook mac parse req c =
     (if param (wr_headers req) ''x-fake-signature'' \<noteq> Sign mac (wr_body req)
      then (c, fails CodeInvalidSignature ''signature mismatch'')
      else case parse (wr_body req) of
        None \<Rightarrow> (c, fails CodeValidation ''malformed payload'')
      | Some h \<Rightarrow>
          (case map_of (repos c) (fh_repo h) of
             None \<Rightarrow> (c, Answers [])
           | Some r \<Rightarrow>
               (if event_kind (fh_type h) = '''' then (c, Answers [])
                else (c, Answers [hook_event (caps c) r h (event_kind (fh_type h))]))))"

end
