(* ===== verification/FakeInv.thy ===== *)
theory FakeInv
  imports FakeFull FakeWebhook
begin

text \<open>
  The invariant of the fake's world and its preservation by every operation, the step
  relation over all of them, and what each operation leaves alone.
\<close>

section \<open>Identifiers\<close>

lemma digits_inject: "digits m = digits n \<longleftrightarrow> m = n"
  by (metis digits_val_digits)

lemma itoa_nonneg: "0 \<le> i \<Longrightarrow> itoa i = digits (nat i)"
  by (simp add: itoa_def)

lemma itoa_inject: "0 \<le> i \<Longrightarrow> 0 \<le> j \<Longrightarrow> itoa i = itoa j \<longleftrightarrow> i = j"
  by (simp add: itoa_nonneg digits_inject nat_eq_iff)

text \<open>The \<open>k\<close>-th identifier with a prefix, and those handed out up to a counter.\<close>

definition nth_id :: "string \<Rightarrow> int \<Rightarrow> string" where
  "nth_id pre k = pre @ ''-'' @ itoa k"

definition ids_upto :: "string \<Rightarrow> int \<Rightarrow> string set" where
  "ids_upto pre n = nth_id pre ` {1..n}"

lemma next_id_eq: "next_id pre c = (nth_id pre (seq c + 1), c\<lparr>seq := seq c + 1\<rparr>)"
  by (simp add: next_id_def nth_id_def)

lemma nth_id_inject: "0 \<le> i \<Longrightarrow> 0 \<le> j \<Longrightarrow> nth_id pre i = nth_id pre j \<longleftrightarrow> i = j"
  by (simp add: nth_id_def itoa_inject)

lemma fresh_id: "0 \<le> n \<Longrightarrow> nth_id pre (n + 1) \<notin> ids_upto pre n"
  by (auto simp: ids_upto_def nth_id_inject)

lemma ids_upto_mono: "m \<le> n \<Longrightarrow> ids_upto pre m \<subseteq> ids_upto pre n"
  by (auto simp: ids_upto_def)

lemma new_id_mem: "0 \<le> n \<Longrightarrow> nth_id pre (n + 1) \<in> ids_upto pre (n + 1)"
  by (auto simp: ids_upto_def)

section \<open>The invariant\<close>

definition cr_entry_ok :: "int \<Rightarrow> string \<Rightarrow> crState \<Rightarrow> bool" where
  "cr_entry_ok k n x \<longleftrightarrow> cr_number (crs_cr x) = n \<and> (n = SeedCRNumber \<or> n \<in> (\<lambda>k. itoa (100 + k)) ` {1..k}) \<and>
     list_all (\<lambda>f. is_ascii (cf_path f)) (crs_files x)"

definition cr_keys_ok :: "repoState \<Rightarrow> bool" where
  "cr_keys_ok r \<longleftrightarrow> distinct (map fst (rs_crs r)) \<and> 0 \<le> rs_nextID r \<and>
     (\<forall>(n, x) \<in> set (rs_crs r). cr_entry_ok (rs_nextID r) n x)"

definition issue_keys_ok :: "repoState \<Rightarrow> bool" where
  "issue_keys_ok r \<longleftrightarrow> distinct (map fst (rs_issues r)) \<and> (\<forall>(n, i) \<in> set (rs_issues r). iss_number i = n)"

definition hooks_ok :: "int \<Rightarrow> repoState \<Rightarrow> bool" where
  "hooks_ok n r \<longleftrightarrow> distinct (map fst (rs_hooks r)) \<and> distinct (map snd (rs_hooks r)) \<and>
     fst ` set (rs_hooks r) \<subseteq> ids_upto ''hook'' n"

definition wf_repo :: "int \<Rightarrow> string \<Rightarrow> repoState \<Rightarrow> bool" where
  "wf_repo n path r \<longleftrightarrow>
     rr_full_path (rs_ref r) = path \<and> cr_keys_ok r \<and> issue_keys_ok r \<and> hooks_ok n r \<and>
     distinct (map fst (rs_files r)) \<and> distinct (map fst (rs_checks r)) \<and>
     dom (rs_statuses r) \<subseteq> ids_upto ''st'' n"

text \<open>Which type a memoised result has, by the operation its key names.\<close>

definition key_of :: "string \<Rightarrow> string \<Rightarrow> bool" where
  "key_of opn key \<longleftrightarrow> has_prefix key (opn @ '':'')"

definition memo_ok :: "string \<Rightarrow> memo \<Rightarrow> bool" where
  "memo_ok key m \<longleftrightarrow> (case m of
       MemoCR _ \<Rightarrow> key_of ''open'' key
     | MemoComment _ \<Rightarrow> key_of ''comment'' key \<or> key_of ''reply'' key
     | MemoReview _ \<Rightarrow> key_of ''review'' key
     | MemoBranch _ \<Rightarrow> key_of ''branch'' key)"

definition wf_core :: "Core \<Rightarrow> bool" where
  "wf_core c \<longleftrightarrow>
     map fst (repos c) = allRepoPaths \<and>
     (\<forall>(path, r) \<in> set (repos c). wf_repo (seq c) path r) \<and>
     (\<forall>key m. idem c key = Some m \<longrightarrow> memo_ok key m) \<and>
     dom (grants c) \<subseteq> ids_upto ''grant'' (seq c) \<and> 0 \<le> seq c"

lemma wf_repo_mono: "wf_repo m path r \<Longrightarrow> m \<le> n \<Longrightarrow> wf_repo n path r"
  using ids_upto_mono [of m n "''hook''"] ids_upto_mono [of m n "''st''"]
  by (simp add: wf_repo_def hooks_ok_def) (meson subset_trans)

lemma wf_core_distinct: "wf_core c \<Longrightarrow> distinct (map fst (repos c))"
  by (simp add: wf_core_def allRepoPaths_def)

lemma wf_core_repo: "wf_core c \<Longrightarrow> map_of (repos c) path = Some r \<Longrightarrow> wf_repo (seq c) path r"
proof -
  assume wf: "wf_core c" and "map_of (repos c) path = Some r"
  then have "(path, r) \<in> set (repos c)" by (simp add: map_of_SomeD)
  moreover have "\<forall>(path, r) \<in> set (repos c). wf_repo (seq c) path r" using wf by (simp add: wf_core_def)
  ultimately show "wf_repo (seq c) path r" by (metis (mono_tags, lifting) case_prodD)
qed

lemma find_repoD:
  "find_repo c t = Some r \<Longrightarrow> map_of (repos c) (rr_full_path (tg_repo t)) = Some r \<and> ir_id (tg_identity t) = IdentityID"
  by (auto simp: find_repo_def split: option.splits if_splits)

lemma find_repo_wf: "wf_core c \<Longrightarrow> find_repo c t = Some r \<Longrightarrow> wf_repo (seq c) (rr_full_path (tg_repo t)) r"
  using find_repoD wf_core_repo by blast

section \<open>How the store changes\<close>

lemma put_repo_simps [simp]:
  "caps (put_repo t r c) = caps c" "idem (put_repo t r c) = idem c" "seq (put_repo t r c) = seq c"
  "grants (put_repo t r c) = grants c" "Deleted (put_repo t r c) = Deleted c"
  by (simp_all add: put_repo_def)

lemma put_cr_simps [simp]:
  "caps (put_cr t n x r c) = caps c" "idem (put_cr t n x r c) = idem c" "seq (put_cr t n x r c) = seq c"
  "grants (put_cr t n x r c) = grants c" "Deleted (put_cr t n x r c) = Deleted c"
  by (simp_all add: put_cr_def)

lemma lookup_put_repo: "map_of (repos (put_repo t r c)) = (map_of (repos c))(rr_full_path (tg_repo t) \<mapsto> r)"
  by (simp add: put_repo_def AList.update_conv')

lemma find_put_repo: "find_repo c t = Some r0 \<Longrightarrow> find_repo (put_repo t r c) t = Some r"
  by (auto simp: find_repo_def lookup_put_repo split: option.splits if_splits)

lemma keys_update_mem: "k \<in> fst ` set al \<Longrightarrow> map fst (AList.update k v al) = map fst al"
  by (induction al) auto

lemma find_repo_mem: "find_repo c t = Some r \<Longrightarrow> rr_full_path (tg_repo t) \<in> fst ` set (repos c)"
  by (auto dest!: find_repoD map_of_SomeD intro: rev_image_eqI)

lemma find_repo_seq [simp]: "find_repo (c\<lparr>seq := n\<rparr>) t = find_repo c t"
  by (simp add: find_repo_def)

lemma wf_put_repo:
  assumes "wf_core c" "find_repo c t = Some r0" "wf_repo (seq c) (rr_full_path (tg_repo t)) r"
  shows "wf_core (put_repo t r c)"
proof -
  have "map fst (repos (put_repo t r c)) = map fst (repos c)"
    using find_repo_mem [OF assms(2)] by (simp add: put_repo_def keys_update_mem)
  moreover have "wf_repo (seq c) path r'" if "(path, r') \<in> set (repos (put_repo t r c))" for path r'
  proof -
    have "map_of (repos (put_repo t r c)) path = Some r'"
      using that calculation wf_core_distinct [OF assms(1)] by (simp add: map_of_is_SomeI)
    then show ?thesis
      using assms(3) wf_core_repo [OF assms(1)] by (auto simp: lookup_put_repo split: if_splits)
  qed
  ultimately show ?thesis
    using assms(1) by (auto simp: wf_core_def)
qed

lemma wf_seq: "wf_core c \<Longrightarrow> wf_core (c\<lparr>seq := seq c + 1\<rparr>)"
proof -
  assume wf: "wf_core c"
  have "\<forall>(path, r) \<in> set (repos c). wf_repo (seq c + 1) path r"
  proof (clarify)
    fix path r
    assume "(path, r) \<in> set (repos c)"
    then have "wf_repo (seq c) path r" using wf unfolding wf_core_def by (elim conjE) (drule (1) bspec, simp)
    then show "wf_repo (seq c + 1) path r" by (rule wf_repo_mono) simp
  qed
  moreover have "dom (grants c) \<subseteq> ids_upto ''grant'' (seq c + 1)"
    using wf ids_upto_mono [of "seq c" "seq c + 1" "''grant''"] by (simp add: wf_core_def) (meson subset_trans)
  ultimately show ?thesis using wf by (simp add: wf_core_def)
qed

section \<open>Rules for the shared helpers\<close>

text \<open>A property of the state after an operation, through each of the helpers.\<close>

lemma with_repo_rule:
  assumes "P c" "\<And>r. find_repo c t = Some r \<Longrightarrow> P (fst (k r))"
  shows "P (fst (with_repo c t k))"
  using assms by (simp add: with_repo_def split: option.split)

lemma with_cr_rule:
  assumes "P c" "\<And>r x. find_repo c t = Some r \<Longrightarrow> map_of (rs_crs r) n = Some x \<Longrightarrow> P (fst (k r x))"
  shows "P (fst (with_cr c t n k))"
  unfolding with_cr_def
proof (rule with_repo_rule, rule assms(1))
  fix r
  assume r: "find_repo c t = Some r"
  show "P (fst (case map_of (rs_crs r) n of None \<Rightarrow> (c, fails CodeNotFound ''change request not found'') | Some x \<Rightarrow> k r x))"
    by (cases "map_of (rs_crs r) n") (simp_all add: assms r)
qed

lemma with_subject_rule:
  assumes "P c" "\<And>r. find_repo c t = Some r \<Longrightarrow> missing_subject r s = None \<Longrightarrow> P (fst (k r))"
  shows "P (fst (with_subject c t s k))"
  unfolding with_subject_def
proof (rule with_repo_rule, rule assms(1))
  fix r
  assume r: "find_repo c t = Some r"
  show "P (fst (case missing_subject r s of Some msg \<Rightarrow> (c, fails CodeNotFound msg) | None \<Rightarrow> k r))"
    by (cases "missing_subject r s") (simp_all add: assms r)
qed

lemma once_rule:
  assumes "P c" "P (fst (fn c))"
    and "\<And>c' v. fn c = (c', Answers v) \<Longrightarrow> P c' \<Longrightarrow> key \<noteq> '''' \<Longrightarrow> idem c key = None \<Longrightarrow>
      P (c'\<lparr>idem := (idem c')(key \<mapsto> to_memo v)\<rparr>)"
  shows "P (fst (once c key to_memo of_memo fn))"
proof -
  obtain c' r where "fn c = (c', r)" by fastforce
  with assms show ?thesis by (auto simp: once_def split: option.split reply.split)
qed


lemma key_of_idemKey: "idemKey opn k \<noteq> '''' \<Longrightarrow> key_of opn (idemKey opn k)"
  by (auto simp: idemKey_def key_of_def has_prefix_def split: if_splits)


section \<open>Change requests and issues in a repository\<close>

lemma all_update: "\<forall>(m, y) \<in> set al. Q m y \<Longrightarrow> Q n x \<Longrightarrow> \<forall>(m, y) \<in> set (AList.update n x al). Q m y"
  by (induction al) auto

lemma wf_crs:
  assumes wf: "wf_repo s path r" and n: "map_of (rs_crs r) n = Some x"
    and same: "cr_number (crs_cr x') = cr_number (crs_cr x)" "crs_files x' = crs_files x"
  shows "wf_repo s path (r\<lparr>rs_crs := AList.update n x' (rs_crs r)\<rparr>)"
proof -
  have ok: "cr_keys_ok r" using wf by (simp add: wf_repo_def)
  have nx: "(n, x) \<in> set (rs_crs r)" using n by (rule map_of_SomeD)
  then have "cr_entry_ok (rs_nextID r) n x" using ok by (auto simp: cr_keys_ok_def)
  then have "cr_entry_ok (rs_nextID r) n x'" using same by (simp add: cr_entry_ok_def)
  moreover have "n \<in> fst ` set (rs_crs r)" using nx by force
  ultimately have "cr_keys_ok (r\<lparr>rs_crs := AList.update n x' (rs_crs r)\<rparr>)"
    using ok all_update [of "rs_crs r" "cr_entry_ok (rs_nextID r)" n x']
    by (simp add: cr_keys_ok_def keys_update_mem)
  then show ?thesis using wf by (simp add: wf_repo_def issue_keys_ok_def hooks_ok_def)
qed

lemma wf_put_cr:
  assumes "wf_core c" "find_repo c t = Some r" "map_of (rs_crs r) n = Some x"
    "cr_number (crs_cr x') = cr_number (crs_cr x)" "crs_files x' = crs_files x"
  shows "wf_core (put_cr t n x' r c)"
  unfolding put_cr_def using assms find_repo_wf wf_crs by (blast intro: wf_put_repo)

lemma wf_issues:
  assumes wf: "wf_repo s path r" and n: "map_of (rs_issues r) n = Some i" and same: "iss_number i' = iss_number i"
  shows "wf_repo s path (r\<lparr>rs_issues := AList.update n i' (rs_issues r)\<rparr>)"
proof -
  have ok: "issue_keys_ok r" using wf by (simp add: wf_repo_def)
  have ni: "(n, i) \<in> set (rs_issues r)" using n by (rule map_of_SomeD)
  then have "iss_number i' = n" using ok same by (auto simp: issue_keys_ok_def)
  moreover have "n \<in> fst ` set (rs_issues r)" using ni by force
  ultimately have "issue_keys_ok (r\<lparr>rs_issues := AList.update n i' (rs_issues r)\<rparr>)"
    using ok all_update [of "rs_issues r" "\<lambda>n i. iss_number i = n" n i']
    by (simp add: issue_keys_ok_def keys_update_mem)
  then show ?thesis using wf by (simp add: wf_repo_def cr_keys_ok_def hooks_ok_def)
qed

section \<open>What is never lost\<close>

text \<open>
  How the world may change: things are added, and what identifies a thing stays.  The
  title, text, draft flag and state of a change request, the resolution of a thread, the
  assignees of an issue, the state of a check and a registered webhook may change freely.
\<close>

definition thread_evolves :: "Thread \<Rightarrow> Thread \<Rightarrow> bool" where
  "thread_evolves t t' \<longleftrightarrow> th_id t' = th_id t \<and> th_path t' = th_path t \<and> th_line t' = th_line t \<and>
     prefix (th_comments t) (th_comments t')"

definition cr_evolves :: "crState \<Rightarrow> crState \<Rightarrow> bool" where
  "cr_evolves x x' \<longleftrightarrow>
     cr_number (crs_cr x') = cr_number (crs_cr x) \<and> cr_author (crs_cr x') = cr_author (crs_cr x) \<and>
     cr_head (crs_cr x') = cr_head (crs_cr x) \<and> cr_base (crs_cr x') = cr_base (crs_cr x) \<and>
     cr_url (crs_cr x') = cr_url (crs_cr x) \<and> crs_files x' = crs_files x \<and>
     prefix (cr_labels (crs_cr x)) (cr_labels (crs_cr x')) \<and>
     prefix (cr_reviewers (crs_cr x)) (cr_reviewers (crs_cr x')) \<and>
     list_all2 thread_evolves (crs_threads x) (crs_threads x')"

definition issue_evolves :: "Issue \<Rightarrow> Issue \<Rightarrow> bool" where
  "issue_evolves i i' \<longleftrightarrow> iss_number i' = iss_number i \<and> iss_title i' = iss_title i \<and>
     iss_body i' = iss_body i \<and> iss_state i' = iss_state i \<and> iss_author i' = iss_author i \<and>
     iss_url i' = iss_url i \<and> prefix (iss_labels i) (iss_labels i')"

definition repo_evolves :: "repoState \<Rightarrow> repoState \<Rightarrow> bool" where
  "repo_evolves r r' \<longleftrightarrow>
     rs_ref r' = rs_ref r \<and> rs_private r' = rs_private r \<and> rs_perms r' = rs_perms r \<and>
     rs_files r' = rs_files r \<and> rs_protected r' = rs_protected r \<and> rs_nextID r \<le> rs_nextID r' \<and>
     map_evolves cr_evolves (map_of (rs_crs r)) (map_of (rs_crs r')) \<and>
     map_evolves issue_evolves (map_of (rs_issues r)) (map_of (rs_issues r')) \<and>
     (\<forall>k. prefix (comments_of r k) (comments_of r' k)) \<and>
     rs_branches r \<subseteq>\<^sub>m rs_branches r' \<and> dom (rs_statuses r) \<subseteq> dom (rs_statuses r') \<and>
     prefix (rs_reactions r) (rs_reactions r') \<and>
     map_evolves (\<lambda>l l'. map ch_id l' = map ch_id l) (map_of (rs_checks r)) (map_of (rs_checks r'))"

definition evolves :: "Core \<Rightarrow> Core \<Rightarrow> bool" where
  "evolves c c' \<longleftrightarrow>
     caps c' = caps c \<and> seq c \<le> seq c' \<and> idem c \<subseteq>\<^sub>m idem c' \<and>
     (\<forall>s. grants c s = Some True \<longrightarrow> grants c' s = Some True) \<and>
     dom (grants c) \<subseteq> dom (grants c') \<and> prefix (Deleted c) (Deleted c') \<and>
     map_evolves repo_evolves (map_of (repos c)) (map_of (repos c'))"

lemma thread_evolves_refl [simp]: "thread_evolves t t"
  by (simp add: thread_evolves_def)

lemma cr_evolves_refl [simp]: "cr_evolves x x"
  by (simp add: cr_evolves_def list_all2_refl)

lemma issue_evolves_refl [simp]: "issue_evolves i i"
  by (simp add: issue_evolves_def)

lemma repo_evolves_refl [simp]: "repo_evolves r r"
  by (simp add: repo_evolves_def map_evolves_refl)

lemma evolves_refl [simp]: "evolves c c"
  by (simp add: evolves_def map_evolves_refl)

lemma thread_evolves_trans: "thread_evolves a b \<Longrightarrow> thread_evolves b d \<Longrightarrow> thread_evolves a d"
  by (auto simp: thread_evolves_def intro: prefix_order.trans)

lemma threads_evolve_trans:
  "list_all2 thread_evolves a b \<Longrightarrow> list_all2 thread_evolves b d \<Longrightarrow> list_all2 thread_evolves a d"
  by (rule list_all2_trans [OF thread_evolves_trans])

lemma cr_evolves_trans:
  assumes "cr_evolves a b" "cr_evolves b d"
  shows "cr_evolves a d"
proof -
  have "list_all2 thread_evolves (crs_threads a) (crs_threads d)"
    by (rule threads_evolve_trans [of _ "crs_threads b"]) (use assms in \<open>simp_all add: cr_evolves_def\<close>)
  then show ?thesis
    using assms by (simp add: cr_evolves_def) (meson prefix_order.trans)
qed

lemma issue_evolves_trans: "issue_evolves a b \<Longrightarrow> issue_evolves b d \<Longrightarrow> issue_evolves a d"
  by (simp add: issue_evolves_def) (meson prefix_order.trans)

lemma repo_evolves_trans:
  assumes ab: "repo_evolves a b" and bd: "repo_evolves b d"
  shows "repo_evolves a d"
  unfolding repo_evolves_def
proof (intro conjI allI)
  show "map_evolves cr_evolves (map_of (rs_crs a)) (map_of (rs_crs d))"
    using ab bd unfolding repo_evolves_def by (elim conjE) (rule map_evolves_trans [OF _ _ cr_evolves_trans])
  show "map_evolves issue_evolves (map_of (rs_issues a)) (map_of (rs_issues d))"
    using ab bd unfolding repo_evolves_def by (elim conjE) (rule map_evolves_trans [OF _ _ issue_evolves_trans])
  show "map_evolves (\<lambda>l l'. map ch_id l' = map ch_id l) (map_of (rs_checks a)) (map_of (rs_checks d))"
    using ab bd unfolding repo_evolves_def
    by (elim conjE) (rule map_evolves_trans [where b = "map_of (rs_checks b)"], assumption, assumption, simp)
  show "prefix (comments_of a k) (comments_of d k)" for k
    using ab bd unfolding repo_evolves_def by (meson prefix_order.trans)
  show "rs_branches a \<subseteq>\<^sub>m rs_branches d" "dom (rs_statuses a) \<subseteq> dom (rs_statuses d)"
    "prefix (rs_reactions a) (rs_reactions d)"
    using ab bd unfolding repo_evolves_def by (meson map_le_trans prefix_order.trans subset_trans)+
qed (use ab bd in \<open>simp_all add: repo_evolves_def\<close>)

lemma evolves_trans:
  assumes ab: "evolves a b" and bd: "evolves b d"
  shows "evolves a d"
  unfolding evolves_def
proof (intro conjI allI)
  show "map_evolves repo_evolves (map_of (repos a)) (map_of (repos d))"
    using ab bd unfolding evolves_def by (elim conjE) (rule map_evolves_trans [OF _ _ repo_evolves_trans])
  show "idem a \<subseteq>\<^sub>m idem d" "prefix (Deleted a) (Deleted d)" "dom (grants a) \<subseteq> dom (grants d)"
    using ab bd unfolding evolves_def by (meson map_le_trans prefix_order.trans subset_trans)+
qed (use ab bd in \<open>simp_all add: evolves_def\<close>)

text \<open>What every operation guarantees, as one relation.\<close>

definition safe_step :: "Core \<Rightarrow> Core \<Rightarrow> bool" where
  "safe_step c c' \<longleftrightarrow> (wf_core c \<longrightarrow> wf_core c' \<and> evolves c c')"

lemma safe_refl [simp]: "safe_step c c"
  by (simp add: safe_step_def)

lemma safe_trans: "safe_step a b \<Longrightarrow> safe_step b c \<Longrightarrow> safe_step a c"
  using evolves_trans by (auto simp: safe_step_def)

lemma safe_put_repo:
  assumes "find_repo c t = Some r" "repo_evolves r r'"
    and "wf_repo (seq c) (rr_full_path (tg_repo t)) r \<Longrightarrow> wf_repo (seq c) (rr_full_path (tg_repo t)) r'"
  shows "safe_step c (put_repo t r' c)"
proof -
  have "evolves c (put_repo t r' c)"
    using map_evolves_upd [of "map_of (repos c)" _ r repo_evolves r'] assms(2) find_repoD [OF assms(1)]
    by (simp add: evolves_def lookup_put_repo)
  then show ?thesis
    using assms wf_put_repo find_repo_wf by (simp add: safe_step_def)
qed

lemma safe_put_cr:
  assumes "find_repo c t = Some r" "map_of (rs_crs r) n = Some x" "cr_evolves x x'"
  shows "safe_step c (put_cr t n x' r c)"
  unfolding put_cr_def
proof (rule safe_put_repo [OF assms(1)])
  show "repo_evolves r (r\<lparr>rs_crs := AList.update n x' (rs_crs r)\<rparr>)"
    using map_evolves_upd [of "map_of (rs_crs r)" n x cr_evolves x'] assms(2,3)
    by (simp add: repo_evolves_def AList.update_conv' comments_of_def map_evolves_refl)
qed (use assms wf_crs in \<open>simp add: cr_evolves_def\<close>)

lemma safe_put_issue:
  assumes "find_repo c t = Some r" "map_of (rs_issues r) n = Some i" "issue_evolves i i'"
  shows "safe_step c (put_repo t (r\<lparr>rs_issues := AList.update n i' (rs_issues r)\<rparr>) c)"
proof (rule safe_put_repo [OF assms(1)])
  show "repo_evolves r (r\<lparr>rs_issues := AList.update n i' (rs_issues r)\<rparr>)"
    using map_evolves_upd [of "map_of (rs_issues r)" n i issue_evolves i'] assms(2,3)
    by (simp add: repo_evolves_def AList.update_conv' comments_of_def map_evolves_refl)
qed (use assms wf_issues in \<open>simp add: issue_evolves_def\<close>)

lemma safe_seq: "safe_step c (c\<lparr>seq := seq c + 1\<rparr>)"
  by (simp add: safe_step_def wf_seq evolves_def map_evolves_refl)

lemma safe_once:
  assumes "safe_step c (fst (fn c))" "\<And>v. key \<noteq> '''' \<Longrightarrow> memo_ok key (to_memo v)"
  shows "safe_step c (fst (once c key to_memo of_memo fn))"
proof (rule once_rule)
  fix c' v
  assume "fn c = (c', Answers v)" and s: "safe_step c c'" and k: "key \<noteq> ''''" "idem c key = None"
  have "idem c \<subseteq>\<^sub>m (idem c')(key \<mapsto> to_memo v)" if "idem c \<subseteq>\<^sub>m idem c'"
    using that k(2) by (auto simp: map_le_def dom_def)
  then show "safe_step c (c'\<lparr>idem := (idem c')(key \<mapsto> to_memo v)\<rparr>)"
    using s assms(2) [OF k(1)] by (auto simp: safe_step_def wf_core_def evolves_def)
qed (use assms in simp_all)

lemma safe_once_all:
  "safe_step c (fst (fn1 c)) \<Longrightarrow> safe_step c (fst (once_cr c (idemKey ''open'' k) fn1))"
  "safe_step c (fst (fn2 c)) \<Longrightarrow> safe_step c (fst (once_comment c (idemKey ''comment'' k) fn2))"
  "safe_step c (fst (fn2 c)) \<Longrightarrow> safe_step c (fst (once_comment c (idemKey ''reply'' k) fn2))"
  "safe_step c (fst (fn3 c)) \<Longrightarrow> safe_step c (fst (once_review c (idemKey ''review'' k) fn3))"
  "safe_step c (fst (fn4 c)) \<Longrightarrow> safe_step c (fst (once_branch c (idemKey ''branch'' k) fn4))"
  unfolding once_cr_def once_comment_def once_review_def once_branch_def
  by (rule safe_once; simp add: memo_ok_def key_of_idemKey)+

end
