(* ===== verification/FakeSteps.thy ===== *)
theory FakeSteps
  imports FakeInv
begin

text \<open>
  Every operation of the fake is a safe step (it keeps the invariant and loses
  nothing), and so is every run of operations.
\<close>

section \<open>Operations that only read\<close>

lemma pure_intros:
  "fst (c, r) = c"
  "fst y = c \<Longrightarrow> fst z = c \<Longrightarrow> fst (if b then y else z) = c"
  "fst y = c \<Longrightarrow> (\<And>a. fst (w a) = c) \<Longrightarrow> fst (case v of None \<Rightarrow> y | Some a \<Rightarrow> w a) = c"
  "(\<And>r. fst (k r) = c) \<Longrightarrow> fst (with_repo c t k) = c"
  "(\<And>r x. fst (k' r x) = c) \<Longrightarrow> fst (with_cr c t n k') = c"
  by (simp_all add: with_cr_def with_repo_def split: option.split)

lemma pure_BeginIdentitySetup: "fst (BeginIdentitySetup q req c) = c"
  unfolding BeginIdentitySetup_def Let_def case_prod_beta by (intro pure_intros)

lemma pure_CompleteIdentitySetup: "fst (CompleteIdentitySetup req c) = c"
  unfolding CompleteIdentitySetup_def Let_def case_prod_beta by (intro pure_intros)

lemma pure_ListRepositories: "fst (ListRepositories req c) = c"
  unfolding ListRepositories_def Let_def case_prod_beta by (intro pure_intros)

lemma pure_ResolveRepository: "fst (ResolveRepository req c) = c"
  unfolding ResolveRepository_def Let_def case_prod_beta by (intro pure_intros)

lemma pure_VerifyAndParseWebhook: "fst (VerifyAndParseWebhook mac p req c) = c"
  unfolding VerifyAndParseWebhook_def Let_def case_prod_beta by (intro pure_intros)

lemma pure_GetActorPermission: "fst (GetActorPermission req c) = c"
  unfolding GetActorPermission_def Let_def case_prod_beta by (intro pure_intros)

lemma pure_GetBranchProtection: "fst (GetBranchProtection req c) = c"
  unfolding GetBranchProtection_def Let_def case_prod_beta by (intro pure_intros)

lemma pure_GetChangeRequest: "fst (GetChangeRequest req c) = c"
  unfolding GetChangeRequest_def Let_def case_prod_beta by (intro pure_intros)

lemma pure_ListChangedFiles: "fst (ListChangedFiles req c) = c"
  unfolding ListChangedFiles_def Let_def case_prod_beta by (intro pure_intros)

lemma pure_GetDiff: "fst (GetDiff req c) = c"
  unfolding GetDiff_def Let_def case_prod_beta by (intro pure_intros)

lemma pure_ListThreads: "fst (ListThreads req c) = c"
  unfolding ListThreads_def Let_def case_prod_beta by (intro pure_intros)

lemma pure_ListComments: "fst (ListComments req c) = c"
  unfolding ListComments_def Let_def case_prod_beta by (intro pure_intros)

lemma pure_GetIssue: "fst (GetIssue req c) = c"
  unfolding GetIssue_def Let_def case_prod_beta by (intro pure_intros)

lemma pure_GetChecks: "fst (GetChecks req c) = c"
  unfolding GetChecks_def Let_def case_prod_beta by (intro pure_intros)

lemma pure_GetCheckLogs: "fst (GetCheckLogs req c) = c"
  unfolding GetCheckLogs_def Let_def case_prod_beta by (intro pure_intros)

lemma pure_GetBranch: "fst (GetBranch req c) = c"
  unfolding GetBranch_def Let_def case_prod_beta by (intro pure_intros)

lemma pure_ListIssues: "fst (ListIssues req c) = c"
  unfolding ListIssues_def Let_def case_prod_beta by (intro pure_intros)

lemma pure_GetFile: "fst (GetFile req c) = c"
  unfolding GetFile_def Let_def case_prod_beta by (intro pure_intros)

lemma pure_SearchCode: "fst (SearchCode req c) = c"
  unfolding SearchCode_def Let_def case_prod_beta by (intro pure_intros)

lemma pure_DescribeIdentity: "fst (DescribeIdentity req c) = c"
  unfolding DescribeIdentity_def Let_def case_prod_beta by (intro pure_intros)

lemmas reads_pure = pure_BeginIdentitySetup pure_CompleteIdentitySetup pure_ListRepositories pure_ResolveRepository pure_VerifyAndParseWebhook pure_GetActorPermission
  pure_GetBranchProtection pure_GetChangeRequest
  pure_ListChangedFiles pure_GetDiff pure_ListThreads
  pure_ListComments pure_GetIssue
  pure_GetChecks pure_GetCheckLogs pure_GetBranch pure_ListIssues pure_GetFile
  pure_SearchCode pure_DescribeIdentity

section \<open>Operations that write\<close>

text \<open>A write into the repository after the counter was advanced.\<close>

lemma safe_seq_put:
  assumes "find_repo c t = Some r" "repo_evolves r r'"
    and "wf_core c \<Longrightarrow> wf_repo (seq c) (rr_full_path (tg_repo t)) r \<Longrightarrow> wf_repo (seq c + 1) (rr_full_path (tg_repo t)) r'"
  shows "safe_step c (put_repo t r' (c\<lparr>seq := seq c + 1\<rparr>))"
proof -
  let ?c1 = "c\<lparr>seq := seq c + 1\<rparr>"
  have "wf_core (put_repo t r' ?c1) \<and> evolves c (put_repo t r' ?c1)" if wf: "wf_core c"
  proof -
    have f: "find_repo ?c1 t = Some r" using assms(1) by simp
    have "wf_repo (seq ?c1) (rr_full_path (tg_repo t)) r'"
      using assms(3) [OF wf find_repo_wf [OF wf assms(1)]] by simp
    then have "wf_core (put_repo t r' ?c1)" using wf_put_repo [OF wf_seq [OF wf] f] by simp
    moreover have "evolves ?c1 (put_repo t r' ?c1)"
      using map_evolves_upd [of "map_of (repos c)" _ r repo_evolves r'] assms(2) find_repoD [OF assms(1)]
      by (simp add: evolves_def lookup_put_repo)
    moreover have "evolves c ?c1" using safe_seq [of c] wf by (simp add: safe_step_def)
    ultimately show ?thesis using evolves_trans by blast
  qed
  then show ?thesis by (simp add: safe_step_def)
qed

lemma thread_update_evolves:
  "(\<And>t. thread_evolves t (f t)) \<Longrightarrow> list_all2 thread_evolves ts (update_thread i f ts)"
  by (induction ts) (auto intro: list_all2_refl)

text \<open>Introduction rules that follow the shape of a handler.\<close>

lemma safe_intros:
  "safe_step c (fst (c, r))"
  "(b \<Longrightarrow> safe_step c (fst y)) \<Longrightarrow> (\<not> b \<Longrightarrow> safe_step c (fst z)) \<Longrightarrow> safe_step c (fst (if b then y else z))"
  "(v = None \<Longrightarrow> safe_step c (fst y)) \<Longrightarrow> (\<And>a. v = Some a \<Longrightarrow> safe_step c (fst (w a))) \<Longrightarrow>
     safe_step c (fst (case v of None \<Rightarrow> y | Some a \<Rightarrow> w a))"
  "(\<And>r. find_repo c t = Some r \<Longrightarrow> safe_step c (fst (k r))) \<Longrightarrow> safe_step c (fst (with_repo c t k))"
  "(\<And>r x. find_repo c t = Some r \<Longrightarrow> map_of (rs_crs r) n = Some x \<Longrightarrow> safe_step c (fst (k' r x))) \<Longrightarrow>
     safe_step c (fst (with_cr c t n k'))"
  "(\<And>r. find_repo c t = Some r \<Longrightarrow> missing_subject r s = None \<Longrightarrow> safe_step c (fst (k r))) \<Longrightarrow>
     safe_step c (fst (with_subject c t s k))"
  by (simp_all add: with_repo_rule with_cr_rule with_subject_rule split: option.split)

lemma safe_MintCredential: "safe_step c (fst (MintCredential now req c))"
  unfolding MintCredential_def by (intro safe_intros) (simp add: next_id_eq Let_def safe_seq)

lemma safe_SubmitReview: "safe_step c (fst (SubmitReview q req c))"
  unfolding SubmitReview_def
  by (intro safe_intros safe_once_all) (simp add: next_id_eq safe_seq)

lemma safe_UpdateChangeRequest: "safe_step c (fst (UpdateChangeRequest req c))"
proof -
  have "safe_step c (put_cr (uc_target req) (uc_number req) (x\<lparr>crs_cr := z\<rparr>) r c)"
    if "find_repo c (uc_target req) = Some r" "map_of (rs_crs r) (uc_number req) = Some x"
      "cr_evolves x (x\<lparr>crs_cr := z\<rparr>)" for r x z
    using that by (rule safe_put_cr)
  then show ?thesis
    unfolding UpdateChangeRequest_def
    by (intro safe_intros) (simp add: Let_def set_opt_def cr_evolves_def list_all2_refl split: option.split)
qed

lemma safe_ReplyThread: "safe_step c (fst (ReplyThread req c))"
proof -
  have "safe_step c (put_cr (rt_target req) (rt_number req)
      (x\<lparr>crs_threads := update_thread i (\<lambda>t. t\<lparr>th_comments := th_comments t @ cs\<rparr>) (crs_threads x)\<rparr>) r
      (c\<lparr>seq := seq c + 1\<rparr>))"
    if f: "find_repo c (rt_target req) = Some r" and x: "map_of (rs_crs r) (rt_number req) = Some x" for r x i cs
  proof -
    let ?x' = "x\<lparr>crs_threads := update_thread i (\<lambda>t. t\<lparr>th_comments := th_comments t @ cs\<rparr>) (crs_threads x)\<rparr>"
    have "cr_evolves x ?x'"
      using thread_update_evolves [of "\<lambda>t. t\<lparr>th_comments := th_comments t @ cs\<rparr>"]
      by (simp add: cr_evolves_def thread_evolves_def)
    moreover have "find_repo (c\<lparr>seq := seq c + 1\<rparr>) (rt_target req) = Some r" using f by simp
    ultimately have "safe_step (c\<lparr>seq := seq c + 1\<rparr>) (put_cr (rt_target req) (rt_number req) ?x' r (c\<lparr>seq := seq c + 1\<rparr>))"
      using x by (intro safe_put_cr)
    then show ?thesis by (rule safe_trans [OF safe_seq])
  qed
  then show ?thesis
    unfolding ReplyThread_def by (intro safe_intros safe_once_all) (simp add: next_id_eq Let_def)
qed

lemma safe_PostComment: "safe_step c (fst (PostComment req c))"
proof -
  have "safe_step c (put_repo (cmq_target req)
      (r\<lparr>rs_comments := (rs_comments r)(k \<mapsto> comments_of r k @ cs)\<rparr>) (c\<lparr>seq := seq c + 1\<rparr>))"
    if f: "find_repo c (cmq_target req) = Some r" for r k cs
  proof (rule safe_seq_put [OF f])
    show "repo_evolves r (r\<lparr>rs_comments := (rs_comments r)(k \<mapsto> comments_of r k @ cs)\<rparr>)"
      by (simp add: repo_evolves_def map_evolves_refl comments_of_def)
    show "wf_repo (seq c + 1) (rr_full_path (tg_repo (cmq_target req))) (r\<lparr>rs_comments := (rs_comments r)(k \<mapsto> comments_of r k @ cs)\<rparr>)"
      if "wf_repo (seq c) (rr_full_path (tg_repo (cmq_target req))) r"
      using wf_repo_mono [OF that, of "seq c + 1"]
      by (simp add: wf_repo_def cr_keys_ok_def issue_keys_ok_def hooks_ok_def)
  qed
  then show ?thesis
    unfolding PostComment_def by (intro safe_intros safe_once_all) (simp add: next_id_eq Let_def)
qed

text \<open>The number of a new change request is fresh.\<close>

definition next_number :: "repoState \<Rightarrow> string" where
  "next_number r = itoa (100 + (rs_nextID r + 1))"

lemma itoa_1: "itoa 1 = SeedCRNumber"
  by code_simp

lemma next_number_fresh: "cr_keys_ok r \<Longrightarrow> map_of (rs_crs r) (next_number r) = None"
proof -
  assume ok: "cr_keys_ok r"
  have "next_number r \<notin> fst ` set (rs_crs r)"
  proof
    assume "next_number r \<in> fst ` set (rs_crs r)"
    then obtain x where "cr_entry_ok (rs_nextID r) (next_number r) x" using ok by (auto simp: cr_keys_ok_def)
    then have "next_number r = itoa 1 \<or> (\<exists>k. 1 \<le> k \<and> k \<le> rs_nextID r \<and> next_number r = itoa (100 + k))"
      by (auto simp: cr_entry_ok_def itoa_1)
    then show False using ok by (auto simp: next_number_def itoa_inject cr_keys_ok_def)
  qed
  then show ?thesis by (simp add: map_of_eq_None_iff)
qed

lemma wf_repo_new_cr:
  assumes wf: "wf_repo s path r" and n: "cr_number (crs_cr x) = next_number r" "crs_files x = []"
  shows "wf_repo s path (r\<lparr>rs_nextID := rs_nextID r + 1, rs_crs := AList.update (next_number r) x (rs_crs r)\<rparr>)"
proof -
  have ok: "cr_keys_ok r" using wf by (simp add: wf_repo_def)
  have "cr_entry_ok (rs_nextID r + 1) m y" if "cr_entry_ok (rs_nextID r) m y" for m y
    using that by (auto simp: cr_entry_ok_def)
  then have "\<forall>(m, y) \<in> set (rs_crs r). cr_entry_ok (rs_nextID r + 1) m y"
    using ok unfolding cr_keys_ok_def by blast
  moreover have "cr_entry_ok (rs_nextID r + 1) (next_number r) x"
  proof -
    have "next_number r \<in> (\<lambda>k. itoa (100 + k)) ` {1..rs_nextID r + 1}"
      unfolding next_number_def by (rule image_eqI [of _ _ "rs_nextID r + 1"]) (use ok in \<open>simp_all add: cr_keys_ok_def\<close>)
    then show ?thesis using n by (simp add: cr_entry_ok_def)
  qed
  ultimately have "\<forall>(m, y) \<in> set (AList.update (next_number r) x (rs_crs r)). cr_entry_ok (rs_nextID r + 1) m y"
    by (rule all_update)
  then show ?thesis
    using wf ok by (simp add: wf_repo_def cr_keys_ok_def issue_keys_ok_def hooks_ok_def AList.distinct_update)
qed

lemma map_evolves_new: "m k = None \<Longrightarrow> (\<And>v. R v v) \<Longrightarrow> map_evolves R m (m(k \<mapsto> w))"
  by (simp add: map_evolves_def)

lemma safe_OpenChangeRequest: "safe_step c (fst (OpenChangeRequest req c))"
proof -
  have "safe_step c (put_cr (oc_target req) (next_number r) x (r\<lparr>rs_nextID := rs_nextID r + 1\<rparr>) c)"
    if f: "find_repo c (oc_target req) = Some r" and n: "cr_number (crs_cr x) = next_number r" "crs_files x = []" for r x
  proof (cases "wf_core c")
    case True
    then have ok: "cr_keys_ok r" using find_repo_wf f by (simp add: wf_repo_def)
    let ?r' = "r\<lparr>rs_nextID := rs_nextID r + 1, rs_crs := AList.update (next_number r) x (rs_crs r)\<rparr>"
    have "repo_evolves r ?r'"
      using map_evolves_new [of "map_of (rs_crs r)" "next_number r" cr_evolves x] next_number_fresh [OF ok]
      by (simp add: repo_evolves_def map_evolves_refl AList.update_conv' comments_of_def)
    then have "safe_step c (put_repo (oc_target req) ?r' c)"
      using f n wf_repo_new_cr by (intro safe_put_repo)
    then show ?thesis by (simp add: put_cr_def)
  qed (simp add: safe_step_def)
  then show ?thesis
    unfolding OpenChangeRequest_def
    by (intro safe_intros safe_once_all) (simp add: Let_def next_number_def new_cr_def)
qed

lemma safe_SetStatus: "safe_step c (fst (SetStatus req c))"
proof -
  have new: "safe_step c (put_repo (st_target req)
      (r\<lparr>rs_statuses := (rs_statuses r)(nth_id ''st'' (seq c + 1) \<mapsto> req)\<rparr>) (c\<lparr>seq := seq c + 1\<rparr>))"
    if f: "find_repo c (st_target req) = Some r" for r
  proof (rule safe_seq_put [OF f])
    show "wf_repo (seq c + 1) (rr_full_path (tg_repo (st_target req)))
        (r\<lparr>rs_statuses := (rs_statuses r)(nth_id ''st'' (seq c + 1) \<mapsto> req)\<rparr>)"
      if "wf_core c" "wf_repo (seq c) (rr_full_path (tg_repo (st_target req))) r"
      using wf_repo_mono [OF that(2), of "seq c + 1"] new_id_mem [of "seq c" "''st''"] that(1)
      by (simp add: wf_core_def wf_repo_def cr_keys_ok_def issue_keys_ok_def hooks_ok_def)
  qed (auto simp: repo_evolves_def map_evolves_refl comments_of_def)
  have old: "safe_step c (put_repo (st_target req) (r\<lparr>rs_statuses := (rs_statuses r)(k \<mapsto> req)\<rparr>) c)"
    if f: "find_repo c (st_target req) = Some r" and k: "rs_statuses r k \<noteq> None" for r k
  proof (rule safe_put_repo [OF f])
    show "wf_repo (seq c) (rr_full_path (tg_repo (st_target req))) (r\<lparr>rs_statuses := (rs_statuses r)(k \<mapsto> req)\<rparr>)"
      if "wf_repo (seq c) (rr_full_path (tg_repo (st_target req))) r"
      using that k by (auto simp: wf_repo_def cr_keys_ok_def issue_keys_ok_def hooks_ok_def)
  qed (auto simp: repo_evolves_def map_evolves_refl comments_of_def)
  show ?thesis
    unfolding SetStatus_def by (intro safe_intros) (simp_all add: next_id_eq new old)
qed

lemma safe_CreateBranch: "safe_step c (fst (CreateBranch req c))"
proof -
  have "safe_step c (put_repo (cb_target req) (r\<lparr>rs_branches := (rs_branches r)(b \<mapsto> sha)\<rparr>) c)"
    if f: "find_repo c (cb_target req) = Some r" and b: "rs_branches r b = None" for r b sha
  proof (rule safe_put_repo [OF f])
    show "wf_repo (seq c) (rr_full_path (tg_repo (cb_target req))) (r\<lparr>rs_branches := (rs_branches r)(b \<mapsto> sha)\<rparr>)"
      if "wf_repo (seq c) (rr_full_path (tg_repo (cb_target req))) r"
      using that by (simp add: wf_repo_def cr_keys_ok_def issue_keys_ok_def hooks_ok_def)
    show "repo_evolves r (r\<lparr>rs_branches := (rs_branches r)(b \<mapsto> sha)\<rparr>)"
      using b by (auto simp: repo_evolves_def map_evolves_refl comments_of_def map_le_def)
  qed
  then show ?thesis
    unfolding CreateBranch_def by (intro safe_intros safe_once_all) (simp add: Let_def split: option.split)
qed

lemma safe_ResolveThread: "safe_step c (fst (ResolveThread req c))"
proof -
  have "cr_evolves x (x\<lparr>crs_threads := update_thread i (\<lambda>t. t\<lparr>th_resolved := b\<rparr>) (crs_threads x)\<rparr>)" for x i b
    using thread_update_evolves [of "\<lambda>t. t\<lparr>th_resolved := b\<rparr>"] by (simp add: cr_evolves_def thread_evolves_def)
  then show ?thesis
    unfolding ResolveThread_def by (intro safe_intros) (simp add: safe_put_cr)
qed

lemma safe_update_cr:
  assumes "find_repo c t = Some r" "missing_subject r s = None" "sr_kind s = SubjectChangeRequest"
    and "\<And>y. cr_evolves y (y\<lparr>crs_cr := f (crs_cr y)\<rparr>)"
  shows "safe_step c (update_cr t (sr_number s) f r c)"
proof -
  obtain x where "map_of (rs_crs r) (sr_number s) = Some x"
    using assms(2,3) by (auto simp: missing_subject_def split: if_splits)
  then show ?thesis using assms(1,4) by (simp add: update_cr_def Let_def safe_put_cr)
qed

lemma safe_update_issue:
  assumes "find_repo c t = Some r" "missing_subject r s = None" "sr_kind s \<noteq> SubjectChangeRequest"
    and "\<And>i. issue_evolves i (f i)"
  shows "safe_step c (update_issue t (sr_number s) f r c)"
proof -
  obtain i where "map_of (rs_issues r) (sr_number s) = Some i"
    using assms(2,3) by (auto simp: missing_subject_def split: if_splits)
  then show ?thesis using assms(1,4) by (simp add: update_issue_def safe_put_issue)
qed

lemma safe_AddLabels: "safe_step c (fst (AddLabels req c))"
  unfolding AddLabels_def
  by (intro safe_intros) (auto intro!: safe_update_cr safe_update_issue
    simp: cr_evolves_def issue_evolves_def list_all2_refl)

lemma safe_RequestReviewers: "safe_step c (fst (RequestReviewers req c))"
  unfolding RequestReviewers_def
  by (intro safe_intros) (auto intro!: safe_update_cr simp: cr_evolves_def list_all2_refl)

lemma subject_kinds: "SubjectIssue \<noteq> SubjectChangeRequest" "SubjectChangeRequest \<noteq> SubjectIssue"
  by (simp_all add: wire_consts)

lemma safe_SetAssignees: "safe_step c (fst (SetAssignees req c))"
  unfolding SetAssignees_def
  by (intro safe_intros) (auto intro!: safe_update_issue simp: issue_evolves_def subject_kinds)

lemma safe_MergeChangeRequest: "safe_step c (fst (MergeChangeRequest req c))"
  unfolding MergeChangeRequest_def
  by (intro safe_intros) (simp add: safe_put_cr cr_evolves_def list_all2_refl)

lemma map_rerun_ids: "map ch_id (map (rerun_check i) l) = map ch_id l"
  by (simp add: rerun_check_def)

lemma safe_RerunChecks: "safe_step c (fst (RerunChecks req c))"
proof -
  have "safe_step c (put_repo (rru_target req) (r\<lparr>rs_checks := AList.update s (map (rerun_check i) l) (rs_checks r)\<rparr>) c)"
    if f: "find_repo c (rru_target req) = Some r" and l: "map_of (rs_checks r) s = Some l" for r s i l
  proof (rule safe_put_repo [OF f])
    show "wf_repo (seq c) (rr_full_path (tg_repo (rru_target req)))
        (r\<lparr>rs_checks := AList.update s (map (rerun_check i) l) (rs_checks r)\<rparr>)"
      if "wf_repo (seq c) (rr_full_path (tg_repo (rru_target req))) r"
      using that by (simp add: wf_repo_def cr_keys_ok_def issue_keys_ok_def hooks_ok_def AList.distinct_update)
    show "repo_evolves r (r\<lparr>rs_checks := AList.update s (map (rerun_check i) l) (rs_checks r)\<rparr>)"
      using map_evolves_upd [of "map_of (rs_checks r)" s l "\<lambda>l l'. map ch_id l' = map ch_id l" "map (rerun_check i) l"] l
        map_rerun_ids [of i l]
      by (simp add: repo_evolves_def map_evolves_refl AList.update_conv' comments_of_def)
  qed
  then show ?thesis unfolding RerunChecks_def by (intro safe_intros) simp
qed

lemma safe_React: "safe_step c (fst (React req c))"
proof -
  have "safe_step c (put_repo (re_target req) (r\<lparr>rs_reactions := rs_reactions r @ l\<rparr>) c)"
    if f: "find_repo c (re_target req) = Some r" for r l
    by (rule safe_put_repo [OF f])
      (simp_all add: repo_evolves_def map_evolves_refl comments_of_def wf_repo_def cr_keys_ok_def
        issue_keys_ok_def hooks_ok_def)
  then show ?thesis unfolding React_def by (intro safe_intros) simp
qed

lemma update_new: "k \<notin> fst ` set al \<Longrightarrow> AList.update k v al = al @ [(k, v)]"
  by (induction al) auto

lemma safe_EnsureWebhook: "safe_step c (fst (EnsureWebhook req c))"
proof -
  have "safe_step c (put_repo (ew_target req)
      (r\<lparr>rs_hooks := AList.update (nth_id ''hook'' (seq c + 1)) u (rs_hooks r)\<rparr>) (c\<lparr>seq := seq c + 1\<rparr>))"
    if f: "find_repo c (ew_target req) = Some r" and u: "find (\<lambda>(i, v). v = u) (rs_hooks r) = None" for r u
  proof (rule safe_seq_put [OF f])
    let ?k = "nth_id ''hook'' (seq c + 1)"
    show "wf_repo (seq c + 1) (rr_full_path (tg_repo (ew_target req))) (r\<lparr>rs_hooks := AList.update ?k u (rs_hooks r)\<rparr>)"
      if wf: "wf_core c" "wf_repo (seq c) (rr_full_path (tg_repo (ew_target req))) r"
    proof -
      have s: "0 \<le> seq c" using wf(1) by (simp add: wf_core_def)
      have h: "hooks_ok (seq c) r" using wf(2) by (simp add: wf_repo_def)
      then have "?k \<notin> fst ` set (rs_hooks r)" using fresh_id [OF s] by (auto simp: hooks_ok_def)
      then have app: "AList.update ?k u (rs_hooks r) = rs_hooks r @ [(?k, u)]"
        by (rule update_new)
      have "u \<notin> snd ` set (rs_hooks r)" using u by (auto simp: find_None_iff)
      then have "hooks_ok (seq c + 1) (r\<lparr>rs_hooks := AList.update ?k u (rs_hooks r)\<rparr>)"
        using h new_id_mem [OF s] ids_upto_mono [of "seq c" "seq c + 1" "''hook''"] \<open>?k \<notin> _\<close>
        by (simp add: hooks_ok_def app) (meson subset_trans)
      then show ?thesis
        using wf_repo_mono [OF wf(2), of "seq c + 1"]
        by (simp add: wf_repo_def cr_keys_ok_def issue_keys_ok_def)
    qed
  qed (auto simp: repo_evolves_def map_evolves_refl comments_of_def)
  then show ?thesis
    unfolding EnsureWebhook_def by (intro safe_intros) (auto simp: next_id_eq split: prod.split option.split)
qed

lemma safe_RemoveWebhook: "safe_step c (fst (RemoveWebhook req c))"
proof -
  have "safe_step c (put_repo (rw_target req) (r\<lparr>rs_hooks := AList.delete k (rs_hooks r)\<rparr>) c)"
    if f: "find_repo c (rw_target req) = Some r" for r k
  proof (rule safe_put_repo [OF f])
    have sub: "set (AList.delete k (rs_hooks r)) \<subseteq> set (rs_hooks r)"
      by (auto simp: AList.delete_eq)
    show "wf_repo (seq c) (rr_full_path (tg_repo (rw_target req))) (r\<lparr>rs_hooks := AList.delete k (rs_hooks r)\<rparr>)"
      if "wf_repo (seq c) (rr_full_path (tg_repo (rw_target req))) r"
      using that sub by (auto simp: wf_repo_def cr_keys_ok_def issue_keys_ok_def hooks_ok_def AList.delete_eq
        distinct_map_filter)
  qed (simp add: repo_evolves_def map_evolves_refl comments_of_def)
  then show ?thesis unfolding RemoveWebhook_def by (intro safe_intros) simp
qed

lemma safe_DeleteIdentity: "safe_step c (fst (DeleteIdentity req c))"
  by (simp add: DeleteIdentity_def safe_step_def wf_core_def evolves_def map_evolves_refl)

lemma grant_fresh: "wf_core c \<Longrightarrow> grants c (nth_id ''grant'' (seq c + 1)) = None"
  using fresh_id [of "seq c" "''grant''"] by (auto simp: wf_core_def)

lemma safe_BeginAccessGrant: "safe_step c (fst (BeginAccessGrant req c))"
proof -
  let ?k = "nth_id ''grant'' (seq c + 1)"
  have "safe_step c (c\<lparr>seq := seq c + 1, grants := (grants c)(?k \<mapsto> False)\<rparr>)"
  proof -
    have "wf_core (c\<lparr>seq := seq c + 1, grants := (grants c)(?k \<mapsto> False)\<rparr>) \<and>
        evolves c (c\<lparr>seq := seq c + 1, grants := (grants c)(?k \<mapsto> False)\<rparr>)" if wf: "wf_core c"
      using wf_seq [OF wf] grant_fresh [OF wf] new_id_mem [of "seq c" "''grant''"] wf
      by (auto simp: wf_core_def evolves_def map_evolves_refl)
    then show ?thesis by (simp add: safe_step_def)
  qed
  then show ?thesis unfolding BeginAccessGrant_def by (intro safe_intros) (simp add: next_id_eq)
qed

lemma safe_CompleteAccessGrant: "safe_step c (fst (CompleteAccessGrant req c))"
proof -
  have "safe_step c (c\<lparr>grants := (grants c)(k \<mapsto> True)\<rparr>)" if "grants c k = Some False" for k
    using that by (auto simp: safe_step_def wf_core_def evolves_def map_evolves_refl)
  then show ?thesis unfolding CompleteAccessGrant_def by (intro safe_intros) simp
qed

section \<open>Runs\<close>

text \<open>
  One step of the world: some operation with some request, whatever the clock, the
  quoting, the signature function and the body parser are.
\<close>

inductive fake_step :: "Core \<Rightarrow> Core \<Rightarrow> bool" where
  reads: "fake_step c c"
| MintCredential: "fake_step c (fst (MintCredential now req1 c))"
| OpenChangeRequest: "fake_step c (fst (OpenChangeRequest req2 c))"
| UpdateChangeRequest: "fake_step c (fst (UpdateChangeRequest req3 c))"
| PostComment: "fake_step c (fst (PostComment req4 c))"
| ReplyThread: "fake_step c (fst (ReplyThread req5 c))"
| SubmitReview: "fake_step c (fst (SubmitReview q req6 c))"
| SetStatus: "fake_step c (fst (SetStatus req7 c))"
| CreateBranch: "fake_step c (fst (CreateBranch req8 c))"
| ResolveThread: "fake_step c (fst (ResolveThread req9 c))"
| AddLabels: "fake_step c (fst (AddLabels req10 c))"
| RequestReviewers: "fake_step c (fst (RequestReviewers req11 c))"
| SetAssignees: "fake_step c (fst (SetAssignees req12 c))"
| MergeChangeRequest: "fake_step c (fst (MergeChangeRequest req13 c))"
| RerunChecks: "fake_step c (fst (RerunChecks req14 c))"
| React: "fake_step c (fst (React req15 c))"
| EnsureWebhook: "fake_step c (fst (EnsureWebhook req16 c))"
| RemoveWebhook: "fake_step c (fst (RemoveWebhook req17 c))"
| DeleteIdentity: "fake_step c (fst (DeleteIdentity req18 c))"
| BeginAccessGrant: "fake_step c (fst (BeginAccessGrant req19 c))"
| CompleteAccessGrant: "fake_step c (fst (CompleteAccessGrant req20 c))"

inductive fake_run :: "Core \<Rightarrow> Core \<Rightarrow> bool" where
  stop: "fake_run c c"
| more: "fake_run a b \<Longrightarrow> fake_step b c \<Longrightarrow> fake_run a c"

lemmas safe_writes = safe_MintCredential safe_OpenChangeRequest safe_UpdateChangeRequest safe_PostComment
  safe_ReplyThread safe_SubmitReview safe_SetStatus safe_CreateBranch safe_ResolveThread safe_AddLabels
  safe_RequestReviewers safe_SetAssignees safe_MergeChangeRequest safe_RerunChecks safe_React
  safe_EnsureWebhook safe_RemoveWebhook safe_DeleteIdentity safe_BeginAccessGrant safe_CompleteAccessGrant

lemma fake_step_safe: "fake_step c c' \<Longrightarrow> safe_step c c'"
  by (induction rule: fake_step.induct) (rule safe_refl safe_writes)+

lemma fake_run_safe: "fake_run c c' \<Longrightarrow> safe_step c c'"
proof (induction rule: fake_run.induct)
  case (more a b d)
  then show ?case using fake_step_safe safe_trans by blast
qed simp

lemma wf_newCore: "wf_core (newCore cs)"
proof -
  have "wf_repo 0 path (seedRepo path b)" for path b
    by (simp add: wf_repo_def seedRepo_def seed_cr_def cr_keys_ok_def cr_entry_ok_def issue_keys_ok_def
      hooks_ok_def zero_ChangeRequest_def zero_Issue_def is_ascii_def byte_val_def)
  then show ?thesis
    by (auto simp: wf_core_def newCore_def allRepoPaths_def enumerate_eq_zip)
qed

end
