(* ===== verification/FakeSettled.thy ===== *)
theory FakeSettled
  imports FakeSteps
begin

text \<open>
  What an operation of the fake may change of the things \<open>evolves\<close> leaves free: the title,
  text, draft flag and state of a change request, the resolution of a thread, the assignees
  of an issue, the checks of a ref, a status and a registered webhook.  Each has operations
  that are there to change it, on the thing the request names; a run that asked for none of
  them leaves it as it was.
\<close>

section \<open>What a run may change\<close>

text \<open>
  The path of the repository and what is named in it: an operation that was asked to change
  that thing.
\<close>

datatype act =
    Edits string string
  | Merges string string
  | Resolves string string string
  | Assigns string string
  | Reruns string string
  | Reports string string
  | Removes string string

abbreviation path_of :: "Target \<Rightarrow> string" where
  "path_of t \<equiv> rr_full_path (tg_repo t)"

definition map_settled :: "('k \<Rightarrow> 'v \<Rightarrow> 'v \<Rightarrow> bool) \<Rightarrow> ('k \<rightharpoonup> 'v) \<Rightarrow> ('k \<rightharpoonup> 'v) \<Rightarrow> bool" where
  "map_settled R m m' \<longleftrightarrow> (\<forall>k v. m k = Some v \<longrightarrow> (\<exists>v'. m' k = Some v' \<and> R k v v'))"

definition thread_settled :: "act set \<Rightarrow> string \<Rightarrow> string \<Rightarrow> Thread \<Rightarrow> Thread \<Rightarrow> bool" where
  "thread_settled L p n t t' \<longleftrightarrow> th_id t' = th_id t \<and> th_outdated t' = th_outdated t \<and>
     (Resolves p n (th_id t) \<in> L \<or> th_resolved t' = th_resolved t)"

definition cr_settled :: "act set \<Rightarrow> string \<Rightarrow> string \<Rightarrow> crState \<Rightarrow> crState \<Rightarrow> bool" where
  "cr_settled L p n x x' \<longleftrightarrow>
     (Edits p n \<in> L \<or> cr_title (crs_cr x') = cr_title (crs_cr x) \<and> cr_body (crs_cr x') = cr_body (crs_cr x) \<and>
        cr_draft (crs_cr x') = cr_draft (crs_cr x)) \<and>
     (Edits p n \<in> L \<or> Merges p n \<in> L \<or> cr_state (crs_cr x') = cr_state (crs_cr x)) \<and>
     cr_updated_at (crs_cr x') = cr_updated_at (crs_cr x) \<and>
     list_all2 (thread_settled L p n) (crs_threads x) (crs_threads x')"

definition repo_settled :: "act set \<Rightarrow> string \<Rightarrow> repoState \<Rightarrow> repoState \<Rightarrow> bool" where
  "repo_settled L p r r' \<longleftrightarrow>
     map_settled (cr_settled L p) (map_of (rs_crs r)) (map_of (rs_crs r')) \<and>
     map_settled (\<lambda>n i i'. Assigns p n \<in> L \<or> iss_assignees i' = iss_assignees i) (map_of (rs_issues r)) (map_of (rs_issues r')) \<and>
     map_settled (\<lambda>s l l'. Reruns p s \<in> L \<or> l' = l) (map_of (rs_checks r)) (map_of (rs_checks r')) \<and>
     (\<forall>k st. rs_statuses r k = Some st \<longrightarrow> Reports p k \<in> L \<or> rs_statuses r' k = Some st) \<and>
     (\<forall>k u. map_of (rs_hooks r) k = Some u \<longrightarrow> Removes p k \<in> L \<or> map_of (rs_hooks r') k = Some u)"

definition settles :: "act set \<Rightarrow> Core \<Rightarrow> Core \<Rightarrow> bool" where
  "settles L c c' \<longleftrightarrow> map_settled (repo_settled L) (map_of (repos c)) (map_of (repos c'))"

section \<open>The relation\<close>

lemma map_settled_refl: "(\<And>k v. R k v v) \<Longrightarrow> map_settled R m m"
  by (simp add: map_settled_def)

lemma map_settled_trans:
  "map_settled R a b \<Longrightarrow> map_settled S b d \<Longrightarrow> (\<And>k u v w. R k u v \<Longrightarrow> S k v w \<Longrightarrow> T k u w) \<Longrightarrow> map_settled T a d"
  unfolding map_settled_def by metis

lemma map_settled_upd:
  "m k = Some v \<Longrightarrow> R k v v' \<Longrightarrow> (\<And>k v. R k v v) \<Longrightarrow> map_settled R m (m(k \<mapsto> v'))"
  by (simp add: map_settled_def)

lemma map_settled_new: "m k = None \<Longrightarrow> (\<And>k v. R k v v) \<Longrightarrow> map_settled R m (m(k \<mapsto> w))"
  by (simp add: map_settled_def)

lemma thread_settled_refl [simp]: "thread_settled L p n t t"
  by (simp add: thread_settled_def)

lemma cr_settled_refl [simp]: "cr_settled L p n x x"
  by (simp add: cr_settled_def list_all2_refl)

lemma repo_settled_refl [simp]: "repo_settled L p r r"
  by (simp add: repo_settled_def map_settled_refl)

lemma settles_refl [simp]: "settles L c c"
  by (simp add: settles_def map_settled_refl)

lemma thread_settled_trans: "thread_settled L p n a b \<Longrightarrow> thread_settled M p n b d \<Longrightarrow> thread_settled (L \<union> M) p n a d"
  by (auto simp: thread_settled_def)

lemma cr_settled_trans:
  assumes "cr_settled L p n a b" "cr_settled M p n b d"
  shows "cr_settled (L \<union> M) p n a d"
proof -
  have "list_all2 (thread_settled (L \<union> M) p n) (crs_threads a) (crs_threads d)"
    using assms list_all2_trans [of "thread_settled L p n" "thread_settled M p n" "thread_settled (L \<union> M) p n"] thread_settled_trans
    unfolding cr_settled_def by blast
  then show ?thesis using assms unfolding cr_settled_def by auto
qed

lemma repo_settled_trans:
  assumes ab: "repo_settled L p a b" and bd: "repo_settled M p b d"
  shows "repo_settled (L \<union> M) p a d"
  unfolding repo_settled_def
proof (intro conjI)
  show "map_settled (cr_settled (L \<union> M) p) (map_of (rs_crs a)) (map_of (rs_crs d))"
    using ab bd unfolding repo_settled_def by (elim conjE) (rule map_settled_trans [OF _ _ cr_settled_trans])
  show "map_settled (\<lambda>n i i'. Assigns p n \<in> L \<union> M \<or> iss_assignees i' = iss_assignees i) (map_of (rs_issues a)) (map_of (rs_issues d))"
    using ab bd unfolding repo_settled_def by (elim conjE) (rule map_settled_trans, assumption, assumption, auto)
  show "map_settled (\<lambda>s l l'. Reruns p s \<in> L \<union> M \<or> l' = l) (map_of (rs_checks a)) (map_of (rs_checks d))"
    using ab bd unfolding repo_settled_def by (elim conjE) (rule map_settled_trans, assumption, assumption, auto)
  show "\<forall>k st. rs_statuses a k = Some st \<longrightarrow> Reports p k \<in> L \<union> M \<or> rs_statuses d k = Some st"
    using ab bd unfolding repo_settled_def by blast
  show "\<forall>k u. map_of (rs_hooks a) k = Some u \<longrightarrow> Removes p k \<in> L \<union> M \<or> map_of (rs_hooks d) k = Some u"
    using ab bd unfolding repo_settled_def by blast
qed

lemma settles_trans: "settles L a b \<Longrightarrow> settles M b d \<Longrightarrow> settles (L \<union> M) a d"
  unfolding settles_def by (rule map_settled_trans [OF _ _ repo_settled_trans])

lemma settles_repos: "repos c' = repos c \<Longrightarrow> settles L c c'"
  by (simp add: settles_def map_settled_refl)

lemma settles_repos_cong: "settles L c c' \<Longrightarrow> repos c'' = repos c' \<Longrightarrow> settles L c c''"
  by (simp add: settles_def)

section \<open>Writes\<close>

lemma settles_put_repo:
  assumes "find_repo c t = Some r" "repo_settled L (path_of t) r r'"
  shows "settles L c (put_repo t r' c)" "settles L c (put_repo t r' (c\<lparr>seq := k\<rparr>))"
proof -
  have "map_of (repos (put_repo t r' (c\<lparr>seq := k\<rparr>))) = (map_of (repos c))(path_of t \<mapsto> r')"
    by (simp add: lookup_put_repo)
  then show "settles L c (put_repo t r' c)" "settles L c (put_repo t r' (c\<lparr>seq := k\<rparr>))"
    using assms(2) find_repoD [OF assms(1)] unfolding settles_def lookup_put_repo
    by (auto intro!: map_settled_upd)
qed

lemma settles_put_cr:
  assumes "find_repo c t = Some r" "map_of (rs_crs r) n = Some x" "cr_settled L (path_of t) n x x'"
  shows "settles L c (put_cr t n x' r c)" "settles L c (put_cr t n x' r (c\<lparr>seq := k\<rparr>))"
proof -
  have "repo_settled L (path_of t) r (r\<lparr>rs_crs := AList.update n x' (rs_crs r)\<rparr>)"
    using assms(2,3) map_settled_upd [of "map_of (rs_crs r)" n x "cr_settled L (path_of t)" x']
    by (simp add: repo_settled_def AList.update_conv' map_settled_refl)
  then show "settles L c (put_cr t n x' r c)" "settles L c (put_cr t n x' r (c\<lparr>seq := k\<rparr>))"
    unfolding put_cr_def by (rule settles_put_repo [OF assms(1)])+
qed

lemma settles_put_issue:
  assumes "find_repo c t = Some r" "map_of (rs_issues r) n = Some i"
    and "Assigns (path_of t) n \<in> L \<or> iss_assignees i' = iss_assignees i"
  shows "settles L c (put_repo t (r\<lparr>rs_issues := AList.update n i' (rs_issues r)\<rparr>) c)"
proof (rule settles_put_repo [OF assms(1)])
  show "repo_settled L (path_of t) r (r\<lparr>rs_issues := AList.update n i' (rs_issues r)\<rparr>)"
    using assms(2,3)
      map_settled_upd [of "map_of (rs_issues r)" n i "\<lambda>n i i'. Assigns (path_of t) n \<in> L \<or> iss_assignees i' = iss_assignees i" i']
    by (simp add: repo_settled_def AList.update_conv' map_settled_refl)
qed

text \<open>A repository whose things \<open>repo_settled\<close> speaks of were not touched.\<close>

lemma repo_settled_same:
  "rs_crs r' = rs_crs r \<Longrightarrow> rs_issues r' = rs_issues r \<Longrightarrow> rs_checks r' = rs_checks r \<Longrightarrow> rs_statuses r' = rs_statuses r \<Longrightarrow>
     rs_hooks r' = rs_hooks r \<Longrightarrow> repo_settled L p r r'"
  by (simp add: repo_settled_def map_settled_refl)

lemma settles_intros:
  "settles L c (fst (c, r))"
  "(b \<Longrightarrow> settles L c (fst y)) \<Longrightarrow> (\<not> b \<Longrightarrow> settles L c (fst z)) \<Longrightarrow> settles L c (fst (if b then y else z))"
  "(v = None \<Longrightarrow> settles L c (fst y)) \<Longrightarrow> (\<And>a. v = Some a \<Longrightarrow> settles L c (fst (w a))) \<Longrightarrow>
     settles L c (fst (case v of None \<Rightarrow> y | Some a \<Rightarrow> w a))"
  "(\<And>r. find_repo c t = Some r \<Longrightarrow> settles L c (fst (k r))) \<Longrightarrow> settles L c (fst (with_repo c t k))"
  "(\<And>r x. find_repo c t = Some r \<Longrightarrow> map_of (rs_crs r) n = Some x \<Longrightarrow> settles L c (fst (k' r x))) \<Longrightarrow>
     settles L c (fst (with_cr c t n k'))"
  "(\<And>r. find_repo c t = Some r \<Longrightarrow> missing_subject r s = None \<Longrightarrow> settles L c (fst (k r))) \<Longrightarrow>
     settles L c (fst (with_subject c t s k))"
  by (simp_all add: with_repo_rule with_cr_rule with_subject_rule split: option.split)

lemma settles_once:
  assumes "settles L c (fst (fn c))"
  shows "settles L c (fst (once c key to_memo of_memo fn))"
  by (rule once_rule) (use assms in \<open>auto elim: settles_repos_cong\<close>)

lemmas settles_onces =
  settles_once [where to_memo = "\<lambda>v. MemoCR (json_ChangeRequest v)" and of_memo = memo_cr, folded once_cr_def]
  settles_once [where to_memo = "\<lambda>v. MemoComment (json_CommentResult v)" and of_memo = memo_comment, folded once_comment_def]
  settles_once [where to_memo = "\<lambda>v. MemoReview (json_ReviewResult v)" and of_memo = memo_review, folded once_review_def]
  settles_once [where to_memo = "\<lambda>v. MemoBranch (json_BranchInfo v)" and of_memo = memo_branch, folded once_branch_def]

section \<open>The operations\<close>

lemma settles_MintCredential: "settles {} c (fst (MintCredential now req c))"
  unfolding MintCredential_def by (intro settles_intros) (simp add: next_id_eq Let_def settles_repos)

lemma settles_OpenChangeRequest:
  assumes "wf_core c"
  shows "settles {} c (fst (OpenChangeRequest req c))"
proof -
  have "settles {} c (put_cr (oc_target req) (next_number r) x (r\<lparr>rs_nextID := rs_nextID r + 1\<rparr>) c)"
    if f: "find_repo c (oc_target req) = Some r" for r x
  proof -
    have "map_of (rs_crs r) (next_number r) = None"
      using next_number_fresh find_repo_wf [OF assms f] by (simp add: wf_repo_def)
    then have "repo_settled {} (path_of (oc_target req)) r
        (r\<lparr>rs_nextID := rs_nextID r + 1, rs_crs := AList.update (next_number r) x (rs_crs r)\<rparr>)"
      by (simp add: repo_settled_def map_settled_refl AList.update_conv' map_settled_new)
    then show ?thesis by (simp add: put_cr_def settles_put_repo [OF f])
  qed
  then show ?thesis
    unfolding OpenChangeRequest_def
    by (intro settles_intros settles_onces) (simp add: Let_def next_number_def)
qed

lemma settles_UpdateChangeRequest:
  "settles {Edits (path_of (uc_target req)) (uc_number req)} c (fst (UpdateChangeRequest req c))"
  unfolding UpdateChangeRequest_def
  by (intro settles_intros)
     (auto simp: Let_def set_opt_def cr_settled_def list_all2_refl split: option.split intro!: settles_put_cr)

lemma settles_PostComment: "settles {} c (fst (PostComment req c))"
  unfolding PostComment_def
  by (intro settles_intros settles_onces) (simp add: next_id_eq Let_def settles_put_repo repo_settled_same)

lemma thread_update_settles:
  "(\<And>t. th_id t = i \<Longrightarrow> thread_settled L p n t (f t)) \<Longrightarrow> list_all2 (thread_settled L p n) ts (update_thread i f ts)"
  by (induction ts) (auto intro: list_all2_refl)

lemma settles_ReplyThread: "settles {} c (fst (ReplyThread req c))"
  unfolding ReplyThread_def
  by (intro settles_intros settles_onces)
     (simp add: next_id_eq Let_def settles_put_cr cr_settled_def thread_update_settles thread_settled_def)

lemma settles_SubmitReview: "settles {} c (fst (SubmitReview q req c))"
  unfolding SubmitReview_def
  by (intro settles_intros settles_onces) (simp add: next_id_eq settles_repos)

lemma settles_SetStatus:
  assumes "wf_core c"
  shows "settles {Reports (path_of (st_target req)) (st_status_ref req)} c (fst (SetStatus req c))"
proof -
  let ?L = "{Reports (path_of (st_target req)) (st_status_ref req)}"
  have "repo_settled ?L (path_of (st_target req)) r (r\<lparr>rs_statuses := (rs_statuses r)(k \<mapsto> req)\<rparr>)"
    if "k = st_status_ref req \<or> rs_statuses r k = None" for r k
    using that by (auto simp: repo_settled_def map_settled_refl)
  moreover have "rs_statuses r (nth_id ''st'' (seq c + 1)) = None" if f: "find_repo c (st_target req) = Some r" for r
    using find_repo_wf [OF assms f] fresh_id [of "seq c" "''st''"] assms by (auto simp: wf_repo_def wf_core_def)
  ultimately show ?thesis
    unfolding SetStatus_def by (intro settles_intros) (simp_all add: next_id_eq settles_put_repo)
qed

lemma settles_CreateBranch: "settles {} c (fst (CreateBranch req c))"
  unfolding CreateBranch_def
  by (intro settles_intros settles_onces) (simp add: Let_def settles_put_repo repo_settled_same split: option.split)

lemma settles_ResolveThread:
  "settles {Resolves (path_of (rth_target req)) (rth_number req) (rth_thread_id req)} c (fst (ResolveThread req c))"
  unfolding ResolveThread_def
  by (intro settles_intros) (simp add: settles_put_cr cr_settled_def thread_update_settles thread_settled_def)

lemma settles_update_cr:
  assumes "find_repo c t = Some r" "missing_subject r s = None" "sr_kind s = SubjectChangeRequest"
    and "\<And>y. cr_settled L (path_of t) (sr_number s) y (y\<lparr>crs_cr := f (crs_cr y)\<rparr>)"
  shows "settles L c (update_cr t (sr_number s) f r c)"
proof -
  obtain x where "map_of (rs_crs r) (sr_number s) = Some x"
    using assms(2,3) by (auto simp: missing_subject_def split: if_splits)
  then show ?thesis using assms(1,4) by (simp add: update_cr_def Let_def settles_put_cr)
qed

lemma settles_update_issue:
  assumes "find_repo c t = Some r" "missing_subject r s = None" "sr_kind s \<noteq> SubjectChangeRequest"
    and "\<And>i. Assigns (path_of t) (sr_number s) \<in> L \<or> iss_assignees (f i) = iss_assignees i"
  shows "settles L c (update_issue t (sr_number s) f r c)"
proof -
  obtain i where "map_of (rs_issues r) (sr_number s) = Some i"
    using assms(2,3) by (auto simp: missing_subject_def split: if_splits)
  then show ?thesis using assms(1,4) by (simp add: update_issue_def settles_put_issue)
qed

lemma settles_AddLabels: "settles {} c (fst (AddLabels req c))"
  unfolding AddLabels_def
  by (intro settles_intros)
     (auto intro!: settles_update_cr settles_update_issue simp: cr_settled_def list_all2_refl)

lemma settles_RequestReviewers: "settles {} c (fst (RequestReviewers req c))"
  unfolding RequestReviewers_def
  by (intro settles_intros) (auto intro!: settles_update_cr simp: cr_settled_def list_all2_refl)

lemma settles_SetAssignees:
  "settles {Assigns (path_of (pp_target req)) (sr_number (pp_subject req))} c (fst (SetAssignees req c))"
  unfolding SetAssignees_def
  by (intro settles_intros) (auto intro!: settles_update_issue simp: subject_kinds)

lemma settles_MergeChangeRequest:
  "settles {Merges (path_of (mg_target req)) (mg_number req)} c (fst (MergeChangeRequest req c))"
  unfolding MergeChangeRequest_def
  by (intro settles_intros) (simp add: settles_put_cr cr_settled_def list_all2_refl)

lemma settles_RerunChecks:
  "settles {Reruns (path_of (rru_target req)) (rru_ref req)} c (fst (RerunChecks req c))"
proof -
  have "repo_settled {Reruns p s} p r (r\<lparr>rs_checks := AList.update s l' (rs_checks r)\<rparr>)"
    if "map_of (rs_checks r) s = Some l" for p s r l l'
    using that by (auto simp: repo_settled_def AList.update_conv' map_settled_refl map_settled_def)
  then show ?thesis
    unfolding RerunChecks_def by (intro settles_intros) (simp add: settles_put_repo)
qed

lemma settles_React: "settles {} c (fst (React req c))"
  unfolding React_def by (intro settles_intros) (simp add: settles_put_repo repo_settled_same)

lemma settles_EnsureWebhook:
  assumes "wf_core c"
  shows "settles {} c (fst (EnsureWebhook req c))"
proof -
  have "map_of (rs_hooks r) (nth_id ''hook'' (seq c + 1)) = None" if f: "find_repo c (ew_target req) = Some r" for r
  proof -
    have "fst ` set (rs_hooks r) \<subseteq> ids_upto ''hook'' (seq c)"
      using find_repo_wf [OF assms f] by (simp add: wf_repo_def hooks_ok_def)
    then show ?thesis
      using fresh_id [of "seq c" "''hook''"] assms by (auto simp: wf_core_def map_of_eq_None_iff)
  qed
  then have "repo_settled {} p r (r\<lparr>rs_hooks := AList.update (nth_id ''hook'' (seq c + 1)) u (rs_hooks r)\<rparr>)"
    if "find_repo c (ew_target req) = Some r" for r u p
    using that by (auto simp: repo_settled_def AList.update_conv' map_settled_refl)
  then show ?thesis
    unfolding EnsureWebhook_def
    by (intro settles_intros) (auto simp: next_id_eq settles_put_repo split: prod.split)
qed

lemma settles_RemoveWebhook:
  "settles {Removes (path_of (rw_target req)) (wh_id (rw_webhook req))} c (fst (RemoveWebhook req c))"
proof -
  have "repo_settled {Removes p k} p r (r\<lparr>rs_hooks := AList.delete k (rs_hooks r)\<rparr>)" for p k r
    by (auto simp: repo_settled_def AList.delete_conv' map_settled_refl)
  then show ?thesis
    unfolding RemoveWebhook_def by (intro settles_intros) (simp add: settles_put_repo)
qed

lemma settles_DeleteIdentity: "settles {} c (fst (DeleteIdentity req c))"
  by (simp add: DeleteIdentity_def settles_repos)

lemma settles_BeginAccessGrant: "settles {} c (fst (BeginAccessGrant req c))"
  unfolding BeginAccessGrant_def by (intro settles_intros) (simp add: next_id_eq settles_repos)

lemma settles_CompleteAccessGrant: "settles {} c (fst (CompleteAccessGrant req c))"
  unfolding CompleteAccessGrant_def by (intro settles_intros) (simp add: settles_repos)

section \<open>Runs that say what they were asked to change\<close>

inductive fake_act :: "act set \<Rightarrow> Core \<Rightarrow> Core \<Rightarrow> bool" where
  "fake_act {} c c"
| "fake_act {} c (fst (MintCredential now req1 c))"
| "fake_act {} c (fst (OpenChangeRequest req2 c))"
| "fake_act {Edits (path_of (uc_target req3)) (uc_number req3)} c (fst (UpdateChangeRequest req3 c))"
| "fake_act {} c (fst (PostComment req4 c))"
| "fake_act {} c (fst (ReplyThread req5 c))"
| "fake_act {} c (fst (SubmitReview q req6 c))"
| "fake_act {Reports (path_of (st_target req7)) (st_status_ref req7)} c (fst (SetStatus req7 c))"
| "fake_act {} c (fst (CreateBranch req8 c))"
| "fake_act {Resolves (path_of (rth_target req9)) (rth_number req9) (rth_thread_id req9)} c (fst (ResolveThread req9 c))"
| "fake_act {} c (fst (AddLabels req10 c))"
| "fake_act {} c (fst (RequestReviewers req11 c))"
| "fake_act {Assigns (path_of (pp_target req12)) (sr_number (pp_subject req12))} c (fst (SetAssignees req12 c))"
| "fake_act {Merges (path_of (mg_target req13)) (mg_number req13)} c (fst (MergeChangeRequest req13 c))"
| "fake_act {Reruns (path_of (rru_target req14)) (rru_ref req14)} c (fst (RerunChecks req14 c))"
| "fake_act {} c (fst (React req15 c))"
| "fake_act {} c (fst (EnsureWebhook req16 c))"
| "fake_act {Removes (path_of (rw_target req17)) (wh_id (rw_webhook req17))} c (fst (RemoveWebhook req17 c))"
| "fake_act {} c (fst (DeleteIdentity req18 c))"
| "fake_act {} c (fst (BeginAccessGrant req19 c))"
| "fake_act {} c (fst (CompleteAccessGrant req20 c))"

inductive acts_run :: "act set \<Rightarrow> Core \<Rightarrow> Core \<Rightarrow> bool" where
  stop: "acts_run {} c c"
| more: "acts_run L a b \<Longrightarrow> fake_act M b c \<Longrightarrow> acts_run (L \<union> M) a c"

lemma fake_act_step: "fake_act L c c' \<Longrightarrow> fake_step c c'"
  by (induction rule: fake_act.induct) (rule fake_step.intros)+

lemma fake_step_act: "fake_step c c' \<Longrightarrow> \<exists>L. fake_act L c c'"
  by (induction rule: fake_step.induct) (rule exI, rule fake_act.intros)+

text \<open>These are the runs of the fake.\<close>

lemma fake_run_acts: "fake_run c c' \<longleftrightarrow> (\<exists>L. acts_run L c c')"
proof
  assume "fake_run c c'"
  then show "\<exists>L. acts_run L c c'"
    by (induction rule: fake_run.induct) (use acts_run.intros fake_step_act in metis)+
next
  assume "\<exists>L. acts_run L c c'"
  then obtain L where "acts_run L c c'" ..
  then show "fake_run c c'"
    by (induction rule: acts_run.induct) (use fake_run.intros fake_act_step in metis)+
qed

lemma fake_act_settles: "fake_act L c c' \<Longrightarrow> wf_core c \<Longrightarrow> settles L c c'"
  by (induction rule: fake_act.induct)
     (simp_all add: settles_MintCredential settles_OpenChangeRequest settles_UpdateChangeRequest settles_PostComment
       settles_ReplyThread settles_SubmitReview settles_SetStatus settles_CreateBranch settles_ResolveThread settles_AddLabels
       settles_RequestReviewers settles_SetAssignees settles_MergeChangeRequest settles_RerunChecks settles_React
       settles_EnsureWebhook settles_RemoveWebhook settles_DeleteIdentity settles_BeginAccessGrant settles_CompleteAccessGrant)

lemma acts_run_settles:
  assumes "acts_run L c c'" "wf_core c"
  shows "settles L c c' \<and> wf_core c'"
  using assms
proof (induction rule: acts_run.induct)
  case (more L a b M d)
  then have "settles M b d" "wf_core d"
    using fake_act_settles fake_step_safe [OF fake_act_step] by (auto simp: safe_step_def)
  then show ?case using more settles_trans by blast
qed simp

end
