(* ===== verification/FakeHistory.thy ===== *)
theory FakeHistory
  imports FakeSettled
begin

text \<open>
  What a client of the fake can rely on across a whole run: nothing is lost or changed that no
  request named, a retry with an idempotency key gets the first answer, an access grant works
  once, and which part of the world an operation on a repository touches.
\<close>

section \<open>Reachable states\<close>

definition reachable :: "Capabilities \<Rightarrow> Core \<Rightarrow> bool" where
  "reachable cs c \<longleftrightarrow> fake_run (newCore cs) c"

lemma reachable_new: "reachable cs (newCore cs)"
  by (simp add: reachable_def fake_run.stop)

lemma reachable_step: "reachable cs c \<Longrightarrow> fake_step c c' \<Longrightarrow> reachable cs c'"
  unfolding reachable_def by (rule fake_run.more)

lemma fake_run_trans: "fake_run b c \<Longrightarrow> fake_run a b \<Longrightarrow> fake_run a c"
  by (induction rule: fake_run.induct) (auto intro: fake_run.more)

lemma reachable_run: "reachable cs c \<Longrightarrow> fake_run c c' \<Longrightarrow> reachable cs c'"
  unfolding reachable_def by (rule fake_run_trans)

lemma reachable_wf: "reachable cs c \<Longrightarrow> wf_core c"
  using fake_run_safe wf_newCore by (auto simp: reachable_def safe_step_def)

lemma run_evolves: "wf_core c \<Longrightarrow> fake_run c c' \<Longrightarrow> wf_core c' \<and> evolves c c'"
  using fake_run_safe by (simp add: safe_step_def)

lemma newCore_caps [simp]: "caps (newCore cs) = cs"
  by (simp add: newCore_def)

lemma reachable_caps: "reachable cs c \<Longrightarrow> caps c = cs"
  using run_evolves [OF wf_newCore] by (auto simp: reachable_def evolves_def)

lemma find_repo_evolves:
  assumes "evolves c c'" "find_repo c t = Some r"
  shows "\<exists>r'. find_repo c' t = Some r' \<and> repo_evolves r r'"
proof -
  have r: "map_of (repos c) (rr_full_path (tg_repo t)) = Some r" "ir_id (tg_identity t) = IdentityID"
    using find_repoD [OF assms(2)] by auto
  then obtain r' where "map_of (repos c') (rr_full_path (tg_repo t)) = Some r'" "repo_evolves r r'"
    using assms(1) map_evolvesD unfolding evolves_def by metis
  then show ?thesis using r by (auto simp: find_repo_def)
qed

section \<open>Idempotency keys\<close>

lemma once_hit:
  "key \<noteq> '''' \<Longrightarrow> cap_idempotent_writes (caps c) \<Longrightarrow> idem c key = Some m \<Longrightarrow>
     once c key to_memo of_memo fn = (c, Answers (of_memo m))"
  by (simp add: once_def)

lemma once_records:
  "key \<noteq> '''' \<Longrightarrow> cap_idempotent_writes (caps c) \<Longrightarrow> idem c key = None \<Longrightarrow>
     once c key to_memo of_memo fn = (c1, Answers v) \<Longrightarrow> idem c1 key = Some (to_memo v)"
  by (auto simp: once_def split: prod.splits reply.splits)

lemma idem_evolves: "evolves c c' \<Longrightarrow> idem c key = Some m \<Longrightarrow> idem c' key = Some m"
  by (auto simp: evolves_def map_le_def dom_def)

text \<open>A memoised call repeated later.\<close>

lemma once_replay:
  assumes "key \<noteq> ''''" "cap_idempotent_writes (caps c)" "idem c key = None"
    and "once c key to_memo of_memo fn = (c1, Answers v)" and "evolves c1 c2" "caps c2 = caps c"
  shows "once c2 key to_memo of_memo fn' = (c2, Answers (of_memo (to_memo v)))"
  using once_hit [of key c2 "to_memo v" to_memo of_memo fn'] once_records [OF assms(1-4)] idem_evolves [OF assms(5)] assms(1,2,6) by simp

lemma idemKey_nonempty: "key \<noteq> '''' \<Longrightarrow> idemKey opn key \<noteq> ''''"
  by (simp add: idemKey_def)

text \<open>What an answer of \<open>OpenChangeRequest\<close> says about the checks before \<open>once\<close>.\<close>

definition open_run :: "OpenCRRequest \<Rightarrow> repoState \<Rightarrow> Core \<Rightarrow> Core \<times> ChangeRequest reply" where
  "open_run req r c =
     (if open_for_head r (oc_head req)
      then (c, fails CodeConflict ''an open change request already exists for this branch'')
      else
        let n = next_number r; x = \<lparr>crs_cr = new_cr req n, crs_files = [], crs_threads = []\<rparr>
        in (put_cr (oc_target req) n x (r\<lparr>rs_nextID := rs_nextID r + 1\<rparr>) c, Answers (crs_cr x)))"

lemma OpenChangeRequest_valid:
  assumes "find_repo c (oc_target req) = Some r" "trim_space (oc_title req) \<noteq> ''''" "oc_head req \<noteq> ''''"
    "oc_base req \<noteq> ''''" "oc_draft req \<longrightarrow> cap_draft_change_requests (caps c)"
  shows "OpenChangeRequest req c = once_cr c (idemKey ''open'' (oc_idempotency_key req)) (open_run req r)"
  unfolding OpenChangeRequest_def with_repo_def open_run_def [abs_def] next_number_def
  using assms by auto

lemma OpenChangeRequest_answers:
  assumes "OpenChangeRequest req c = (c1, Answers v)"
  shows "\<exists>r. find_repo c (oc_target req) = Some r \<and> trim_space (oc_title req) \<noteq> '''' \<and> oc_head req \<noteq> '''' \<and>
    oc_base req \<noteq> '''' \<and> (oc_draft req \<longrightarrow> cap_draft_change_requests (caps c))"
  using assms by (auto simp: OpenChangeRequest_def with_repo_def split: option.splits if_splits)

section \<open>Properties of runs\<close>

text \<open>
  C16: nothing is lost that was not asked for.  Whatever operations run on a reachable world,
  in whatever order (\<open>L\<close> collects what they were asked to change; every run is such a run, by
  \<open>fake_run_acts\<close>): the invariant holds (every key names its own change request or issue,
  identifiers come from the counter, webhook URLs are registered once, a memoised result has
  the type of the operation in its key).  Every change request, issue, comment, thread,
  branch, reaction, granted access and memoised result that was there is there still, with
  the same number, author, head, base, files and identifiers, labels and reviewers at most
  longer.  And what can be changed changed only if a request named it: a change request's
  title, text and draft flag by an update of it, its state by an update or a merge of it, a
  thread's resolution by resolving it, an issue's assignees by setting them, the checks of a
  ref by rerunning them, a status by setting it again, and a webhook is still registered with
  its URL unless it was removed.
\<close>

theorem fake_run_history:
  assumes "reachable cs c" "acts_run L c c'"
  shows "wf_core c' \<and> evolves c c' \<and> settles L c c'"
  using run_evolves [OF reachable_wf [OF assms(1)]] acts_run_settles [OF assms(2) reachable_wf [OF assms(1)]] assms(2)
  by (auto simp: fake_run_acts)

text \<open>
  C17: a retry is safe.  When the provider declares idempotent writes and a call of
  \<^verbatim>\<open>OpenChangeRequest\<close> with a fresh idempotency key answered a change request, then after
  any further operations the same call answers that change request again (as JSON keeps
  it) and changes nothing: no second change request, and no conflict with the first.
\<close>

theorem open_retry_replays:
  assumes "reachable cs c" "cap_idempotent_writes cs" "oc_idempotency_key req \<noteq> ''''"
    and "idem c (idemKey ''open'' (oc_idempotency_key req)) = None"
    and first: "OpenChangeRequest req c = (c1, Answers v)" and later: "fake_run c1 c2"
  shows "OpenChangeRequest req c2 = (c2, Answers (json_ChangeRequest v))"
proof -
  obtain r where r: "find_repo c (oc_target req) = Some r" "trim_space (oc_title req) \<noteq> ''''" "oc_head req \<noteq> ''''"
    "oc_base req \<noteq> ''''" "oc_draft req \<longrightarrow> cap_draft_change_requests (caps c)"
    using OpenChangeRequest_answers [OF first] by blast
  have r1: "reachable cs c1"
    using reachable_step [OF assms(1) OpenChangeRequest [of c req]] first by simp
  have e: "evolves c c1" "evolves c1 c2"
    using safe_OpenChangeRequest [of c req] first reachable_wf [OF assms(1)] run_evolves [OF reachable_wf [OF r1] later]
    by (auto simp: safe_step_def)
  have cp: "caps c = cs" "caps c2 = caps c"
    using reachable_caps [OF assms(1)] reachable_caps [OF reachable_run [OF r1 later]] by auto
  obtain r2 where r2: "find_repo c2 (oc_target req) = Some r2"
    using find_repo_evolves [OF evolves_trans [OF e] r(1)] by blast
  show ?thesis
    using once_replay [of "idemKey ''open'' (oc_idempotency_key req)" c _ memo_cr "open_run req r" c1 v c2]
      OpenChangeRequest_valid [OF r] OpenChangeRequest_valid [OF r2 r(2-4)] r(5) first assms(2-4) e cp idemKey_nonempty
    by (simp add: once_cr_def)
qed

text \<open>
  C18: an access grant works once.  After \<^verbatim>\<open>CompleteAccessGrant\<close> answered for a state,
  no operation of any run makes that state usable again: every later completion with it
  is refused as forbidden and changes nothing.
\<close>

theorem access_grant_once:
  assumes "reachable cs c" and first: "CompleteAccessGrant req c = (c1, Answers g)" and later: "fake_run c1 c2"
    and "ir_id (ca_identity req2) = IdentityID" "ca_state req2 = ca_state req"
  shows "CompleteAccessGrant req2 c2 = (c2, fails CodeForbidden ''unknown or already used state'')"
proof -
  have s: "ca_state req \<noteq> ''''" "grants c1 (ca_state req) = Some True"
    using first by (auto simp: CompleteAccessGrant_def split: if_splits)
  have "reachable cs c1"
    using reachable_step [OF assms(1) CompleteAccessGrant [of c req]] first by simp
  then have "evolves c1 c2" using run_evolves reachable_wf later by blast
  then have "grants c2 (ca_state req) = Some True" using s by (simp add: evolves_def)
  then show ?thesis using s assms(4,5) by (simp add: CompleteAccessGrant_def)
qed

section \<open>One repository at a time\<close>

text \<open>The operations that name a target, and what they do to the state.\<close>

inductive target_step :: "Target \<Rightarrow> Core \<Rightarrow> Core \<Rightarrow> bool" where
  "target_step (mr_target req1) c (fst (MintCredential now req1 c))"
| "target_step (oc_target req2) c (fst (OpenChangeRequest req2 c))"
| "target_step (uc_target req3) c (fst (UpdateChangeRequest req3 c))"
| "target_step (cmq_target req4) c (fst (PostComment req4 c))"
| "target_step (rt_target req5) c (fst (ReplyThread req5 c))"
| "target_step (sv_target req6) c (fst (SubmitReview q req6 c))"
| "target_step (st_target req7) c (fst (SetStatus req7 c))"
| "target_step (cb_target req8) c (fst (CreateBranch req8 c))"
| "target_step (rth_target req9) c (fst (ResolveThread req9 c))"
| "target_step (lb_target req10) c (fst (AddLabels req10 c))"
| "target_step (pp_target req11) c (fst (RequestReviewers req11 c))"
| "target_step (pp_target req12) c (fst (SetAssignees req12 c))"
| "target_step (mg_target req13) c (fst (MergeChangeRequest req13 c))"
| "target_step (rru_target req14) c (fst (RerunChecks req14 c))"
| "target_step (re_target req15) c (fst (React req15 c))"
| "target_step (ew_target req16) c (fst (EnsureWebhook req16 c))"
| "target_step (rw_target req17) c (fst (RemoveWebhook req17 c))"

text \<open>
  What the repositories share, beside the grants and the deleted identities: the
  capabilities, the counter of identifiers and the memo of idempotency keys.  \<open>memos\<close> says
  whether the step may record a key.
\<close>

definition frame :: "bool \<Rightarrow> Target \<Rightarrow> Core \<Rightarrow> Core \<Rightarrow> bool" where
  "frame memos t c c' \<longleftrightarrow>
     (\<forall>path. path \<noteq> rr_full_path (tg_repo t) \<longrightarrow> map_of (repos c') path = map_of (repos c) path) \<and>
     caps c' = caps c \<and> grants c' = grants c \<and> Deleted c' = Deleted c \<and>
     seq c' \<in> {seq c, seq c + 1} \<and>
     (idem c' = idem c \<or> memos \<and> (\<exists>k m. idem c k = None \<and> idem c' = (idem c)(k \<mapsto> m))) \<and>
     (find_repo c t = None \<longrightarrow> c' = c)"

lemma frame_refl [simp]: "frame b t c c"
  by (simp add: frame_def)

lemma frame_put:
  "find_repo c t = Some r \<Longrightarrow> frame b t c (put_repo t r' c)"
  "find_repo c t = Some r \<Longrightarrow> frame b t c (put_repo t r' (c\<lparr>seq := seq c + 1\<rparr>))"
  "find_repo c t = Some r \<Longrightarrow> frame b t c (c\<lparr>seq := seq c + 1\<rparr>)"
  by (simp_all add: frame_def lookup_put_repo)

lemma frame_put_cr:
  "find_repo c t = Some r \<Longrightarrow> frame b t c (put_cr t k x r' c)"
  "find_repo c t = Some r \<Longrightarrow> frame b t c (put_cr t k x r' (c\<lparr>seq := seq c + 1\<rparr>))"
  by (simp_all add: put_cr_def frame_put)

lemma frame_intros:
  "frame b t c (fst (c, r))"
  "(g \<Longrightarrow> frame b t c (fst y)) \<Longrightarrow> (\<not> g \<Longrightarrow> frame b t c (fst z)) \<Longrightarrow> frame b t c (fst (if g then y else z))"
  "(v = None \<Longrightarrow> frame b t c (fst y)) \<Longrightarrow> (\<And>a. v = Some a \<Longrightarrow> frame b t c (fst (w a))) \<Longrightarrow>
     frame b t c (fst (case v of None \<Rightarrow> y | Some a \<Rightarrow> w a))"
  "(\<And>r. find_repo c t = Some r \<Longrightarrow> frame b t c (fst (k r))) \<Longrightarrow> frame b t c (fst (with_repo c t k))"
  "(\<And>r x. find_repo c t = Some r \<Longrightarrow> frame b t c (fst (k' r x))) \<Longrightarrow> frame b t c (fst (with_cr c t n k'))"
  "(\<And>r. find_repo c t = Some r \<Longrightarrow> frame b t c (fst (k r))) \<Longrightarrow> frame b t c (fst (with_subject c t s k))"
  by (simp_all add: with_repo_rule with_cr_rule with_subject_rule split: option.split)

lemma frame_once:
  assumes "frame False t c (fst (fn c))" "find_repo c t \<noteq> None"
  shows "frame True t c (fst (once c key to_memo of_memo fn))"
proof -
  obtain c' r where fn: "fn c = (c', r)" by fastforce
  have quiet: "frame False t c c' \<Longrightarrow> frame True t c c'" by (simp add: frame_def)
  have memo: "frame True t c (c'\<lparr>idem := (idem c')(key \<mapsto> m)\<rparr>)" if "idem c key = None" for m
    using assms that by (auto simp: frame_def fn)
  show ?thesis using assms fn quiet memo by (auto simp: once_def split: option.split reply.split)
qed

lemmas frame_onces = frame_once [where to_memo = "\<lambda>v. MemoCR (json_ChangeRequest v)" and of_memo = memo_cr, folded once_cr_def]
  frame_once [where to_memo = "\<lambda>v. MemoComment (json_CommentResult v)" and of_memo = memo_comment, folded once_comment_def]
  frame_once [where to_memo = "\<lambda>v. MemoReview (json_ReviewResult v)" and of_memo = memo_review, folded once_review_def]
  frame_once [where to_memo = "\<lambda>v. MemoBranch (json_BranchInfo v)" and of_memo = memo_branch, folded once_branch_def]

lemma target_step_frame: "target_step t c c' \<Longrightarrow> frame True t c c'"
proof (induction rule: target_step.induct)
  case (1 req1 c now)
  show ?case unfolding MintCredential_def by (intro frame_intros) (simp add: next_id_eq Let_def frame_put)
next
  case (2 req2 c)
  show ?case unfolding OpenChangeRequest_def
    by (intro frame_intros frame_onces) (simp_all add: Let_def frame_put_cr)
next
  case (3 req3 c)
  show ?case unfolding UpdateChangeRequest_def
    by (intro frame_intros) (simp add: Let_def frame_put_cr split: option.split)
next
  case (4 req4 c)
  show ?case unfolding PostComment_def
    by (intro frame_intros frame_onces) (simp_all add: Let_def next_id_eq frame_put)
next
  case (5 req5 c)
  show ?case unfolding ReplyThread_def
    by (intro frame_intros frame_onces) (simp_all add: Let_def next_id_eq frame_put_cr)
next
  case (6 req6 c q)
  show ?case unfolding SubmitReview_def
    by (intro frame_intros frame_onces) (simp_all add: next_id_eq frame_put)
next
  case (7 req7 c)
  show ?case unfolding SetStatus_def by (intro frame_intros) (simp_all add: next_id_eq frame_put)
next
  case (8 req8 c)
  show ?case unfolding CreateBranch_def
    by (intro frame_intros frame_onces) (simp_all add: Let_def frame_put split: option.split)
next
  case (9 req9 c)
  show ?case unfolding ResolveThread_def by (intro frame_intros) (simp add: frame_put_cr)
next
  case (10 req10 c)
  show ?case unfolding AddLabels_def
    by (intro frame_intros) (simp add: update_cr_def update_issue_def Let_def frame_put frame_put_cr)
next
  case (11 req11 c)
  show ?case unfolding RequestReviewers_def
    by (intro frame_intros) (simp add: update_cr_def Let_def frame_put_cr)
next
  case (12 req12 c)
  show ?case unfolding SetAssignees_def
    by (intro frame_intros) (simp add: update_issue_def frame_put)
next
  case (13 req13 c)
  show ?case unfolding MergeChangeRequest_def by (intro frame_intros) (simp add: frame_put_cr)
next
  case (14 req14 c)
  show ?case unfolding RerunChecks_def by (intro frame_intros) (simp add: frame_put)
next
  case (15 req15 c)
  show ?case unfolding React_def by (intro frame_intros) (simp add: frame_put)
next
  case (16 req16 c)
  show ?case unfolding EnsureWebhook_def
    by (intro frame_intros) (auto simp: next_id_eq frame_put split: prod.split)
next
  case (17 req17 c)
  show ?case unfolding RemoveWebhook_def by (intro frame_intros) (simp add: frame_put)
qed

text \<open>
  C19: which part of the world an operation on a repository touches.  Every other
  repository, the capabilities, the access grants and the deleted identities are as before.
  Two things are shared by all repositories and may change: the counter of identifiers goes
  up by at most one, and the memo of idempotency keys keeps every entry it had and gets at
  most one new key (it is not kept per repository, so a key used on one repository replays
  its answer on every other: \<open>key_crosses_repositories\<close>).  When the target names no repository
  the identity can see, nothing changes at all.
\<close>

theorem target_isolation:
  assumes "target_step t c c'"
  shows "(\<forall>path. path \<noteq> rr_full_path (tg_repo t) \<longrightarrow> map_of (repos c') path = map_of (repos c) path) \<and>
    caps c' = caps c \<and> grants c' = grants c \<and> Deleted c' = Deleted c \<and>
    seq c' \<in> {seq c, seq c + 1} \<and>
    (idem c' = idem c \<or> (\<exists>k m. idem c k = None \<and> idem c' = (idem c)(k \<mapsto> m))) \<and>
    (find_repo c t = None \<longrightarrow> c' = c)"
  using target_step_frame [OF assms] by (simp add: frame_def)

end
