(* ===== verification/Provider.thy ===== *)
theory Provider
  imports GitErrors
begin

text \<open>
  \<^verbatim>\<open>gitprovider/provider.go\<close>: the interface \<^verbatim>\<open>Provider\<close> as the record of its operations over
  the provider's state \<open>'s\<close>, its optional interfaces as fields that may be missing, and
  \<^verbatim>\<open>Implemented\<close>.
\<close>

text \<open>
  An operation takes a request and the state, and gives the state after it and its reply.
  \<^verbatim>\<open>Describe\<close> returns static information: it is read off the state, changes nothing, and may
  panic.
\<close>

type_synonym ('s, 'q, 'r) op = "'q \<Rightarrow> 's \<Rightarrow> 's \<times> 'r reply"

record 's Provider =
  pv_Describe :: "'s \<Rightarrow> Info outcome"
  pv_BeginIdentitySetup :: "('s, BeginSetupRequest, SetupStep) op"
  pv_CompleteIdentitySetup :: "('s, CompleteSetupRequest, Identity) op"
  pv_ListRepositories :: "('s, ListReposRequest, RepositoryPage) op"
  pv_ResolveRepository :: "('s, ResolveRepoRequest, ResolvedRepository) op"
  pv_VerifyAndParseWebhook :: "('s, WebhookRequest, Event list) op"
  pv_MintCredential :: "('s, MintRequest, Credential) op"
  pv_GetActorPermission :: "('s, ActorPermissionRequest, Permission) op"
  pv_GetBranchProtection :: "('s, BranchProtectionRequest, BranchProtection) op"
  pv_GetChangeRequest :: "('s, CRRequest, ChangeRequest) op"
  pv_ListChangedFiles :: "('s, PagedCRRequest, ChangedFilePage) op"
  pv_GetDiff :: "('s, DiffRequest, Diff) op"
  pv_ListThreads :: "('s, PagedCRRequest, ThreadPage) op"
  pv_ListComments :: "('s, ListCommentsRequest, CommentPage) op"
  pv_GetIssue :: "('s, IssueRequest, Issue) op"
  pv_GetChecks :: "('s, ChecksRequest, Check list) op"
  pv_GetCheckLogs :: "('s, CheckLogsRequest, Logs) op"
  pv_OpenChangeRequest :: "('s, OpenCRRequest, ChangeRequest) op"
  pv_UpdateChangeRequest :: "('s, UpdateCRRequest, ChangeRequest) op"
  pv_Comment :: "('s, CommentRequest, CommentResult) op"
  pv_ReplyThread :: "('s, ReplyThreadRequest, CommentResult) op"
  pv_SubmitReview :: "('s, SubmitReviewRequest, ReviewResult) op"
  pv_SetStatus :: "('s, SetStatusRequest, StatusResult) op"
  pv_IssueLister :: "(('s, ListIssuesRequest, IssuePage) op) option"
  pv_ThreadResolver :: "(('s, ResolveThreadRequest, unit) op) option"
  pv_FileReader :: "(('s, FileRequest, File) op) option"
  pv_CodeSearcher :: "(('s, CodeSearchRequest, CodeHits) op) option"
  pv_LabelManager :: "(('s, LabelsRequest, unit) op) option"
  pv_ReviewerRequester :: "(('s, PeopleRequest, unit) op) option"
  pv_AssigneeSetter :: "(('s, PeopleRequest, unit) op) option"
  pv_Merger :: "(('s, MergeRequest, MergeResult) op) option"
  pv_CheckRerunner :: "(('s, RerunRequest, unit) op) option"
  pv_Reactor :: "(('s, ReactRequest, unit) op) option"
  pv_BranchManager :: "(('s, GetBranchRequest, BranchInfo) op \<times> ('s, CreateBranchRequest, BranchInfo) op) option"
  pv_WebhookManager :: "(('s, EnsureWebhookRequest, WebhookRef) op \<times> ('s, RemoveWebhookRequest, unit) op) option"
  pv_IdentityDeleter :: "(('s, DeleteIdentityRequest, unit) op) option"
  pv_IdentityDescriber :: "(('s, DescribeIdentityRequest, Identity) op) option"
  pv_AccessGranter :: "(('s, BeginAccessRequest, SetupStep) op \<times> ('s, CompleteAccessRequest, AccessGrant) op) option"

definition Implemented :: "'s Provider \<Rightarrow> Capabilities" where
  "Implemented p = zero_Capabilities\<lparr>
     cap_issue_list := pv_IssueLister p \<noteq> None,
     cap_resolve_threads := pv_ThreadResolver p \<noteq> None,
     cap_file_read := pv_FileReader p \<noteq> None,
     cap_code_search := pv_CodeSearcher p \<noteq> None,
     cap_labels := pv_LabelManager p \<noteq> None,
     cap_reviewer_requests := pv_ReviewerRequester p \<noteq> None,
     cap_assignees := pv_AssigneeSetter p \<noteq> None,
     cap_merge := pv_Merger p \<noteq> None,
     cap_rerun_checks := pv_CheckRerunner p \<noteq> None,
     cap_reactions := pv_Reactor p \<noteq> None,
     cap_branches := pv_BranchManager p \<noteq> None,
     cap_webhook_management := pv_WebhookManager p \<noteq> None,
     cap_identity_deletion := pv_IdentityDeleter p \<noteq> None,
     cap_identity_description := pv_IdentityDescriber p \<noteq> None,
     cap_access_grants := pv_AccessGranter p \<noteq> None\<rparr>"

end
