(* ===== verification/GoJson.thy ===== *)
theory GoJson
  imports GoUtf8
begin

text \<open>
  \<^verbatim>\<open>encoding/json\<close> as far as the SDK uses it: the grammar \<^verbatim>\<open>Unmarshal\<close> checks its whole input
  against, the text \<^verbatim>\<open>Marshal\<close> writes, the way an object is decoded into a struct, base64
  for byte slices and RFC 3339 for times.
\<close>

section \<open>Values\<close>

text \<open>
  A number keeps its literal.  A member of an object keeps, beside its value, the text of
  the value, which is what a \<^verbatim>\<open>json.RawMessage\<close> gets.  \<open>JRaw\<close> is a text that is written as it
  is; the parser never makes one.
\<close>

datatype json =
    JNull
  | JBool bool
  | JNum string
  | JStr string
  | JArr "json list"
  | JObj "(string \<times> string \<times> json) list"
  | JRaw string

abbreviation "QUOTE \<equiv> CHR 0x22"
abbreviation "BACKSLASH \<equiv> CHR 0x5C"

section \<open>Strings\<close>

text \<open>UTF-8 of a code point.\<close>

definition encode_rune :: "nat \<Rightarrow> string" where
  "encode_rune n =
     (if n < 128 then [char_of n]
      else if n < 2048 then [char_of (192 + n div 64), char_of (128 + n mod 64)]
      else if n < 65536 then [char_of (224 + n div 4096), char_of (128 + n div 64 mod 64), char_of (128 + n mod 64)]
      else [char_of (240 + n div 262144), char_of (128 + n div 4096 mod 64), char_of (128 + n div 64 mod 64),
            char_of (128 + n mod 64)])"

definition hex_val :: "char \<Rightarrow> nat option" where
  "hex_val c =
     (let n = byte_val c
      in if 48 \<le> n \<and> n \<le> 57 then Some (n - 48)
         else if 97 \<le> n \<and> n \<le> 102 then Some (n - 87)
         else if 65 \<le> n \<and> n \<le> 70 then Some (n - 55)
         else None)"

fun hex4 :: "string \<Rightarrow> nat option" where
  "hex4 (a # b # c # d # _) =
     (case (hex_val a, hex_val b, hex_val c, hex_val d) of
        (Some w, Some x, Some y, Some z) \<Rightarrow> Some (((w * 16 + x) * 16 + y) * 16 + z)
      | _ \<Rightarrow> None)"
| "hex4 _ = None"

text \<open>An escape \<^verbatim>\<open>\uXXXX\<close>: its code point and what follows.\<close>

definition low_surrogate :: "string \<Rightarrow> nat option" where
  "low_surrogate s =
     (if take 2 s = [BACKSLASH, CHR ''u'']
      then (case hex4 (drop 2 s) of Some n \<Rightarrow> if 56320 \<le> n \<and> n < 57344 then Some n else None | None \<Rightarrow> None)
      else None)"

text \<open>The bytes an escape at the start of \<open>s\<close>, after its backslash, stands for, and its width.\<close>

definition escape :: "string \<Rightarrow> (string \<times> nat) option" where
  "escape s =
     (case s of
        [] \<Rightarrow> None
      | c # t \<Rightarrow>
          if c = QUOTE \<or> c = BACKSLASH \<or> c = CHR ''/'' then Some ([c], 1)
          else if c = CHR ''b'' then Some ([CHR 0x08], 1)
          else if c = CHR ''f'' then Some ([CHR 0x0C], 1)
          else if c = CHR ''n'' then Some ([CHR 0x0A], 1)
          else if c = CHR ''r'' then Some ([CHR 0x0D], 1)
          else if c = CHR ''t'' then Some ([CHR 0x09], 1)
          else if c = CHR ''u'' then
            (case hex4 t of
               None \<Rightarrow> None
             | Some n \<Rightarrow>
                 if n < 55296 \<or> 57344 \<le> n then Some (encode_rune n, 5)
                 else if n < 56320
                 then (case low_surrogate (drop 4 t) of
                         Some m \<Rightarrow> Some (encode_rune (65536 + (n - 55296) * 1024 + (m - 56320)), 11)
                       | None \<Rightarrow> Some (replacement, 5))
                 else Some (replacement, 5))
          else None)"

text \<open>The contents of a string literal up to its closing quote, and what follows it.\<close>

function scan_string :: "string \<Rightarrow> (string \<times> string) option" where
  "scan_string s =
     (case s of
        [] \<Rightarrow> None
      | c # t \<Rightarrow>
          if c = QUOTE then Some ([], t)
          else if c = BACKSLASH then
            (case escape t of
               None \<Rightarrow> None
             | Some (bs, w) \<Rightarrow> map_option (apfst ((@) bs)) (scan_string (drop w t)))
          else if byte_val c < 32 then None
          else if rune_len s = 0 then map_option (apfst ((@) replacement)) (scan_string t)
          else map_option (apfst ((@) (take (rune_len s) s))) (scan_string (drop (rune_len s) s)))"
  by pat_completeness auto
termination
  by (relation "measure length") auto

declare scan_string.simps [simp del]

text \<open>Writing a string, with the HTML escapes \<^verbatim>\<open>Marshal\<close> makes.\<close>

definition quote_ascii :: "char \<Rightarrow> string" where
  "quote_ascii c =
     (if c = QUOTE \<or> c = BACKSLASH then [BACKSLASH, c]
      else if c = CHR 0x08 then [BACKSLASH, CHR ''b'']
      else if c = CHR 0x0C then [BACKSLASH, CHR ''f'']
      else if c = CHR 0x0A then [BACKSLASH, CHR ''n'']
      else if c = CHR 0x0D then [BACKSLASH, CHR ''r'']
      else if c = CHR 0x09 then [BACKSLASH, CHR ''t'']
      else if byte_val c < 32 \<or> c = CHR ''<'' \<or> c = CHR ''>'' \<or> c = CHR ''&''
      then BACKSLASH # ''u00'' @ [hex_digit (byte_val c div 16), hex_digit (byte_val c mod 16)]
      else [c])"

definition line_separator :: "string \<Rightarrow> string option" where
  "line_separator r =
     (if r = [char_of (226::nat), char_of (128::nat), char_of (168::nat)] then Some (BACKSLASH # ''u2028'')
      else if r = [char_of (226::nat), char_of (128::nat), char_of (169::nat)] then Some (BACKSLASH # ''u2029'')
      else None)"

definition quote_rune :: "string \<Rightarrow> string" where
  "quote_rune r = (case line_separator r of Some e \<Rightarrow> e | None \<Rightarrow> r)"

function quote_chars :: "string \<Rightarrow> string" where
  "quote_chars s =
     (case s of
        [] \<Rightarrow> []
      | c # t \<Rightarrow>
          if byte_val c < 128 then quote_ascii c @ quote_chars t
          else if rune_len s = 0 then BACKSLASH # ''ufffd'' @ quote_chars t
          else quote_rune (take (rune_len s) s) @ quote_chars (drop (rune_len s) s))"
  by pat_completeness auto
termination
  by (relation "measure length") auto

declare quote_chars.simps [simp del]

definition quote_string :: "string \<Rightarrow> string" where
  "quote_string s = QUOTE # quote_chars s @ [QUOTE]"

subsection \<open>A written string reads back\<close>

lemma scan_escape:
  assumes "escape e = Some (bs, length e)" and local: "escape (e @ t) = escape e"
  shows "scan_string (BACKSLASH # e @ t) = map_option (apfst ((@) bs)) (scan_string t)"
  by (subst scan_string.simps) (simp add: assms)

text \<open>The escapes the writer uses, each with the bytes it stands for.\<close>

definition written_escape :: "string \<Rightarrow> string \<Rightarrow> bool" where
  "written_escape e bs \<longleftrightarrow>
     (\<exists>c. e = [c] \<and> c \<noteq> CHR ''u'') \<and> escape e = Some (bs, 1) \<or>
     length e = 5 \<and> hd e = CHR ''u'' \<and> escape e = Some (bs, 5) \<and>
       (case hex4 (tl e) of Some n \<Rightarrow> n < 55296 \<or> 57344 \<le> n | None \<Rightarrow> False)"

lemma hex4_append: "length h = 4 \<Longrightarrow> hex4 (h @ t) = hex4 h"
  by (cases h rule: hex4.cases) auto

lemma scan_written:
  assumes "written_escape e bs"
  shows "scan_string (BACKSLASH # e @ t) = map_option (apfst ((@) bs)) (scan_string t)"
proof (rule scan_escape)
  show "escape e = Some (bs, length e)" using assms by (auto simp: written_escape_def)
  show "escape (e @ t) = escape e"
  proof (cases "length e = 5")
    case True
    then obtain h where e: "e = CHR ''u'' # h" "length h = 4"
      using assms by (cases e) (auto simp: written_escape_def)
    obtain n where "hex4 h = Some n" "n < 55296 \<or> 57344 \<le> n"
      using assms e by (auto simp: written_escape_def split: option.splits)
    then show ?thesis using e by (simp add: escape_def hex4_append)
  next
    case False
    then obtain c where "e = [c]" "c \<noteq> CHR ''u''" using assms by (auto simp: written_escape_def)
    then show ?thesis by (simp add: escape_def)
  qed
qed

lemma scan_plain:
  "c \<noteq> QUOTE \<Longrightarrow> c \<noteq> BACKSLASH \<Longrightarrow> 32 \<le> byte_val c \<Longrightarrow> byte_val c < 128 \<Longrightarrow>
     scan_string (c # t) = map_option (apfst ((@) [c])) (scan_string t)"
  by (subst scan_string.simps) (simp add: rune_len_def lead_len_def)

lemma written_u:
  "hex4 h = Some n \<Longrightarrow> length h = 4 \<Longrightarrow> n < 55296 \<or> 57344 \<le> n \<Longrightarrow> written_escape (CHR ''u'' # h) (encode_rune n)"
  by (auto simp: written_escape_def escape_def)

lemma written_1: "escape [c] = Some (bs, 1) \<Longrightarrow> c \<noteq> CHR ''u'' \<Longrightarrow> written_escape [c] bs"
  by (simp add: written_escape_def)

lemma byte_val_char_of: "n < 256 \<Longrightarrow> byte_val (char_of n) = n"
  by (simp add: byte_val_def)

lemma char_of_byte_val: "char_of (byte_val c) = c"
  by (simp add: byte_val_def)

lemma hex_val_digit: "d < 16 \<Longrightarrow> hex_val (hex_digit d) = Some d"
  by (auto simp: hex_val_def hex_digit_def byte_val_char_of Let_def)

lemma written_00:
  assumes "byte_val c < 128"
  shows "written_escape (CHR ''u'' # ''00'' @ [hex_digit (byte_val c div 16), hex_digit (byte_val c mod 16)]) [c]"
proof -
  have z: "hex_val (CHR ''0'') = Some 0" by code_simp
  have "hex4 (''00'' @ [hex_digit (byte_val c div 16), hex_digit (byte_val c mod 16)]) = Some (byte_val c div 16 * 16 + byte_val c mod 16)"
    using assms by (simp add: z hex_val_digit)
  then have "hex4 (''00'' @ [hex_digit (byte_val c div 16), hex_digit (byte_val c mod 16)]) = Some (byte_val c)"
    by simp
  then have "written_escape (CHR ''u'' # ''00'' @ [hex_digit (byte_val c div 16), hex_digit (byte_val c mod 16)]) (encode_rune (byte_val c))"
    by (rule written_u) (use assms in simp_all)
  then show ?thesis using assms by (simp only: encode_rune_def if_True char_of_byte_val)
qed

lemma written_short:
  "written_escape [QUOTE] [QUOTE]" "written_escape [BACKSLASH] [BACKSLASH]"
  "written_escape ''b'' [CHR 0x08]" "written_escape ''f'' [CHR 0x0C]" "written_escape ''n'' [CHR 0x0A]"
  "written_escape ''r'' [CHR 0x0D]" "written_escape ''t'' [CHR 0x09]"
  by (rule written_1; simp add: escape_def)+

lemma scan_ascii:
  assumes "byte_val c < 128"
  shows "scan_string (quote_ascii c @ t) = map_option (apfst ((@) [c])) (scan_string t)"
proof (cases "\<exists>e. quote_ascii c = BACKSLASH # e \<and> written_escape e [c]")
  case True
  then show ?thesis using scan_written by auto
next
  case False
  then have "quote_ascii c = [c]" "32 \<le> byte_val c" "c \<noteq> QUOTE" "c \<noteq> BACKSLASH"
    using written_short written_00 [OF assms] by (auto simp: quote_ascii_def split: if_splits)
  then show ?thesis using scan_plain [of c t] assms by simp
qed

lemma separators_ok:
  "written_escape ''u2028'' [char_of (226::nat), char_of (128::nat), char_of (168::nat)]"
  "written_escape ''u2029'' [char_of (226::nat), char_of (128::nat), char_of (169::nat)]"
  "written_escape ''ufffd'' replacement"
proof -
  have h: "hex4 ''2028'' = Some 8232" "hex4 ''2029'' = Some 8233" "hex4 ''fffd'' = Some 65533"
    by (simp_all add: hex_val_def byte_val_def)
  show "written_escape ''u2028'' [char_of (226::nat), char_of (128::nat), char_of (168::nat)]"
    "written_escape ''u2029'' [char_of (226::nat), char_of (128::nat), char_of (169::nat)]"
    "written_escape ''ufffd'' replacement"
    using written_u [OF h(1)] written_u [OF h(2)] written_u [OF h(3)] by (simp_all add: encode_rune_def replacement_def)
qed

lemma scan_rune:
  assumes "0 < rune_len s" "128 \<le> byte_val (hd s)"
  shows "scan_string (quote_rune (take (rune_len s) s) @ t) = map_option (apfst ((@) (take (rune_len s) s))) (scan_string t)"
proof (cases "line_separator (take (rune_len s) s)")
  case None
  let ?r = "take (rune_len s) s"
  have len: "rune_len (?r @ t) = rune_len s" "length ?r = rune_len s"
    using rune_len_append [OF assms(1)] rune_len_le by simp_all
  obtain c u where s: "s = c # u" using assms by (cases s) (auto simp: rune_len_def)
  then obtain v where r: "?r = c # v" using assms(1) by (cases "rune_len s") auto
  have c: "c \<noteq> QUOTE" "c \<noteq> BACKSLASH" "\<not> byte_val c < 32" using assms(2) s by (auto simp: byte_val_def)
  have "scan_string (?r @ t) = map_option (apfst ((@) (take (rune_len (?r @ t)) (?r @ t)))) (scan_string (drop (rune_len (?r @ t)) (?r @ t)))"
    using c r len assms(1) by (subst scan_string.simps) auto
  then show ?thesis using None len by (simp add: quote_rune_def)
next
  case (Some e)
  then show ?thesis
    using scan_written [OF separators_ok(1)] scan_written [OF separators_ok(2)]
    by (auto simp: quote_rune_def line_separator_def split: if_splits)
qed

theorem scan_quote: "scan_string (quote_chars s @ QUOTE # rest) = Some (to_valid_utf8 s, rest)"
proof (induction s rule: to_valid_utf8.induct)
  case (1 s)
  show ?case
  proof (cases s)
    case Nil
    then show ?thesis by (simp add: quote_chars.simps [of "[]"] scan_string.simps [of "QUOTE # rest"])
  next
    case (Cons c t)
    show ?thesis
    proof (cases "byte_val c < 128")
      case True
      then have "rune_len s = 1" by (simp add: Cons rune_len_def lead_len_def)
      moreover from this have "scan_string (quote_chars t @ QUOTE # rest) = Some (to_valid_utf8 t, rest)"
        using 1 Cons by simp
      ultimately show ?thesis
        using True scan_ascii by (simp add: Cons quote_chars.simps [of "c # t"] to_valid_utf8.simps [of "c # t"])
    next
      case wide: False
      show ?thesis
      proof (cases "rune_len s = 0")
        case True
        then have "scan_string (quote_chars t @ QUOTE # rest) = Some (to_valid_utf8 t, rest)"
          using 1 Cons by simp
        then show ?thesis
          using True wide scan_written [OF separators_ok(3)]
          by (simp add: Cons quote_chars.simps [of "c # t"] to_valid_utf8.simps [of "c # t"])
      next
        case False
        then have "scan_string (quote_chars (drop (rune_len s) s) @ QUOTE # rest) = Some (to_valid_utf8 (drop (rune_len s) s), rest)"
          using 1 Cons by simp
        moreover have "quote_chars s = quote_rune (take (rune_len s) s) @ quote_chars (drop (rune_len s) s)"
          using False wide Cons by (subst quote_chars.simps) simp
        moreover have "to_valid_utf8 s = take (rune_len s) s @ to_valid_utf8 (drop (rune_len s) s)"
          using False Cons by (subst to_valid_utf8.simps) simp
        ultimately show ?thesis
          using scan_rune [of s] False wide Cons by simp
      qed
    qed
  qed
qed

section \<open>Numbers\<close>

definition scan_digits :: "string \<Rightarrow> (string \<times> string) option" where
  "scan_digits s =
     (let ds = takeWhile is_digit s in if ds = [] then None else Some (ds, drop (length ds) s))"

text \<open>A zero is not followed by another digit.\<close>

definition scan_int :: "string \<Rightarrow> (string \<times> string) option" where
  "scan_int s =
     (case s of
        [] \<Rightarrow> None
      | c # t \<Rightarrow> if c = CHR ''0'' then Some ([c], t) else scan_digits s)"

definition scan_frac :: "string \<Rightarrow> (string \<times> string) option" where
  "scan_frac s =
     (case s of
        c # t \<Rightarrow> if c = CHR ''.'' then map_option (apfst ((#) c)) (scan_digits t) else Some ([], s)
      | [] \<Rightarrow> Some ([], s))"

definition scan_exp :: "string \<Rightarrow> (string \<times> string) option" where
  "scan_exp s =
     (case s of
        c # t \<Rightarrow>
          if c = CHR ''e'' \<or> c = CHR ''E'' then
            (case t of
               d # u \<Rightarrow> if d = CHR ''+'' \<or> d = CHR ''-'' then map_option (apfst (\<lambda>x. c # d # x)) (scan_digits u)
                        else map_option (apfst ((#) c)) (scan_digits t)
             | [] \<Rightarrow> None)
          else Some ([], s)
      | [] \<Rightarrow> Some ([], s))"

definition scan_number :: "string \<Rightarrow> (string \<times> string) option" where
  "scan_number s =
     (let (sign, t) = (case s of c # u \<Rightarrow> if c = CHR ''-'' then ([c], u) else ([], s) | [] \<Rightarrow> ([], s))
      in case scan_int t of
           None \<Rightarrow> None
         | Some (i, t1) \<Rightarrow>
             (case scan_frac t1 of
                None \<Rightarrow> None
              | Some (f, t2) \<Rightarrow>
                  (case scan_exp t2 of
                     None \<Rightarrow> None
                   | Some (e, t3) \<Rightarrow> Some (sign @ i @ f @ e, t3))))"

section \<open>The parser\<close>

definition is_ws :: "char \<Rightarrow> bool" where
  "is_ws c \<longleftrightarrow> c = CHR 0x20 \<or> c = CHR 0x09 \<or> c = CHR 0x0A \<or> c = CHR 0x0D"

definition skip_ws :: "string \<Rightarrow> string" where
  "skip_ws s = dropWhile is_ws s"

definition after :: "char \<Rightarrow> string \<Rightarrow> string option" where
  "after c s = (case s of x # r \<Rightarrow> if x = c then Some r else None | [] \<Rightarrow> None)"

text \<open>
  A value at the start of \<open>s\<close> and what follows it.  The first argument is fuel; the second
  is how many more levels of nesting \<^verbatim>\<open>encoding/json\<close> allows.
\<close>

fun parse_value :: "nat \<Rightarrow> int \<Rightarrow> string \<Rightarrow> (json \<times> string) option"
  and parse_elements :: "nat \<Rightarrow> int \<Rightarrow> string \<Rightarrow> (json list \<times> string) option"
  and parse_members :: "nat \<Rightarrow> int \<Rightarrow> string \<Rightarrow> ((string \<times> string \<times> json) list \<times> string) option" where
  "parse_value 0 d s = None"
| "parse_value (Suc n) d s =
     (case s of
        [] \<Rightarrow> None
      | c # t \<Rightarrow>
          if c = QUOTE then map_option (apfst JStr) (scan_string t)
          else if c = CHR ''{'' then
            (if d \<le> 0 then None
             else case after (CHR ''}'') (skip_ws t) of
               Some r \<Rightarrow> Some (JObj [], r)
             | None \<Rightarrow> map_option (apfst JObj) (parse_members n (d - 1) (skip_ws t)))
          else if c = CHR ''['' then
            (if d \<le> 0 then None
             else case after (CHR '']'') (skip_ws t) of
               Some r \<Rightarrow> Some (JArr [], r)
             | None \<Rightarrow> map_option (apfst JArr) (parse_elements n (d - 1) (skip_ws t)))
          else if take 4 s = ''true'' then Some (JBool True, drop 4 s)
          else if take 5 s = ''false'' then Some (JBool False, drop 5 s)
          else if take 4 s = ''null'' then Some (JNull, drop 4 s)
          else map_option (apfst JNum) (scan_number s))"
| "parse_elements 0 d s = None"
| "parse_elements (Suc n) d s =
     (case parse_value n d s of
        None \<Rightarrow> None
      | Some (v, r) \<Rightarrow>
          (case after (CHR '','') (skip_ws r) of
             Some r' \<Rightarrow> map_option (apfst ((#) v)) (parse_elements n d (skip_ws r'))
           | None \<Rightarrow> map_option (Pair [v]) (after (CHR '']'') (skip_ws r))))"
| "parse_members 0 d s = None"
| "parse_members (Suc n) d s =
     (case Option.bind (after QUOTE s) scan_string of
        None \<Rightarrow> None
      | Some (k, r) \<Rightarrow>
          (case after (CHR '':'') (skip_ws r) of
             None \<Rightarrow> None
           | Some r1 \<Rightarrow>
               (case parse_value n d (skip_ws r1) of
                  None \<Rightarrow> None
                | Some (v, r2) \<Rightarrow>
                    (let m = (k, take (length (skip_ws r1) - length r2) (skip_ws r1), v)
                     in case after (CHR '','') (skip_ws r2) of
                          Some r3 \<Rightarrow> map_option (apfst ((#) m)) (parse_members n d (skip_ws r3))
                        | None \<Rightarrow> map_option (Pair [m]) (after (CHR ''}'') (skip_ws r2))))))"

definition max_depth :: int where "max_depth = 10000"

definition parse_json :: "string \<Rightarrow> json option" where
  "parse_json s =
     (case parse_value (2 * length s + 1) max_depth (skip_ws s) of
        Some (v, r) \<Rightarrow> if skip_ws r = [] then Some v else None
      | None \<Rightarrow> None)"

section \<open>The printer\<close>

fun join_with :: "string \<Rightarrow> string list \<Rightarrow> string" where
  "join_with sep [] = []"
| "join_with sep [x] = x"
| "join_with sep (x # y # zs) = x @ sep @ join_with sep (y # zs)"

fun print_json :: "json \<Rightarrow> string" where
  "print_json JNull = ''null''"
| "print_json (JBool b) = (if b then ''true'' else ''false'')"
| "print_json (JNum s) = s"
| "print_json (JStr s) = quote_string s"
| "print_json (JArr vs) = CHR ''['' # join_with '','' (map print_json vs) @ '']''"
| "print_json (JObj ms) = CHR ''{'' # join_with '','' (map (\<lambda>(k, raw, v). quote_string k @ '':'' @ print_json v) ms) @ ''}''"
| "print_json (JRaw s) = s"

section \<open>What is left of the input\<close>

lemma afterD: "after c s = Some r \<Longrightarrow> s = c # r"
  by (auto simp: after_def split: list.splits if_splits)

lemma after_shorter: "after c s = Some r \<Longrightarrow> length s = Suc (length r)"
  by (auto dest: afterD)

lemma skip_ws_le: "length (skip_ws s) \<le> length s"
  by (simp add: skip_ws_def length_dropWhile_le)

lemma scan_string_shorter: "scan_string s = Some (x, r) \<Longrightarrow> length r < length s"
proof (induction s arbitrary: x rule: scan_string.induct)
  case (1 s)
  show ?case
  proof (cases s)
    case Nil
    then show ?thesis using "1.prems" by (simp add: scan_string.simps [of "[]"])
  next
    case (Cons c t)
    consider "c = QUOTE" | bs w where "c \<noteq> QUOTE" "c = BACKSLASH" "escape t = Some (bs, w)"
      | "c \<noteq> QUOTE" "c \<noteq> BACKSLASH" "\<not> byte_val c < 32" "rune_len s = 0"
      | "c \<noteq> QUOTE" "c \<noteq> BACKSLASH" "\<not> byte_val c < 32" "rune_len s \<noteq> 0"
      using "1.prems" Cons by (subst (asm) scan_string.simps) (auto split: if_splits option.splits)
    then show ?thesis
    proof cases
      case 1
      then show ?thesis using "1.prems" Cons by (simp add: scan_string.simps [of "QUOTE # t"])
    next
      case 2
      then obtain x' where "scan_string (drop w t) = Some (x', r)"
        using "1.prems" Cons by (auto simp: scan_string.simps [of "BACKSLASH # t"])
      then have "length r < length (drop w t)" using "1.IH"(1) [OF Cons 2(1,2)] 2(3) by fastforce
      then show ?thesis using Cons by simp
    next
      case 3
      then obtain x' where "scan_string t = Some (x', r)"
        using "1.prems" Cons by (auto simp: scan_string.simps [of "c # t"])
      then show ?thesis using "1.IH"(2) [OF Cons] 3 Cons by fastforce
    next
      case 4
      then obtain x' where "scan_string (drop (rune_len s) s) = Some (x', r)"
        using "1.prems" Cons by (auto simp: scan_string.simps [of "c # t"])
      then show ?thesis using "1.IH"(3) [OF Cons] 4 Cons by fastforce
    qed
  qed
qed

lemma scan_digits_shorter: "scan_digits s = Some (x, r) \<Longrightarrow> length r < length s"
proof -
  assume "scan_digits s = Some (x, r)"
  then have "takeWhile is_digit s \<noteq> []" "r = drop (length (takeWhile is_digit s)) s"
    by (auto simp: scan_digits_def Let_def split: if_splits)
  then show ?thesis by (cases s) auto
qed

lemma scan_int_shorter: "scan_int s = Some (x, r) \<Longrightarrow> length r < length s"
  using scan_digits_shorter [of s] by (auto simp: scan_int_def split: list.splits if_splits)

lemma scan_frac_le: "scan_frac s = Some (x, r) \<Longrightarrow> length r \<le> length s"
  using scan_digits_shorter by (fastforce simp: scan_frac_def split: list.splits if_splits)

lemma scan_exp_le: "scan_exp s = Some (x, r) \<Longrightarrow> length r \<le> length s"
  using scan_digits_shorter by (fastforce simp: scan_exp_def split: list.splits if_splits)

lemma scan_number_shorter: "scan_number s = Some (x, r) \<Longrightarrow> length r < length s"
proof -
  assume n: "scan_number s = Some (x, r)"
  obtain sign t where t: "(case s of c # u \<Rightarrow> if c = CHR ''-'' then ([c], u) else ([], s) | [] \<Rightarrow> ([], s)) = (sign, t)"
    by fastforce
  then have "length t \<le> length s" by (auto split: list.splits if_splits)
  moreover obtain i t1 f t2 e where "scan_int t = Some (i, t1)" "scan_frac t1 = Some (f, t2)" "scan_exp t2 = Some (e, r)"
    using n t by (auto simp: scan_number_def split: option.splits)
  ultimately show ?thesis using scan_int_shorter scan_frac_le scan_exp_le by (meson le_trans less_le_trans not_less)
qed

lemma parse_shorter:
  "parse_value n d s = Some (v, r) \<Longrightarrow> length r < length s"
  "parse_elements n d s = Some (vs, r) \<Longrightarrow> length r < length s"
  "parse_members n d s = Some (ms, r) \<Longrightarrow> length r < length s"
proof (induction n d s and n d s and n d s arbitrary: v r and vs r and ms r
    rule: parse_value_parse_elements_parse_members.induct)
  case (2 n d s)
  obtain c t where s: "s = c # t" using "2.prems" by (cases s) auto
  have le: "length (skip_ws t) < length s" using skip_ws_le [of t] s by simp
  consider x where "scan_string t = Some (x, r)"
    | "after (CHR ''}'') (skip_ws t) = Some r" | "after (CHR '']'') (skip_ws t) = Some r"
    | ms where "c \<noteq> QUOTE" "c = CHR ''{''" "\<not> d \<le> 0" "after (CHR ''}'') (skip_ws t) = None" "parse_members n (d - 1) (skip_ws t) = Some (ms, r)"
    | vs where "c \<noteq> QUOTE" "c \<noteq> CHR ''{''" "c = CHR ''[''" "\<not> d \<le> 0" "after (CHR '']'') (skip_ws t) = None" "parse_elements n (d - 1) (skip_ws t) = Some (vs, r)"
    | "r = drop 4 s" | "r = drop 5 s" | x where "scan_number s = Some (x, r)"
    using "2.prems" s by (auto split: if_splits option.splits)
  then show ?case
  proof cases
    case 1
    then show ?thesis using scan_string_shorter s by fastforce
  next
    case 2
    then show ?thesis using after_shorter le by fastforce
  next
    case 3
    then show ?thesis using after_shorter le by fastforce
  next
    case 4
    then show ?thesis using "2.IH"(1) [OF s] le by (meson less_trans)
  next
    case 5
    then show ?thesis using "2.IH"(2) [OF s] le by (meson less_trans)
  next
    case 8
    then show ?thesis by (rule scan_number_shorter)
  qed (simp_all add: s)
next
  case (4 n d s)
  obtain v0 r0 where v: "parse_value n d s = Some (v0, r0)" using "4.prems" by (auto split: option.splits)
  then have l0: "length (skip_ws r0) < length s" using "4.IH"(1) skip_ws_le [of r0] by fastforce
  show ?case
  proof (cases "after (CHR '','') (skip_ws r0)")
    case None
    then show ?thesis using "4.prems" v l0 by (auto dest: after_shorter)
  next
    case (Some r1)
    then obtain vs' where "parse_elements n d (skip_ws r1) = Some (vs', r)" using "4.prems" v by auto
    then have "length r < length (skip_ws r1)" using "4.IH"(2) v Some by blast
    then show ?thesis using l0 after_shorter [OF Some] skip_ws_le [of r1] by simp
  qed
next
  case (6 n d s)
  obtain t k r0 where k: "after QUOTE s = Some t" "scan_string t = Some (k, r0)"
    using "6.prems" by (auto split: option.splits bind_splits)
  then obtain r1 where r1: "after (CHR '':'') (skip_ws r0) = Some r1" using "6.prems" by (auto split: option.splits)
  then obtain v0 r2 where v: "parse_value n d (skip_ws r1) = Some (v0, r2)" using "6.prems" k by (auto split: option.splits)
  have "length r2 < length (skip_ws r1)" using "6.IH"(1) k r1 v by fastforce
  then have l2: "length (skip_ws r2) < length s"
    using after_shorter [OF k(1)] scan_string_shorter [OF k(2)] after_shorter [OF r1] skip_ws_le [of r0] skip_ws_le [of r1] skip_ws_le [of r2]
    by linarith
  show ?case
  proof (cases "after (CHR '','') (skip_ws r2)")
    case None
    then show ?thesis using "6.prems" k r1 v l2 by (auto simp: Let_def dest: after_shorter)
  next
    case (Some r3)
    then obtain ms' where "parse_members n d (skip_ws r3) = Some (ms', r)" using "6.prems" k r1 v by (auto simp: Let_def)
    then have "length r < length (skip_ws r3)" using "6.IH"(2) k r1 v Some by fastforce
    then show ?thesis using l2 after_shorter [OF Some] skip_ws_le [of r3] by simp
  qed
qed auto

section \<open>Enough fuel\<close>

lemma parse_fuel_step:
  assumes "\<And>n m d t. length t < length s \<Longrightarrow> 2 * length t + 1 \<le> n \<Longrightarrow> 2 * length t + 1 \<le> m \<Longrightarrow>
      parse_value n d t = parse_value m d t"
    and "\<And>n m d t. length t < length s \<Longrightarrow> 2 * length t + 2 \<le> n \<Longrightarrow> 2 * length t + 2 \<le> m \<Longrightarrow>
      parse_elements n d t = parse_elements m d t"
    and "\<And>n m d t. length t < length s \<Longrightarrow> 2 * length t + 2 \<le> n \<Longrightarrow> 2 * length t + 2 \<le> m \<Longrightarrow>
      parse_members n d t = parse_members m d t"
  shows "2 * length s + 1 \<le> n \<Longrightarrow> 2 * length s + 1 \<le> m \<Longrightarrow> parse_value n d s = parse_value m d s"
    and "2 * length s + 2 \<le> n \<Longrightarrow> 2 * length s + 2 \<le> m \<Longrightarrow> parse_elements n d s = parse_elements m d s"
    and "2 * length s + 2 \<le> n \<Longrightarrow> 2 * length s + 2 \<le> m \<Longrightarrow> parse_members n d s = parse_members m d s"
proof -
  have val: "parse_value n d s = parse_value m d s" if big: "2 * length s + 1 \<le> n" "2 * length s + 1 \<le> m" for n m d
  proof -
    obtain n' m' where n: "n = Suc n'" "m = Suc m'" "2 * length s \<le> n'" "2 * length s \<le> m'"
      using big by (cases n; cases m) auto
    show ?thesis
    proof (cases s)
      case (Cons c t)
      have t: "length (skip_ws t) < length s" "2 * length (skip_ws t) + 2 \<le> n'" "2 * length (skip_ws t) + 2 \<le> m'"
        using skip_ws_le [of t] n Cons by auto
      show ?thesis
        using assms(2) [OF t, of "d - 1"] assms(3) [OF t, of "d - 1"] by (simp add: n Cons split: option.split)
    qed (simp add: n)
  qed
  then show "2 * length s + 1 \<le> n \<Longrightarrow> 2 * length s + 1 \<le> m \<Longrightarrow> parse_value n d s = parse_value m d s" .
  show "parse_elements n d s = parse_elements m d s" if big: "2 * length s + 2 \<le> n" "2 * length s + 2 \<le> m"
  proof -
    obtain n' m' where n: "n = Suc n'" "m = Suc m'" "2 * length s + 1 \<le> n'" "2 * length s + 1 \<le> m'"
      using big by (cases n; cases m) auto
    have "parse_elements n' d (skip_ws r') = parse_elements m' d (skip_ws r')"
      if "parse_value m' d s = Some (v, r)" "after (CHR '','') (skip_ws r) = Some r'" for v r r'
    proof -
      have "length r < length s" using parse_shorter(1) that(1) .
      then have "length (skip_ws r') < length s" "2 * length (skip_ws r') + 2 \<le> 2 * length s"
        using after_shorter [OF that(2)] skip_ws_le [of r] skip_ws_le [of r'] by linarith+
      then show ?thesis using assms(2) n by (meson le_add1 le_trans)
    qed
    then show ?thesis using val [OF n(3,4)] by (auto simp: n split: option.split prod.split)
  qed
  show "parse_members n d s = parse_members m d s" if big: "2 * length s + 2 \<le> n" "2 * length s + 2 \<le> m"
  proof -
    obtain n' m' where n: "n = Suc n'" "m = Suc m'" "2 * length s + 1 \<le> n'" "2 * length s + 1 \<le> m'"
      using big by (cases n; cases m) auto
    have v: "parse_value n' d (skip_ws r1) = parse_value m' d (skip_ws r1) \<and> length (skip_ws r1) < length s"
      if "after QUOTE s = Some t" "scan_string t = Some (k, r)" "after (CHR '':'') (skip_ws r) = Some r1" for t k r r1
    proof -
      have "length (skip_ws r1) < length s"
        using after_shorter [OF that(1)] scan_string_shorter [OF that(2)] after_shorter [OF that(3)] skip_ws_le [of r] skip_ws_le [of r1]
        by linarith
      then show ?thesis using assms(1) n by simp
    qed
    have "parse_members n' d (skip_ws r3) = parse_members m' d (skip_ws r3)"
      if "after QUOTE s = Some t" "scan_string t = Some (k, r)" "after (CHR '':'') (skip_ws r) = Some r1"
        "parse_value m' d (skip_ws r1) = Some (v', r2)" "after (CHR '','') (skip_ws r2) = Some r3" for t k r r1 v' r2 r3
    proof -
      have "length (skip_ws r1) < length s" "length r2 < length (skip_ws r1)"
        using v [OF that(1-3)] parse_shorter(1) [OF that(4)] by simp_all
      then have "length (skip_ws r3) < length s" "2 * length (skip_ws r3) + 2 \<le> 2 * length s"
        using after_shorter [OF that(5)] skip_ws_le [of r2] skip_ws_le [of r3] by linarith+
      then show ?thesis using assms(3) n by (meson le_add1 le_trans)
    qed
    then show ?thesis using v by (auto simp: n Let_def split: option.split prod.split bind_split)
  qed
qed

theorem parse_fuel:
  "2 * length s + 1 \<le> n \<Longrightarrow> 2 * length s + 1 \<le> m \<Longrightarrow> parse_value n d s = parse_value m d s"
  "2 * length s + 2 \<le> n \<Longrightarrow> 2 * length s + 2 \<le> m \<Longrightarrow> parse_elements n d s = parse_elements m d s"
  "2 * length s + 2 \<le> n \<Longrightarrow> 2 * length s + 2 \<le> m \<Longrightarrow> parse_members n d s = parse_members m d s"
proof -
  have "(\<forall>n m d. 2 * length s + 1 \<le> n \<longrightarrow> 2 * length s + 1 \<le> m \<longrightarrow> parse_value n d s = parse_value m d s) \<and>
    (\<forall>n m d. 2 * length s + 2 \<le> n \<longrightarrow> 2 * length s + 2 \<le> m \<longrightarrow> parse_elements n d s = parse_elements m d s) \<and>
    (\<forall>n m d. 2 * length s + 2 \<le> n \<longrightarrow> 2 * length s + 2 \<le> m \<longrightarrow> parse_members n d s = parse_members m d s)" for s
  proof (induction s rule: length_induct)
    case (1 s)
    then show ?case using parse_fuel_step [of s] by blast
  qed
  then show "2 * length s + 1 \<le> n \<Longrightarrow> 2 * length s + 1 \<le> m \<Longrightarrow> parse_value n d s = parse_value m d s"
    "2 * length s + 2 \<le> n \<Longrightarrow> 2 * length s + 2 \<le> m \<Longrightarrow> parse_elements n d s = parse_elements m d s"
    "2 * length s + 2 \<le> n \<Longrightarrow> 2 * length s + 2 \<le> m \<Longrightarrow> parse_members n d s = parse_members m d s" by blast+
qed

section \<open>What is written reads back\<close>

text \<open>The values the SDK's own types are written as: integers, and no verbatim text.\<close>

fun plain_json :: "json \<Rightarrow> bool" where
  "plain_json (JNum s) \<longleftrightarrow> s = itoa (fst (atoi s))"
| "plain_json (JArr vs) \<longleftrightarrow> list_all plain_json vs"
| "plain_json (JObj ms) \<longleftrightarrow> list_all (\<lambda>(k, raw, v). plain_json v) ms"
| "plain_json (JRaw s) \<longleftrightarrow> False"
| "plain_json _ \<longleftrightarrow> True"

fun json_depth :: "json \<Rightarrow> int" where
  "json_depth (JArr vs) = 1 + foldr max (map json_depth vs) 0"
| "json_depth (JObj ms) = 1 + foldr max (map (\<lambda>(k, raw, v). json_depth v) ms) 0"
| "json_depth _ = 0"

text \<open>What a value is after one round: its strings are valid UTF-8 and its members carry their texts.\<close>

fun norm_json :: "json \<Rightarrow> json" where
  "norm_json (JStr s) = JStr (to_valid_utf8 s)"
| "norm_json (JArr vs) = JArr (map norm_json vs)"
| "norm_json (JObj ms) = JObj (map (\<lambda>(k, raw, v). (to_valid_utf8 k, print_json v, norm_json v)) ms)"
| "norm_json v = v"

lemma foldr_max_ge: "x \<in> set xs \<Longrightarrow> x \<le> foldr max xs (0::int)"
  by (induction xs) auto

text \<open>What may follow a number.\<close>

definition ends_number :: "string \<Rightarrow> bool" where
  "ends_number s \<longleftrightarrow> (case s of [] \<Rightarrow> True
     | c # _ \<Rightarrow> \<not> is_digit c \<and> c \<noteq> CHR ''.'' \<and> c \<noteq> CHR ''e'' \<and> c \<noteq> CHR ''E'')"

lemma takeWhile_digits: "ends_number rest \<Longrightarrow> takeWhile is_digit (digits n @ rest) = digits n"
  by (subst takeWhile_append2) (auto simp: digits_all ends_number_def split: list.splits)

lemma digits_zero: "digits 0 = [CHR ''0'']"
  by code_simp

lemma hd_digits: "n \<noteq> 0 \<Longrightarrow> hd (digits n) \<noteq> CHR ''0''"
proof (induction n rule: digits.induct)
  case (1 n)
  show ?case
  proof (cases "n < 10")
    case True
    then show ?thesis using "1.prems" byte_val_digit [OF True] by (subst digits.simps) (auto simp: byte_val_def)
  next
    case False
    then show ?thesis using 1 by (subst digits.simps) simp
  qed
qed

lemma scan_int_digits:
  assumes "ends_number rest"
  shows "scan_int (digits n @ rest) = Some (digits n, rest)"
proof (cases "n = 0")
  case True
  then show ?thesis by (simp add: digits_zero scan_int_def)
next
  case False
  then obtain c t where d: "digits n = c # t" "c \<noteq> CHR ''0''" using hd_digits [OF False] by (cases "digits n") auto
  have "scan_digits (digits n @ rest) = Some (digits n, rest)"
    using takeWhile_digits [OF assms] by (simp add: scan_digits_def Let_def)
  then show ?thesis using d by (simp add: scan_int_def)
qed

lemma scan_frac_end: "ends_number s \<Longrightarrow> scan_frac s = Some ([], s)"
  by (auto simp: scan_frac_def ends_number_def split: list.splits)

lemma scan_exp_end: "ends_number s \<Longrightarrow> scan_exp s = Some ([], s)"
  by (auto simp: scan_exp_def ends_number_def split: list.splits)

lemma digits_not_minus: "digits n \<noteq> CHR ''-'' # t"
  using digits_all [of "CHR ''-''" n] by (auto simp: is_digit_def byte_val_def)

lemma scan_number_itoa:
  assumes "ends_number rest"
  shows "scan_number (itoa i @ rest) = Some (itoa i, rest)"
proof (cases "i < 0")
  case True
  then show ?thesis
    using scan_int_digits [OF assms] scan_frac_end [OF assms] scan_exp_end [OF assms] by (simp add: scan_number_def itoa_def)
next
  case False
  obtain c t where d: "digits (nat i) = c # t" by (cases "digits (nat i)") auto
  then have "c \<noteq> CHR ''-''" using digits_not_minus by metis
  then show ?thesis
    using False d scan_int_digits [OF assms, of "nat i"] scan_frac_end [OF assms] scan_exp_end [OF assms]
    by (simp add: scan_number_def itoa_def)
qed

text \<open>How a written value starts.\<close>

definition starts_value :: "char \<Rightarrow> bool" where
  "starts_value c \<longleftrightarrow> is_digit c \<or> c \<in> {CHR ''-'', CHR ''t'', CHR ''f'', CHR ''n'', QUOTE, CHR ''['', CHR ''{''}"

lemma itoa_start: "\<exists>c t. itoa i = c # t \<and> (is_digit c \<or> c = CHR ''-'')"
proof -
  obtain c t where d: "digits (nat i) = c # t" by (cases "digits (nat i)") auto
  then have "is_digit c" using digits_all [of c "nat i"] by simp
  then show ?thesis using d by (simp add: itoa_def)
qed

lemma print_start: "plain_json v \<Longrightarrow> \<exists>c t. print_json v = c # t \<and> starts_value c"
proof (cases v)
  case (JNum s)
  assume "plain_json v"
  then have "s = itoa (fst (atoi s))" using JNum by simp
  then obtain c t where "s = c # t" "is_digit c \<or> c = CHR ''-''" using itoa_start by metis
  then show ?thesis using JNum by (auto simp: starts_value_def)
qed (auto simp: starts_value_def quote_string_def)

lemma start_no_ws: "starts_value c \<Longrightarrow> \<not> is_ws c \<and> c \<notin> {CHR '']'', CHR ''}'', CHR '','', CHR '':''}"
  by (auto simp: starts_value_def is_ws_def is_digit_def byte_val_def)

lemma skip_print: "plain_json v \<Longrightarrow> skip_ws (print_json v @ rest) = print_json v @ rest"
  using print_start [of v] start_no_ws by (auto simp: skip_ws_def)

lemma skip_ws_Cons [simp]: "\<not> is_ws c \<Longrightarrow> skip_ws (c # t) = c # t"
  by (simp add: skip_ws_def)

lemma not_ws [simp]: "\<not> is_ws QUOTE" "\<not> is_ws (CHR '','')" "\<not> is_ws (CHR '':'')" "\<not> is_ws (CHR '']'')"
    "\<not> is_ws (CHR ''}'')" "\<not> is_ws (CHR ''['')" "\<not> is_ws (CHR ''{'')"
  by (simp_all add: is_ws_def)

lemma after_Cons [simp]: "after c (x # r) = (if x = c then Some r else None)"
  by (simp add: after_def)

text \<open>Values, given the round trip of their parts.\<close>

definition reads_back :: "json \<Rightarrow> bool" where
  "reads_back v \<longleftrightarrow> (\<forall>n d rest. json_depth v \<le> d \<longrightarrow> ends_number rest \<longrightarrow> 2 * length (print_json v @ rest) + 1 \<le> n \<longrightarrow>
     parse_value n d (print_json v @ rest) = Some (norm_json v, rest))"

lemma reads_backD:
  "reads_back v \<Longrightarrow> json_depth v \<le> d \<Longrightarrow> ends_number rest \<Longrightarrow> 2 * length (print_json v @ rest) + 1 \<le> n \<Longrightarrow>
     parse_value n d (print_json v @ rest) = Some (norm_json v, rest)"
  by (simp add: reads_back_def)

lemma ends_punct [simp]: "ends_number (CHR '','' # t)" "ends_number (CHR '']'' # t)" "ends_number (CHR ''}'' # t)" "ends_number []"
  by (simp_all add: ends_number_def is_digit_def byte_val_def)

lemma elements_back:
  assumes "vs \<noteq> []" "\<And>v. v \<in> set vs \<Longrightarrow> reads_back v \<and> plain_json v \<and> json_depth v \<le> d"
    and "2 * length (join_with '','' (map print_json vs) @ '']'' @ rest) + 2 \<le> n"
  shows "parse_elements n d (join_with '','' (map print_json vs) @ '']'' @ rest) = Some (map norm_json vs, rest)"
  using assms
proof (induction vs arbitrary: n rule: list_nonempty_induct)
  case (single v)
  obtain n' where n: "n = Suc n'" using single by (cases n) auto
  have "parse_value n' d (print_json v @ CHR '']'' # rest) = Some (norm_json v, CHR '']'' # rest)"
    using single n by (intro reads_backD) auto
  then show ?case by (simp add: n)
next
  case (cons v vs)
  obtain n' where n: "n = Suc n'" using cons by (cases n) auto
  obtain w ws where vs: "vs = w # ws" using cons by (cases vs) auto
  let ?t = "join_with '','' (map print_json vs) @ '']'' @ rest"
  have j: "join_with '','' (map print_json (v # vs)) @ '']'' @ rest = print_json v @ CHR '','' # ?t"
    by (simp add: vs)
  have "parse_value n' d (print_json v @ CHR '','' # ?t) = Some (norm_json v, CHR '','' # ?t)"
    using cons.prems n j by (intro reads_backD) auto
  moreover have "skip_ws ?t = ?t"
    using skip_print [of w] cons.prems(1) [of w] by (cases ws) (auto simp: vs)
  moreover have "parse_elements n' d ?t = Some (map norm_json vs, rest)"
    using cons.prems n j by (intro cons.IH) auto
  ultimately show ?case unfolding j by (simp add: n)
qed

definition print_member :: "string \<times> string \<times> json \<Rightarrow> string" where
  "print_member = (\<lambda>(k, raw, v). quote_string k @ '':'' @ print_json v)"

definition norm_member :: "string \<times> string \<times> json \<Rightarrow> string \<times> string \<times> json" where
  "norm_member = (\<lambda>(k, raw, v). (to_valid_utf8 k, print_json v, norm_json v))"

lemma members_back:
  assumes "ms \<noteq> []" "\<And>k raw v. (k, raw, v) \<in> set ms \<Longrightarrow> reads_back v \<and> plain_json v \<and> json_depth v \<le> d"
    and "2 * length (join_with '','' (map print_member ms) @ ''}'' @ rest) + 2 \<le> n"
  shows "parse_members n d (join_with '','' (map print_member ms) @ ''}'' @ rest) = Some (map norm_member ms, rest)"
  using assms
proof (induction ms arbitrary: n rule: list_nonempty_induct)
  case (single m)
  obtain k raw v where m: "m = (k, raw, v)" by (cases m)
  obtain n' where n: "n = Suc n'" using single by (cases n) auto
  have "parse_value n' d (print_json v @ CHR ''}'' # rest) = Some (norm_json v, CHR ''}'' # rest)"
    using single n by (intro reads_backD) (auto simp: m print_member_def)
  then show ?case
    using single skip_print [of v "CHR ''}'' # rest"] scan_quote [of k "CHR '':'' # print_json v @ CHR ''}'' # rest"]
    by (simp add: n m print_member_def norm_member_def quote_string_def)
next
  case (cons m ms)
  obtain k raw v where m: "m = (k, raw, v)" by (cases m)
  obtain n' where n: "n = Suc n'" using cons by (cases n) auto
  obtain w ws where ms: "ms = w # ws" using cons by (cases ms) auto
  let ?t = "join_with '','' (map print_member ms) @ ''}'' @ rest"
  have j: "join_with '','' (map print_member (m # ms)) @ ''}'' @ rest = quote_string k @ CHR '':'' # print_json v @ CHR '','' # ?t"
    by (simp add: ms m print_member_def)
  have v: "reads_back v" "plain_json v" "json_depth v \<le> d" using cons.prems(1) [of k raw v] m by auto
  have "parse_value n' d (print_json v @ CHR '','' # ?t) = Some (norm_json v, CHR '','' # ?t)"
    using cons.prems(2) n j v by (intro reads_backD) auto
  moreover have "skip_ws ?t = ?t" by (cases ws) (auto simp: ms print_member_def quote_string_def split: prod.split)
  moreover have "parse_members n' d ?t = Some (map norm_member ms, rest)"
    using cons.prems n j by (intro cons.IH) auto
  ultimately show ?case unfolding j
    using v skip_print [of v "CHR '','' # ?t"] scan_quote [of k "CHR '':'' # print_json v @ CHR '','' # ?t"]
    by (simp add: n m norm_member_def quote_string_def)
qed

lemma map_norm_member: "norm_json (JObj ms) = JObj (map norm_member ms)"
  by (simp add: norm_member_def)

lemma print_JObj: "print_json (JObj ms) = CHR ''{'' # join_with '','' (map print_member ms) @ ''}''"
  by (simp add: print_member_def)

lemma join_start: "xs \<noteq> [] \<Longrightarrow> \<exists>t. join_with sep xs @ r = hd xs @ t"
  by (cases xs; cases "tl xs") auto

lemma reads_backI:
  assumes "\<And>n d rest. ends_number rest \<Longrightarrow> parse_value (Suc n) d (print_json v @ rest) = Some (norm_json v, rest)"
  shows "reads_back v"
  unfolding reads_back_def using assms by (metis Suc_le_D add_leE plus_1_eq_Suc add.commute)

lemma print_reads_back: "plain_json v \<Longrightarrow> reads_back v"
proof (induction v)
  case (JNum s)
  then obtain i where s: "s = itoa i" by auto
  obtain c t where c: "itoa i = c # t" "is_digit c \<or> c = CHR ''-''" using itoa_start by blast
  then have other: "c \<noteq> QUOTE" "c \<noteq> CHR ''{''" "c \<noteq> CHR ''[''" "c \<noteq> CHR ''t''" "c \<noteq> CHR ''f''" "c \<noteq> CHR ''n''"
    by (auto simp: is_digit_def byte_val_def)
  show ?case
    unfolding reads_back_def s
  proof (intro allI impI)
    fix n d rest assume e: "ends_number rest" and n: "2 * length (print_json (JNum (itoa i)) @ rest) + 1 \<le> n"
    obtain n' where n': "n = Suc n'" using n by (cases n) auto
    have "scan_number (c # t @ rest) = Some (c # t, rest)" using scan_number_itoa [OF e, of i] c(1) by simp
    then show "parse_value n d (print_json (JNum (itoa i)) @ rest) = Some (norm_json (JNum (itoa i)), rest)"
      using other by (simp add: n' c(1))
  qed
next
  case (JArr vs)
  show ?case unfolding reads_back_def
  proof (intro allI impI)
    fix n d rest assume d: "json_depth (JArr vs) \<le> d" and n: "2 * length (print_json (JArr vs) @ rest) + 1 \<le> n"
    obtain n' where n': "n = Suc n'" using n by (cases n) auto
    have in_depth: "json_depth v \<le> d - 1" if "v \<in> set vs" for v
      using d foldr_max_ge [of "json_depth v" "map json_depth vs"] that by simp
    have "0 \<le> foldr max (map json_depth vs) 0" by (induction vs) auto
    then have pos: "\<not> d \<le> 0" using d by simp
    show "parse_value n d (print_json (JArr vs) @ rest) = Some (norm_json (JArr vs), rest)"
    proof (cases "vs = []")
      case False
      let ?s = "join_with '','' (map print_json vs) @ '']'' @ rest"
      have "parse_elements n' (d - 1) ?s = Some (map norm_json vs, rest)"
        using JArr in_depth n n' False by (intro elements_back) (auto simp: list_all_iff)
      moreover obtain c t where "?s = c # t" "starts_value c"
        using join_start [of "map print_json vs" "'',''" "'']'' @ rest"] print_start [of "hd vs"] JArr.prems False
        by (cases vs) auto
      ultimately show ?thesis using pos start_no_ws [of c] by (auto simp: n')
    qed (use pos n' in simp)
  qed
next
  case (JObj ms)
  show ?case unfolding reads_back_def print_JObj map_norm_member
  proof (intro allI impI)
    fix n d rest assume d: "json_depth (JObj ms) \<le> d"
      and n: "2 * length ((CHR ''{'' # join_with '','' (map print_member ms) @ ''}'') @ rest) + 1 \<le> n"
    obtain n' where n': "n = Suc n'" using n by (cases n) auto
    have in_depth: "json_depth v \<le> d - 1" if "(k, raw, v) \<in> set ms" for k raw v
    proof -
      have "json_depth v \<in> set (map (\<lambda>(k, raw, v). json_depth v) ms)" using that by force
      then show ?thesis using d foldr_max_ge by fastforce
    qed
    have "0 \<le> foldr max (map (\<lambda>(k, raw, v). json_depth v) ms) 0" by (induction ms) auto
    then have pos: "\<not> d \<le> 0" using d by simp
    show "parse_value n d ((CHR ''{'' # join_with '','' (map print_member ms) @ ''}'') @ rest) = Some (JObj (map norm_member ms), rest)"
    proof (cases "ms = []")
      case False
      let ?s = "join_with '','' (map print_member ms) @ ''}'' @ rest"
      have "reads_back v \<and> plain_json v \<and> json_depth v \<le> d - 1" if "(k, raw, v) \<in> set ms" for k raw v
      proof -
        have "plain_json v" using JObj.prems that by (auto simp: list_all_iff)
        then show ?thesis using JObj.IH [OF that, of "(raw, v)" v] in_depth [OF that] by simp
      qed
      then have "parse_members n' (d - 1) ?s = Some (map norm_member ms, rest)"
        using n n' False by (intro members_back) auto
      moreover obtain t where "?s = QUOTE # t"
        using join_start [of "map print_member ms" "'',''" "''}'' @ rest"] False
        by (cases ms) (auto simp: print_member_def quote_string_def)
      ultimately show ?thesis using pos by (auto simp: n')
    qed (use pos n' in simp)
  qed
qed (rule reads_backI; simp add: quote_string_def scan_quote)+

text \<open>
  What \<^verbatim>\<open>Marshal\<close> writes for a value without foreign text, at most 10000 levels deep,
  \<^verbatim>\<open>Unmarshal\<close> reads as that value with every string made valid UTF-8.
\<close>

theorem parse_print:
  assumes "plain_json v" "json_depth v \<le> max_depth"
  shows "parse_json (print_json v) = Some (norm_json v)"
proof -
  have "parse_value (2 * length (print_json v) + 1) max_depth (print_json v @ []) = Some (norm_json v, [])"
    using assms print_reads_back by (intro reads_backD) auto
  then show ?thesis using skip_print [OF assms(1), of "[]"] by (simp add: parse_json_def skip_ws_def)
qed

section \<open>Evaluation\<close>

fun needs_escape :: "char \<Rightarrow> bool" where
  "needs_escape (Char b0 b1 b2 b3 b4 b5 b6 b7) \<longleftrightarrow> b7 \<or>
     (if b6 then \<not> b5 \<and> b4 \<and> b3 \<and> b2 \<and> \<not> b1 \<and> \<not> b0
      else \<not> b5 \<or> (if b4 then b3 \<and> b2 \<and> \<not> b0 else \<not> b3 \<and> b1 \<and> \<not> b0))"

lemma plain_quote_ascii: "\<not> needs_escape c \<Longrightarrow> byte_val c < 128 \<and> quote_ascii c = [c]"
  by (cases c rule: needs_escape.cases, rename_tac b0 b1 b2 b3 b4 b5 b6 b7)
     (case_tac b0; case_tac b1; case_tac b2; case_tac b3; case_tac b4; case_tac b5; case_tac b6; case_tac b7;
      simp add: quote_ascii_def byte_val_def)

lemma quote_chars_code [code]:
  "quote_chars s =
     (case s of
        [] \<Rightarrow> []
      | c # t \<Rightarrow>
          if \<not> needs_escape c then c # quote_chars t
          else if byte_val c < 128 then quote_ascii c @ quote_chars t
          else if rune_len s = 0 then BACKSLASH # ''ufffd'' @ quote_chars t
          else quote_rune (take (rune_len s) s) @ quote_chars (drop (rune_len s) s))"
  by (subst quote_chars.simps) (auto simp: plain_quote_ascii split: list.split)

end
