(* ===== verification/GoCodec.thy ===== *)
theory GoCodec
  imports GoJson "HOL-Library.AList" "HOL-Library.List_Lexorder" "HOL-Library.Char_ord"
begin

text \<open>
  How \<^verbatim>\<open>encoding/json\<close> moves between JSON values and Go values: structs by their tags, slices,
  maps, pointers, integers, byte slices (base64), raw messages and times.  A nil slice or
  map and an empty one are one value here; it is written as the nil one, \<^verbatim>\<open>null\<close>.
\<close>

named_theorems codec "the encoders and decoders of the contract's types"

section \<open>Raw messages\<close>

text \<open>
  \<^verbatim>\<open>Marshal\<close> of a \<^verbatim>\<open>json.RawMessage\<close>: an error when it is not valid JSON, else the text without
  white space and with the HTML characters escaped.
\<close>

function (sequential) compact_out :: "string \<Rightarrow> string" and compact_in :: "string \<Rightarrow> string" where
  "compact_out [] = []"
| "compact_out (c # t) =
     (if is_ws c then compact_out t else if c = QUOTE then c # compact_in t else c # compact_out t)"
| "compact_in [] = []"
| "compact_in (c # t) =
     (if c = QUOTE then c # compact_out t
      else if c = BACKSLASH then c # take 1 t @ compact_in (drop 1 t)
      else if c = CHR ''<'' \<or> c = CHR ''>'' \<or> c = CHR ''&'' then quote_ascii c @ compact_in t
      else case line_separator (take 3 (c # t)) of
        Some e \<Rightarrow> e @ compact_in (drop 2 t)
      | None \<Rightarrow> c # compact_in t)"
  by pat_completeness auto
termination
  by (relation "measure (case_sum length length)") auto

definition e_raw :: "bytes \<Rightarrow> json option" where
  "e_raw raw = (if parse_json raw = None then None else Some (JRaw (compact_out raw)))"

definition d_raw :: "bytes \<Rightarrow> string \<times> json \<Rightarrow> bytes option" where
  "d_raw old p = Some (fst p)"

section \<open>Base64\<close>

definition b64_char :: "nat \<Rightarrow> char" where
  "b64_char n =
     (if n < 26 then char_of (65 + n) else if n < 52 then char_of (71 + n)
      else if n < 62 then char_of (n - 4) else if n = 62 then CHR ''+'' else CHR ''/'')"

definition b64_val :: "char \<Rightarrow> nat option" where
  "b64_val c =
     (let n = byte_val c
      in if 65 \<le> n \<and> n \<le> 90 then Some (n - 65)
         else if 97 \<le> n \<and> n \<le> 122 then Some (n - 71)
         else if is_digit c then Some (n + 4)
         else if c = CHR ''+'' then Some 62
         else if c = CHR ''/'' then Some 63
         else None)"

fun b64_encode :: "bytes \<Rightarrow> string" where
  "b64_encode [] = []"
| "b64_encode [a] =
     [b64_char (byte_val a div 4), b64_char (byte_val a mod 4 * 16), CHR ''='', CHR ''='']"
| "b64_encode [a, b] =
     [b64_char (byte_val a div 4), b64_char (byte_val a mod 4 * 16 + byte_val b div 16),
      b64_char (byte_val b mod 16 * 4), CHR ''='']"
| "b64_encode (a # b # c # t) =
     b64_char (byte_val a div 4) # b64_char (byte_val a mod 4 * 16 + byte_val b div 16) #
     b64_char (byte_val b mod 16 * 4 + byte_val c div 64) # b64_char (byte_val c mod 64) # b64_encode t"

definition quad :: "nat \<Rightarrow> nat \<Rightarrow> nat \<Rightarrow> nat \<Rightarrow> bytes" where
  "quad w x y z = [char_of (w * 4 + x div 16), char_of (x mod 16 * 16 + y div 4), char_of (y mod 4 * 64 + z)]"

fun b64_quads :: "string \<Rightarrow> bytes option" where
  "b64_quads [] = Some []"
| "b64_quads (a # b # c # d # t) =
     (if d = CHR ''='' then
        (if t \<noteq> [] then None
         else if c = CHR ''='' then
           (case (b64_val a, b64_val b) of (Some w, Some x) \<Rightarrow> Some (take 1 (quad w x 0 0)) | _ \<Rightarrow> None)
         else (case (b64_val a, b64_val b, b64_val c) of
                 (Some w, Some x, Some y) \<Rightarrow> Some (take 2 (quad w x y 0)) | _ \<Rightarrow> None))
      else (case (b64_val a, b64_val b, b64_val c, b64_val d) of
              (Some w, Some x, Some y, Some z) \<Rightarrow> map_option ((@) (quad w x y z)) (b64_quads t)
            | _ \<Rightarrow> None))"
| "b64_quads _ = None"

text \<open>Line breaks are skipped.\<close>

definition b64_decode :: "string \<Rightarrow> bytes option" where
  "b64_decode s = b64_quads (filter (\<lambda>c. c \<noteq> CHR 0x0A \<and> c \<noteq> CHR 0x0D) s)"

lemma b64_val_char: "n < 64 \<Longrightarrow> b64_val (b64_char n) = Some n"
proof -
  assume "n < 64"
  then consider "n < 26" | "26 \<le> n" "n < 52" | "52 \<le> n" "n < 62" | "n = 62" | "n = 63" by linarith
  then show ?thesis
    by cases (auto simp: b64_val_def b64_char_def byte_val_char_of is_digit_def Let_def byte_val_def)
qed

lemma b64_char_not: "n < 64 \<Longrightarrow> b64_char n \<noteq> CHR ''='' \<and> b64_char n \<noteq> CHR 0x0A \<and> b64_char n \<noteq> CHR 0x0D"
proof -
  assume "n < 64"
  then have "b64_val (b64_char n) \<noteq> None" by (simp add: b64_val_char)
  moreover have "b64_val (CHR ''='') = None" "b64_val (CHR 0x0A) = None" "b64_val (CHR 0x0D) = None"
    by (simp_all add: b64_val_def byte_val_def is_digit_def)
  ultimately show ?thesis by metis
qed

lemma quad_parts:
  fixes a b c :: nat
  assumes "a < 256" "b < 256" "c < 256"
  shows "quad (a div 4) (a mod 4 * 16 + b div 16) (b mod 16 * 4 + c div 64) (c mod 64) = [char_of a, char_of b, char_of c]"
proof -
  have "(a mod 4 * 16 + b div 16) div 16 = a mod 4" "(a mod 4 * 16 + b div 16) mod 16 = b div 16"
    "(b mod 16 * 4 + c div 64) div 4 = b mod 16" "(b mod 16 * 4 + c div 64) mod 4 = c div 64"
    using assms by (simp_all add: div_add1_eq mod_mult_right_eq less_mult_imp_div_less)
  then show ?thesis unfolding quad_def using mult_div_mod_eq [of 4 a] mult_div_mod_eq [of 16 b] mult_div_mod_eq [of 64 c]
    by (simp add: mult.commute)
qed

lemma b64_bounds:
  "byte_val a div 4 < 64" "byte_val a mod 4 * 16 + byte_val b div 16 < 64" "byte_val b mod 16 * 4 + byte_val c div 64 < 64"
  "byte_val c mod 64 < 64" "byte_val a mod 4 * 16 < 64" "byte_val b mod 16 * 4 < 64"
  using byte_val_less [of a] byte_val_less [of b] byte_val_less [of c] by linarith+

lemma b64_quads_encode: "b64_quads (b64_encode s) = Some s"
proof (induction s rule: b64_encode.induct)
  case (2 a)
  have "quad (byte_val a div 4) (byte_val a mod 4 * 16) 0 0 = [a, char_of (0::nat), char_of (0::nat)]"
    using quad_parts [of "byte_val a" 0 0] byte_val_less [of a] by (simp add: char_of_byte_val)
  then show ?case by (simp add: b64_val_char b64_bounds)
next
  case (3 a b)
  have "quad (byte_val a div 4) (byte_val a mod 4 * 16 + byte_val b div 16) (byte_val b mod 16 * 4) 0 = [a, b, char_of (0::nat)]"
    using quad_parts [of "byte_val a" "byte_val b" 0] byte_val_less [of a] byte_val_less [of b] by (simp add: char_of_byte_val)
  then show ?case by (simp add: b64_val_char b64_char_not b64_bounds)
next
  case (4 a b c t)
  then show ?case
    using quad_parts [of "byte_val a" "byte_val b" "byte_val c"]
      byte_val_less [of a] byte_val_less [of b] byte_val_less [of c]
    by (simp add: b64_val_char b64_char_not b64_bounds char_of_byte_val)
qed simp

lemma b64_encode_chars: "c \<in> set (b64_encode s) \<Longrightarrow> c \<noteq> CHR 0x0A \<and> c \<noteq> CHR 0x0D"
  by (induction s rule: b64_encode.induct) (use b64_char_not b64_bounds in auto)

theorem b64_roundtrip: "b64_decode (b64_encode s) = Some s"
proof -
  have "filter (\<lambda>c. c \<noteq> CHR 0x0A \<and> c \<noteq> CHR 0x0D) (b64_encode s) = b64_encode s"
    using b64_encode_chars by (auto simp: filter_id_conv)
  then show ?thesis by (simp add: b64_decode_def b64_quads_encode)
qed

section \<open>Times\<close>

text \<open>
  \<^verbatim>\<open>time.Time\<close> in UTC as RFC 3339 with the fraction's trailing zeros left out; the instant is
  in nanoseconds since the start of year 1.  Days are counted in eras of 400 years that
  begin on 1 March.
\<close>

definition civil :: "int \<Rightarrow> int \<times> int \<times> int" where
  "civil days =
     (let z = days + 306; era = z div 146097; doe = z mod 146097;
          yoe = (doe - doe div 1460 + doe div 36524 - doe div 146096) div 365;
          doy = doe - (365 * yoe + yoe div 4 - yoe div 100);
          mp = (5 * doy + 2) div 153;
          m = (if mp < 10 then mp + 3 else mp - 9)
      in (yoe + era * 400 + (if m \<le> 2 then 1 else 0), m, doy - (153 * mp + 2) div 5 + 1))"

definition pad :: "nat \<Rightarrow> int \<Rightarrow> string" where
  "pad w i = replicate (w - length (itoa i)) (CHR ''0'') @ itoa i"

definition frac_digits :: "int \<Rightarrow> string" where
  "frac_digits ns =
     (if ns = 0 then '''' else CHR ''.'' # rev (dropWhile (\<lambda>c. c = CHR ''0'') (rev (pad 9 ns))))"

definition rfc3339 :: "int \<Rightarrow> string option" where
  "rfc3339 t =
     (let secs = t div 1000000000; ns = t mod 1000000000;
          (y, m, d) = civil (secs div 86400); sd = secs mod 86400
      in if y < 0 \<or> 9999 < y then None
         else Some (pad 4 y @ ''-'' @ pad 2 m @ ''-'' @ pad 2 d @ ''T'' @ pad 2 (sd div 3600) @ '':'' @
                    pad 2 (sd mod 3600 div 60) @ '':'' @ pad 2 (sd mod 60) @ frac_digits ns @ ''Z''))"

section \<open>Encoding\<close>

text \<open>A member of a struct with its value; \<open>None\<close> is an error of \<^verbatim>\<open>Marshal\<close>.\<close>

type_synonym member = "string \<times> json option"

definition e_struct :: "member list \<Rightarrow> json option" where
  "e_struct fs =
     (if list_all (\<lambda>(n, v). v \<noteq> None) fs then Some (JObj (map (\<lambda>(n, v). (n, '''', the v)) fs)) else None)"

text \<open>A member with \<^verbatim>\<open>omitempty\<close>.\<close>

definition omit :: "bool \<Rightarrow> string \<Rightarrow> json option \<Rightarrow> member list" where
  "omit b n v = (if b then [] else [(n, v)])"

definition e_str :: "string \<Rightarrow> json option" where
  "e_str s = Some (JStr s)"

definition e_int :: "int \<Rightarrow> json option" where
  "e_int i = Some (JNum (itoa i))"

definition e_bool :: "bool \<Rightarrow> json option" where
  "e_bool b = Some (JBool b)"

definition e_time :: "int \<Rightarrow> json option" where
  "e_time t = map_option JStr (rfc3339 t)"

definition e_bytes :: "bytes \<Rightarrow> json option" where
  "e_bytes bs = Some (if bs = [] then JNull else JStr (b64_encode bs))"

definition e_list :: "('a \<Rightarrow> json option) \<Rightarrow> 'a list \<Rightarrow> json option" where
  "e_list enc xs =
     (if xs = [] then Some JNull
      else if list_all (\<lambda>x. enc x \<noteq> None) xs then Some (JArr (map (\<lambda>x. the (enc x)) xs)) else None)"

definition e_opt :: "('a \<Rightarrow> json option) \<Rightarrow> 'a option \<Rightarrow> json option" where
  "e_opt enc x = (case x of None \<Rightarrow> Some JNull | Some y \<Rightarrow> enc y)"

text \<open>A map is written in the order of its keys.\<close>

definition e_map :: "(string \<times> string) list \<Rightarrow> json option" where
  "e_map m = Some (if m = [] then JNull else JObj (map (\<lambda>(k, v). (k, '''', JStr v)) (sort_key fst m)))"

definition e_unit :: "unit \<Rightarrow> json option" where
  "e_unit x = Some (JObj [])"

section \<open>Decoding\<close>

text \<open>
  A decoder gets what the Go variable held before, the text of the value and the value; a
  \<^verbatim>\<open>null\<close> leaves a variable that cannot be nil as it is.  \<open>None\<close> is an error: \<^verbatim>\<open>Unmarshal\<close> goes on
  after one, but reports it, and its callers then drop what was decoded.
\<close>

type_synonym 'a decoder = "'a \<Rightarrow> string \<times> json \<Rightarrow> 'a option"

definition d_str :: "string decoder" where
  "d_str old p = (case snd p of JStr s \<Rightarrow> Some s | JNull \<Rightarrow> Some old | _ \<Rightarrow> None)"

definition d_bool :: "bool decoder" where
  "d_bool old p = (case snd p of JBool b \<Rightarrow> Some b | JNull \<Rightarrow> Some old | _ \<Rightarrow> None)"

definition d_int :: "int decoder" where
  "d_int old p =
     (case snd p of
        JNum s \<Rightarrow> (let (i, ok) = atoi s in if ok then Some i else None)
      | JNull \<Rightarrow> Some old
      | _ \<Rightarrow> None)"

definition all_some :: "'a option list \<Rightarrow> 'a list option" where
  "all_some xs = (if list_all (\<lambda>x. x \<noteq> None) xs then Some (map the xs) else None)"

definition d_byte :: "json \<Rightarrow> char option" where
  "d_byte v =
     (case v of
        JNum s \<Rightarrow> (let (i, ok) = atoi s in if ok \<and> 0 \<le> i \<and> i < 256 then Some (char_of (nat i)) else None)
      | JNull \<Rightarrow> Some (char_of (0::nat))
      | _ \<Rightarrow> None)"

definition d_bytes :: "bytes decoder" where
  "d_bytes old p =
     (case snd p of
        JStr s \<Rightarrow> b64_decode s
      | JArr vs \<Rightarrow> all_some (map d_byte vs)
      | JNull \<Rightarrow> Some []
      | _ \<Rightarrow> None)"

definition d_opt :: "'a \<Rightarrow> 'a decoder \<Rightarrow> 'a option decoder" where
  "d_opt zero d old p =
     (if snd p = JNull then Some None
      else map_option Some (d (case old of Some x \<Rightarrow> x | None \<Rightarrow> zero) p))"

text \<open>The elements of an array are decoded into the ones the slice already has, then into zero values.\<close>

definition d_list :: "'a \<Rightarrow> 'a decoder \<Rightarrow> 'a list decoder" where
  "d_list zero d old p =
     (case snd p of
        JArr vs \<Rightarrow>
          all_some (map (\<lambda>(i, v). d (if i < length old then old ! i else zero) ('''', v)) (enumerate 0 vs))
      | JNull \<Rightarrow> Some []
      | _ \<Rightarrow> None)"

definition d_map :: "(string \<times> string) list decoder" where
  "d_map old p =
     (case snd p of
        JObj ms \<Rightarrow>
          foldl (\<lambda>acc (k, raw, v). case acc of
              None \<Rightarrow> None
            | Some m \<Rightarrow> map_option (\<lambda>s. AList.update k s m) (d_str '''' (raw, v)))
            (Some old) ms
      | JNull \<Rightarrow> Some []
      | _ \<Rightarrow> None)"

text \<open>
  The field a key names: the one with that name, else the first whose name is the same up
  to case.  The Kelvin sign and the long s fold to ASCII letters.
\<close>

function fold_name :: "string \<Rightarrow> string" where
  "fold_name s =
     (case s of
        [] \<Rightarrow> []
      | c # t \<Rightarrow>
          if take 3 s = [char_of (226::nat), char_of (132::nat), char_of (170::nat)] then CHR ''K'' # fold_name (drop 3 s)
          else if take 2 s = [char_of (197::nat), char_of (191::nat)] then CHR ''S'' # fold_name (drop 2 s)
          else upper_byte c # fold_name t)"
  by pat_completeness auto
termination
  by (relation "measure length") auto

declare fold_name.simps [simp del]

type_synonym 'a field = "string \<times> ('a \<Rightarrow> string \<times> json \<Rightarrow> 'a option)"

definition field_of :: "'a field list \<Rightarrow> string \<Rightarrow> ('a \<Rightarrow> string \<times> json \<Rightarrow> 'a option) option" where
  "field_of fs k =
     (case map_of fs k of
        Some f \<Rightarrow> Some f
      | None \<Rightarrow> map_option snd (find (\<lambda>(n, f). fold_name n = fold_name k) fs))"

definition d_struct :: "'a field list \<Rightarrow> 'a decoder" where
  "d_struct fs old p =
     (case snd p of
        JObj ms \<Rightarrow>
          foldl (\<lambda>acc (k, raw, v). case acc of
              None \<Rightarrow> None
            | Some x \<Rightarrow> (case field_of fs k of None \<Rightarrow> Some x | Some f \<Rightarrow> f x (raw, v)))
            (Some old) ms
      | JNull \<Rightarrow> Some old
      | _ \<Rightarrow> None)"

text \<open>A field decoded by \<open>d\<close>, read with \<open>get\<close> and stored with \<open>put\<close>.\<close>

definition fld :: "'b decoder \<Rightarrow> ('a \<Rightarrow> 'b) \<Rightarrow> ('b \<Rightarrow> 'a \<Rightarrow> 'a) \<Rightarrow> 'a \<Rightarrow> string \<times> json \<Rightarrow> 'a option" where
  "fld d get put x p = map_option (\<lambda>y. put y x) (d (get x) p)"

section \<open>Whole messages\<close>

text \<open>\<^verbatim>\<open>json.Marshal\<close> and \<^verbatim>\<open>json.Unmarshal\<close> into a fresh variable.\<close>

definition marshal :: "json option \<Rightarrow> string option" where
  "marshal v = map_option print_json v"

text \<open>What \<^verbatim>\<open>json.Marshal\<close> returns when its error is ignored.\<close>

definition marshal_or_nil :: "json option \<Rightarrow> bytes" where
  "marshal_or_nil v = (case marshal v of None \<Rightarrow> [] | Some b \<Rightarrow> b)"

definition unmarshal :: "'a \<Rightarrow> 'a decoder \<Rightarrow> bytes \<Rightarrow> 'a option" where
  "unmarshal zero d body = (case parse_json body of None \<Rightarrow> None | Some v \<Rightarrow> d zero (body, v))"

lemma unmarshal_print:
  "plain_json v \<Longrightarrow> json_depth v \<le> max_depth \<Longrightarrow> unmarshal zero d (print_json v) = d zero (print_json v, norm_json v)"
  by (simp add: unmarshal_def parse_print)

text \<open>Decoding the members of an object one by one.\<close>

lemma d_struct_Nil: "d_struct fs x (raw, JObj []) = Some x"
  by (simp add: d_struct_def)

lemma foldl_None: "foldl (\<lambda>acc (k, raw, v). case acc of None \<Rightarrow> None | Some x \<Rightarrow> f x k raw v) None ms = None"
  by (induction ms) auto

lemma d_struct_Cons:
  "d_struct fs x (raw0, JObj ((k, raw, v) # ms)) =
     (case (case field_of fs k of None \<Rightarrow> Some x | Some f \<Rightarrow> f x (raw, v)) of
        None \<Rightarrow> None | Some y \<Rightarrow> d_struct fs y (raw0, JObj ms))"
  by (auto simp: d_struct_def foldl_None [of "\<lambda>x k raw v. case field_of fs k of None \<Rightarrow> Some x | Some f \<Rightarrow> f x (raw, v)"]
      split: option.split)

lemma field_of_here [simp]: "map_of fs k = Some f \<Longrightarrow> field_of fs k = Some f"
  by (simp add: field_of_def)

section \<open>Encodings that are read back\<close>

text \<open>An encoder succeeded with a plain value of at most \<open>k\<close> levels.\<close>

definition enc_ok :: "int \<Rightarrow> json option \<Rightarrow> bool" where
  "enc_ok k j \<longleftrightarrow> (case j of None \<Rightarrow> False | Some v \<Rightarrow> plain_json v \<and> json_depth v \<le> k)"

lemma enc_okD: "enc_ok k j \<Longrightarrow> \<exists>v. j = Some v \<and> plain_json v \<and> json_depth v \<le> k"
  by (auto simp: enc_ok_def split: option.splits)

lemma enc_ok_mono: "enc_ok k j \<Longrightarrow> k \<le> l \<Longrightarrow> enc_ok l j"
  by (auto simp: enc_ok_def split: option.splits)

lemma foldr_max_le: "(\<And>x. x \<in> set xs \<Longrightarrow> x \<le> k) \<Longrightarrow> 0 \<le> k \<Longrightarrow> foldr max xs (0::int) \<le> k"
  by (induction xs) auto

lemma enc_ok_str [intro!]: "0 \<le> k \<Longrightarrow> enc_ok k (e_str s)"
  by (simp add: enc_ok_def e_str_def)

lemma enc_ok_bool [intro!]: "0 \<le> k \<Longrightarrow> enc_ok k (e_bool b)"
  by (simp add: enc_ok_def e_bool_def)

lemma enc_ok_bytes [intro!]: "0 \<le> k \<Longrightarrow> enc_ok k (e_bytes b)"
  by (simp add: enc_ok_def e_bytes_def)

lemma atoi_itoa_id: "min_int64 \<le> i \<Longrightarrow> i \<le> max_int64 \<Longrightarrow> fst (atoi (itoa i)) = i"
  by (simp add: atoi_itoa)

lemma enc_ok_int [intro]: "0 \<le> k \<Longrightarrow> min_int64 \<le> i \<Longrightarrow> i \<le> max_int64 \<Longrightarrow> enc_ok k (e_int i)"
  by (simp add: enc_ok_def e_int_def atoi_itoa_id)

lemma enc_ok_list [intro]:
  assumes "\<And>x. x \<in> set xs \<Longrightarrow> enc_ok (k - 1) (enc x)" "1 \<le> k"
  shows "enc_ok k (e_list enc xs)"
proof (cases "xs = []")
  case False
  have x: "\<exists>v. enc x = Some v \<and> plain_json v \<and> json_depth v \<le> k - 1" if "x \<in> set xs" for x
    using enc_okD [OF assms(1) [OF that]] .
  then have "list_all (\<lambda>x. enc x \<noteq> None) xs" by (auto simp: list_all_iff)
  moreover have "list_all plain_json (map (\<lambda>x. the (enc x)) xs)" using x by (fastforce simp: list_all_iff)
  moreover have "foldr max (map json_depth (map (\<lambda>x. the (enc x)) xs)) 0 \<le> k - 1"
    using x assms(2) by (intro foldr_max_le) fastforce+
  ultimately show ?thesis using False by (simp add: e_list_def enc_ok_def)
qed (use assms in \<open>simp add: e_list_def enc_ok_def\<close>)

lemma enc_ok_struct [intro]:
  assumes "\<And>n v. (n, v) \<in> set fs \<Longrightarrow> enc_ok (k - 1) v" "1 \<le> k"
  shows "enc_ok k (e_struct fs)"
proof -
  have x: "\<exists>w. v = Some w \<and> plain_json w \<and> json_depth w \<le> k - 1" if "(n, v) \<in> set fs" for n v
    using enc_okD [OF assms(1) [OF that]] .
  then have "list_all (\<lambda>(n, v). v \<noteq> None) fs" by (fastforce simp: list_all_iff)
  moreover have "list_all (\<lambda>(k, raw, v). plain_json v) (map (\<lambda>(n, v). (n, '''' :: string, the v)) fs)"
    using x by (fastforce simp: list_all_iff)
  moreover have "foldr max (map (\<lambda>(k, raw, v). json_depth v) (map (\<lambda>(n, v). (n, '''' :: string, the v)) fs)) 0 \<le> k - 1"
    using x assms(2) by (intro foldr_max_le) fastforce+
  ultimately have "plain_json (JObj (map (\<lambda>(n, v). (n, '''' :: string, the v)) fs)) \<and>
      json_depth (JObj (map (\<lambda>(n, v). (n, '''' :: string, the v)) fs)) \<le> k"
    by simp
  then show ?thesis using \<open>list_all (\<lambda>(n, v). v \<noteq> None) fs\<close> by (simp add: e_struct_def enc_ok_def)
qed

lemma e_struct_Some: "list_all (\<lambda>(n, v). v \<noteq> None) fs \<Longrightarrow> e_struct fs = Some (JObj (map (\<lambda>(n, v). (n, '''', the v)) fs))"
  by (simp add: e_struct_def)

section \<open>Compacting what was written\<close>

definition inert :: "char \<Rightarrow> bool" where
  "inert c \<longleftrightarrow> byte_val c < 128 \<and> c \<noteq> QUOTE \<and> c \<noteq> BACKSLASH \<and> c \<noteq> CHR ''<'' \<and> c \<noteq> CHR ''>'' \<and> c \<noteq> CHR ''&''"

lemma compact_in_inert: "inert c \<Longrightarrow> compact_in (c # t) = c # compact_in t"
proof -
  assume c: "inert c"
  then have "c \<noteq> char_of (226::nat)" by (auto simp: inert_def byte_val_def)
  then have "line_separator (take 3 (c # t)) = None" by (simp add: line_separator_def)
  then show ?thesis using c by (simp add: inert_def)
qed

lemma compact_in_inerts: "list_all inert e \<Longrightarrow> compact_in (e @ t) = e @ compact_in t"
  by (induction e) (simp_all add: compact_in_inert del: compact_in.simps)

lemma compact_in_escape: "list_all inert e \<Longrightarrow> e \<noteq> [] \<Longrightarrow> compact_in (BACKSLASH # e @ t) = BACKSLASH # e @ compact_in t"
  using compact_in_inerts [of "tl e" t] by (cases e) simp_all

lemma compact_in_short: "compact_in (BACKSLASH # c # t) = BACKSLASH # c # compact_in t"
  by simp

lemma inert_hex: "d < 16 \<Longrightarrow> inert (hex_digit d)"
proof -
  assume d: "d < 16"
  have "hex_val (hex_digit d) = Some d" using d by (rule hex_val_digit)
  moreover have "hex_val QUOTE = None" "hex_val BACKSLASH = None" "hex_val (CHR ''<'') = None"
    "hex_val (CHR ''>'') = None" "hex_val (CHR ''&'') = None" by (simp_all add: hex_val_def byte_val_def)
  moreover have "byte_val (hex_digit d) < 128" using d by (simp add: hex_digit_def byte_val_char_of)
  ultimately show ?thesis unfolding inert_def by force
qed

lemma inert_literals: "list_all inert ''u00''" "list_all inert ''u2028''" "list_all inert ''u2029''" "list_all inert ''ufffd''"
  by code_simp+

lemma compact_in_ascii:
  assumes "byte_val c < 128"
  shows "compact_in (quote_ascii c @ t) = quote_ascii c @ compact_in t"
proof -
  have "list_all inert (''u00'' @ [hex_digit (byte_val c div 16), hex_digit (byte_val c mod 16)])"
    using assms inert_literals(1) by (simp only: list_all_append) (simp add: inert_hex)
  from compact_in_escape [OF this, of t]
  have "compact_in (BACKSLASH # ''u00'' @ [hex_digit (byte_val c div 16), hex_digit (byte_val c mod 16)] @ t) =
      BACKSLASH # ''u00'' @ [hex_digit (byte_val c div 16), hex_digit (byte_val c mod 16)] @ compact_in t"
    by (simp del: compact_in.simps)
  moreover have "compact_in (c # t) = c # compact_in t"
    if "c \<noteq> QUOTE" "c \<noteq> BACKSLASH" "c \<noteq> CHR ''<''" "c \<noteq> CHR ''>''" "c \<noteq> CHR ''&''"
    by (rule compact_in_inert) (use that assms in \<open>simp add: inert_def\<close>)
  ultimately show ?thesis using compact_in_short
    by (simp add: quote_ascii_def del: compact_in.simps)
qed

lemma compact_in_cont:
  assumes "list_all cont_byte r"
  shows "compact_in (r @ t) = r @ compact_in t"
  using assms
proof (induction r)
  case (Cons c r)
  then have "128 \<le> byte_val c" "byte_val c < 192" by (auto simp: cont_byte_def)
  then have "c \<noteq> QUOTE" "c \<noteq> BACKSLASH" "c \<noteq> CHR ''<''" "c \<noteq> CHR ''>''" "c \<noteq> CHR ''&''"
    "c \<noteq> char_of (226::nat)" by (auto simp: byte_val_def)
  then show ?case using Cons by (simp add: line_separator_def)
qed simp

lemma compact_in_rune:
  assumes "0 < rune_len s" "128 \<le> byte_val (hd s)"
  shows "compact_in (quote_rune (take (rune_len s) s) @ t) = quote_rune (take (rune_len s) s) @ compact_in t"
proof (cases "line_separator (take (rune_len s) s)")
  case None
  let ?r = "take (rune_len s) s"
  obtain c u where s: "s = c # u" using assms by (cases s) (auto simp: rune_len_def)
  obtain k where k: "rune_len s = Suc k" using assms(1) by (cases "rune_len s") auto
  have r: "?r = c # take k u" "length (take k u) = k" using k rune_len_le [of s] by (simp_all add: s)
  have cont: "list_all cont_byte (take k u)"
    unfolding list_all_length
  proof (intro allI impI)
    fix i assume "i < length (take k u)"
    then have "\<not> RuneStart (s ! Suc i)" using k by (intro rune_tail_cont) auto
    then show "cont_byte (take k u ! i)" using \<open>i < length (take k u)\<close> by (simp add: s RuneStart_def)
  qed
  have c: "c \<noteq> QUOTE" "c \<noteq> BACKSLASH" "c \<noteq> CHR ''<''" "c \<noteq> CHR ''>''" "c \<noteq> CHR ''&''"
    using assms(2) s by (auto simp: byte_val_def)
  have "line_separator (take 3 (?r @ t)) = None"
  proof (rule ccontr)
    assume "line_separator (take 3 (?r @ t)) \<noteq> None"
    then have "c = char_of (226::nat)" using r by (auto simp: line_separator_def split: if_splits)
    then have "rune_len s = 3"
      using assms(1) by (auto simp: s rune_len_def lead_len_def byte_in_def byte_val_def Let_def split: if_splits)
    then have "take 3 (?r @ t) = ?r" using rune_len_le [of s] by simp
    then show False using None \<open>line_separator (take 3 (?r @ t)) \<noteq> None\<close> by simp
  qed
  then have "compact_in (?r @ t) = c # compact_in (take k u @ t)" using c r by simp
  then show ?thesis using None compact_in_cont [OF cont] r by (simp add: quote_rune_def)
next
  case (Some e)
  then show ?thesis
    using compact_in_escape [OF inert_literals(2)] compact_in_escape [OF inert_literals(3)]
    by (auto simp: quote_rune_def line_separator_def simp del: compact_in.simps split: if_splits)
qed

lemma compact_in_quote: "compact_in (quote_chars s @ QUOTE # t) = quote_chars s @ QUOTE # compact_out t"
proof (induction s rule: quote_chars.induct)
  case (1 s)
  show ?case
  proof (cases s)
    case Nil
    then show ?thesis by (simp add: quote_chars.simps [of "[]"])
  next
    case (Cons c u)
    consider "byte_val c < 128" | "\<not> byte_val c < 128" "rune_len s = 0" | "\<not> byte_val c < 128" "rune_len s \<noteq> 0" by blast
    then show ?thesis
    proof cases
      case 1
      then show ?thesis using "1.IH"(1) [OF Cons] compact_in_ascii [of c] by (simp add: Cons quote_chars.simps [of "c # u"])
    next
      case 2
      have "compact_in (BACKSLASH # ''ufffd'' @ r) = BACKSLASH # ''ufffd'' @ compact_in r" for r
        by (rule compact_in_escape [OF inert_literals(4)]) simp
      then show ?thesis using 2 "1.IH"(2) [OF Cons] by (simp add: Cons quote_chars.simps [of "c # u"] del: compact_in.simps)
    next
      case 3
      then have "quote_chars s = quote_rune (take (rune_len s) s) @ quote_chars (drop (rune_len s) s)"
        using Cons by (subst quote_chars.simps) simp
      then show ?thesis using 3 "1.IH"(3) [OF Cons] compact_in_rune [of s] by (simp add: Cons)
    qed
  qed
qed

lemma compact_out_plain: "(\<And>c. c \<in> set s \<Longrightarrow> \<not> is_ws c \<and> c \<noteq> QUOTE) \<Longrightarrow> compact_out (s @ t) = s @ compact_out t"
  by (induction s) auto

lemma compact_out_string: "compact_out (quote_string s @ t) = quote_string s @ compact_out t"
  using compact_in_quote [of s t] by (simp add: quote_string_def)

lemma itoa_chars: "c \<in> set (itoa i) \<Longrightarrow> \<not> is_ws c \<and> c \<noteq> QUOTE"
  using digits_all [of c] by (auto simp: itoa_def is_ws_def is_digit_def byte_val_def split: if_splits)

lemma compact_out_join:
  "(\<And>x t. x \<in> set xs \<Longrightarrow> compact_out (f x @ t) = f x @ compact_out t) \<Longrightarrow>
     compact_out (join_with '','' (map f xs) @ t) = join_with '','' (map f xs) @ compact_out t"
proof (induction xs)
  case (Cons x xs)
  have "\<not> is_ws (CHR '','')" by simp
  then show ?case using Cons by (cases xs) auto
qed simp

lemma compact_print: "plain_json v \<Longrightarrow> compact_out (print_json v @ t) = print_json v @ compact_out t"
proof (induction v arbitrary: t)
  case (JNum s)
  then show ?case using itoa_chars [of _ "fst (atoi s)"] by (simp add: compact_out_plain)
next
  case (JStr s)
  then show ?case by (simp add: compact_out_string)
next
  case (JArr vs)
  then show ?case
    using compact_out_join [of vs print_json "CHR '']'' # t"] by (simp add: list_all_iff)
next
  case (JObj ms)
  have m: "compact_out (print_member m @ u) = print_member m @ compact_out u" if "m \<in> set ms" for m u
  proof -
    obtain k raw v where "m = (k, raw, v)" by (cases m)
    moreover from this have "plain_json v" using JObj.prems that by (auto simp: list_all_iff)
    ultimately show ?thesis using JObj.IH [of m "(raw, v)" v] that by (simp add: print_member_def compact_out_string)
  qed
  show ?case unfolding print_JObj using compact_out_join [of ms print_member "CHR ''}'' # t", OF m] by simp
qed (auto simp: compact_out_plain is_ws_def)

text \<open>The raw message of a written value is that value again.\<close>

lemma e_raw_print:
  assumes "enc_ok k v" "k \<le> max_depth"
  shows "e_raw (print_json (the v)) = Some (JRaw (print_json (the v)))"
proof -
  obtain w where "v = Some w" "plain_json w" "json_depth w \<le> max_depth" using enc_okD [OF assms(1)] assms(2) by auto
  then show ?thesis using compact_print [of w "[]"] by (simp add: e_raw_def parse_print)
qed

section \<open>ASCII keys\<close>

lemma ascii_key [simp]: "is_ascii k \<Longrightarrow> to_valid_utf8 k = k"
  by (rule to_valid_ascii)

lemma is_ascii_Cons [simp]: "is_ascii (c # s) \<longleftrightarrow> byte_val c < 128 \<and> is_ascii s" "is_ascii []"
  by (simp_all add: is_ascii_def)

lemma small_bytes [simp]: "byte_val (Char b0 b1 b2 b3 b4 b5 b6 False) < 128"
  by (cases b0; cases b1; cases b2; cases b3; cases b4; cases b5; cases b6) (simp_all add: byte_val_def)

end
