(* ===== verification/GitJson.thy ===== *)
theory GitJson
  imports GitErrors GoCodec
begin

text \<open>
  The JSON form of the contract's types, from the struct tags of \<^verbatim>\<open>gitprovider/types.go\<close> and
  \<^verbatim>\<open>errors.go\<close>: how the request types are decoded and the result types encoded.
\<close>

section \<open>Requests\<close>

definition d_IdentityRef :: "IdentityRef decoder" where [codec]:
  "d_IdentityRef = d_struct
    [(''id'', fld d_str ir_id (\<lambda>y. ir_id_update (\<lambda>_. y))),
     (''handle'', fld d_str ir_handle (\<lambda>y. ir_handle_update (\<lambda>_. y))),
     (''provider_ref'', fld d_raw ir_provider_ref (\<lambda>y. ir_provider_ref_update (\<lambda>_. y)))]"

definition d_RepoRef :: "RepoRef decoder" where [codec]:
  "d_RepoRef = d_struct
    [(''host'', fld d_str rr_host (\<lambda>y. rr_host_update (\<lambda>_. y))),
     (''full_path'', fld d_str rr_full_path (\<lambda>y. rr_full_path_update (\<lambda>_. y))),
     (''external_id'', fld d_str rr_external_id (\<lambda>y. rr_external_id_update (\<lambda>_. y))),
     (''default_branch'', fld d_str rr_default_branch (\<lambda>y. rr_default_branch_update (\<lambda>_. y))),
     (''clone_url'', fld d_str rr_clone_url (\<lambda>y. rr_clone_url_update (\<lambda>_. y))),
     (''provider_ref'', fld d_raw rr_provider_ref (\<lambda>y. rr_provider_ref_update (\<lambda>_. y)))]"

definition d_Target :: "Target decoder" where [codec]:
  "d_Target = d_struct
    [(''identity'', fld d_IdentityRef tg_identity (\<lambda>y. tg_identity_update (\<lambda>_. y))),
     (''repo'', fld d_RepoRef tg_repo (\<lambda>y. tg_repo_update (\<lambda>_. y)))]"

definition d_SubjectRef :: "SubjectRef decoder" where [codec]:
  "d_SubjectRef = d_struct
    [(''kind'', fld d_str sr_kind (\<lambda>y. sr_kind_update (\<lambda>_. y))),
     (''number'', fld d_str sr_number (\<lambda>y. sr_number_update (\<lambda>_. y)))]"

definition d_BeginSetupRequest :: "BeginSetupRequest decoder" where [codec]:
  "d_BeginSetupRequest = d_struct
    [(''scope'', fld d_str bs_scope (\<lambda>y. bs_scope_update (\<lambda>_. y))),
     (''host'', fld d_str bs_host (\<lambda>y. bs_host_update (\<lambda>_. y))),
     (''agent_id'', fld d_str bs_agent_id (\<lambda>y. bs_agent_id_update (\<lambda>_. y))),
     (''agent_name'', fld d_str bs_agent_name (\<lambda>y. bs_agent_name_update (\<lambda>_. y))),
     (''return_url'', fld d_str bs_return_url (\<lambda>y. bs_return_url_update (\<lambda>_. y))),
     (''callback_url'', fld d_str bs_callback_url (\<lambda>y. bs_callback_url_update (\<lambda>_. y))),
     (''webhook_url'', fld d_str bs_webhook_url (\<lambda>y. bs_webhook_url_update (\<lambda>_. y))),
     (''params'', fld d_map bs_params (\<lambda>y. bs_params_update (\<lambda>_. y)))]"

definition d_CompleteSetupRequest :: "CompleteSetupRequest decoder" where [codec]:
  "d_CompleteSetupRequest = d_struct
    [(''scope'', fld d_str cs_scope (\<lambda>y. cs_scope_update (\<lambda>_. y))),
     (''host'', fld d_str cs_host (\<lambda>y. cs_host_update (\<lambda>_. y))),
     (''state'', fld d_str cs_state (\<lambda>y. cs_state_update (\<lambda>_. y))),
     (''params'', fld d_map cs_params (\<lambda>y. cs_params_update (\<lambda>_. y)))]"

definition d_BeginAccessRequest :: "BeginAccessRequest decoder" where [codec]:
  "d_BeginAccessRequest = d_struct
    [(''identity'', fld d_IdentityRef ba_identity (\<lambda>y. ba_identity_update (\<lambda>_. y))),
     (''owner'', fld d_str ba_owner (\<lambda>y. ba_owner_update (\<lambda>_. y))),
     (''return_url'', fld d_str ba_return_url (\<lambda>y. ba_return_url_update (\<lambda>_. y))),
     (''callback_url'', fld d_str ba_callback_url (\<lambda>y. ba_callback_url_update (\<lambda>_. y)))]"

definition d_CompleteAccessRequest :: "CompleteAccessRequest decoder" where [codec]:
  "d_CompleteAccessRequest = d_struct
    [(''identity'', fld d_IdentityRef ca_identity (\<lambda>y. ca_identity_update (\<lambda>_. y))),
     (''state'', fld d_str ca_state (\<lambda>y. ca_state_update (\<lambda>_. y))),
     (''params'', fld d_map ca_params (\<lambda>y. ca_params_update (\<lambda>_. y)))]"

definition d_DeleteIdentityRequest :: "DeleteIdentityRequest decoder" where [codec]:
  "d_DeleteIdentityRequest = d_struct
    [(''identity'', fld d_IdentityRef di_identity (\<lambda>y. di_identity_update (\<lambda>_. y)))]"

definition d_DescribeIdentityRequest :: "DescribeIdentityRequest decoder" where [codec]:
  "d_DescribeIdentityRequest = d_struct
    [(''identity'', fld d_IdentityRef de_identity (\<lambda>y. de_identity_update (\<lambda>_. y)))]"

definition d_ListReposRequest :: "ListReposRequest decoder" where [codec]:
  "d_ListReposRequest = d_struct
    [(''identity'', fld d_IdentityRef lr_identity (\<lambda>y. lr_identity_update (\<lambda>_. y))),
     (''query'', fld d_str lr_query (\<lambda>y. lr_query_update (\<lambda>_. y))),
     (''cursor'', fld d_str lr_cursor (\<lambda>y. lr_cursor_update (\<lambda>_. y))),
     (''page_size'', fld d_int lr_page_size (\<lambda>y. lr_page_size_update (\<lambda>_. y)))]"

definition d_ResolveRepoRequest :: "ResolveRepoRequest decoder" where [codec]:
  "d_ResolveRepoRequest = d_struct
    [(''host'', fld d_str rq_host (\<lambda>y. rq_host_update (\<lambda>_. y))),
     (''path_or_url'', fld d_str rq_path_or_url (\<lambda>y. rq_path_or_url_update (\<lambda>_. y))),
     (''candidates'', fld (d_list zero_IdentityRef d_IdentityRef) rq_candidates (\<lambda>y. rq_candidates_update (\<lambda>_. y)))]"

definition d_WebhookRequest :: "WebhookRequest decoder" where [codec]:
  "d_WebhookRequest = d_struct
    [(''identity'', fld d_IdentityRef wr_identity (\<lambda>y. wr_identity_update (\<lambda>_. y))),
     (''method'', fld d_str wr_method (\<lambda>y. wr_method_update (\<lambda>_. y))),
     (''headers'', fld d_map wr_headers (\<lambda>y. wr_headers_update (\<lambda>_. y))),
     (''query'', fld d_map wr_query (\<lambda>y. wr_query_update (\<lambda>_. y))),
     (''body'', fld d_bytes wr_body (\<lambda>y. wr_body_update (\<lambda>_. y)))]"

definition d_MintRequest :: "MintRequest decoder" where [codec]:
  "d_MintRequest = d_struct
    [(''target'', fld d_Target mr_target (\<lambda>y. mr_target_update (\<lambda>_. y))),
     (''access'', fld d_str mr_access (\<lambda>y. mr_access_update (\<lambda>_. y))),
     (''ttl_seconds'', fld d_int mr_ttl_seconds (\<lambda>y. mr_ttl_seconds_update (\<lambda>_. y)))]"

definition d_ActorPermissionRequest :: "ActorPermissionRequest decoder" where [codec]:
  "d_ActorPermissionRequest = d_struct
    [(''target'', fld d_Target ap_target (\<lambda>y. ap_target_update (\<lambda>_. y))),
     (''login'', fld d_str ap_login (\<lambda>y. ap_login_update (\<lambda>_. y)))]"

definition d_BranchProtectionRequest :: "BranchProtectionRequest decoder" where [codec]:
  "d_BranchProtectionRequest = d_struct
    [(''target'', fld d_Target bq_target (\<lambda>y. bq_target_update (\<lambda>_. y))),
     (''branch'', fld d_str bq_branch (\<lambda>y. bq_branch_update (\<lambda>_. y)))]"

definition d_CRRequest :: "CRRequest decoder" where [codec]:
  "d_CRRequest = d_struct
    [(''target'', fld d_Target crq_target (\<lambda>y. crq_target_update (\<lambda>_. y))),
     (''number'', fld d_str crq_number (\<lambda>y. crq_number_update (\<lambda>_. y)))]"

definition d_PagedCRRequest :: "PagedCRRequest decoder" where [codec]:
  "d_PagedCRRequest = d_struct
    [(''target'', fld d_Target pcr_target (\<lambda>y. pcr_target_update (\<lambda>_. y))),
     (''number'', fld d_str pcr_number (\<lambda>y. pcr_number_update (\<lambda>_. y))),
     (''cursor'', fld d_str pcr_cursor (\<lambda>y. pcr_cursor_update (\<lambda>_. y)))]"

definition d_DiffRequest :: "DiffRequest decoder" where [codec]:
  "d_DiffRequest = d_struct
    [(''target'', fld d_Target dr_target (\<lambda>y. dr_target_update (\<lambda>_. y))),
     (''number'', fld d_str dr_number (\<lambda>y. dr_number_update (\<lambda>_. y))),
     (''path'', fld d_str dr_path (\<lambda>y. dr_path_update (\<lambda>_. y))),
     (''max_bytes'', fld d_int dr_max_bytes (\<lambda>y. dr_max_bytes_update (\<lambda>_. y)))]"

definition d_ListCommentsRequest :: "ListCommentsRequest decoder" where [codec]:
  "d_ListCommentsRequest = d_struct
    [(''target'', fld d_Target lc_target (\<lambda>y. lc_target_update (\<lambda>_. y))),
     (''subject'', fld d_SubjectRef lc_subject (\<lambda>y. lc_subject_update (\<lambda>_. y))),
     (''cursor'', fld d_str lc_cursor (\<lambda>y. lc_cursor_update (\<lambda>_. y)))]"

definition d_IssueRequest :: "IssueRequest decoder" where [codec]:
  "d_IssueRequest = d_struct
    [(''target'', fld d_Target iq_target (\<lambda>y. iq_target_update (\<lambda>_. y))),
     (''number'', fld d_str iq_number (\<lambda>y. iq_number_update (\<lambda>_. y)))]"

definition d_ListIssuesRequest :: "ListIssuesRequest decoder" where [codec]:
  "d_ListIssuesRequest = d_struct
    [(''target'', fld d_Target li_target (\<lambda>y. li_target_update (\<lambda>_. y))),
     (''state'', fld d_str li_state (\<lambda>y. li_state_update (\<lambda>_. y))),
     (''cursor'', fld d_str li_cursor (\<lambda>y. li_cursor_update (\<lambda>_. y)))]"

definition d_ChecksRequest :: "ChecksRequest decoder" where [codec]:
  "d_ChecksRequest = d_struct
    [(''target'', fld d_Target chq_target (\<lambda>y. chq_target_update (\<lambda>_. y))),
     (''ref'', fld d_str chq_ref (\<lambda>y. chq_ref_update (\<lambda>_. y)))]"

definition d_CheckLogsRequest :: "CheckLogsRequest decoder" where [codec]:
  "d_CheckLogsRequest = d_struct
    [(''target'', fld d_Target cl_target (\<lambda>y. cl_target_update (\<lambda>_. y))),
     (''check_id'', fld d_str cl_check_id (\<lambda>y. cl_check_id_update (\<lambda>_. y))),
     (''tail_bytes'', fld d_int cl_tail_bytes (\<lambda>y. cl_tail_bytes_update (\<lambda>_. y)))]"

definition d_FileRequest :: "FileRequest decoder" where [codec]:
  "d_FileRequest = d_struct
    [(''target'', fld d_Target fr_target (\<lambda>y. fr_target_update (\<lambda>_. y))),
     (''ref'', fld d_str fr_ref (\<lambda>y. fr_ref_update (\<lambda>_. y))),
     (''path'', fld d_str fr_path (\<lambda>y. fr_path_update (\<lambda>_. y))),
     (''max_bytes'', fld d_int fr_max_bytes (\<lambda>y. fr_max_bytes_update (\<lambda>_. y)))]"

definition d_CodeSearchRequest :: "CodeSearchRequest decoder" where [codec]:
  "d_CodeSearchRequest = d_struct
    [(''target'', fld d_Target csq_target (\<lambda>y. csq_target_update (\<lambda>_. y))),
     (''query'', fld d_str csq_query (\<lambda>y. csq_query_update (\<lambda>_. y)))]"

definition d_OpenCRRequest :: "OpenCRRequest decoder" where [codec]:
  "d_OpenCRRequest = d_struct
    [(''target'', fld d_Target oc_target (\<lambda>y. oc_target_update (\<lambda>_. y))),
     (''title'', fld d_str oc_title (\<lambda>y. oc_title_update (\<lambda>_. y))),
     (''body'', fld d_str oc_body (\<lambda>y. oc_body_update (\<lambda>_. y))),
     (''head'', fld d_str oc_head (\<lambda>y. oc_head_update (\<lambda>_. y))),
     (''base'', fld d_str oc_base (\<lambda>y. oc_base_update (\<lambda>_. y))),
     (''draft'', fld d_bool oc_draft (\<lambda>y. oc_draft_update (\<lambda>_. y))),
     (''labels'', fld (d_list '''' d_str) oc_labels (\<lambda>y. oc_labels_update (\<lambda>_. y))),
     (''reviewers'', fld (d_list '''' d_str) oc_reviewers (\<lambda>y. oc_reviewers_update (\<lambda>_. y))),
     (''idempotency_key'', fld d_str oc_idempotency_key (\<lambda>y. oc_idempotency_key_update (\<lambda>_. y)))]"

definition d_UpdateCRRequest :: "UpdateCRRequest decoder" where [codec]:
  "d_UpdateCRRequest = d_struct
    [(''target'', fld d_Target uc_target (\<lambda>y. uc_target_update (\<lambda>_. y))),
     (''number'', fld d_str uc_number (\<lambda>y. uc_number_update (\<lambda>_. y))),
     (''title'', fld (d_opt '''' d_str) uc_title (\<lambda>y. uc_title_update (\<lambda>_. y))),
     (''body'', fld (d_opt '''' d_str) uc_body (\<lambda>y. uc_body_update (\<lambda>_. y))),
     (''draft'', fld (d_opt False d_bool) uc_draft (\<lambda>y. uc_draft_update (\<lambda>_. y))),
     (''state'', fld (d_opt '''' d_str) uc_state (\<lambda>y. uc_state_update (\<lambda>_. y)))]"

definition d_CommentRequest :: "CommentRequest decoder" where [codec]:
  "d_CommentRequest = d_struct
    [(''target'', fld d_Target cmq_target (\<lambda>y. cmq_target_update (\<lambda>_. y))),
     (''subject'', fld d_SubjectRef cmq_subject (\<lambda>y. cmq_subject_update (\<lambda>_. y))),
     (''body'', fld d_str cmq_body (\<lambda>y. cmq_body_update (\<lambda>_. y))),
     (''idempotency_key'', fld d_str cmq_idempotency_key (\<lambda>y. cmq_idempotency_key_update (\<lambda>_. y)))]"

definition d_ReplyThreadRequest :: "ReplyThreadRequest decoder" where [codec]:
  "d_ReplyThreadRequest = d_struct
    [(''target'', fld d_Target rt_target (\<lambda>y. rt_target_update (\<lambda>_. y))),
     (''number'', fld d_str rt_number (\<lambda>y. rt_number_update (\<lambda>_. y))),
     (''thread_id'', fld d_str rt_thread_id (\<lambda>y. rt_thread_id_update (\<lambda>_. y))),
     (''body'', fld d_str rt_body (\<lambda>y. rt_body_update (\<lambda>_. y))),
     (''idempotency_key'', fld d_str rt_idempotency_key (\<lambda>y. rt_idempotency_key_update (\<lambda>_. y)))]"

definition d_InlineComment :: "InlineComment decoder" where [codec]:
  "d_InlineComment = d_struct
    [(''path'', fld d_str ic_path (\<lambda>y. ic_path_update (\<lambda>_. y))),
     (''line'', fld d_int ic_line (\<lambda>y. ic_line_update (\<lambda>_. y))),
     (''side'', fld d_str ic_side (\<lambda>y. ic_side_update (\<lambda>_. y))),
     (''body'', fld d_str ic_body (\<lambda>y. ic_body_update (\<lambda>_. y)))]"

definition d_SubmitReviewRequest :: "SubmitReviewRequest decoder" where [codec]:
  "d_SubmitReviewRequest = d_struct
    [(''target'', fld d_Target sv_target (\<lambda>y. sv_target_update (\<lambda>_. y))),
     (''number'', fld d_str sv_number (\<lambda>y. sv_number_update (\<lambda>_. y))),
     (''verdict'', fld d_str sv_verdict (\<lambda>y. sv_verdict_update (\<lambda>_. y))),
     (''summary'', fld d_str sv_summary (\<lambda>y. sv_summary_update (\<lambda>_. y))),
     (''comments'', fld (d_list zero_InlineComment d_InlineComment) sv_comments (\<lambda>y. sv_comments_update (\<lambda>_. y))),
     (''head_sha'', fld d_str sv_head_sha (\<lambda>y. sv_head_sha_update (\<lambda>_. y))),
     (''idempotency_key'', fld d_str sv_idempotency_key (\<lambda>y. sv_idempotency_key_update (\<lambda>_. y)))]"

definition d_SetStatusRequest :: "SetStatusRequest decoder" where [codec]:
  "d_SetStatusRequest = d_struct
    [(''target'', fld d_Target st_target (\<lambda>y. st_target_update (\<lambda>_. y))),
     (''subject'', fld d_SubjectRef st_subject (\<lambda>y. st_subject_update (\<lambda>_. y))),
     (''sha'', fld d_str st_sha (\<lambda>y. st_sha_update (\<lambda>_. y))),
     (''state'', fld d_str st_state (\<lambda>y. st_state_update (\<lambda>_. y))),
     (''title'', fld d_str st_title (\<lambda>y. st_title_update (\<lambda>_. y))),
     (''summary'', fld d_str st_summary (\<lambda>y. st_summary_update (\<lambda>_. y))),
     (''url'', fld d_str st_url (\<lambda>y. st_url_update (\<lambda>_. y))),
     (''status_ref'', fld d_str st_status_ref (\<lambda>y. st_status_ref_update (\<lambda>_. y)))]"

definition d_ResolveThreadRequest :: "ResolveThreadRequest decoder" where [codec]:
  "d_ResolveThreadRequest = d_struct
    [(''target'', fld d_Target rth_target (\<lambda>y. rth_target_update (\<lambda>_. y))),
     (''number'', fld d_str rth_number (\<lambda>y. rth_number_update (\<lambda>_. y))),
     (''thread_id'', fld d_str rth_thread_id (\<lambda>y. rth_thread_id_update (\<lambda>_. y))),
     (''resolved'', fld d_bool rth_resolved (\<lambda>y. rth_resolved_update (\<lambda>_. y)))]"

definition d_LabelsRequest :: "LabelsRequest decoder" where [codec]:
  "d_LabelsRequest = d_struct
    [(''target'', fld d_Target lb_target (\<lambda>y. lb_target_update (\<lambda>_. y))),
     (''subject'', fld d_SubjectRef lb_subject (\<lambda>y. lb_subject_update (\<lambda>_. y))),
     (''labels'', fld (d_list '''' d_str) lb_labels (\<lambda>y. lb_labels_update (\<lambda>_. y)))]"

definition d_PeopleRequest :: "PeopleRequest decoder" where [codec]:
  "d_PeopleRequest = d_struct
    [(''target'', fld d_Target pp_target (\<lambda>y. pp_target_update (\<lambda>_. y))),
     (''subject'', fld d_SubjectRef pp_subject (\<lambda>y. pp_subject_update (\<lambda>_. y))),
     (''logins'', fld (d_list '''' d_str) pp_logins (\<lambda>y. pp_logins_update (\<lambda>_. y)))]"

definition d_MergeRequest :: "MergeRequest decoder" where [codec]:
  "d_MergeRequest = d_struct
    [(''target'', fld d_Target mg_target (\<lambda>y. mg_target_update (\<lambda>_. y))),
     (''number'', fld d_str mg_number (\<lambda>y. mg_number_update (\<lambda>_. y))),
     (''method'', fld d_str mg_method (\<lambda>y. mg_method_update (\<lambda>_. y))),
     (''expected_head_sha'', fld d_str mg_expected_head_sha (\<lambda>y. mg_expected_head_sha_update (\<lambda>_. y)))]"

definition d_RerunRequest :: "RerunRequest decoder" where [codec]:
  "d_RerunRequest = d_struct
    [(''target'', fld d_Target rru_target (\<lambda>y. rru_target_update (\<lambda>_. y))),
     (''ref'', fld d_str rru_ref (\<lambda>y. rru_ref_update (\<lambda>_. y))),
     (''check_id'', fld d_str rru_check_id (\<lambda>y. rru_check_id_update (\<lambda>_. y)))]"

definition d_ReactRequest :: "ReactRequest decoder" where [codec]:
  "d_ReactRequest = d_struct
    [(''target'', fld d_Target re_target (\<lambda>y. re_target_update (\<lambda>_. y))),
     (''comment_id'', fld d_str re_comment_id (\<lambda>y. re_comment_id_update (\<lambda>_. y))),
     (''emoji'', fld d_str re_emoji (\<lambda>y. re_emoji_update (\<lambda>_. y)))]"

definition d_EnsureWebhookRequest :: "EnsureWebhookRequest decoder" where [codec]:
  "d_EnsureWebhookRequest = d_struct
    [(''target'', fld d_Target ew_target (\<lambda>y. ew_target_update (\<lambda>_. y))),
     (''url'', fld d_str ew_url (\<lambda>y. ew_url_update (\<lambda>_. y)))]"

definition d_WebhookRef :: "WebhookRef decoder" where [codec]:
  "d_WebhookRef = d_struct
    [(''id'', fld d_str wh_id (\<lambda>y. wh_id_update (\<lambda>_. y)))]"

definition d_RemoveWebhookRequest :: "RemoveWebhookRequest decoder" where [codec]:
  "d_RemoveWebhookRequest = d_struct
    [(''target'', fld d_Target rw_target (\<lambda>y. rw_target_update (\<lambda>_. y))),
     (''webhook'', fld d_WebhookRef rw_webhook (\<lambda>y. rw_webhook_update (\<lambda>_. y)))]"

definition d_GetBranchRequest :: "GetBranchRequest decoder" where [codec]:
  "d_GetBranchRequest = d_struct
    [(''target'', fld d_Target gb_target (\<lambda>y. gb_target_update (\<lambda>_. y))),
     (''name'', fld d_str gb_name (\<lambda>y. gb_name_update (\<lambda>_. y)))]"

definition d_CreateBranchRequest :: "CreateBranchRequest decoder" where [codec]:
  "d_CreateBranchRequest = d_struct
    [(''target'', fld d_Target cb_target (\<lambda>y. cb_target_update (\<lambda>_. y))),
     (''name'', fld d_str cb_name (\<lambda>y. cb_name_update (\<lambda>_. y))),
     (''from'', fld d_str cb_from (\<lambda>y. cb_from_update (\<lambda>_. y))),
     (''idempotency_key'', fld d_str cb_idempotency_key (\<lambda>y. cb_idempotency_key_update (\<lambda>_. y)))]"

section \<open>Results\<close>

definition e_KindProfile :: "KindProfile \<Rightarrow> json option" where [codec]:
  "e_KindProfile x = e_struct (concat
    [[(''kind'', e_str (kp_kind x))],
     [(''credential_model'', e_str (kp_credential_model x))],
     [(''webhook_scope'', e_str (kp_webhook_scope x))],
     [(''access_grants'', e_bool (kp_access_grants x))]])"

definition e_IdentityRef :: "IdentityRef \<Rightarrow> json option" where [codec]:
  "e_IdentityRef x = e_struct (concat
    [[(''id'', e_str (ir_id x))],
     omit (ir_handle x = '''') ''handle'' (e_str (ir_handle x)),
     omit (ir_provider_ref x = []) ''provider_ref'' (e_raw (ir_provider_ref x))])"

definition e_RepoRef :: "RepoRef \<Rightarrow> json option" where [codec]:
  "e_RepoRef x = e_struct (concat
    [[(''host'', e_str (rr_host x))],
     [(''full_path'', e_str (rr_full_path x))],
     omit (rr_external_id x = '''') ''external_id'' (e_str (rr_external_id x)),
     omit (rr_default_branch x = '''') ''default_branch'' (e_str (rr_default_branch x)),
     omit (rr_clone_url x = '''') ''clone_url'' (e_str (rr_clone_url x)),
     omit (rr_provider_ref x = []) ''provider_ref'' (e_raw (rr_provider_ref x))])"

definition e_Terms :: "Terms \<Rightarrow> json option" where [codec]:
  "e_Terms x = e_struct (concat
    [[(''change_request'', e_str (tm_change_request x))],
     [(''change_request_plural'', e_str (tm_change_request_plural x))],
     [(''repository'', e_str (tm_repository x))]])"

definition capability_members :: "Capabilities \<Rightarrow> member list" where
  "capability_members x = concat
    [[(''identity_kinds'', e_list e_str (cap_identity_kinds x))],
     [(''credential_model'', e_str (cap_credential_model x))],
     [(''webhook_scope'', e_str (cap_webhook_scope x))],
     [(''status_kind'', e_str (cap_status_kind x))],
     [(''triggers'', e_list e_str (cap_triggers x))],
     [(''multiple_identities'', e_bool (cap_multiple_identities x))],
     omit (cap_kinds x = []) ''kinds'' (e_list e_KindProfile (cap_kinds x)),
     omit (\<not> cap_issue_list x) ''issue_list'' (e_bool (cap_issue_list x)),
     [(''resolve_threads'', e_bool (cap_resolve_threads x))],
     [(''file_read'', e_bool (cap_file_read x))],
     [(''code_search'', e_bool (cap_code_search x))],
     [(''labels'', e_bool (cap_labels x))],
     [(''reviewer_requests'', e_bool (cap_reviewer_requests x))],
     [(''assignees'', e_bool (cap_assignees x))],
     [(''merge'', e_bool (cap_merge x))],
     [(''rerun_checks'', e_bool (cap_rerun_checks x))],
     [(''reactions'', e_bool (cap_reactions x))],
     [(''webhook_management'', e_bool (cap_webhook_management x))],
     [(''identity_deletion'', e_bool (cap_identity_deletion x))],
     [(''identity_description'', e_bool (cap_identity_description x))],
     [(''branches'', e_bool (cap_branches x))],
     [(''access_grants'', e_bool (cap_access_grants x))],
     [(''batch_review'', e_bool (cap_batch_review x))],
     [(''idempotent_writes'', e_bool (cap_idempotent_writes x))],
     [(''hidden_markers'', e_bool (cap_hidden_markers x))],
     [(''fork_change_requests'', e_bool (cap_fork_change_requests x))],
     [(''draft_change_requests'', e_bool (cap_draft_change_requests x))],
     [(''nested_paths'', e_bool (cap_nested_paths x))],
     omit (cap_ci_config_globs x = []) ''ci_config_globs'' (e_list e_str (cap_ci_config_globs x))]"

definition e_Capabilities :: "Capabilities \<Rightarrow> json option" where [codec]:
  "e_Capabilities x = e_struct (capability_members x)"

definition e_Info :: "Info \<Rightarrow> json option" where [codec]:
  "e_Info x = e_struct (concat
    [[(''spi_version'', e_str (info_spi_version x))],
     [(''id'', e_str (info_id x))],
     [(''display_name'', e_str (info_display_name x))],
     omit (info_icon x = '''') ''icon'' (e_str (info_icon x)),
     [(''hosts'', e_list e_str (info_hosts x))],
     [(''self_hosted_hosts'', e_bool (info_self_hosted_hosts x))],
     [(''terms'', e_Terms (info_terms x))],
     [(''capabilities'', e_Capabilities (info_capabilities x))]])"

definition e_FormField :: "FormField \<Rightarrow> json option" where [codec]:
  "e_FormField x = e_struct (concat
    [[(''name'', e_str (ff_name x))],
     [(''label'', e_str (ff_label x))],
     omit (ff_help x = '''') ''help'' (e_str (ff_help x)),
     omit (\<not> ff_secret x) ''secret'' (e_bool (ff_secret x)),
     omit (\<not> ff_required x) ''required'' (e_bool (ff_required x))])"

text \<open>The two types that contain each other.\<close>

fun e_SetupStep :: "SetupStep \<Rightarrow> json option" and e_Identity :: "Identity \<Rightarrow> json option" where
  "e_SetupStep (SetupStep v0 v1 v2 v3 v4 v5 v6) = e_struct (concat
    [[(''kind'', e_str v0)],
     omit (v1 = '''') ''url'' (e_str v1),
     omit (v2 = []) ''fields'' (e_map v2),
     omit (v3 = []) ''form'' (e_list e_FormField v3),
     omit (v4 = '''') ''prompt'' (e_str v4),
     omit (v5 = '''') ''state'' (e_str v5),
     (case v6 of None \<Rightarrow> [] | Some y \<Rightarrow> [(''identity'', e_Identity y)])])"
| "e_Identity (Identity v0 v1 v2 v3 v4 v5) = e_struct (concat
    [[(''ref'', e_IdentityRef v0)],
     [(''host'', e_str v1)],
     [(''kind'', e_str v2)],
     [(''display_name'', e_str v3)],
     omit (v4 = 0) ''expires_at'' (e_time v4),
     (case v5 of None \<Rightarrow> [] | Some y \<Rightarrow> [(''next'', e_SetupStep y)])])"

definition e_AccessGrant :: "AccessGrant \<Rightarrow> json option" where [codec]:
  "e_AccessGrant x = e_struct (concat
    [[(''owner'', e_str (ag_owner x))]])"

definition e_Repository :: "Repository \<Rightarrow> json option" where [codec]:
  "e_Repository x = e_struct (concat
    [[(''ref'', e_RepoRef (rp_ref x))],
     [(''private'', e_bool (rp_private x))],
     omit (rp_description x = '''') ''description'' (e_str (rp_description x))])"

definition e_RepositoryPage :: "RepositoryPage \<Rightarrow> json option" where [codec]:
  "e_RepositoryPage x = e_struct (concat
    [[(''items'', e_list e_Repository (rpg_items x))],
     omit (rpg_next_cursor x = '''') ''next_cursor'' (e_str (rpg_next_cursor x))])"

definition e_ResolvedRepository :: "ResolvedRepository \<Rightarrow> json option" where [codec]:
  "e_ResolvedRepository x = e_struct (concat
    [[(''repository'', e_Repository (rd_repository x))],
     [(''identity'', e_IdentityRef (rd_identity x))]])"

definition e_Actor :: "Actor \<Rightarrow> json option" where [codec]:
  "e_Actor x = e_struct (concat
    [[(''login'', e_str (ac_login x))],
     [(''kind'', e_str (ac_kind x))],
     omit (ac_permission x = '''') ''permission'' (e_str (ac_permission x))])"

definition e_Branch :: "Branch \<Rightarrow> json option" where [codec]:
  "e_Branch x = e_struct (concat
    [[(''ref'', e_str (br_ref x))],
     omit (br_sha x = '''') ''sha'' (e_str (br_sha x)),
     omit (br_repo x = '''') ''repo'' (e_str (br_repo x)),
     omit (\<not> br_from_fork x) ''from_fork'' (e_bool (br_from_fork x))])"

definition e_EventSubject :: "EventSubject \<Rightarrow> json option" where [codec]:
  "e_EventSubject x = e_struct (concat
    [[(''kind'', e_str (es_kind x))],
     [(''number'', e_str (es_number x))],
     omit (es_head x = None) ''head'' (e_opt e_Branch (es_head x)),
     omit (es_base x = '''') ''base'' (e_str (es_base x)),
     omit (\<not> es_draft x) ''draft'' (e_bool (es_draft x)),
     omit (es_author x = '''') ''author'' (e_str (es_author x)),
     omit (es_url x = '''') ''url'' (e_str (es_url x))])"

definition e_Location :: "Location \<Rightarrow> json option" where [codec]:
  "e_Location x = e_struct (concat
    [omit (lo_path x = '''') ''path'' (e_str (lo_path x)),
     omit (lo_line x = 0) ''line'' (e_int (lo_line x)),
     omit (lo_thread_id x = '''') ''thread_id'' (e_str (lo_thread_id x)),
     omit (lo_comment_id x = '''') ''comment_id'' (e_str (lo_comment_id x))])"

definition e_CheckInfo :: "CheckInfo \<Rightarrow> json option" where [codec]:
  "e_CheckInfo x = e_struct (concat
    [[(''name'', e_str (ci_name x))],
     [(''conclusion'', e_str (ci_conclusion x))],
     omit (ci_run_id x = '''') ''run_id'' (e_str (ci_run_id x)),
     omit (ci_sha x = '''') ''sha'' (e_str (ci_sha x))])"

definition e_PushInfo :: "PushInfo \<Rightarrow> json option" where [codec]:
  "e_PushInfo x = e_struct (concat
    [[(''ref'', e_str (pu_ref x))],
     omit (pu_sha x = '''') ''sha'' (e_str (pu_sha x)),
     omit (\<not> pu_created x) ''created'' (e_bool (pu_created x)),
     omit (\<not> pu_deleted x) ''deleted'' (e_bool (pu_deleted x))])"

definition e_Addressed :: "Addressed \<Rightarrow> json option" where [codec]:
  "e_Addressed x = e_struct (concat
    [[(''identity_id'', e_str (ad_identity_id x))],
     [(''via'', e_str (ad_via x))]])"

definition e_Event :: "Event \<Rightarrow> json option" where [codec]:
  "e_Event x = e_struct (concat
    [[(''id'', e_str (ev_id x))],
     [(''kind'', e_str (ev_kind x))],
     [(''action'', e_str (ev_action x))],
     [(''repo'', e_RepoRef (ev_repo x))],
     omit (ev_subject x = None) ''subject'' (e_opt e_EventSubject (ev_subject x)),
     [(''actor'', e_Actor (ev_actor x))],
     omit (ev_text x = '''') ''text'' (e_str (ev_text x)),
     omit (ev_location x = None) ''location'' (e_opt e_Location (ev_location x)),
     omit (ev_check x = None) ''check'' (e_opt e_CheckInfo (ev_check x)),
     omit (ev_push x = None) ''push'' (e_opt e_PushInfo (ev_push x)),
     omit (ev_label x = '''') ''label'' (e_str (ev_label x)),
     omit (ev_addressed x = []) ''addressed'' (e_list e_Addressed (ev_addressed x)),
     omit (ev_raw_ref x = '''') ''raw_ref'' (e_str (ev_raw_ref x))])"

definition e_Credential :: "Credential \<Rightarrow> json option" where [codec]:
  "e_Credential x = e_struct (concat
    [[(''username'', e_str (cd_username x))],
     [(''secret'', e_str (cd_secret x))],
     omit (cd_expires_at x = 0) ''expires_at'' (e_time (cd_expires_at x))])"

definition e_BranchProtection :: "BranchProtection \<Rightarrow> json option" where [codec]:
  "e_BranchProtection x = e_struct (concat
    [[(''protected'', e_bool (bp_protected x))],
     omit (\<not> bp_requires_review x) ''requires_review'' (e_bool (bp_requires_review x)),
     omit (\<not> bp_requires_status_checks x) ''requires_status_checks'' (e_bool (bp_requires_status_checks x)),
     omit (\<not> bp_allows_force_push x) ''allows_force_push'' (e_bool (bp_allows_force_push x))])"

definition e_ChangeRequest :: "ChangeRequest \<Rightarrow> json option" where [codec]:
  "e_ChangeRequest x = e_struct (concat
    [[(''number'', e_str (cr_number x))],
     [(''title'', e_str (cr_title x))],
     omit (cr_body x = '''') ''body'' (e_str (cr_body x)),
     [(''state'', e_str (cr_state x))],
     omit (\<not> cr_draft x) ''draft'' (e_bool (cr_draft x)),
     [(''head'', e_Branch (cr_head x))],
     [(''base'', e_Branch (cr_base x))],
     [(''author'', e_str (cr_author x))],
     [(''url'', e_str (cr_url x))],
     omit (cr_labels x = []) ''labels'' (e_list e_str (cr_labels x)),
     omit (cr_reviewers x = []) ''reviewers'' (e_list e_str (cr_reviewers x)),
     omit (cr_updated_at x = 0) ''updated_at'' (e_time (cr_updated_at x))])"

definition e_ChangedFile :: "ChangedFile \<Rightarrow> json option" where [codec]:
  "e_ChangedFile x = e_struct (concat
    [[(''path'', e_str (cf_path x))],
     omit (cf_old_path x = '''') ''old_path'' (e_str (cf_old_path x)),
     [(''status'', e_str (cf_status x))],
     [(''additions'', e_int (cf_additions x))],
     [(''deletions'', e_int (cf_deletions x))]])"

definition e_ChangedFilePage :: "ChangedFilePage \<Rightarrow> json option" where [codec]:
  "e_ChangedFilePage x = e_struct (concat
    [[(''items'', e_list e_ChangedFile (cfp_items x))],
     omit (cfp_next_cursor x = '''') ''next_cursor'' (e_str (cfp_next_cursor x))])"

definition e_Diff :: "Diff \<Rightarrow> json option" where [codec]:
  "e_Diff x = e_struct (concat
    [[(''text'', e_str (df_text x))],
     omit (\<not> df_truncated x) ''truncated'' (e_bool (df_truncated x))])"

definition e_Comment :: "Comment \<Rightarrow> json option" where [codec]:
  "e_Comment x = e_struct (concat
    [[(''id'', e_str (co_id x))],
     [(''author'', e_str (co_author x))],
     [(''author_kind'', e_str (co_author_kind x))],
     [(''body'', e_str (co_body x))],
     omit (co_url x = '''') ''url'' (e_str (co_url x)),
     [(''created_at'', e_time (co_created_at x))]])"

definition e_Thread :: "Thread \<Rightarrow> json option" where [codec]:
  "e_Thread x = e_struct (concat
    [[(''id'', e_str (th_id x))],
     omit (th_path x = '''') ''path'' (e_str (th_path x)),
     omit (th_line x = 0) ''line'' (e_int (th_line x)),
     [(''resolved'', e_bool (th_resolved x))],
     omit (\<not> th_outdated x) ''outdated'' (e_bool (th_outdated x)),
     [(''comments'', e_list e_Comment (th_comments x))]])"

definition e_ThreadPage :: "ThreadPage \<Rightarrow> json option" where [codec]:
  "e_ThreadPage x = e_struct (concat
    [[(''items'', e_list e_Thread (thp_items x))],
     omit (thp_next_cursor x = '''') ''next_cursor'' (e_str (thp_next_cursor x))])"

definition e_CommentPage :: "CommentPage \<Rightarrow> json option" where [codec]:
  "e_CommentPage x = e_struct (concat
    [[(''items'', e_list e_Comment (cop_items x))],
     omit (cop_next_cursor x = '''') ''next_cursor'' (e_str (cop_next_cursor x))])"

definition e_Issue :: "Issue \<Rightarrow> json option" where [codec]:
  "e_Issue x = e_struct (concat
    [[(''number'', e_str (iss_number x))],
     [(''title'', e_str (iss_title x))],
     omit (iss_body x = '''') ''body'' (e_str (iss_body x)),
     [(''state'', e_str (iss_state x))],
     [(''author'', e_str (iss_author x))],
     [(''url'', e_str (iss_url x))],
     omit (iss_labels x = []) ''labels'' (e_list e_str (iss_labels x)),
     omit (iss_assignees x = []) ''assignees'' (e_list e_str (iss_assignees x))])"

definition e_IssuePage :: "IssuePage \<Rightarrow> json option" where [codec]:
  "e_IssuePage x = e_struct (concat
    [[(''items'', e_list e_Issue (ip_items x))],
     omit (ip_next_cursor x = '''') ''next_cursor'' (e_str (ip_next_cursor x))])"

definition e_Check :: "Check \<Rightarrow> json option" where [codec]:
  "e_Check x = e_struct (concat
    [[(''id'', e_str (ch_id x))],
     [(''name'', e_str (ch_name x))],
     [(''state'', e_str (ch_state x))],
     [(''required'', e_bool (ch_required x))],
     omit (ch_url x = '''') ''url'' (e_str (ch_url x)),
     omit (ch_summary x = '''') ''summary'' (e_str (ch_summary x))])"

definition e_Logs :: "Logs \<Rightarrow> json option" where [codec]:
  "e_Logs x = e_struct (concat
    [[(''text'', e_str (lg_text x))],
     omit (\<not> lg_truncated x) ''truncated'' (e_bool (lg_truncated x))])"

definition e_File :: "File \<Rightarrow> json option" where [codec]:
  "e_File x = e_struct (concat
    [[(''path'', e_str (fi_path x))],
     [(''content'', e_bytes (fi_content x))],
     omit (fi_sha x = '''') ''sha'' (e_str (fi_sha x)),
     omit (\<not> fi_truncated x) ''truncated'' (e_bool (fi_truncated x))])"

definition e_CodeHit :: "CodeHit \<Rightarrow> json option" where [codec]:
  "e_CodeHit x = e_struct (concat
    [[(''path'', e_str (hit_path x))],
     omit (hit_line x = 0) ''line'' (e_int (hit_line x)),
     omit (hit_snippet x = '''') ''snippet'' (e_str (hit_snippet x))])"

definition e_CodeHits :: "CodeHits \<Rightarrow> json option" where [codec]:
  "e_CodeHits x = e_struct (concat
    [[(''items'', e_list e_CodeHit (hits_items x))]])"

definition e_CommentResult :: "CommentResult \<Rightarrow> json option" where [codec]:
  "e_CommentResult x = e_struct (concat
    [[(''id'', e_str (cmr_id x))],
     omit (cmr_url x = '''') ''url'' (e_str (cmr_url x))])"

definition e_ReviewResult :: "ReviewResult \<Rightarrow> json option" where [codec]:
  "e_ReviewResult x = e_struct (concat
    [omit (rv_id x = '''') ''id'' (e_str (rv_id x)),
     omit (rv_url x = '''') ''url'' (e_str (rv_url x)),
     [(''posted'', e_int (rv_posted x))],
     [(''emulated'', e_bool (rv_emulated x))]])"

definition e_StatusResult :: "StatusResult \<Rightarrow> json option" where [codec]:
  "e_StatusResult x = e_struct (concat
    [[(''status_ref'', e_str (str_status_ref x))]])"

definition e_MergeResult :: "MergeResult \<Rightarrow> json option" where [codec]:
  "e_MergeResult x = e_struct (concat
    [omit (mgr_sha x = '''') ''sha'' (e_str (mgr_sha x))])"

definition e_WebhookRef :: "WebhookRef \<Rightarrow> json option" where [codec]:
  "e_WebhookRef x = e_struct (concat
    [[(''id'', e_str (wh_id x))]])"

definition e_BranchInfo :: "BranchInfo \<Rightarrow> json option" where [codec]:
  "e_BranchInfo x = e_struct (concat
    [[(''name'', e_str (bi_name x))],
     [(''sha'', e_str (bi_sha x))],
     omit (bi_url x = '''') ''url'' (e_str (bi_url x))])"

section \<open>Errors and envelopes\<close>

definition e_Error :: "Error \<Rightarrow> json option" where [codec]:
  "e_Error x = e_struct (concat
    [[(''code'', e_str (er_code x))],
     [(''message'', e_str (er_message x))],
     omit (er_retry_after_seconds x = 0) ''retry_after_seconds'' (e_int (er_retry_after_seconds x))])"

definition zero_Error :: Error where
  "zero_Error = \<lparr>er_code = '''', er_message = '''', er_retry_after_seconds = 0\<rparr>"

definition d_Error :: "Error decoder" where [codec]:
  "d_Error = d_struct
    [(''code'', fld d_str er_code (\<lambda>y. er_code_update (\<lambda>_. y))),
     (''message'', fld d_str er_message (\<lambda>y. er_message_update (\<lambda>_. y))),
     (''retry_after_seconds'', fld d_int er_retry_after_seconds (\<lambda>y. er_retry_after_seconds_update (\<lambda>_. y)))]"

record Envelope =
  env_ok :: bool
  env_result :: bytes
  env_error :: "Error option"

definition zero_Envelope :: Envelope where
  "zero_Envelope = \<lparr>env_ok = False, env_result = [], env_error = None\<rparr>"

definition e_Envelope :: "Envelope \<Rightarrow> json option" where [codec]:
  "e_Envelope x = e_struct (concat
    [[(''ok'', e_bool (env_ok x))],
     omit (env_result x = []) ''result'' (e_raw (env_result x)),
     omit (env_error x = None) ''error'' (e_opt e_Error (env_error x))])"

definition d_Envelope :: "Envelope decoder" where [codec]:
  "d_Envelope = d_struct
    [(''ok'', fld d_bool env_ok (\<lambda>y. env_ok_update (\<lambda>_. y))),
     (''result'', fld d_raw env_result (\<lambda>y. env_result_update (\<lambda>_. y))),
     (''error'', fld (d_opt zero_Error d_Error) env_error (\<lambda>y. env_error_update (\<lambda>_. y)))]"

end
