(* ===== verification/Wire.thy ===== *)
theory Wire
  imports Provider GitJson
begin

text \<open>
  \<^verbatim>\<open>gitprovider/wire.go\<close>: the table of the wire's operations and \<^verbatim>\<open>Dispatch\<close>, which runs one of
  them by name on a JSON body and answers an HTTP status and a JSON envelope.
\<close>

section \<open>The table of operations\<close>

record Operation =
  op_Name :: string
  op_Capability :: string

text \<open>
  An entry's call: the result is kept as the value \<^verbatim>\<open>json.Marshal\<close> makes of it (\<open>None\<close> when
  that fails).
\<close>

record 's opEntry =
  oe_Operation :: Operation
  oe_call :: "'s Provider \<Rightarrow> bytes \<Rightarrow> 's \<Rightarrow> 's \<times> json option reply"

definition decode :: "'q \<Rightarrow> 'q decoder \<Rightarrow> bytes \<Rightarrow> Error + 'q" where
  "decode zero d body =
     (if body = [] then Inl (Errorf CodeValidation ''request body is required'')
      else case unmarshal zero d body of
        None \<Rightarrow> Inl (Errorf CodeValidation ''malformed request body'')
      | Some r \<Rightarrow> Inr r)"

definition required :: "string \<Rightarrow> 'q \<Rightarrow> 'q decoder \<Rightarrow> ('r \<Rightarrow> json option) \<Rightarrow> ('s Provider \<Rightarrow> ('s, 'q, 'r) op) \<Rightarrow> 's opEntry" where
  "required name zero d enc fn =
     \<lparr>oe_Operation = \<lparr>op_Name = name, op_Capability = ''''\<rparr>,
      oe_call = (\<lambda>p body s.
        case decode zero d body of
          Inl e \<Rightarrow> (s, Fails (GpErr e))
        | Inr req \<Rightarrow> apsnd (map_reply enc) (fn p req s))\<rparr>"

text \<open>The interface \<open>I\<close> of an optional operation is what \<open>fn\<close> finds in the provider, if anything.\<close>

definition optional ::
    "string \<Rightarrow> string \<Rightarrow> 'q \<Rightarrow> 'q decoder \<Rightarrow> ('r \<Rightarrow> json option) \<Rightarrow> ('s Provider \<Rightarrow> ('s, 'q, 'r) op option) \<Rightarrow> 's opEntry" where
  "optional name capability zero d enc fn =
     \<lparr>oe_Operation = \<lparr>op_Name = name, op_Capability = capability\<rparr>,
      oe_call = (\<lambda>p body s.
        case fn p of
          None \<Rightarrow> (s, Fails (GpErr ErrUnsupported))
        | Some impl \<Rightarrow>
            (case decode zero d body of
               Inl e \<Rightarrow> (s, Fails (GpErr e))
             | Inr req \<Rightarrow> apsnd (map_reply enc) (impl req s)))\<rparr>"

definition operations :: "'s opEntry list" where
  "operations =
     [\<lparr>oe_Operation = \<lparr>op_Name = ''describe'', op_Capability = ''''\<rparr>,
       oe_call = (\<lambda>p body s. (s, case pv_Describe p s of Panicked \<Rightarrow> Panics | Returned info \<Rightarrow> Answers (e_Info info)))\<rparr>,
      required ''begin_identity_setup'' zero_BeginSetupRequest d_BeginSetupRequest e_SetupStep pv_BeginIdentitySetup,
      required ''complete_identity_setup'' zero_CompleteSetupRequest d_CompleteSetupRequest e_Identity pv_CompleteIdentitySetup,
      required ''list_repositories'' zero_ListReposRequest d_ListReposRequest e_RepositoryPage pv_ListRepositories,
      required ''resolve_repository'' zero_ResolveRepoRequest d_ResolveRepoRequest e_ResolvedRepository pv_ResolveRepository,
      required ''verify_and_parse_webhook'' zero_WebhookRequest d_WebhookRequest (e_list e_Event) pv_VerifyAndParseWebhook,
      required ''mint_credential'' zero_MintRequest d_MintRequest e_Credential pv_MintCredential,
      required ''get_actor_permission'' zero_ActorPermissionRequest d_ActorPermissionRequest e_str pv_GetActorPermission,
      required ''get_branch_protection'' zero_BranchProtectionRequest d_BranchProtectionRequest e_BranchProtection pv_GetBranchProtection,
      required ''get_change_request'' zero_CRRequest d_CRRequest e_ChangeRequest pv_GetChangeRequest,
      required ''list_changed_files'' zero_PagedCRRequest d_PagedCRRequest e_ChangedFilePage pv_ListChangedFiles,
      required ''get_diff'' zero_DiffRequest d_DiffRequest e_Diff pv_GetDiff,
      required ''list_threads'' zero_PagedCRRequest d_PagedCRRequest e_ThreadPage pv_ListThreads,
      required ''list_comments'' zero_ListCommentsRequest d_ListCommentsRequest e_CommentPage pv_ListComments,
      required ''get_issue'' zero_IssueRequest d_IssueRequest e_Issue pv_GetIssue,
      required ''get_checks'' zero_ChecksRequest d_ChecksRequest (e_list e_Check) pv_GetChecks,
      required ''get_check_logs'' zero_CheckLogsRequest d_CheckLogsRequest e_Logs pv_GetCheckLogs,
      required ''open_change_request'' zero_OpenCRRequest d_OpenCRRequest e_ChangeRequest pv_OpenChangeRequest,
      required ''update_change_request'' zero_UpdateCRRequest d_UpdateCRRequest e_ChangeRequest pv_UpdateChangeRequest,
      required ''comment'' zero_CommentRequest d_CommentRequest e_CommentResult pv_Comment,
      required ''reply_thread'' zero_ReplyThreadRequest d_ReplyThreadRequest e_CommentResult pv_ReplyThread,
      required ''submit_review'' zero_SubmitReviewRequest d_SubmitReviewRequest e_ReviewResult pv_SubmitReview,
      required ''set_status'' zero_SetStatusRequest d_SetStatusRequest e_StatusResult pv_SetStatus,
      optional ''list_issues'' ''issue_list'' zero_ListIssuesRequest d_ListIssuesRequest e_IssuePage pv_IssueLister,
      optional ''resolve_thread'' ''resolve_threads'' zero_ResolveThreadRequest d_ResolveThreadRequest e_unit pv_ThreadResolver,
      optional ''get_file'' ''file_read'' zero_FileRequest d_FileRequest e_File pv_FileReader,
      optional ''search_code'' ''code_search'' zero_CodeSearchRequest d_CodeSearchRequest e_CodeHits pv_CodeSearcher,
      optional ''add_labels'' ''labels'' zero_LabelsRequest d_LabelsRequest e_unit pv_LabelManager,
      optional ''request_reviewers'' ''reviewer_requests'' zero_PeopleRequest d_PeopleRequest e_unit pv_ReviewerRequester,
      optional ''set_assignees'' ''assignees'' zero_PeopleRequest d_PeopleRequest e_unit pv_AssigneeSetter,
      optional ''merge_change_request'' ''merge'' zero_MergeRequest d_MergeRequest e_MergeResult pv_Merger,
      optional ''rerun_checks'' ''rerun_checks'' zero_RerunRequest d_RerunRequest e_unit pv_CheckRerunner,
      optional ''react'' ''reactions'' zero_ReactRequest d_ReactRequest e_unit pv_Reactor,
      optional ''get_branch'' ''branches'' zero_GetBranchRequest d_GetBranchRequest e_BranchInfo (\<lambda>p. map_option fst (pv_BranchManager p)),
      optional ''create_branch'' ''branches'' zero_CreateBranchRequest d_CreateBranchRequest e_BranchInfo (\<lambda>p. map_option snd (pv_BranchManager p)),
      optional ''ensure_webhook'' ''webhook_management'' zero_EnsureWebhookRequest d_EnsureWebhookRequest e_WebhookRef (\<lambda>p. map_option fst (pv_WebhookManager p)),
      optional ''remove_webhook'' ''webhook_management'' zero_RemoveWebhookRequest d_RemoveWebhookRequest e_unit (\<lambda>p. map_option snd (pv_WebhookManager p)),
      optional ''delete_identity'' ''identity_deletion'' zero_DeleteIdentityRequest d_DeleteIdentityRequest e_unit pv_IdentityDeleter,
      optional ''describe_identity'' ''identity_description'' zero_DescribeIdentityRequest d_DescribeIdentityRequest e_Identity pv_IdentityDescriber,
      optional ''begin_access_grant'' ''access_grants'' zero_BeginAccessRequest d_BeginAccessRequest e_SetupStep (\<lambda>p. map_option fst (pv_AccessGranter p)),
      optional ''complete_access_grant'' ''access_grants'' zero_CompleteAccessRequest d_CompleteAccessRequest e_AccessGrant (\<lambda>p. map_option snd (pv_AccessGranter p))]"

definition opIndex :: "string \<Rightarrow> 's opEntry option" where
  "opIndex n = map_of (rev (map (\<lambda>e. (op_Name (oe_Operation e), e)) operations)) n"

definition Operations :: "Operation list" where
  "Operations = map oe_Operation (operations :: unit opEntry list)"

section \<open>Dispatch\<close>

definition fail :: "Error \<Rightarrow> int \<times> bytes" where
  "fail e = (HTTPStatus (er_code e), marshal_or_nil (e_Envelope \<lparr>env_ok = False, env_result = [], env_error = Some e\<rparr>))"

text \<open>The members of an object as a Go map: the last of equal keys wins.\<close>

definition member :: "(string \<times> string \<times> json) list \<Rightarrow> string \<Rightarrow> json option" where
  "member ms k = map_of (rev (map (\<lambda>(k, raw, v). (k, v)) ms)) k"

definition declared :: "Capabilities \<Rightarrow> string \<Rightarrow> bool" where
  "declared cs capability =
     (case marshal (e_Capabilities cs) of
        None \<Rightarrow> False
      | Some raw \<Rightarrow>
          (case parse_json raw of
             Some (JObj ms) \<Rightarrow> member ms capability = Some (JBool True)
           | _ \<Rightarrow> False))"

text \<open>The provider asked for one flag of its description: \<^verbatim>\<open>declared(p, capability)\<close>.\<close>

definition declares :: "'s Provider \<Rightarrow> string \<Rightarrow> 's \<Rightarrow> bool outcome" where
  "declares p capability s = map_outcome (\<lambda>info. declared (info_capabilities info) capability) (pv_Describe p s)"

text \<open>
  \<open>quote\<close> is \<^verbatim>\<open>%q\<close>.  A panic of the provider, in its description or in the operation, is
  recovered; what it had done to its state by then stays done.
\<close>

definition Dispatch :: "(string \<Rightarrow> string) \<Rightarrow> 's Provider \<Rightarrow> string \<Rightarrow> bytes \<Rightarrow> 's \<Rightarrow> 's \<times> int \<times> bytes" where
  "Dispatch quote p opn body s =
     (case opIndex opn of
        None \<Rightarrow> (s, fail (Errorf CodeUnsupported (''unknown operation '' @ quote opn)))
      | Some entry \<Rightarrow>
          (let capability = op_Capability (oe_Operation entry)
           in case (if capability = '''' then Returned True else declares p capability s) of
             Panicked \<Rightarrow> (s, fail (Errorf CodeInternal ''internal provider error''))
           | Returned served \<Rightarrow>
             if \<not> served
             then (s, fail ErrUnsupported)
             else (case oe_call entry p body s of
               (s', Panics) \<Rightarrow> (s', fail (Errorf CodeInternal ''internal provider error''))
             | (s', Fails err) \<Rightarrow> (s', fail (AsError err))
             | (s', Answers result) \<Rightarrow>
                 (case marshal result of
                    None \<Rightarrow> (s', fail (Errorf CodeInternal ''could not encode result''))
                  | Some raw \<Rightarrow>
                      (s', 200, marshal_or_nil (e_Envelope \<lparr>env_ok = True, env_result = raw, env_error = None\<rparr>))))))"

section \<open>The table\<close>

lemma operation_names: "distinct (map (op_Name \<circ> oe_Operation) operations)"
  by (simp add: operations_def required_def optional_def)

lemma opIndex_iff: "opIndex n = Some e \<longleftrightarrow> e \<in> set operations \<and> op_Name (oe_Operation e) = n"
proof -
  have d: "distinct (map fst (rev (map (\<lambda>e. (op_Name (oe_Operation e), e)) operations)))"
    using operation_names by (simp add: rev_map [symmetric] comp_def)
  show ?thesis unfolding opIndex_def
    by (subst map_of_eq_Some_iff [OF d]) auto
qed

lemma opIndex_None: "opIndex n = (None :: 's opEntry option) \<longleftrightarrow> n \<notin> op_Name ` set Operations"
proof -
  have "op_Name ` set Operations = (op_Name \<circ> oe_Operation) ` set (operations :: 's opEntry list)"
    unfolding Operations_def by (simp add: operations_def required_def optional_def)
  moreover have "opIndex n = (None :: 's opEntry option) \<longleftrightarrow> n \<notin> (op_Name \<circ> oe_Operation) ` set (operations :: 's opEntry list)"
    unfolding opIndex_def map_of_eq_None_iff by (simp add: image_image)
  ultimately show ?thesis by simp
qed

section \<open>Envelopes read back\<close>

definition int64 :: "int \<Rightarrow> bool" where
  "int64 i \<longleftrightarrow> min_int64 \<le> i \<and> i \<le> max_int64"

text \<open>An error after a round through JSON.\<close>

definition json_Error :: "Error \<Rightarrow> Error" where
  "json_Error e = e\<lparr>er_code := to_valid_utf8 (er_code e), er_message := to_valid_utf8 (er_message e)\<rparr>"

definition error_json :: "Error \<Rightarrow> json" where
  "error_json e = JObj ([(''code'', '''', JStr (er_code e)), (''message'', '''', JStr (er_message e))] @
     (if er_retry_after_seconds e = 0 then [] else [(''retry_after_seconds'', '''', JNum (itoa (er_retry_after_seconds e)))]))"

lemma e_Error_json: "e_Error e = Some (error_json e)"
  by (simp add: e_Error_def error_json_def e_struct_def omit_def e_str_def e_int_def)

definition failure_json :: "Error \<Rightarrow> json" where
  "failure_json e = JObj [(''ok'', '''', JBool False), (''error'', '''', error_json e)]"

lemma fail_print: "fail e = (HTTPStatus (er_code e), print_json (failure_json e))"
  by (simp add: fail_def marshal_or_nil_def marshal_def e_Envelope_def failure_json_def e_struct_def omit_def e_bool_def
      e_opt_def e_Error_json)

lemma plain_failure:
  "int64 (er_retry_after_seconds e) \<Longrightarrow> plain_json (failure_json e) \<and> json_depth (failure_json e) \<le> max_depth"
  by (simp add: failure_json_def error_json_def int64_def atoi_itoa_id max_depth_def)

lemma d_Error_back:
  assumes "int64 (er_retry_after_seconds e)"
  shows "d_Error zero_Error (raw, norm_json (error_json e)) = Some (json_Error e)"
  using assms atoi_itoa [of "er_retry_after_seconds e"]
  by (auto simp: d_Error_def error_json_def d_struct_Cons d_struct_Nil fld_def d_str_def d_int_def zero_Error_def json_Error_def int64_def)

lemma fail_reads_back:
  assumes "int64 (er_retry_after_seconds e)"
  shows "unmarshal zero_Envelope d_Envelope (snd (fail e)) =
    Some \<lparr>env_ok = False, env_result = [], env_error = Some (json_Error e)\<rparr>"
proof -
  have not_null: "norm_json (error_json e) \<noteq> JNull" by (simp add: error_json_def)
  have "unmarshal zero_Envelope d_Envelope (print_json (failure_json e)) =
      d_Envelope zero_Envelope (print_json (failure_json e), norm_json (failure_json e))"
    using plain_failure [OF assms] by (intro unmarshal_print) auto
  then show ?thesis
    using not_null d_Error_back [OF assms]
    by (simp add: fail_print failure_json_def d_Envelope_def d_struct_Cons d_struct_Nil fld_def d_bool_def d_opt_def zero_Envelope_def)
qed

text \<open>Making a string valid never turns it into an ASCII string it was not.\<close>

lemma to_valid_ascii_id: "is_ascii (to_valid_utf8 s) \<Longrightarrow> to_valid_utf8 s = s"
proof (induction s rule: to_valid_utf8.induct)
  case (1 s)
  show ?case
  proof (cases "s = [] \<or> rune_len s = 0")
    case True
    then show ?thesis using "1.prems" by (auto simp: to_valid_utf8.simps [of s] replacement_def byte_val_def)
  next
    case False
    then have "to_valid_utf8 s = take (rune_len s) s @ to_valid_utf8 (drop (rune_len s) s)"
      by (subst to_valid_utf8.simps) simp
    moreover from this have "is_ascii (to_valid_utf8 (drop (rune_len s) s))" using "1.prems" by (simp add: is_ascii_def)
    ultimately show ?thesis using 1 False by simp
  qed
qed

lemma HTTPStatus_valid: "HTTPStatus (to_valid_utf8 c) = HTTPStatus c"
proof -
  have eq: "(to_valid_utf8 c = k) = (c = k)" if "is_ascii k" for k
    using to_valid_ascii_id [of c] to_valid_ascii [of k] that by auto
  show ?thesis
    by (simp add: HTTPStatus_def eq CodeNotFound_def CodeForbidden_def CodeInvalidSignature_def CodeConflict_def
        CodeRateLimited_def CodeValidation_def CodeUnsupported_def CodeTransient_def)
qed

definition success_json :: "json \<Rightarrow> json" where
  "success_json v = JObj [(''ok'', '''', JBool True), (''result'', '''', v)]"

lemma success_print:
  assumes "enc_ok k (Some v)" "k < max_depth"
  shows "marshal_or_nil (e_Envelope \<lparr>env_ok = True, env_result = print_json v, env_error = None\<rparr>) = print_json (success_json v)"
proof -
  have "e_raw (print_json v) = Some (JRaw (print_json v))" using e_raw_print [OF assms(1)] assms(2) by simp
  moreover have "print_json v \<noteq> []" using print_start [of v] enc_okD [OF assms(1)] by auto
  ultimately show ?thesis
    by (simp add: marshal_or_nil_def marshal_def e_Envelope_def e_struct_def omit_def e_bool_def success_json_def)
qed

lemma success_reads_back:
  assumes "enc_ok k (Some v)" "k < max_depth"
  shows "unmarshal zero_Envelope d_Envelope (print_json (success_json v)) =
    Some \<lparr>env_ok = True, env_result = print_json v, env_error = None\<rparr>"
proof -
  have "unmarshal zero_Envelope d_Envelope (print_json (success_json v)) =
      d_Envelope zero_Envelope (print_json (success_json v), norm_json (success_json v))"
    using enc_okD [OF assms(1)] assms(2) by (intro unmarshal_print) (auto simp: success_json_def max_depth_def)
  then show ?thesis
    by (simp add: success_json_def d_Envelope_def d_struct_Cons d_struct_Nil fld_def d_bool_def d_raw_def zero_Envelope_def)
qed


section \<open>Declared capabilities\<close>

text \<open>The capabilities an optional operation can ask for, with the field that holds each.\<close>

definition optional_flags :: "(string \<times> (Capabilities \<Rightarrow> bool)) list" where
  "optional_flags =
     [(''issue_list'', cap_issue_list), (''resolve_threads'', cap_resolve_threads), (''file_read'', cap_file_read),
      (''code_search'', cap_code_search), (''labels'', cap_labels), (''reviewer_requests'', cap_reviewer_requests),
      (''assignees'', cap_assignees), (''merge'', cap_merge), (''rerun_checks'', cap_rerun_checks),
      (''reactions'', cap_reactions), (''branches'', cap_branches), (''webhook_management'', cap_webhook_management),
      (''identity_deletion'', cap_identity_deletion), (''identity_description'', cap_identity_description),
      (''access_grants'', cap_access_grants)]"

lemma member_struct:
  assumes "list_all (is_ascii \<circ> fst) fs" "distinct (map fst fs)"
  shows "member (map norm_member (map (\<lambda>(n, v). (n, '''' :: string, the v)) fs)) n = map_option (norm_json \<circ> the) (map_of fs n)"
proof -
  have "map (\<lambda>(k, raw, v). (k, v)) (map norm_member (map (\<lambda>(n, v). (n, '''' :: string, the v)) fs)) =
      map (\<lambda>(n, v). (n, norm_json (the v))) fs"
    using assms(1) by (auto simp: list_all_iff norm_member_def)
  moreover have "map_of (map (\<lambda>(n, v). (n, norm_json (the v))) fs) n = map_option (norm_json \<circ> the) (map_of fs n)"
    using map_of_map [of "norm_json \<circ> the" fs] by simp
  moreover have "distinct (map fst (map (\<lambda>(n, v). (n, norm_json (the v))) fs))"
    using assms(2) by (simp add: comp_def case_prod_unfold)
  ultimately show ?thesis unfolding member_def by (simp only: map_of_rev)
qed

lemma e_KindProfile_ok: "2 \<le> k \<Longrightarrow> enc_ok k (e_KindProfile x)"
  unfolding e_KindProfile_def by (auto simp: omit_def intro!: enc_ok_struct enc_ok_list split: if_splits)

lemma e_Capabilities_ok: "4 \<le> k \<Longrightarrow> enc_ok k (e_Capabilities x)"
  unfolding e_Capabilities_def capability_members_def
  by (auto simp: omit_def intro!: enc_ok_struct enc_ok_list e_KindProfile_ok split: if_splits)

lemma capability_members_ok: "list_all (is_ascii \<circ> fst) (capability_members x)" "distinct (map fst (capability_members x))"
  by (simp_all add: capability_members_def omit_def)

lemma capability_flags:
  "list_all (\<lambda>(n, f). map_option (norm_json \<circ> the) (map_of (capability_members cs) n) = Some (JBool True) \<longleftrightarrow> f cs) optional_flags"
  by (simp add: optional_flags_def capability_members_def omit_def e_bool_def)

lemma declared_flag:
  assumes "(n, f) \<in> set optional_flags"
  shows "declared cs n = f cs"
proof -
  obtain v where v: "e_Capabilities cs = Some v" "plain_json v" "json_depth v \<le> max_depth"
    using enc_okD [OF e_Capabilities_ok [of max_depth cs]] by (auto simp: max_depth_def)
  let ?ms = "map (\<lambda>(n, v). (n, '''' :: string, the v)) (capability_members cs)"
  have "v = JObj ?ms" using v(1) unfolding e_Capabilities_def e_struct_def by (simp split: if_splits)
  then have "parse_json (print_json v) = Some (JObj (map norm_member ?ms))"
    using parse_print [OF v(2,3)] by (simp only: map_norm_member)
  then have "declared cs n \<longleftrightarrow> member (map norm_member ?ms) n = Some (JBool True)"
    by (simp add: declared_def marshal_def v(1))
  also have "\<dots> \<longleftrightarrow> map_option (norm_json \<circ> the) (map_of (capability_members cs) n) = Some (JBool True)"
    unfolding member_struct [OF capability_members_ok] ..
  also have "\<dots> \<longleftrightarrow> f cs"
    using capability_flags [of cs] assms by (auto simp: list_all_iff)
  finally show ?thesis .
qed

end
