(* ===== verification/WireFacts.thy ===== *)
theory WireFacts
  imports Wire
begin

text \<open>
  What a caller of \<^verbatim>\<open>Dispatch\<close> can rely on: which requests are refused before the provider
  sees them, that a failure's body names its status, and that a success's body holds the
  provider's answer.
\<close>

section \<open>The entries of the table\<close>

text \<open>The errors \<^verbatim>\<open>Dispatch\<close> makes itself when it refuses a request.\<close>

definition refusal :: "Error \<Rightarrow> bool" where
  "refusal err \<longleftrightarrow> er_code err \<in> {CodeUnsupported, CodeValidation} \<and> er_retry_after_seconds err = 0"

lemma int64_zero [simp]: "int64 0"
  by (simp add: int64_def min_int64_def max_int64_def)

lemma refusal_int64: "refusal err \<Longrightarrow> int64 (er_retry_after_seconds err)"
  by (simp add: refusal_def)

lemma refusal_unsupported: "refusal ErrUnsupported"
  by (simp add: refusal_def ErrUnsupported_def Errorf_def)

text \<open>An entry that looks at its body first.\<close>

definition guarded_call :: "'s opEntry \<Rightarrow> bool" where
  "guarded_call e \<longleftrightarrow> (\<forall>p body s. body = [] \<or> parse_json body = None \<longrightarrow>
     (\<exists>err. oe_call e p body s = (s, Fails (GpErr err)) \<and> refusal err))"

lemma decode_guard:
  "body = [] \<or> parse_json body = None \<Longrightarrow> \<exists>err. decode zero d body = Inl err \<and> refusal err"
  by (auto simp: decode_def unmarshal_def Errorf_def refusal_def)

lemma guarded_required: "guarded_call (required n zero d enc fn)"
proof -
  have "decode zero d body = Inl err \<Longrightarrow> oe_call (required n zero d enc fn) p body s = (s, Fails (GpErr err))"
    for p body s err by (simp add: required_def)
  then show ?thesis unfolding guarded_call_def using decode_guard [of _ zero d] by metis
qed

lemma guarded_optional: "guarded_call (optional n c zero d enc fn)"
  unfolding guarded_call_def
proof (intro allI impI)
  fix p body s assume "body = [] \<or> parse_json body = None"
  then obtain err where err: "decode zero d body = Inl err" "refusal err"
    using decode_guard [of body zero d] by auto
  then have "oe_call (optional n c zero d enc fn) p body s = (s, Fails (GpErr (if fn p = None then ErrUnsupported else err)))"
    by (simp add: optional_def split: option.split)
  then show "\<exists>err. oe_call (optional n c zero d enc fn) p body s = (s, Fails (GpErr err)) \<and> refusal err"
    using err(2) refusal_unsupported by auto
qed

lemma guarded_operations:
  assumes "(e :: 's opEntry) \<in> set operations" "op_Name (oe_Operation e) \<noteq> ''describe''"
  shows "guarded_call e"
proof -
  obtain a r where ops: "(operations :: 's opEntry list) = a # r" "op_Name (oe_Operation a) = ''describe''"
    by (simp add: operations_def)
  have "list_all guarded_call (tl (operations :: 's opEntry list))"
    by (simp add: operations_def guarded_required guarded_optional)
  then have "list_all guarded_call r" by (simp only: ops(1) list.sel)
  moreover have "e = a \<or> e \<in> set r" using assms(1) by (simp only: ops(1) list.set insert_iff)
  ultimately show ?thesis using assms(2) ops(2) by (auto simp: list_all_iff)
qed

lemma operation_flags:
  assumes "(e :: 's opEntry) \<in> set operations"
  shows "op_Capability (oe_Operation e) = '''' \<or> op_Capability (oe_Operation e) \<in> fst ` set optional_flags"
proof -
  have "list_all (\<lambda>e. op_Capability (oe_Operation e) = '''' \<or> op_Capability (oe_Operation e) \<in> fst ` set optional_flags)
      (operations :: 's opEntry list)"
    by (simp add: operations_def required_def optional_def optional_flags_def)
  then show ?thesis using assms by (simp add: list_all_iff)
qed

section \<open>Availability\<close>

text \<open>An operation that is served: it is in the table and its capability, if any, is declared.\<close>

definition available :: "Capabilities \<Rightarrow> string \<Rightarrow> bool" where
  "available cs opn \<longleftrightarrow> (\<exists>op\<in>set Operations. op_Name op = opn \<and>
     (op_Capability op = '''' \<or> (\<exists>(n, f)\<in>set optional_flags. n = op_Capability op \<and> f cs)))"

lemma flag_declared:
  "n \<in> fst ` set optional_flags \<Longrightarrow> (\<exists>(m, f)\<in>set optional_flags. m = n \<and> f cs) \<longleftrightarrow> declared cs n"
  using declared_flag by fastforce

lemma Operations_any: "set Operations = oe_Operation ` set (operations :: 's opEntry list)"
proof -
  have "map oe_Operation (operations :: unit opEntry list) = map oe_Operation (operations :: 's opEntry list)"
    by (simp add: operations_def required_def optional_def)
  then show ?thesis unfolding Operations_def by (simp only: list.set_map [symmetric])
qed

lemma Bex_unique: "e \<in> S \<Longrightarrow> P e \<Longrightarrow> (\<And>x. x \<in> S \<Longrightarrow> P x \<Longrightarrow> x = e) \<Longrightarrow> (\<exists>x\<in>S. P x \<and> Q x) \<longleftrightarrow> Q e"
  by blast

lemma available_iff:
  "available cs opn \<longleftrightarrow> (case opIndex opn :: 's opEntry option of None \<Rightarrow> False
     | Some e \<Rightarrow> op_Capability (oe_Operation e) = '''' \<or> declared cs (op_Capability (oe_Operation e)))"
proof (cases "opIndex opn :: 's opEntry option")
  case None
  then show ?thesis using opIndex_None [of opn, where 's = 's] by (auto simp: available_def)
next
  case (Some e)
  then have e: "e \<in> set operations" "op_Name (oe_Operation e) = opn" by (simp_all add: opIndex_iff)
  have uniq: "e' = e" if "e' \<in> set operations" "op_Name (oe_Operation e') = opn" for e' :: "'s opEntry"
    using that Some opIndex_iff [of opn e'] by simp
  have "available cs opn \<longleftrightarrow> op_Capability (oe_Operation e) = '''' \<or>
      (\<exists>(n, f)\<in>set optional_flags. n = op_Capability (oe_Operation e) \<and> f cs)"
    unfolding available_def Operations_any [where 's = 's] bex_simps(7) by (rule Bex_unique [OF e(1)]) (simp_all add: e uniq)
  then show ?thesis using Some operation_flags [OF e(1)] flag_declared [of "op_Capability (oe_Operation e)" cs] by auto
qed

text \<open>
  What a provider offers in a state: the operations its description makes available.  Without
  a description, for it panics, the operations that need no capability are still offered and
  the unknown ones are not; for the others there is no answer.
\<close>

definition offers :: "'s Provider \<Rightarrow> 's \<Rightarrow> string \<Rightarrow> bool outcome" where
  "offers p s opn =
     (case pv_Describe p s of
        Returned info \<Rightarrow> Returned (available (info_capabilities info) opn)
      | Panicked \<Rightarrow>
          if opn \<notin> op_Name ` set Operations then Returned False
          else if available zero_Capabilities opn then Returned True
          else Panicked)"

lemma offers_described: "pv_Describe p s = Returned info \<Longrightarrow> offers p s opn = Returned (available (info_capabilities info) opn)"
  by (simp add: offers_def)

lemma nothing_declared: "k \<in> fst ` set optional_flags \<Longrightarrow> \<not> declared zero_Capabilities k"
proof -
  have "list_all (\<lambda>(n, f). \<not> f zero_Capabilities) optional_flags"
    by (simp add: optional_flags_def zero_Capabilities_def)
  then show "k \<in> fst ` set optional_flags \<Longrightarrow> \<not> declared zero_Capabilities k"
    using declared_flag by (fastforce simp: list_all_iff)
qed

lemma offers_lookup:
  fixes p :: "'s Provider"
  shows "offers p s opn = (case opIndex opn :: 's opEntry option of None \<Rightarrow> Returned False
     | Some e \<Rightarrow> if op_Capability (oe_Operation e) = '''' then Returned True
         else declares p (op_Capability (oe_Operation e)) s)"
proof (cases "opIndex opn :: 's opEntry option")
  case None
  then show ?thesis using opIndex_None [of opn, where 's = 's]
    by (auto simp: offers_def available_iff [where 's = 's] split: outcome.split)
next
  case (Some e)
  then have "e \<in> set operations" by (simp add: opIndex_iff)
  moreover have "opn \<in> op_Name ` set Operations"
    using Some opIndex_None [of opn, where 's = 's] by (metis option.distinct(1))
  ultimately
  show ?thesis using Some operation_flags [of e] nothing_declared
    by (auto simp: offers_def declares_def available_iff [where 's = 's] split: outcome.split)
qed

section \<open>What Dispatch does with an available operation\<close>

definition internal_error :: Error where
  "internal_error = Errorf CodeInternal ''internal provider error''"

lemma dispatch_unavailable:
  "offers p s opn = Returned False \<Longrightarrow>
     \<exists>err. Dispatch quote p opn body s = (s, fail err) \<and> er_code err = CodeUnsupported \<and> refusal err"
  unfolding offers_lookup Dispatch_def
  by (auto simp: ErrUnsupported_def Errorf_def refusal_def split: option.splits if_splits)

lemma dispatch_panicking: "offers p s opn = Panicked \<Longrightarrow> Dispatch quote p opn body s = (s, fail internal_error)"
  unfolding offers_lookup Dispatch_def internal_error_def by (auto split: option.splits if_splits)

definition outcome :: "'s \<times> json option reply \<Rightarrow> 's \<times> int \<times> bytes" where
  "outcome r =
     (fst r, case snd r of
        Panics \<Rightarrow> fail (Errorf CodeInternal ''internal provider error'')
      | Fails err \<Rightarrow> fail (AsError err)
      | Answers None \<Rightarrow> fail (Errorf CodeInternal ''could not encode result'')
      | Answers (Some v) \<Rightarrow>
          (200, marshal_or_nil (e_Envelope \<lparr>env_ok = True, env_result = print_json v, env_error = None\<rparr>)))"

lemma dispatch_available:
  fixes p :: "'s Provider"
  assumes "offers p s opn = Returned True"
  shows "\<exists>entry. opIndex opn = Some entry \<and> Dispatch quote p opn body s = outcome (oe_call entry p body s)"
proof -
  obtain entry :: "'s opEntry" where e: "opIndex opn = Some entry"
      "op_Capability (oe_Operation entry) = '''' \<or> declares p (op_Capability (oe_Operation entry)) s = Returned True"
    using assms unfolding offers_lookup by (auto split: option.splits if_splits)
  then have "Dispatch quote p opn body s = outcome (oe_call entry p body s)"
    by (auto simp: Dispatch_def Let_def outcome_def marshal_def split: prod.split reply.split option.split)
  then show ?thesis using e by blast
qed

text \<open>The refusals of \<^verbatim>\<open>Dispatch\<close> itself.\<close>

lemma dispatch_malformed:
  assumes "offers p s opn = Returned True" "opn \<noteq> ''describe''" "body = [] \<or> parse_json body = None"
  shows "\<exists>err. Dispatch quote p opn body s = (s, fail err) \<and> refusal err"
proof -
  obtain entry where e: "opIndex opn = Some entry" "Dispatch quote p opn body s = outcome (oe_call entry p body s)"
    using dispatch_available [OF assms(1), of quote body] by auto
  then have "guarded_call entry" using assms(2) guarded_operations [of entry] by (simp add: opIndex_iff)
  then obtain err where "oe_call entry p body s = (s, Fails (GpErr err))" "refusal err"
    using assms(3) unfolding guarded_call_def by blast
  then show ?thesis using e by (auto simp: outcome_def AsError_def)
qed

lemma dispatch_refusal:
  assumes "offers p s opn = Returned b" "\<not> b \<or> opn \<noteq> ''describe'' \<and> (body = [] \<or> parse_json body = None)"
  shows "\<exists>err. Dispatch quote p opn body s = (s, fail err) \<and> refusal err \<and> (\<not> b \<longrightarrow> er_code err = CodeUnsupported)"
  using dispatch_unavailable [of p s opn quote body] dispatch_malformed [of p s opn body quote] assms
  by (cases b) auto

lemma refusal_reads_back:
  "refusal err \<Longrightarrow> unmarshal zero_Envelope d_Envelope (snd (fail err)) =
     Some \<lparr>env_ok = False, env_result = [], env_error = Some (json_Error err)\<rparr>"
  by (intro fail_reads_back refusal_int64)

lemma internal_reads_back:
  "unmarshal zero_Envelope d_Envelope (snd (fail internal_error)) =
     Some \<lparr>env_ok = False, env_result = [], env_error = Some (json_Error internal_error)\<rparr>"
  by (intro fail_reads_back) (simp add: internal_error_def Errorf_def)

lemma dispatch_refuses_with:
  assumes "offers p s opn \<noteq> Returned True \<or> opn \<noteq> ''describe'' \<and> (body = [] \<or> parse_json body = None)"
  shows "\<exists>err. Dispatch quote p opn body s = (s, fail err) \<and>
     er_code err \<in> {CodeUnsupported, CodeValidation, CodeInternal} \<and>
     (offers p s opn = Returned False \<longrightarrow> er_code err = CodeUnsupported) \<and>
     (er_code err = CodeInternal \<longleftrightarrow> offers p s opn = Panicked) \<and>
     unmarshal zero_Envelope d_Envelope (snd (fail err)) =
       Some \<lparr>env_ok = False, env_result = [], env_error = Some (json_Error err)\<rparr>"
proof (cases "offers p s opn")
  case Panicked
  then show ?thesis
    using dispatch_panicking [OF Panicked, of quote body] internal_reads_back
    by (intro exI [of _ internal_error]) (simp add: internal_error_def Errorf_def)
next
  case (Returned b)
  then obtain err where err: "Dispatch quote p opn body s = (s, fail err)" "refusal err" "\<not> b \<longrightarrow> er_code err = CodeUnsupported"
    using dispatch_refusal [OF Returned, of body quote] assms by auto
  moreover have "er_code err \<noteq> CodeInternal"
    using err(2) by (auto simp: refusal_def CodeUnsupported_def CodeValidation_def CodeInternal_def)
  ultimately show ?thesis
    using Returned refusal_reads_back [OF err(2)] by (intro exI [of _ err]) (auto simp: refusal_def)
qed

text \<open>
  C10: a request for an operation that the provider does not offer, because it is not in the
  table or its capability is not declared, and a request other than describe with an empty or
  malformed body, is refused without any change of the provider's state.  The status is 501
  or 400, and the body is an envelope that reads back to the error with that code; it is 501
  when the operation is not offered.  When the description that would tell panics, the
  request is refused in the same way with 500.
\<close>

theorem dispatch_refuses:
  assumes "offers p s opn \<noteq> Returned True \<or> opn \<noteq> ''describe'' \<and> (body = [] \<or> parse_json body = None)"
  shows "\<exists>err out. Dispatch quote p opn body s = (s, HTTPStatus (er_code err), out) \<and>
     er_code err \<in> {CodeUnsupported, CodeValidation, CodeInternal} \<and>
     (offers p s opn = Returned False \<longrightarrow> er_code err = CodeUnsupported) \<and>
     (er_code err = CodeInternal \<longleftrightarrow> offers p s opn = Panicked) \<and>
     unmarshal zero_Envelope d_Envelope out = Some \<lparr>env_ok = False, env_result = [], env_error = Some (json_Error err)\<rparr>"
  using dispatch_refuses_with [OF assms, of quote] by (auto simp: fail_def)

text \<open>Every retry time of the provider's errors fits the \<^verbatim>\<open>int\<close> that holds it.\<close>

definition int64_errors :: "'s Provider \<Rightarrow> bool" where
  "int64_errors p \<longleftrightarrow> (\<forall>entry\<in>set operations. \<forall>body s err.
     snd (oe_call entry p body s) = Fails err \<longrightarrow> int64 (er_retry_after_seconds (AsError err)))"

text \<open>
  C11: whatever the operation, the body and the provider do, an answer of \<^verbatim>\<open>Dispatch\<close> whose
  status is not 200 has a body that reads back to a failed envelope with a typed error, and the
  status is the one of that error's code.  A panic becomes an internal error.
\<close>

theorem dispatch_failure:
  assumes "int64_errors p" "Dispatch quote p opn body s = (s', status, out)" "status \<noteq> 200"
  shows "\<exists>err. status = HTTPStatus (er_code err) \<and>
     unmarshal zero_Envelope d_Envelope out = Some \<lparr>env_ok = False, env_result = [], env_error = Some err\<rparr>"
proof -
  have "\<exists>err. (status, out) = fail err \<and> int64 (er_retry_after_seconds err)"
  proof (cases "offers p s opn = Returned True")
    case False
    then obtain err where "Dispatch quote p opn body s = (s, fail err)" "refusal err \<or> err = internal_error"
      using dispatch_unavailable [of p s opn quote body] dispatch_panicking [of p s opn quote body]
      by (cases "offers p s opn") auto
    then show ?thesis using assms(2) refusal_int64 by (intro exI [of _ err]) (auto simp: internal_error_def Errorf_def)
  next
    case True
    then obtain entry where e: "opIndex opn = Some entry" "Dispatch quote p opn body s = outcome (oe_call entry p body s)"
      using dispatch_available [OF True, of quote body] by auto
    then show ?thesis
      using assms opIndex_iff [of opn entry] unfolding int64_errors_def
      by (auto simp: outcome_def Errorf_def split: reply.splits option.splits)
  qed
  then obtain err where err: "(status, out) = fail err" "int64 (er_retry_after_seconds err)" by blast
  then have "status = HTTPStatus (er_code (json_Error err))"
    by (simp add: json_Error_def HTTPStatus_valid fail_def)
  then show ?thesis using fail_reads_back [OF err(2)] err(1) by (metis snd_conv)
qed

text \<open>
  The status is 200 exactly when the operation is offered and the provider answers with a
  value that JSON can express.
\<close>

theorem dispatch_success:
  "fst (snd (Dispatch quote p opn body s)) = 200 \<longleftrightarrow>
     offers p s opn = Returned True \<and>
     (\<exists>entry v. opIndex opn = Some entry \<and> snd (oe_call entry p body s) = Answers (Some v))"
proof -
  have ne: "fst (fail e) \<noteq> 200" for e using HTTPStatus_range [of "er_code e"] by (auto simp: fail_def)
  show ?thesis
  proof (cases "offers p s opn = Returned True")
    case False
    then show ?thesis
      using dispatch_unavailable [of p s opn quote body] dispatch_panicking [of p s opn quote body] ne
      by (cases "offers p s opn") auto
  next
    case True
    then obtain entry where e: "opIndex opn = Some entry" "Dispatch quote p opn body s = outcome (oe_call entry p body s)"
      using dispatch_available [OF True, of quote body] by auto
    then show ?thesis using True ne by (auto simp: outcome_def split: reply.split option.split)
  qed
qed

text \<open>
  C12: what a successful operation answered is what its caller reads: for an operation that is
  offered, the body of the answer reads back to an envelope without error whose result is the
  text of the provider's value.
\<close>

theorem dispatch_result:
  assumes "offers p s opn = Returned True" "opIndex opn = Some entry"
    "oe_call entry p body s = (s', Answers (Some v))" "plain_json v" "json_depth v < max_depth"
  shows "\<exists>out. Dispatch quote p opn body s = (s', 200, out) \<and>
     unmarshal zero_Envelope d_Envelope out = Some \<lparr>env_ok = True, env_result = print_json v, env_error = None\<rparr>"
proof -
  have ok: "enc_ok (json_depth v) (Some v)" using assms(4) by (simp add: enc_ok_def)
  have "Dispatch quote p opn body s = outcome (oe_call entry p body s)"
    using dispatch_available [OF assms(1), of quote body] assms(2) by auto
  then show ?thesis
    using assms(3) success_print [OF ok assms(5)] success_reads_back [OF ok assms(5)] by (simp add: outcome_def)
qed

end
