(* ===== verification/FakeProvider.thy ===== *)
theory FakeProvider
  imports FakeFull FakeWebhook FakeHistory WireFacts
begin

text \<open>
  The fakes as providers: the methods of \<^verbatim>\<open>Minimal\<close> and \<^verbatim>\<open>Full\<close> as two values of the
  interface, the contract under which a provider can be put behind \<^verbatim>\<open>Dispatch\<close>, and what
  follows for the fakes: no request on the wire, however malformed, takes them out of
  their invariant.
\<close>

section \<open>The delivery's JSON\<close>

definition zero_fakeHook :: fakeHook where
  "zero_fakeHook = \<lparr>fh_delivery = '''', fh_type = '''', fh_action = '''', fh_repo = '''', fh_subject = '''', fh_number = '''',
     fh_actor = '''', fh_actor_kind = '''', fh_text = '''', fh_path = '''', fh_line = 0, fh_thread = '''', fh_comment = '''',
     fh_head_ref = '''', fh_head_sha = '''', fh_base = '''', fh_draft = False, fh_label = '''', fh_check = '''',
     fh_created = False, fh_deleted = False, fh_conclusion = '''', fh_requested = '''', fh_assignee = ''''\<rparr>"

definition d_fakeHook :: "fakeHook decoder" where [codec]:
  "d_fakeHook = d_struct
    [(''delivery'', fld d_str fh_delivery (\<lambda>y. fh_delivery_update (\<lambda>_. y))),
     (''type'', fld d_str fh_type (\<lambda>y. fh_type_update (\<lambda>_. y))),
     (''action'', fld d_str fh_action (\<lambda>y. fh_action_update (\<lambda>_. y))),
     (''repo'', fld d_str fh_repo (\<lambda>y. fh_repo_update (\<lambda>_. y))),
     (''subject'', fld d_str fh_subject (\<lambda>y. fh_subject_update (\<lambda>_. y))),
     (''number'', fld d_str fh_number (\<lambda>y. fh_number_update (\<lambda>_. y))),
     (''actor'', fld d_str fh_actor (\<lambda>y. fh_actor_update (\<lambda>_. y))),
     (''actor_kind'', fld d_str fh_actor_kind (\<lambda>y. fh_actor_kind_update (\<lambda>_. y))),
     (''text'', fld d_str fh_text (\<lambda>y. fh_text_update (\<lambda>_. y))),
     (''path'', fld d_str fh_path (\<lambda>y. fh_path_update (\<lambda>_. y))),
     (''line'', fld d_int fh_line (\<lambda>y. fh_line_update (\<lambda>_. y))),
     (''thread'', fld d_str fh_thread (\<lambda>y. fh_thread_update (\<lambda>_. y))),
     (''comment'', fld d_str fh_comment (\<lambda>y. fh_comment_update (\<lambda>_. y))),
     (''head_ref'', fld d_str fh_head_ref (\<lambda>y. fh_head_ref_update (\<lambda>_. y))),
     (''head_sha'', fld d_str fh_head_sha (\<lambda>y. fh_head_sha_update (\<lambda>_. y))),
     (''base'', fld d_str fh_base (\<lambda>y. fh_base_update (\<lambda>_. y))),
     (''draft'', fld d_bool fh_draft (\<lambda>y. fh_draft_update (\<lambda>_. y))),
     (''label'', fld d_str fh_label (\<lambda>y. fh_label_update (\<lambda>_. y))),
     (''check'', fld d_str fh_check (\<lambda>y. fh_check_update (\<lambda>_. y))),
     (''created'', fld d_bool fh_created (\<lambda>y. fh_created_update (\<lambda>_. y))),
     (''deleted'', fld d_bool fh_deleted (\<lambda>y. fh_deleted_update (\<lambda>_. y))),
     (''conclusion'', fld d_str fh_conclusion (\<lambda>y. fh_conclusion_update (\<lambda>_. y))),
     (''requested'', fld d_str fh_requested (\<lambda>y. fh_requested_update (\<lambda>_. y))),
     (''assignee'', fld d_str fh_assignee (\<lambda>y. fh_assignee_update (\<lambda>_. y)))]"

definition parse_hook :: "bytes \<Rightarrow> fakeHook option" where
  "parse_hook = unmarshal zero_fakeHook d_fakeHook"

section \<open>The two providers\<close>

definition minimal_provider ::
    "(string \<Rightarrow> string) \<Rightarrow> (bytes \<Rightarrow> bytes \<Rightarrow> bytes) \<Rightarrow> gotime \<Rightarrow> Core Provider" where
  "minimal_provider quote mac now = \<lparr>
     pv_Describe = (\<lambda>c. Returned (Describe c)),
     pv_BeginIdentitySetup = BeginIdentitySetup quote,
     pv_CompleteIdentitySetup = CompleteIdentitySetup,
     pv_ListRepositories = ListRepositories,
     pv_ResolveRepository = ResolveRepository,
     pv_VerifyAndParseWebhook = VerifyAndParseWebhook mac parse_hook,
     pv_MintCredential = MintCredential now,
     pv_GetActorPermission = GetActorPermission,
     pv_GetBranchProtection = GetBranchProtection,
     pv_GetChangeRequest = GetChangeRequest,
     pv_ListChangedFiles = ListChangedFiles,
     pv_GetDiff = GetDiff,
     pv_ListThreads = ListThreads,
     pv_ListComments = ListComments,
     pv_GetIssue = GetIssue,
     pv_GetChecks = GetChecks,
     pv_GetCheckLogs = GetCheckLogs,
     pv_OpenChangeRequest = OpenChangeRequest,
     pv_UpdateChangeRequest = UpdateChangeRequest,
     pv_Comment = PostComment,
     pv_ReplyThread = ReplyThread,
     pv_SubmitReview = SubmitReview quote,
     pv_SetStatus = SetStatus,
     pv_IssueLister = None, pv_ThreadResolver = None, pv_FileReader = None, pv_CodeSearcher = None,
     pv_LabelManager = None, pv_ReviewerRequester = None, pv_AssigneeSetter = None, pv_Merger = None,
     pv_CheckRerunner = None, pv_Reactor = None, pv_BranchManager = None, pv_WebhookManager = None,
     pv_IdentityDeleter = None, pv_IdentityDescriber = None, pv_AccessGranter = None\<rparr>"

text \<open>\<^verbatim>\<open>Full\<close> embeds the same core and adds the methods of every optional interface.\<close>

definition full_provider ::
    "(string \<Rightarrow> string) \<Rightarrow> (bytes \<Rightarrow> bytes \<Rightarrow> bytes) \<Rightarrow> gotime \<Rightarrow> Core Provider" where
  "full_provider quote mac now = (minimal_provider quote mac now)\<lparr>
     pv_IssueLister := Some ListIssues,
     pv_ThreadResolver := Some ResolveThread,
     pv_FileReader := Some GetFile,
     pv_CodeSearcher := Some SearchCode,
     pv_LabelManager := Some AddLabels,
     pv_ReviewerRequester := Some RequestReviewers,
     pv_AssigneeSetter := Some SetAssignees,
     pv_Merger := Some MergeChangeRequest,
     pv_CheckRerunner := Some RerunChecks,
     pv_Reactor := Some React,
     pv_BranchManager := Some (GetBranch, CreateBranch),
     pv_WebhookManager := Some (EnsureWebhook, RemoveWebhook),
     pv_IdentityDeleter := Some DeleteIdentity,
     pv_IdentityDescriber := Some DescribeIdentity,
     pv_AccessGranter := Some (BeginAccessGrant, CompleteAccessGrant)\<rparr>"

section \<open>Reads\<close>

lemma with_repo_reads: "(\<And>r. fst (f r) = c) \<Longrightarrow> fst (with_repo c t f) = c"
  by (simp add: with_repo_def split: option.split)

lemma with_cr_reads: "(\<And>r x. fst (f r x) = c) \<Longrightarrow> fst (with_cr c t n f) = c"
  by (simp add: with_cr_def with_repo_def split: option.split)

lemma reads_if: "fst a = c \<Longrightarrow> fst b = c \<Longrightarrow> fst (if P then a else b) = c"
  by simp

lemma reads_option: "fst a = c \<Longrightarrow> (\<And>x. fst (f x) = c) \<Longrightarrow> fst (case z of None \<Rightarrow> a | Some x \<Rightarrow> f x) = c"
  by (cases z) simp_all

lemma reads_prod: "(\<And>a b. fst (f a b) = c) \<Longrightarrow> fst (case z of (a, b) \<Rightarrow> f a b) = c"
  by (cases z) simp

lemmas reads_defs = Let_def with_repo_reads with_cr_reads

lemma reads_BeginIdentitySetup [simp]: "fst (BeginIdentitySetup quote req c) = c"
  by (simp add: BeginIdentitySetup_def reads_defs split: option.split)

lemma reads_CompleteIdentitySetup [simp]: "fst (CompleteIdentitySetup req c) = c"
  by (simp add: CompleteIdentitySetup_def reads_defs split: option.split)

lemma reads_ListRepositories [simp]: "fst (ListRepositories req c) = c"
  unfolding ListRepositories_def Let_def by (intro reads_if reads_option fst_conv)

lemma reads_ResolveRepository [simp]: "fst (ResolveRepository req c) = c"
  by (simp add: ResolveRepository_def reads_defs split: option.split)

lemma reads_VerifyAndParseWebhook [simp]: "fst (VerifyAndParseWebhook mac parse req c) = c"
  by (simp add: VerifyAndParseWebhook_def reads_defs split: option.split)

lemma reads_GetActorPermission [simp]: "fst (GetActorPermission req c) = c"
  by (simp add: GetActorPermission_def reads_defs split: option.split)

lemma reads_GetBranchProtection [simp]: "fst (GetBranchProtection req c) = c"
  by (simp add: GetBranchProtection_def reads_defs split: option.split)

lemma reads_GetChangeRequest [simp]: "fst (GetChangeRequest req c) = c"
  by (simp add: GetChangeRequest_def reads_defs split: option.split)

lemma reads_ListChangedFiles [simp]: "fst (ListChangedFiles req c) = c"
  by (simp add: ListChangedFiles_def reads_defs split: option.split)

lemma reads_GetDiff [simp]: "fst (GetDiff req c) = c"
  by (simp add: GetDiff_def reads_defs split: option.split)

lemma reads_ListThreads [simp]: "fst (ListThreads req c) = c"
  by (simp add: ListThreads_def reads_defs split: option.split)

lemma reads_ListComments [simp]: "fst (ListComments req c) = c"
  by (simp add: ListComments_def reads_defs split: option.split)

lemma reads_GetIssue [simp]: "fst (GetIssue req c) = c"
  by (simp add: GetIssue_def reads_defs split: option.split)

lemma reads_GetChecks [simp]: "fst (GetChecks req c) = c"
  by (simp add: GetChecks_def reads_defs split: option.split)

lemma reads_GetCheckLogs [simp]: "fst (GetCheckLogs req c) = c"
  by (simp add: GetCheckLogs_def reads_defs split: option.split)

lemma reads_ListIssues [simp]: "fst (ListIssues req c) = c"
  unfolding ListIssues_def Let_def by (intro reads_if reads_option reads_prod with_repo_reads fst_conv)

lemma reads_GetFile [simp]: "fst (GetFile req c) = c"
  by (simp add: GetFile_def reads_defs split: option.split)

lemma reads_SearchCode [simp]: "fst (SearchCode req c) = c"
  by (simp add: SearchCode_def reads_defs split: option.split)

lemma reads_GetBranch [simp]: "fst (GetBranch req c) = c"
  by (simp add: GetBranch_def reads_defs split: option.split)

lemma reads_DescribeIdentity [simp]: "fst (DescribeIdentity req c) = c"
  by (simp add: DescribeIdentity_def reads_defs split: option.split)


lemmas reads =
  reads_BeginIdentitySetup reads_CompleteIdentitySetup reads_ListRepositories reads_ResolveRepository
  reads_VerifyAndParseWebhook reads_GetActorPermission reads_GetBranchProtection reads_GetChangeRequest
  reads_ListChangedFiles reads_GetDiff reads_ListThreads reads_ListComments
  reads_GetIssue reads_GetChecks reads_GetCheckLogs reads_ListIssues
  reads_GetFile reads_SearchCode reads_GetBranch reads_DescribeIdentity

section \<open>The fakes' errors\<close>

text \<open>Every error a fake answers is a typed one without a retry time.\<close>

named_theorems typed "replies whose errors are typed"

definition typed_out :: "'s \<times> 'r reply \<Rightarrow> bool" where
  "typed_out out \<longleftrightarrow> (\<forall>err. snd out = Fails err \<longrightarrow> (\<exists>c msg. err = GpErr (Errorf c msg)))"

lemma typed_if [typed]: "typed_out a \<Longrightarrow> typed_out b \<Longrightarrow> typed_out (if P then a else b)"
  by simp

lemma typed_option [typed]:
  "typed_out a \<Longrightarrow> (\<And>x. typed_out (f x)) \<Longrightarrow> typed_out (case z of None \<Rightarrow> a | Some x \<Rightarrow> f x)"
  by (cases z) simp_all

lemma typed_prod [typed]: "(\<And>a b. typed_out (f a b)) \<Longrightarrow> typed_out (case z of (a, b) \<Rightarrow> f a b)"
  by (cases z) simp

lemma typed_replies [typed]: "typed_out (c, fails code msg)" "typed_out (c, Answers v)" "typed_out (c, Panics)"
  by (simp_all add: typed_out_def fails_def) blast

lemma typed_with_repo [typed]: "(\<And>r. typed_out (f r)) \<Longrightarrow> typed_out (with_repo c t f)"
  unfolding with_repo_def by (intro typed)

lemma typed_with_cr [typed]: "(\<And>r x. typed_out (f r x)) \<Longrightarrow> typed_out (with_cr c t n f)"
  unfolding with_cr_def by (intro typed)

lemma typed_with_subject [typed]: "(\<And>r. typed_out (f r)) \<Longrightarrow> typed_out (with_subject c t s f)"
  unfolding with_subject_def by (intro typed)

lemma typed_once: "(\<And>c. typed_out (f c)) \<Longrightarrow> typed_out (once c key g h f)"
  by (auto simp: once_def typed_out_def split: option.split prod.split reply.split) (metis snd_conv)

lemma typed_onces [typed]:
  "(\<And>c. typed_out (f1 c)) \<Longrightarrow> typed_out (once_cr c key f1)"
  "(\<And>c. typed_out (f2 c)) \<Longrightarrow> typed_out (once_comment c key f2)"
  "(\<And>c. typed_out (f3 c)) \<Longrightarrow> typed_out (once_review c key f3)"
  "(\<And>c. typed_out (f4 c)) \<Longrightarrow> typed_out (once_branch c key f4)"
  by (simp_all add: once_cr_def once_comment_def once_review_def once_branch_def typed_once)

lemma typed_BeginIdentitySetup: "typed_out (BeginIdentitySetup quote req c)"
  unfolding BeginIdentitySetup_def Let_def by (intro typed)

lemma typed_CompleteIdentitySetup: "typed_out (CompleteIdentitySetup req c)"
  unfolding CompleteIdentitySetup_def Let_def by (intro typed)

lemma typed_ListRepositories: "typed_out (ListRepositories req c)"
  unfolding ListRepositories_def Let_def by (intro typed)

lemma typed_ResolveRepository: "typed_out (ResolveRepository req c)"
  unfolding ResolveRepository_def Let_def by (intro typed)

lemma typed_VerifyAndParseWebhook: "typed_out (VerifyAndParseWebhook mac parse req c)"
  unfolding VerifyAndParseWebhook_def Let_def by (intro typed)

lemma typed_MintCredential: "typed_out (MintCredential now req c)"
  unfolding MintCredential_def Let_def by (intro typed)

lemma typed_GetActorPermission: "typed_out (GetActorPermission req c)"
  unfolding GetActorPermission_def Let_def by (intro typed)

lemma typed_GetBranchProtection: "typed_out (GetBranchProtection req c)"
  unfolding GetBranchProtection_def Let_def by (intro typed)

lemma typed_GetChangeRequest: "typed_out (GetChangeRequest req c)"
  unfolding GetChangeRequest_def Let_def by (intro typed)

lemma typed_ListChangedFiles: "typed_out (ListChangedFiles req c)"
  unfolding ListChangedFiles_def Let_def by (intro typed)

lemma typed_GetDiff: "typed_out (GetDiff req c)"
  unfolding GetDiff_def Let_def by (intro typed)

lemma typed_ListThreads: "typed_out (ListThreads req c)"
  unfolding ListThreads_def Let_def by (intro typed)

lemma typed_ListComments: "typed_out (ListComments req c)"
  unfolding ListComments_def Let_def by (intro typed)

lemma typed_GetIssue: "typed_out (GetIssue req c)"
  unfolding GetIssue_def Let_def by (intro typed)

lemma typed_GetChecks: "typed_out (GetChecks req c)"
  unfolding GetChecks_def Let_def by (intro typed)

lemma typed_GetCheckLogs: "typed_out (GetCheckLogs req c)"
  unfolding GetCheckLogs_def Let_def by (intro typed)

lemma typed_OpenChangeRequest: "typed_out (OpenChangeRequest req c)"
  unfolding OpenChangeRequest_def Let_def by (intro typed)

lemma typed_UpdateChangeRequest: "typed_out (UpdateChangeRequest req c)"
  unfolding UpdateChangeRequest_def Let_def by (intro typed)

lemma typed_PostComment: "typed_out (PostComment req c)"
  unfolding PostComment_def Let_def by (intro typed)

lemma typed_ReplyThread: "typed_out (ReplyThread req c)"
  unfolding ReplyThread_def Let_def by (intro typed)

lemma typed_SubmitReview: "typed_out (SubmitReview quote req c)"
  unfolding SubmitReview_def Let_def by (intro typed)

lemma typed_SetStatus: "typed_out (SetStatus req c)"
  unfolding SetStatus_def Let_def by (intro typed)

lemma typed_ListIssues: "typed_out (ListIssues req c)"
  unfolding ListIssues_def Let_def by (intro typed)

lemma typed_ResolveThread: "typed_out (ResolveThread req c)"
  unfolding ResolveThread_def Let_def by (intro typed)

lemma typed_GetFile: "typed_out (GetFile req c)"
  unfolding GetFile_def Let_def by (intro typed)

lemma typed_SearchCode: "typed_out (SearchCode req c)"
  unfolding SearchCode_def Let_def by (intro typed)

lemma typed_AddLabels: "typed_out (AddLabels req c)"
  unfolding AddLabels_def Let_def by (intro typed)

lemma typed_RequestReviewers: "typed_out (RequestReviewers req c)"
  unfolding RequestReviewers_def Let_def by (intro typed)

lemma typed_SetAssignees: "typed_out (SetAssignees req c)"
  unfolding SetAssignees_def Let_def by (intro typed)

lemma typed_MergeChangeRequest: "typed_out (MergeChangeRequest req c)"
  unfolding MergeChangeRequest_def Let_def by (intro typed)

lemma typed_RerunChecks: "typed_out (RerunChecks req c)"
  unfolding RerunChecks_def Let_def by (intro typed)

lemma typed_React: "typed_out (React req c)"
  unfolding React_def Let_def by (intro typed)

lemma typed_GetBranch: "typed_out (GetBranch req c)"
  unfolding GetBranch_def Let_def by (intro typed)

lemma typed_CreateBranch: "typed_out (CreateBranch req c)"
  unfolding CreateBranch_def Let_def by (intro typed)

lemma typed_EnsureWebhook: "typed_out (EnsureWebhook req c)"
  unfolding EnsureWebhook_def Let_def by (intro typed)

lemma typed_RemoveWebhook: "typed_out (RemoveWebhook req c)"
  unfolding RemoveWebhook_def Let_def by (intro typed)

lemma typed_DeleteIdentity: "typed_out (DeleteIdentity req c)"
  unfolding DeleteIdentity_def Let_def by (intro typed)

lemma typed_DescribeIdentity: "typed_out (DescribeIdentity req c)"
  unfolding DescribeIdentity_def Let_def by (intro typed)

lemma typed_BeginAccessGrant: "typed_out (BeginAccessGrant req c)"
  unfolding BeginAccessGrant_def Let_def by (intro typed)

lemma typed_CompleteAccessGrant: "typed_out (CompleteAccessGrant req c)"
  unfolding CompleteAccessGrant_def Let_def by (intro typed)

lemmas typed_fake =
  typed_BeginIdentitySetup typed_CompleteIdentitySetup typed_ListRepositories typed_ResolveRepository
  typed_VerifyAndParseWebhook typed_MintCredential typed_GetActorPermission typed_GetBranchProtection
  typed_GetChangeRequest typed_ListChangedFiles typed_GetDiff typed_ListThreads
  typed_ListComments typed_GetIssue typed_GetChecks typed_GetCheckLogs
  typed_OpenChangeRequest typed_UpdateChangeRequest typed_PostComment typed_ReplyThread
  typed_SubmitReview typed_SetStatus typed_ListIssues typed_ResolveThread
  typed_GetFile typed_SearchCode typed_AddLabels typed_RequestReviewers
  typed_SetAssignees typed_MergeChangeRequest typed_RerunChecks typed_React
  typed_GetBranch typed_CreateBranch typed_EnsureWebhook typed_RemoveWebhook
  typed_DeleteIdentity typed_DescribeIdentity typed_BeginAccessGrant typed_CompleteAccessGrant

section \<open>Providers that can be served\<close>

text \<open>
  What \<^verbatim>\<open>serve.Register\<close> relies on: the provider describes itself the same way in every
  state, it implements exactly the capabilities it declares, each of its operations keeps its
  invariant, and its errors' retry times are Go integers.
\<close>

definition keeps :: "('s \<Rightarrow> bool) \<Rightarrow> ('s \<Rightarrow> 's \<times> 'r reply) \<Rightarrow> bool" where
  "keeps I f \<longleftrightarrow> (\<forall>s. (I s \<longrightarrow> I (fst (f s))) \<and> (\<forall>err. snd (f s) = Fails err \<longrightarrow> int64 (er_retry_after_seconds (AsError err))))"

definition keeps_call :: "('s \<Rightarrow> bool) \<Rightarrow> 's Provider \<Rightarrow> 's opEntry \<Rightarrow> bool" where
  "keeps_call I p e \<longleftrightarrow> (\<forall>body. keeps I (oe_call e p body))"

lemma available_cong:
  assumes "\<And>n f. (n, f) \<in> set optional_flags \<Longrightarrow> f a = f b"
  shows "available a opn = available b opn"
proof -
  have "(\<exists>(n, f)\<in>set optional_flags. n = k \<and> f a) \<longleftrightarrow> (\<exists>(n, f)\<in>set optional_flags. n = k \<and> f b)" for k
    using assms by (intro bex_cong) auto
  then show ?thesis unfolding available_def by simp
qed

locale served_provider =
  fixes I :: "'s \<Rightarrow> bool"
    and p :: "'s Provider"
    and cs :: Capabilities
  assumes describes: "I s \<Longrightarrow> \<exists>info. pv_Describe p s = Returned info \<and> info_capabilities info = cs"
    and implements: "(n, f) \<in> set optional_flags \<Longrightarrow> f (Implemented p) = f cs"
    and keeps_inv: "entry \<in> set operations \<Longrightarrow> keeps_call I p entry"
begin

lemma offers: "I s \<Longrightarrow> offers p s opn = Returned (available cs opn)"
  using describes offers_described by fastforce

lemma dispatch_keeps:
  assumes "I s"
  shows "I (fst (Dispatch quote p opn body s))"
proof (cases "offers p s opn = Returned True")
  case False
  then have "offers p s opn = Returned False" using offers [OF assms] by auto
  then show ?thesis using dispatch_unavailable [of p s opn quote body] assms by auto
next
  case True
  then obtain entry where "opIndex opn = Some entry" "Dispatch quote p opn body s = outcome (oe_call entry p body s)"
    using dispatch_available [OF True, of quote body] by auto
  then show ?thesis using keeps_inv [of entry] assms by (auto simp: opIndex_iff outcome_def keeps_call_def keeps_def)
qed

lemma errors_fit: "int64_errors p"
  using keeps_inv by (auto simp: int64_errors_def keeps_call_def keeps_def)

lemma implements_declared: "available cs opn \<longleftrightarrow> available (Implemented p) opn"
  by (rule available_cong) (auto simp: implements)

end

section \<open>The fakes are served\<close>

lemma map_reply_Fails: "map_reply enc r = Fails err \<longleftrightarrow> r = Fails err"
  by (cases r) auto

lemma keeps_failing: "int64 (er_retry_after_seconds e) \<Longrightarrow> keeps I (\<lambda>s. (s, Fails (GpErr e)))"
  by (simp add: keeps_def AsError_def)

lemma keeps_encoded: "keeps I f \<Longrightarrow> keeps I (\<lambda>s. apsnd (map_reply enc) (f s))"
  by (simp add: keeps_def map_reply_Fails)

lemma decode_int64: "decode zero d body = Inl e \<Longrightarrow> int64 (er_retry_after_seconds e)"
  by (auto simp: decode_def Errorf_def split: if_splits option.splits)

lemma keeps_required:
  "(\<And>req. keeps I (fn p req)) \<Longrightarrow> keeps_call I p (required n zero d enc fn)"
proof -
  assume k: "\<And>req. keeps I (fn p req)"
  have "keeps I (oe_call (required n zero d enc fn) p body)" for body
    by (cases "decode zero d body") (simp_all add: required_def keeps_failing keeps_encoded decode_int64 k)
  then show ?thesis by (simp add: keeps_call_def)
qed

lemma keeps_implemented:
  "fn p = Some impl \<Longrightarrow> (\<And>req. keeps I (impl req)) \<Longrightarrow> keeps_call I p (optional n c zero d enc fn)"
proof -
  assume k: "fn p = Some impl" "\<And>req. keeps I (impl req)"
  have "keeps I (oe_call (optional n c zero d enc fn) p body)" for body
    using k by (cases "decode zero d body") (simp_all add: optional_def keeps_failing keeps_encoded decode_int64)
  then show ?thesis by (simp add: keeps_call_def)
qed

lemma keeps_missing: "fn p = None \<Longrightarrow> keeps_call I p (optional n c zero d enc fn)"
  by (simp add: keeps_call_def optional_def keeps_failing refusal_int64 refusal_unsupported)

lemma keeps_typed: "(\<And>s. I s \<Longrightarrow> I (fst (f s))) \<Longrightarrow> (\<And>s. typed_out (f s)) \<Longrightarrow> keeps I f"
  unfolding keeps_def typed_out_def by (fastforce simp: AsError_def Errorf_def)

lemma keeps_reads: "(\<And>s. fst (f s) = s) \<Longrightarrow> (\<And>s. typed_out (f s)) \<Longrightarrow> keeps I f"
  by (rule keeps_typed) simp_all

lemma keeps_fake: "(\<And>c. fake_step c (fst (f c))) \<Longrightarrow> (\<And>s. typed_out (f s)) \<Longrightarrow> keeps (reachable cs) f"
  by (rule keeps_typed) (auto intro: reachable_step)

lemma keeps_operations:
  assumes "\<And>body. keeps I (oe_call (hd operations) p body)"
    and "list_all (keeps_call I p) (tl operations)"
    and "entry \<in> set operations"
  shows "keeps_call I p entry"
proof -
  have "operations = hd operations # tl operations" by (simp add: operations_def)
  then show ?thesis using assms by (metis keeps_call_def list_all_iff set_ConsD)
qed

lemma keeps_describe: "keeps I (oe_call (hd operations) p body)"
  by (auto simp: operations_def keeps_def split: outcome.splits)

lemmas fake_fields = minimal_provider_def full_provider_def

lemma minimal_fields:
  "pv_Describe (minimal_provider quote mac now) = (\<lambda>c. Returned (Describe c))"
  "pv_BeginIdentitySetup (minimal_provider quote mac now) = BeginIdentitySetup quote"
  "pv_CompleteIdentitySetup (minimal_provider quote mac now) = CompleteIdentitySetup"
  "pv_ListRepositories (minimal_provider quote mac now) = ListRepositories"
  "pv_ResolveRepository (minimal_provider quote mac now) = ResolveRepository"
  "pv_VerifyAndParseWebhook (minimal_provider quote mac now) = VerifyAndParseWebhook mac parse_hook"
  "pv_MintCredential (minimal_provider quote mac now) = MintCredential now"
  "pv_GetActorPermission (minimal_provider quote mac now) = GetActorPermission"
  "pv_GetBranchProtection (minimal_provider quote mac now) = GetBranchProtection"
  "pv_GetChangeRequest (minimal_provider quote mac now) = GetChangeRequest"
  "pv_ListChangedFiles (minimal_provider quote mac now) = ListChangedFiles"
  "pv_GetDiff (minimal_provider quote mac now) = GetDiff"
  "pv_ListThreads (minimal_provider quote mac now) = ListThreads"
  "pv_ListComments (minimal_provider quote mac now) = ListComments"
  "pv_GetIssue (minimal_provider quote mac now) = GetIssue"
  "pv_GetChecks (minimal_provider quote mac now) = GetChecks"
  "pv_GetCheckLogs (minimal_provider quote mac now) = GetCheckLogs"
  "pv_OpenChangeRequest (minimal_provider quote mac now) = OpenChangeRequest"
  "pv_UpdateChangeRequest (minimal_provider quote mac now) = UpdateChangeRequest"
  "pv_Comment (minimal_provider quote mac now) = PostComment"
  "pv_ReplyThread (minimal_provider quote mac now) = ReplyThread"
  "pv_SubmitReview (minimal_provider quote mac now) = SubmitReview quote"
  "pv_SetStatus (minimal_provider quote mac now) = SetStatus"
  "pv_IssueLister (minimal_provider quote mac now) = None"
  "pv_ThreadResolver (minimal_provider quote mac now) = None"
  "pv_FileReader (minimal_provider quote mac now) = None"
  "pv_CodeSearcher (minimal_provider quote mac now) = None"
  "pv_LabelManager (minimal_provider quote mac now) = None"
  "pv_ReviewerRequester (minimal_provider quote mac now) = None"
  "pv_AssigneeSetter (minimal_provider quote mac now) = None"
  "pv_Merger (minimal_provider quote mac now) = None"
  "pv_CheckRerunner (minimal_provider quote mac now) = None"
  "pv_Reactor (minimal_provider quote mac now) = None"
  "pv_BranchManager (minimal_provider quote mac now) = None"
  "pv_WebhookManager (minimal_provider quote mac now) = None"
  "pv_IdentityDeleter (minimal_provider quote mac now) = None"
  "pv_IdentityDescriber (minimal_provider quote mac now) = None"
  "pv_AccessGranter (minimal_provider quote mac now) = None"
  by (simp_all add: minimal_provider_def)

lemma full_fields:
  "pv_Describe (full_provider quote mac now) = (\<lambda>c. Returned (Describe c))"
  "pv_BeginIdentitySetup (full_provider quote mac now) = BeginIdentitySetup quote"
  "pv_CompleteIdentitySetup (full_provider quote mac now) = CompleteIdentitySetup"
  "pv_ListRepositories (full_provider quote mac now) = ListRepositories"
  "pv_ResolveRepository (full_provider quote mac now) = ResolveRepository"
  "pv_VerifyAndParseWebhook (full_provider quote mac now) = VerifyAndParseWebhook mac parse_hook"
  "pv_MintCredential (full_provider quote mac now) = MintCredential now"
  "pv_GetActorPermission (full_provider quote mac now) = GetActorPermission"
  "pv_GetBranchProtection (full_provider quote mac now) = GetBranchProtection"
  "pv_GetChangeRequest (full_provider quote mac now) = GetChangeRequest"
  "pv_ListChangedFiles (full_provider quote mac now) = ListChangedFiles"
  "pv_GetDiff (full_provider quote mac now) = GetDiff"
  "pv_ListThreads (full_provider quote mac now) = ListThreads"
  "pv_ListComments (full_provider quote mac now) = ListComments"
  "pv_GetIssue (full_provider quote mac now) = GetIssue"
  "pv_GetChecks (full_provider quote mac now) = GetChecks"
  "pv_GetCheckLogs (full_provider quote mac now) = GetCheckLogs"
  "pv_OpenChangeRequest (full_provider quote mac now) = OpenChangeRequest"
  "pv_UpdateChangeRequest (full_provider quote mac now) = UpdateChangeRequest"
  "pv_Comment (full_provider quote mac now) = PostComment"
  "pv_ReplyThread (full_provider quote mac now) = ReplyThread"
  "pv_SubmitReview (full_provider quote mac now) = SubmitReview quote"
  "pv_SetStatus (full_provider quote mac now) = SetStatus"
  "pv_IssueLister (full_provider quote mac now) = Some ListIssues"
  "pv_ThreadResolver (full_provider quote mac now) = Some ResolveThread"
  "pv_FileReader (full_provider quote mac now) = Some GetFile"
  "pv_CodeSearcher (full_provider quote mac now) = Some SearchCode"
  "pv_LabelManager (full_provider quote mac now) = Some AddLabels"
  "pv_ReviewerRequester (full_provider quote mac now) = Some RequestReviewers"
  "pv_AssigneeSetter (full_provider quote mac now) = Some SetAssignees"
  "pv_Merger (full_provider quote mac now) = Some MergeChangeRequest"
  "pv_CheckRerunner (full_provider quote mac now) = Some RerunChecks"
  "pv_Reactor (full_provider quote mac now) = Some React"
  "pv_BranchManager (full_provider quote mac now) = Some (GetBranch, CreateBranch)"
  "pv_WebhookManager (full_provider quote mac now) = Some (EnsureWebhook, RemoveWebhook)"
  "pv_IdentityDeleter (full_provider quote mac now) = Some DeleteIdentity"
  "pv_IdentityDescriber (full_provider quote mac now) = Some DescribeIdentity"
  "pv_AccessGranter (full_provider quote mac now) = Some (BeginAccessGrant, CompleteAccessGrant)"
  by (simp_all add: full_provider_def minimal_provider_def)

lemmas keeps_writes = fake_step.intros(2-) [THEN keeps_fake]
lemmas keeps_reading = reads [THEN keeps_reads]

lemma minimal_keeps_tl: "list_all (keeps_call (reachable cs) (minimal_provider quote mac now)) (tl operations)"
  apply (unfold operations_def list.sel list.pred_inject)
  apply (intro conjI TrueI)
  apply ((rule keeps_required, unfold minimal_fields, intro keeps_reading keeps_writes typed_fake)
    | (rule keeps_missing, unfold minimal_fields option.map, rule refl))+
  apply simp
  done

lemma full_keeps_tl: "list_all (keeps_call (reachable cs) (full_provider quote mac now)) (tl operations)"
  apply (unfold operations_def list.sel list.pred_inject)
  apply (intro conjI TrueI)
  apply ((rule keeps_required, unfold full_fields, intro keeps_reading keeps_writes typed_fake)
    | (rule keeps_implemented, unfold full_fields option.map fst_conv snd_conv, rule refl,
       intro keeps_reading keeps_writes typed_fake))+
  apply simp
  done

lemmas minimal_keeps = keeps_operations [OF keeps_describe minimal_keeps_tl]
lemmas full_keeps = keeps_operations [OF keeps_describe full_keeps_tl]

lemma fake_describes:
  "reachable cs c \<Longrightarrow> \<exists>info. pv_Describe (minimal_provider quote mac now) c = Returned info \<and> info_capabilities info = cs"
  "reachable cs c \<Longrightarrow> \<exists>info. pv_Describe (full_provider quote mac now) c = Returned info \<and> info_capabilities info = cs"
  by (simp_all add: fake_fields Describe_def reachable_caps)

lemma fake_implements:
  "list_all (\<lambda>(n, f). \<not> f minimalCapabilities \<and> \<not> f (Implemented (minimal_provider quote mac now))) optional_flags"
  "list_all (\<lambda>(n, f). f fullCapabilities \<and> f (Implemented (full_provider quote mac now))) optional_flags"
  by (simp_all add: optional_flags_def minimalCapabilities_def fullCapabilities_def Implemented_def fake_fields zero_Capabilities_def)

interpretation minimal: served_provider "reachable minimalCapabilities" "minimal_provider quote mac now" minimalCapabilities
  for quote mac now
  using fake_implements(1) [of quote mac now]
  by unfold_locales (auto simp: fake_describes list_all_iff intro: minimal_keeps)

interpretation full: served_provider "reachable fullCapabilities" "full_provider quote mac now" fullCapabilities
  for quote mac now
  using fake_implements(2) [of quote mac now]
  by unfold_locales (auto simp: fake_describes list_all_iff intro: full_keeps)

section \<open>The fakes behind Dispatch\<close>

text \<open>
  A run of wire requests against a provider made for each one, with the clock of that
  moment: the operation's name and the body are any bytes.
\<close>

definition wire_run ::
    "(string \<Rightarrow> string) \<Rightarrow> (gotime \<Rightarrow> Core Provider) \<Rightarrow> Core \<Rightarrow> (gotime \<times> string \<times> bytes) list \<Rightarrow> Core" where
  "wire_run quote mk c reqs = foldl (\<lambda>c (now, opn, body). fst (Dispatch quote (mk now) opn body c)) c reqs"

lemma wire_run_keeps:
  assumes "\<And>now opn body c. I c \<Longrightarrow> I (fst (Dispatch quote (mk now) opn body c))" "I c"
  shows "I (wire_run quote mk c reqs)"
  using assms(2) unfolding wire_run_def
  by (induction reqs arbitrary: c) (auto intro: assms(1))

text \<open>
  C9: no sequence of wire requests takes a fake out of its reachable states, whatever
  operations they name and whatever bytes their bodies are: malformed and hostile ones
  included, the state stays one that a run of the provider's own operations reaches from the
  seeded world, so it satisfies the invariant.
\<close>

theorem wire_keeps_fakes:
  "wf_core (wire_run quote (full_provider q mac) NewFull reqs) \<and>
   reachable fullCapabilities (wire_run quote (full_provider q mac) NewFull reqs) \<and>
   wf_core (wire_run quote (minimal_provider q mac) NewMinimal reqs) \<and>
   reachable minimalCapabilities (wire_run quote (minimal_provider q mac) NewMinimal reqs)"
proof -
  have "reachable fullCapabilities (wire_run quote (full_provider q mac) NewFull reqs)"
    by (rule wire_run_keeps [where I = "reachable fullCapabilities"]) (auto simp: NewFull_def reachable_new full.dispatch_keeps)
  moreover have "reachable minimalCapabilities (wire_run quote (minimal_provider q mac) NewMinimal reqs)"
    by (rule wire_run_keeps [where I = "reachable minimalCapabilities"]) (auto simp: NewMinimal_def reachable_new minimal.dispatch_keeps)
  ultimately show ?thesis using reachable_wf by blast
qed

lemma full_serves: "available fullCapabilities opn \<longleftrightarrow> opn \<in> op_Name ` set Operations"
proof -
  have "op_Capability op = '''' \<or> (\<exists>(n, f)\<in>set optional_flags. n = op_Capability op \<and> f fullCapabilities)"
    if "op \<in> set Operations" for op
  proof -
    obtain e :: "unit opEntry" where e: "e \<in> set operations" "op = oe_Operation e"
      using \<open>op \<in> set Operations\<close> unfolding Operations_def by auto
    then show ?thesis using operation_flags [OF e(1)] fake_implements(2) by (fastforce simp: list_all_iff)
  qed
  then show ?thesis unfolding available_def by auto
qed

lemma minimal_serves:
  "available minimalCapabilities opn \<longleftrightarrow> (\<exists>op\<in>set Operations. op_Name op = opn \<and> op_Capability op = '''')"
proof -
  have "\<not> (\<exists>(n, f)\<in>set optional_flags. n = k \<and> f minimalCapabilities)" for k
    using fake_implements(1) by (fastforce simp: list_all_iff)
  then show ?thesis unfolding available_def by simp
qed

text \<open>
  The full fake serves every operation of the contract and the minimal one exactly the
  required ones; what each serves is what it implements, so no declared operation is
  answered \<^verbatim>\<open>unsupported\<close> for want of a Go method.
\<close>

theorem fakes_serve:
  "(available fullCapabilities opn \<longleftrightarrow> opn \<in> op_Name ` set Operations) \<and>
   (available minimalCapabilities opn \<longleftrightarrow> (\<exists>op\<in>set Operations. op_Name op = opn \<and> op_Capability op = '''')) \<and>
   (available fullCapabilities opn \<longleftrightarrow> available (Implemented (full_provider q mac now)) opn) \<and>
   (available minimalCapabilities opn \<longleftrightarrow> available (Implemented (minimal_provider q mac now)) opn)"
  by (intro conjI full_serves minimal_serves full.implements_declared minimal.implements_declared)

end
