(* ===== verification/GoTest.thy ===== *)
theory GoTest
  imports GitErrors
begin

text \<open>
  Go's \<^verbatim>\<open>testing\<close> package as the conformance suite uses it: a test runs over the provider's
  state, reports failures and goes on (\<^verbatim>\<open>t.Errorf\<close>), reports one and stops (\<^verbatim>\<open>t.Fatalf\<close>),
  stops without one (\<^verbatim>\<open>t.Skip\<close>), or panics.  A failure is kept as a short name of its
  message; notes written by \<^verbatim>\<open>t.Log\<close> are left out.
\<close>

section \<open>Tests\<close>

datatype 'a progress = Goes 'a | Stops | Crashes

type_synonym ('s, 'a) test = "'s \<Rightarrow> 's \<times> string list \<times> 'a progress"

definition t_pure :: "'a \<Rightarrow> ('s, 'a) test" where
  "t_pure v s = (s, [], Goes v)"

definition t_bind :: "('s, 'a) test \<Rightarrow> ('a \<Rightarrow> ('s, 'b) test) \<Rightarrow> ('s, 'b) test" where
  "t_bind m k s =
     (case m s of (s', fs, r) \<Rightarrow>
       (case r of
          Goes v \<Rightarrow> (case k v s' of (s'', gs, r') \<Rightarrow> (s'', fs @ gs, r'))
        | Stops \<Rightarrow> (s', fs, Stops)
        | Crashes \<Rightarrow> (s', fs, Crashes)))"

definition t_Error :: "string \<Rightarrow> ('s, unit) test" where
  "t_Error msg s = (s, [msg], Goes ())"

definition t_Fatal :: "string \<Rightarrow> ('s, 'a) test" where
  "t_Fatal msg s = (s, [msg], Stops)"

definition t_Skip :: "('s, 'a) test" where
  "t_Skip s = (s, [], Stops)"

definition t_panic :: "('s, 'a) test" where
  "t_panic s = (s, [], Crashes)"

abbreviation t_ok :: "('s, unit) test" where
  "t_ok \<equiv> t_pure ()"

text \<open>\<^verbatim>\<open>if b { t.Errorf(msg) }\<close> and \<^verbatim>\<open>if b { t.Fatalf(msg) }\<close>.\<close>

definition t_error_if :: "bool \<Rightarrow> string \<Rightarrow> ('s, unit) test" where
  "t_error_if b msg = (if b then t_Error msg else t_ok)"

definition t_fatal_if :: "bool \<Rightarrow> string \<Rightarrow> ('s, unit) test" where
  "t_fatal_if b msg = (if b then t_Fatal msg else t_ok)"

definition t_when :: "bool \<Rightarrow> ('s, unit) test \<Rightarrow> ('s, unit) test" where
  "t_when b m = (if b then m else t_ok)"

primrec t_each :: "'a list \<Rightarrow> ('a \<Rightarrow> ('s, unit) test) \<Rightarrow> ('s, unit) test" where
  "t_each [] f = t_ok"
| "t_each (x # xs) f = t_bind (f x) (\<lambda>_. t_each xs f)"

primrec t_steps :: "('s, unit) test list \<Rightarrow> ('s, unit) test" where
  "t_steps [] = t_ok"
| "t_steps (m # ms) = t_bind m (\<lambda>_. t_steps ms)"

text \<open>
  A subtest: what stops it does not stop its parent, a panic does.  \<open>t_fresh\<close> runs on a
  provider of its own (\<^verbatim>\<open>p := h.New(t)\<close>), whose state is \<open>s0\<close>.
\<close>

definition t_Run :: "string \<Rightarrow> ('s, unit) test \<Rightarrow> ('s, unit) test" where
  "t_Run name m s =
     (case m s of (s', fs, r) \<Rightarrow>
        (s', map (\<lambda>msg. name @ ''/'' @ msg) fs, (case r of Crashes \<Rightarrow> Crashes | _ \<Rightarrow> Goes ())))"

definition t_fresh :: "'s \<Rightarrow> ('s, 'a) test \<Rightarrow> ('s, 'a) test" where
  "t_fresh s0 m s = (case m s0 of (_, fs, r) \<Rightarrow> (s, fs, r))"

section \<open>Calls of the code under test\<close>

text \<open>A call that panics takes the test with it; its error is a value otherwise.\<close>

definition t_call :: "('q \<Rightarrow> 's \<Rightarrow> 's \<times> 'r reply) \<Rightarrow> 'q \<Rightarrow> ('s, 'r reply) test" where
  "t_call fn q s = (case fn q s of (s', r) \<Rightarrow> (s', [], (case r of Panics \<Rightarrow> Crashes | _ \<Rightarrow> Goes r)))"

text \<open>A call whose error ends the test, and one whose answer must also satisfy a condition.\<close>

definition t_must :: "('q \<Rightarrow> 's \<Rightarrow> 's \<times> 'r reply) \<Rightarrow> 'q \<Rightarrow> string \<Rightarrow> ('s, 'r) test" where
  "t_must fn q msg = t_bind (t_call fn q) (\<lambda>r. case r of Answers v \<Rightarrow> t_pure v | _ \<Rightarrow> t_Fatal msg)"

text \<open>\<^verbatim>\<open>err != nil || cond\<close>, and a result whose error was ignored or only reported.\<close>

fun reply_bad :: "'r reply \<Rightarrow> ('r \<Rightarrow> bool) \<Rightarrow> bool" where
  "reply_bad (Answers v) cond = cond v"
| "reply_bad _ cond = True"

fun reply_value :: "'r \<Rightarrow> 'r reply \<Rightarrow> 'r" where
  "reply_value zero (Answers v) = v"
| "reply_value zero _ = zero"

text \<open>A type assertion without \<^verbatim>\<open>ok\<close> on an optional interface.\<close>

definition t_assert :: "'a option \<Rightarrow> ('s, 'a) test" where
  "t_assert x = (case x of None \<Rightarrow> t_panic | Some v \<Rightarrow> t_pure v)"

section \<open>Passing\<close>

definition t_passes :: "('s, 'a) test \<Rightarrow> 's \<Rightarrow> bool" where
  "t_passes m s \<longleftrightarrow> fst (snd (m s)) = [] \<and> (case snd (snd (m s)) of Crashes \<Rightarrow> False | _ \<Rightarrow> True)"

lemma t_passes_basic [simp]:
  "t_passes (t_pure v) s" "t_passes t_Skip s"
  "\<not> t_passes (t_Error msg) s" "\<not> t_passes (t_Fatal msg) s" "\<not> t_passes t_panic s"
  by (simp_all add: t_passes_def t_pure_def t_Skip_def t_Error_def t_Fatal_def t_panic_def)

lemma t_passes_ifs [simp]:
  "t_passes (t_error_if b msg) s \<longleftrightarrow> \<not> b"
  "t_passes (t_fatal_if b msg) s \<longleftrightarrow> \<not> b"
  "t_passes (t_when b m) s \<longleftrightarrow> (b \<longrightarrow> t_passes m s)"
  by (simp_all add: t_error_if_def t_fatal_if_def t_when_def)

lemma t_bind_pure [simp]: "t_bind (t_pure v) k = k v"
  by (rule ext) (simp add: t_bind_def t_pure_def)

lemma t_bind_stop [simp]:
  "t_bind (t_Fatal msg) k = t_Fatal msg" "t_bind t_Skip k = t_Skip" "t_bind t_panic k = t_panic"
  by (rule ext, simp add: t_bind_def t_Fatal_def t_Skip_def t_panic_def)+

lemma t_bind_assoc: "t_bind (t_bind m k) l = t_bind m (\<lambda>v. t_bind (k v) l)"
  by (rule ext) (simp add: t_bind_def split: prod.split progress.split)

lemma t_passes_Run [simp]: "t_passes (t_Run name m) s \<longleftrightarrow> t_passes m s"
  by (auto simp: t_passes_def t_Run_def split: prod.split progress.splits)

lemma t_passes_fresh [simp]: "t_passes (t_fresh s0 m) s \<longleftrightarrow> t_passes m s0"
  by (auto simp: t_passes_def t_fresh_def split: prod.split)

text \<open>A sequence passes when its parts do, in the states they are run in.\<close>

lemma t_passes_bind:
  "t_passes (t_bind m k) s \<longleftrightarrow> t_passes m s \<and>
     (case snd (snd (m s)) of Goes v \<Rightarrow> t_passes (k v) (fst (m s)) | _ \<Rightarrow> True)"
  by (auto simp: t_passes_def t_bind_def split: prod.splits progress.splits)

text \<open>A test that only looks: it neither changes the state nor stops.\<close>

definition t_looks :: "('s, unit) test \<Rightarrow> bool" where
  "t_looks m \<longleftrightarrow> (\<forall>s. fst (m s) = s \<and> snd (snd (m s)) = Goes ())"

lemma t_looks_intros [simp]:
  "t_looks t_ok" "t_looks (t_Error msg)" "t_looks (t_error_if b msg)"
  "t_looks m \<Longrightarrow> t_looks (t_when b m)"
  by (auto simp: t_looks_def t_pure_def t_Error_def t_error_if_def t_when_def)

lemma t_looks_if [simp]: "t_looks m \<Longrightarrow> t_looks n \<Longrightarrow> t_looks (if b then m else n)"
  by simp

lemma t_passes_look: "t_looks m \<Longrightarrow> t_passes (t_bind m k) s \<longleftrightarrow> t_passes m s \<and> t_passes (k ()) s"
  by (simp add: t_passes_bind t_looks_def)

lemma t_looks_bind [simp]: "t_looks m \<Longrightarrow> (\<And>v. t_looks (k v)) \<Longrightarrow> t_looks (t_bind m k)"
  unfolding t_looks_def t_bind_def by (simp add: split_beta split: prod.split progress.split)

lemma t_looks_each [simp]: "(\<And>x. t_looks (f x)) \<Longrightarrow> t_looks (t_each xs f)"
  by (induction xs) simp_all

lemma t_passes_each: "(\<And>x. t_looks (f x)) \<Longrightarrow> t_passes (t_each xs f) s \<longleftrightarrow> (\<forall>x\<in>set xs. t_passes (f x) s)"
  by (induction xs) (simp_all add: t_passes_look)

lemma t_passes_steps:
  "list_all t_looks ms \<Longrightarrow> t_passes (t_steps ms) s \<longleftrightarrow> (\<forall>m\<in>set ms. t_passes m s)"
  by (induction ms) (simp_all add: t_passes_look)

lemma t_bind_call:
  "t_bind (t_call fn q) k s = (case fn q s of (s', r) \<Rightarrow> if r = Panics then (s', [], Crashes) else k r s')"
  by (simp add: t_bind_def t_call_def split: prod.split reply.split)

lemma t_passes_call:
  "t_passes (t_bind (t_call fn q) k) s \<longleftrightarrow>
     (case fn q s of (s', r) \<Rightarrow> r \<noteq> Panics \<and> t_passes (k r) s')"
  by (auto simp: t_passes_def t_bind_call split: prod.split)

lemma t_passes_must:
  "t_passes (t_bind (t_must fn q msg) k) s \<longleftrightarrow>
     (\<exists>s' v. fn q s = (s', Answers v) \<and> t_passes (k v) s')"
  by (cases "fn q s"; cases "snd (fn q s)") (auto simp: t_must_def t_bind_assoc t_passes_call)

end
