(* ===== verification/GoUrl.thy ===== *)
theory GoUrl
  imports GoStrings
begin

text \<open>
  \<^verbatim>\<open>net/url\<close>, as far as the repository reads its result: whether \<^verbatim>\<open>url.Parse\<close> accepts a
  text, the scheme, whether there is user information, and the host.
\<close>

record URL =
  url_Scheme :: string
  url_User :: bool
  url_Host :: string

definition hex_char :: "char \<Rightarrow> bool" where
  "hex_char c \<longleftrightarrow> is_digit c \<or> 65 \<le> byte_val c \<and> byte_val c \<le> 70 \<or> 97 \<le> byte_val c \<and> byte_val c \<le> 102"

definition letter :: "char \<Rightarrow> bool" where
  "letter c \<longleftrightarrow> 65 \<le> byte_val c \<and> byte_val c \<le> 90 \<or> 97 \<le> byte_val c \<and> byte_val c \<le> 122"

definition in_chars :: "char \<Rightarrow> string \<Rightarrow> bool" where
  "in_chars c s = list_ex (\<lambda>d. d = c) s"

text \<open>\<^verbatim>\<open>unescape\<close> of a path, a user name or a fragment fails only on a broken escape.\<close>

fun escapes_ok :: "string \<Rightarrow> bool" where
  "escapes_ok [] = True"
| "escapes_ok (c # s) =
     (if c = CHR ''%''
      then (case s of a # b # s' \<Rightarrow> hex_char a \<and> hex_char b | _ \<Rightarrow> False) \<and> escapes_ok (drop 2 s)
      else escapes_ok s)"

text \<open>In a host an escape must stand for a byte that is not ASCII, or be \<^verbatim>\<open>%25\<close>.\<close>

definition host_plain :: "char \<Rightarrow> bool" where
  "host_plain c \<longleftrightarrow> letter c \<or> is_digit c \<or> 128 \<le> byte_val c \<or> in_chars c (''-_.~!$&()*+,;=:[]<>'' @ [CHR 0x27, CHR 0x22])"

fun host_ok :: "string \<Rightarrow> bool" where
  "host_ok [] = True"
| "host_ok (c # s) =
     (if c = CHR ''%''
      then (case s of a # b # s' \<Rightarrow> hex_char a \<and> hex_char b \<and>
              (\<not> (is_digit a \<and> byte_val a < 56) \<or> a = CHR ''2'' \<and> b = CHR ''5'') | _ \<Rightarrow> False) \<and> host_ok (drop 2 s)
      else host_plain c \<and> host_ok s)"

definition port_ok :: "string \<Rightarrow> bool" where
  "port_ok s = (case s of [] \<Rightarrow> True | c # ds \<Rightarrow> c = CHR '':'' \<and> list_all is_digit ds)"

text \<open>The text before the first and after the last occurrence of a character.\<close>

definition before_first :: "char \<Rightarrow> string \<Rightarrow> string" where
  "before_first c s = takeWhile (\<lambda>d. d \<noteq> c) s"

definition after_last :: "char \<Rightarrow> string \<Rightarrow> string" where
  "after_last c s = rev (takeWhile (\<lambda>d. d \<noteq> c) (rev s))"

text \<open>
  \<^verbatim>\<open>parseHost\<close>; a zone in brackets (\<^verbatim>\<open>[fe80::1%25en0]\<close>) is checked as the rest of the
  host is.
\<close>

definition parse_host :: "string \<Rightarrow> bool" where
  "parse_host h =
     (if has_prefix h ''['' then in_chars (CHR '']'') h \<and> port_ok (after_last (CHR '']'') h) \<and> host_ok h
      else (if in_chars (CHR '':'') h then port_ok (CHR '':'' # after_last (CHR '':'') h) else True) \<and> host_ok h)"

definition userinfo_ok :: "string \<Rightarrow> bool" where
  "userinfo_ok u \<longleftrightarrow>
     list_all (\<lambda>c. letter c \<or> is_digit c \<or> in_chars c (''-._:~!$&()*+,;=%@'' @ [CHR 0x27])) u \<and> escapes_ok u"

definition parse_authority :: "string \<Rightarrow> (bool \<times> string) option" where
  "parse_authority a =
     (let host = after_last (CHR ''@'') a
      in if \<not> parse_host host then None
         else if \<not> in_chars (CHR ''@'') a then Some (False, host)
         else if userinfo_ok (take (length a - length host - 1) a) then Some (True, host) else None)"

text \<open>\<^verbatim>\<open>getScheme\<close>: the scheme and the rest; \<open>None\<close> for a text that starts with a colon.\<close>

fun scheme_length :: "bool \<Rightarrow> string \<Rightarrow> nat option" where
  "scheme_length first [] = None"
| "scheme_length first (c # s) =
     (if letter c then map_option Suc (scheme_length False s)
      else if is_digit c \<or> in_chars c ''+-.'' then (if first then None else map_option Suc (scheme_length False s))
      else if c = CHR '':'' then Some 0
      else None)"

definition get_scheme :: "string \<Rightarrow> (string \<times> string) option" where
  "get_scheme raw =
     (case scheme_length True raw of
        None \<Rightarrow> Some ('''', raw)
      | Some n \<Rightarrow> if n = 0 then None else Some (take n raw, drop (n + 1) raw))"

text \<open>\<^verbatim>\<open>parse\<close> after the scheme, on the text before the query.\<close>

definition parse_rest :: "string \<Rightarrow> string \<Rightarrow> URL option" where
  "parse_rest scheme rest =
     (if \<not> has_prefix rest ''/'' \<and> scheme \<noteq> '''' then Some \<lparr>url_Scheme = scheme, url_User = False, url_Host = ''''\<rparr>
      else if \<not> has_prefix rest ''/'' \<and> in_chars (CHR '':'') (before_first (CHR ''/'') rest) then None
      else if (scheme \<noteq> '''' \<or> \<not> has_prefix rest ''///'') \<and> has_prefix rest ''//''
      then (let authority = before_first (CHR ''/'') (drop 2 rest); path = drop (2 + length authority) rest
            in case parse_authority authority of
                 None \<Rightarrow> None
               | Some (user, host) \<Rightarrow>
                   if escapes_ok path then Some \<lparr>url_Scheme = scheme, url_User = user, url_Host = host\<rparr> else None)
      else if escapes_ok rest then Some \<lparr>url_Scheme = scheme, url_User = False, url_Host = ''''\<rparr>
      else None)"

definition url_parse :: "string \<Rightarrow> URL option" where
  "url_parse raw =
     (let u = before_first (CHR ''#'') raw; frag = drop (length u + 1) raw
      in if list_ex (\<lambda>c. byte_val c < 32 \<or> byte_val c = 127) u \<or> \<not> escapes_ok frag then None
         else if u = ''*'' then Some \<lparr>url_Scheme = '''', url_User = False, url_Host = ''''\<rparr>
         else case get_scheme u of
           None \<Rightarrow> None
         | Some (scheme, rest) \<Rightarrow> parse_rest (map lower_byte scheme) (before_first (CHR ''?'') rest))"

lemma url_examples:
  "url_parse ''https://fake.test/acme/web.git'' = Some \<lparr>url_Scheme = ''https'', url_User = False, url_Host = ''fake.test''\<rparr>"
  "url_parse ''HTTP://bot:pw@h:80/x'' = Some \<lparr>url_Scheme = ''http'', url_User = True, url_Host = ''h:80''\<rparr>"
  "url_parse ''acme/web'' = Some \<lparr>url_Scheme = '''', url_User = False, url_Host = ''''\<rparr>"
  "url_parse ''https://a b/'' = None"
  by code_simp+

end
