(* ===== verification/Conformance.thy ===== *)
theory Conformance
  imports GoTest GoUrl Wire
begin

text \<open>
  \<^verbatim>\<open>gitprovider/conformance/conformance.go\<close>, first part: the fixtures, the helpers of the
  tests, and the tests of the description, the wire, the setup, the repositories and the
  webhooks.  A test is a computation over the state of the provider \<open>p\<close> it is given
  (\<^verbatim>\<open>h.New(t)\<close>), with the fixtures \<open>f\<close>.  A value returned beside an error is read as the
  zero value.
\<close>

section \<open>Fixtures\<close>

record Want =
  wn_Kind :: EventKind
  wn_Action :: string
  wn_RepoPath :: string
  wn_SubjectKind :: SubjectKind
  wn_SubjectNumber :: string
  wn_ActorLogin :: string
  wn_ActorKind :: ActorKind
  wn_Addressed :: "AddressVia list"
  wn_CheckConclusion :: string

record WebhookCase =
  wc_Name :: string
  wc_Request :: WebhookRequest
  wc_Want :: "Want list"

record Fixtures =
  fx_Identity :: IdentityRef
  fx_IdentityKind :: IdentityKind
  fx_Repo :: RepoRef
  fx_InvisibleRepo :: RepoRef
  fx_RepoURL :: string
  fx_Candidates :: "IdentityRef list"
  fx_ExpectedRepoPaths :: "string list"
  fx_ChangeRequest :: string
  fx_MissingCR :: string
  fx_ChangedFiles :: "string list"
  fx_HeadSHA :: string
  fx_FailingCheckID :: string
  fx_IssueNumber :: string
  fx_ThreadID :: string
  fx_Actors :: "(string \<times> Permission) list"
  fx_Webhooks :: "WebhookCase list"
  fx_BadSignature :: WebhookRequest
  fx_Secrets :: "string list"
  fx_SetupHost :: string
  fx_SetupCompleteParams :: "(string \<times> string) list"
  fx_MutationsAllowed :: bool
  fx_NewBranchHead :: string
  fx_DraftBranchHead :: string
  fx_IdempotentBranchHead :: string
  fx_NewBranchName :: string
  fx_BaseBranch :: string
  fx_File_Ref :: string
  fx_File_Path :: string
  fx_SearchQuery :: string
  fx_Reviewer :: string
  fx_AccessGrantParams :: "(string \<times> string) list"
  fx_AccessOwner :: string

text \<open>\<^verbatim>\<open>New\<close> is missing, or gives the provider and its state on every call.\<close>

record 's Harness =
  hn_New :: "('s Provider \<times> 's) option"
  hn_Fixtures :: Fixtures

section \<open>Helpers\<close>

definition target :: "Fixtures \<Rightarrow> Target" where
  "target f = \<lparr>tg_identity = fx_Identity f, tg_repo = fx_Repo f\<rparr>"

definition noLeak :: "Fixtures \<Rightarrow> string \<Rightarrow> ('s, unit) test" where
  "noLeak f text = t_each (fx_Secrets f) (\<lambda>s. t_fatal_if (s \<noteq> '''' \<and> contains text s) ''secret leaked'')"

definition mustCode :: "Fixtures \<Rightarrow> 'r reply \<Rightarrow> ErrorCode list \<Rightarrow> ('s, unit) test" where
  "mustCode f r codes =
     (case r of
        Fails err \<Rightarrow>
          (case errors_As err of
             None \<Rightarrow> t_Fatal ''unclassified error''
           | Some pe \<Rightarrow>
               if list_ex (\<lambda>c. er_code pe = c) codes then noLeak f (er_message pe) else t_Fatal ''error code'')
      | _ \<Rightarrow> t_Fatal ''expected an error'')"

text \<open>A call and \<^verbatim>\<open>mustCode\<close> on its error.\<close>

definition t_refused :: "Fixtures \<Rightarrow> ('q \<Rightarrow> 's \<Rightarrow> 's \<times> 'r reply) \<Rightarrow> 'q \<Rightarrow> ErrorCode list \<Rightarrow> ('s, unit) test" where
  "t_refused f fn q codes = t_bind (t_call fn q) (\<lambda>r. mustCode f r codes)"

definition orDefault :: "string \<Rightarrow> string \<Rightarrow> string" where
  "orDefault v def = (if v \<noteq> '''' then v else def)"

definition isValidTrigger :: "TriggerKind \<Rightarrow> bool" where
  "isValidTrigger k = list_ex (\<lambda>v. v = k) AllTriggerKinds"

definition validEventKind :: "EventKind \<Rightarrow> bool" where
  "validEventKind k = list_ex (\<lambda>v. v = k) AllEventKinds"

definition mustJSON :: "json option \<Rightarrow> string" where
  "mustJSON v = marshal_or_nil v"

definition sorted_join :: "string list \<Rightarrow> string" where
  "sorted_join xs = join (sort xs) '',''"

definition list_contains :: "string list \<Rightarrow> string \<Rightarrow> bool" where
  "list_contains xs s = list_ex (\<lambda>v. v = s) xs"

text \<open>\<^verbatim>\<open>p.Describe()\<close> in a test.\<close>

definition t_describe :: "'s Provider \<Rightarrow> ('s, Info) test" where
  "t_describe p s = (s, [], case pv_Describe p s of Panicked \<Rightarrow> Crashes | Returned info \<Rightarrow> Goes info)"

definition t_caps :: "'s Provider \<Rightarrow> ('s, Capabilities) test" where
  "t_caps p = t_bind (t_describe p) (\<lambda>info. t_pure (info_capabilities info))"

section \<open>Describe\<close>

definition valid_model :: "CredentialModel \<Rightarrow> bool" where
  "valid_model m \<longleftrightarrow> m = CredentialEphemeral \<or> m = CredentialStatic"

definition valid_scope :: "WebhookScope \<Rightarrow> bool" where
  "valid_scope w \<longleftrightarrow> w = WebhookApp \<or> w = WebhookGroup \<or> w = WebhookRepo"

text \<open>The loops over the triggers and over the kinds carry the sets \<^verbatim>\<open>seen\<close> and \<^verbatim>\<open>profiled\<close>.\<close>

fun describe_triggers :: "TriggerKind list \<Rightarrow> TriggerKind list \<Rightarrow> ('s, unit) test" where
  "describe_triggers seen [] = t_ok"
| "describe_triggers seen (k # ks) = t_steps
     [t_error_if (\<not> isValidTrigger k) ''unknown trigger'',
      t_error_if (list_contains seen k) ''duplicate trigger'',
      describe_triggers (k # seen) ks]"

fun describe_kinds :: "Capabilities \<Rightarrow> IdentityKind list \<Rightarrow> KindProfile list \<Rightarrow> ('s, unit) test" where
  "describe_kinds c profiled [] = t_ok"
| "describe_kinds c profiled (kp # kps) = t_steps
     [if \<not> list_contains (cap_identity_kinds c) (kp_kind kp) then t_Error ''Kinds names an undeclared kind''
      else t_error_if (list_contains profiled (kp_kind kp)) ''Kinds lists a kind twice'',
      t_error_if (\<not> valid_model (kp_credential_model kp)) ''Kinds CredentialModel'',
      t_error_if (\<not> valid_scope (kp_webhook_scope kp)) ''Kinds WebhookScope'',
      t_error_if (kp_access_grants kp \<and> \<not> cap_access_grants c) ''Kinds needs access grants'',
      describe_kinds c (kp_kind kp # profiled) kps]"

definition check_capability :: "string \<times> bool \<times> bool \<Rightarrow> ('s, unit) test" where
  "check_capability = (\<lambda>(name, declared, implemented).
     if declared \<and> \<not> implemented then t_Error (name @ '' is declared but not implemented'')
     else t_error_if (\<not> declared \<and> implemented) (name @ '' is implemented but not declared''))"

definition capability_checks :: "Capabilities \<Rightarrow> Capabilities \<Rightarrow> (string \<times> bool \<times> bool) list" where
  "capability_checks c impl =
     [(''issue_list'', cap_issue_list c, cap_issue_list impl),
      (''resolve_threads'', cap_resolve_threads c, cap_resolve_threads impl),
      (''file_read'', cap_file_read c, cap_file_read impl),
      (''code_search'', cap_code_search c, cap_code_search impl),
      (''labels'', cap_labels c, cap_labels impl),
      (''reviewer_requests'', cap_reviewer_requests c, cap_reviewer_requests impl),
      (''assignees'', cap_assignees c, cap_assignees impl),
      (''merge'', cap_merge c, cap_merge impl),
      (''rerun_checks'', cap_rerun_checks c, cap_rerun_checks impl),
      (''reactions'', cap_reactions c, cap_reactions impl),
      (''webhook_management'', cap_webhook_management c, cap_webhook_management impl),
      (''identity_deletion'', cap_identity_deletion c, cap_identity_deletion impl),
      (''identity_description'', cap_identity_description c, cap_identity_description impl),
      (''branches'', cap_branches c, cap_branches impl),
      (''access_grants'', cap_access_grants c, cap_access_grants impl)]"

definition describe_info :: "Info \<Rightarrow> ('s, unit) test" where
  "describe_info info = (let tm = info_terms info in t_steps
     [t_error_if (info_spi_version info \<noteq> SPIVersion) ''SPIVersion'',
      t_error_if (info_id info = '''' \<or> info_display_name info = '''') ''ID and DisplayName are required'',
      t_error_if (info_hosts info = []) ''at least one default host is required'',
      t_error_if (tm_change_request tm = '''' \<or> tm_change_request_plural tm = '''' \<or> tm_repository tm = '''') ''Terms''])"

definition describe_capabilities :: "Fixtures \<Rightarrow> Capabilities \<Rightarrow> ('s, unit) test" where
  "describe_capabilities f c = t_steps
     [t_error_if (cap_identity_kinds c = []) ''IdentityKinds must not be empty'',
      t_each (cap_identity_kinds c)
        (\<lambda>k. t_error_if (k \<noteq> IdentityApp \<and> k \<noteq> IdentityBotUser \<and> k \<noteq> IdentityToken) ''unknown identity kind''),
      t_error_if (\<not> valid_model (cap_credential_model c)) ''CredentialModel'',
      t_error_if (\<not> valid_scope (cap_webhook_scope c)) ''WebhookScope'',
      t_error_if (cap_status_kind c \<noteq> StatusCheckRun \<and> cap_status_kind c \<noteq> StatusCommitStatus \<and>
        cap_status_kind c \<noteq> StatusComment) ''StatusKind'',
      describe_triggers [] (cap_triggers c),
      t_each (cap_ci_config_globs c) (\<lambda>g. t_error_if (trim_space g = '''') ''CIConfigGlobs''),
      describe_kinds c [] (cap_kinds c),
      t_error_if (fx_IdentityKind f \<noteq> '''' \<and> \<not> list_contains (cap_identity_kinds c) (fx_IdentityKind f))
        ''Fixtures.IdentityKind'']"

definition testDescribe :: "'s Provider \<Rightarrow> Fixtures \<Rightarrow> ('s, unit) test" where
  "testDescribe p f = t_bind (t_describe p) (\<lambda>info. t_steps
     [describe_info info,
      describe_capabilities f (info_capabilities info),
      t_each (capability_checks (info_capabilities info) (Implemented p)) check_capability])"

section \<open>Wire\<close>

definition t_dispatch :: "(string \<Rightarrow> string) \<Rightarrow> 's Provider \<Rightarrow> string \<Rightarrow> bytes \<Rightarrow> ('s, int \<times> bytes) test" where
  "t_dispatch quote p opn body s = (case Dispatch quote p opn body s of (s', answer) \<Rightarrow> (s', [], Goes answer))"

definition read_envelope :: "bytes \<Rightarrow> Envelope option" where
  "read_envelope body = unmarshal zero_Envelope d_Envelope body"

text \<open>The envelope is a failure with one of two codes.\<close>

definition refused_envelope :: "Envelope option \<Rightarrow> bool" where
  "refused_envelope e =
     (case e of
        None \<Rightarrow> False
      | Some env \<Rightarrow> \<not> env_ok env \<and>
          (case env_error env of
             None \<Rightarrow> False
           | Some err \<Rightarrow> er_code err = CodeValidation \<or> er_code err = CodeUnsupported))"

definition other_operations :: "Operation list" where
  "other_operations = filter (\<lambda>op. op_Name op \<noteq> ''describe'') Operations"

definition not_json :: bytes where "not_json = ''{not json''"

definition wire_describe :: "(string \<Rightarrow> string) \<Rightarrow> 's Provider \<Rightarrow> ('s, unit) test" where
  "wire_describe quote p =
     t_bind (t_dispatch quote p ''describe'' []) (\<lambda>(status, body).
       t_bind (t_fatal_if (status \<noteq> 200) ''describe status'') (\<lambda>_.
         case read_envelope body of
           None \<Rightarrow> t_Fatal ''describe envelope''
         | Some env \<Rightarrow>
             if \<not> env_ok env then t_Fatal ''describe envelope''
             else t_bind (t_describe p) (\<lambda>info.
               t_error_if (env_result env \<noteq> mustJSON (e_Info info)) ''describe over the wire differs'')))"

definition wire_unknown :: "(string \<Rightarrow> string) \<Rightarrow> 's Provider \<Rightarrow> ('s, unit) test" where
  "wire_unknown quote p =
     t_bind (t_dispatch quote p ''no_such_operation'' []) (\<lambda>(status, body).
       t_error_if (status \<noteq> HTTPStatus CodeUnsupported \<or> \<not> contains body CodeUnsupported) ''unknown operation'')"

definition wire_refuses :: "(string \<Rightarrow> string) \<Rightarrow> 's Provider \<Rightarrow> bytes \<Rightarrow> string \<Rightarrow> ('s, unit) test" where
  "wire_refuses quote p body msg =
     t_each other_operations (\<lambda>op.
       t_bind (t_dispatch quote p (op_Name op) body) (\<lambda>(status, out).
         t_error_if (\<not> refused_envelope (read_envelope out)) (op_Name op @ msg)))"

definition testWire :: "(string \<Rightarrow> string) \<Rightarrow> 's Provider \<Rightarrow> ('s, unit) test" where
  "testWire quote p =
     t_bind (wire_describe quote p) (\<lambda>_. t_steps
       [wire_unknown quote p,
        wire_refuses quote p [] '' with an empty body'',
        wire_refuses quote p not_json '' with malformed body''])"

section \<open>Setup\<close>

definition setup_request :: "Fixtures \<Rightarrow> BeginSetupRequest" where
  "setup_request f = zero_BeginSetupRequest\<lparr>bs_scope := SetupShared, bs_host := fx_SetupHost f,
     bs_return_url := ''https://paca.test/return'', bs_callback_url := ''https://paca.test/cb'',
     bs_webhook_url := ''https://paca.test/hook''\<rparr>"

definition check_step :: "SetupStep \<Rightarrow> ('s, unit) test" where
  "check_step step =
     (if ss_kind step = StepRedirect \<or> ss_kind step = StepFormPost
      then t_error_if (ss_url step = '''') ''redirect/form_post steps need a URL''
      else if ss_kind step = StepTokenForm
      then t_steps
        [t_error_if (ss_prompt step = '''') ''token_form steps need a Prompt'',
         t_error_if (ss_form step = []) ''token_form steps must list their inputs'',
         t_each (ss_form step) (\<lambda>ff. t_error_if (ff_name ff = '''' \<or> ff_label ff = '''') ''form field needs a name and a label'')]
      else t_error_if (ss_kind step \<noteq> StepDone) ''unknown step kind'')"

definition setup_completes :: "'s Provider \<Rightarrow> Fixtures \<Rightarrow> SetupStep \<Rightarrow> ('s, unit) test" where
  "setup_completes p f step =
     t_bind (t_must (pv_CompleteIdentitySetup p)
         \<lparr>cs_scope = SetupShared, cs_host = fx_SetupHost f, cs_state = ss_state step, cs_params = fx_SetupCompleteParams f\<rparr>
         ''CompleteIdentitySetup'') (\<lambda>i. t_steps
       [t_error_if (ir_id (idn_ref i) = '''' \<or> idn_host i = '''' \<or> idn_display_name i = '''' \<or> idn_kind i = '''')
          ''incomplete identity'',
        noLeak f (mustJSON (e_Identity i))])"

definition testSetup :: "'s Provider \<Rightarrow> Fixtures \<Rightarrow> ('s, unit) test" where
  "testSetup p f =
     (if fx_SetupHost f = '''' then t_Skip
      else t_bind (t_must (pv_BeginIdentitySetup p) (setup_request f) ''BeginIdentitySetup'') (\<lambda>step. t_steps
        [check_step step,
         t_bind (t_call (pv_BeginIdentitySetup p)
             (zero_BeginSetupRequest\<lparr>bs_scope := SetupShared, bs_host := ''unknown.invalid''\<rparr>)) (\<lambda>r.
           case r of
             Fails err \<Rightarrow> mustCode f r [CodeValidation]
           | _ \<Rightarrow> t_Error ''an unknown host must be rejected''),
         t_bind (t_caps p) (\<lambda>caps.
           t_when (\<not> cap_multiple_identities caps)
             (t_refused f (pv_BeginIdentitySetup p)
               (zero_BeginSetupRequest\<lparr>bs_scope := SetupAgent, bs_host := fx_SetupHost f, bs_agent_id := ''a1'', bs_agent_name := ''dev''\<rparr>)
               [CodeUnsupported])),
         t_when (fx_SetupCompleteParams f \<noteq> []) (setup_completes p f step),
         t_refused f (pv_CompleteIdentitySetup p)
           (zero_CompleteSetupRequest\<lparr>cs_scope := SetupShared, cs_host := fx_SetupHost f\<rparr>)
           [CodeValidation, CodeInvalidSignature, CodeForbidden]]))"

section \<open>Repositories\<close>

definition check_repository :: "Repository \<Rightarrow> ('s, unit) test" where
  "check_repository r = (let ref = rp_ref r in t_steps
     [t_error_if (rr_host ref = '''' \<or> rr_full_path ref = '''' \<or> rr_clone_url ref = '''') ''repository needs host, full_path and clone_url'',
      t_error_if (case url_parse (rr_clone_url ref) of None \<Rightarrow> False | Some u \<Rightarrow> url_User u) ''clone_url must be credential-free''])"

text \<open>The loop over the pages, at most \<open>n\<close> of them; \<open>paged\<close> is what it has visited.\<close>

primrec repository_pages :: "nat \<Rightarrow> ('s, ListReposRequest, RepositoryPage) op \<Rightarrow> Fixtures \<Rightarrow> string \<Rightarrow> string list \<Rightarrow> ('s, string list) test" where
  "repository_pages 0 lister f cursor paged = t_pure paged"
| "repository_pages (Suc n) lister f cursor paged =
     t_bind (t_must lister
         (zero_ListReposRequest\<lparr>lr_identity := fx_Identity f, lr_page_size := 1, lr_cursor := cursor\<rparr>) ''paged ListRepositories'') (\<lambda>page.
       t_bind (t_fatal_if (1 < length (rpg_items page)) ''PageSize 1 returned more'') (\<lambda>_.
         let paged' = paged @ map (\<lambda>r. rr_full_path (rp_ref r)) (rpg_items page)
         in if rpg_next_cursor page = '''' then t_pure paged'
            else repository_pages n lister f (rpg_next_cursor page) paged'))"

definition resolve_checks :: "'s Provider \<Rightarrow> Fixtures \<Rightarrow> ('s, unit) test" where
  "resolve_checks p f =
     t_bind (t_must (pv_ResolveRepository p)
         (zero_ResolveRepoRequest\<lparr>rq_path_or_url := fx_RepoURL f, rq_candidates := fx_Candidates f\<rparr>) ''ResolveRepository'') (\<lambda>res. t_steps
       [t_error_if (rr_full_path (rp_ref (rd_repository res)) \<noteq> rr_full_path (fx_Repo f)) ''resolved another repository'',
        t_error_if (ir_id (rd_identity res) = '''') ''ResolveRepository must say which identity'',
        t_refused f (pv_ResolveRepository p) (zero_ResolveRepoRequest\<lparr>rq_path_or_url := fx_RepoURL f\<rparr>)
          [CodeForbidden, CodeNotFound]])"

definition testRepositories :: "'s Provider \<Rightarrow> Fixtures \<Rightarrow> ('s, unit) test" where
  "testRepositories p f =
     t_bind (t_must (pv_ListRepositories p) (zero_ListReposRequest\<lparr>lr_identity := fx_Identity f\<rparr>) ''ListRepositories'') (\<lambda>all.
       let paths = map (\<lambda>r. rr_full_path (rp_ref r)) (rpg_items all) in t_steps
       [t_each (rpg_items all) check_repository,
        t_error_if (fx_ExpectedRepoPaths f \<noteq> [] \<and> sorted_join paths \<noteq> sorted_join (fx_ExpectedRepoPaths f)) ''repositories'',
        t_bind (repository_pages 100 (pv_ListRepositories p) f '''' []) (\<lambda>paged.
          t_error_if (sorted_join paged \<noteq> sorted_join paths) ''paging visited other repositories''),
        t_refused f (pv_ListRepositories p)
          (zero_ListReposRequest\<lparr>lr_identity := zero_IdentityRef\<lparr>ir_id := ''no-such-identity''\<rparr>\<rparr>) [CodeForbidden, CodeNotFound],
        t_when (fx_RepoURL f \<noteq> '''') (resolve_checks p f),
        t_refused f (pv_ResolveRepository p)
          (zero_ResolveRepoRequest\<lparr>rq_path_or_url := ''definitely/not-a-repo-xyz'', rq_candidates := fx_Candidates f\<rparr>)
          [CodeNotFound, CodeForbidden]])"

section \<open>Webhooks\<close>

definition triggerFor :: "AddressVia \<Rightarrow> TriggerKind" where
  "triggerFor v =
     (if v = ViaMention then TriggerMention
      else if v = ViaReviewRequest then TriggerReviewRequest
      else if v = ViaAssignment then TriggerAssignment
      else TriggerLabel)"

definition check_subject :: "EventSubject \<Rightarrow> ('s, unit) test" where
  "check_subject sub = t_steps
     [t_error_if (es_kind sub \<noteq> SubjectIssue \<and> es_kind sub \<noteq> SubjectChangeRequest) ''subject kind is invalid'',
      t_error_if (es_number sub = '''') ''subject number is required'',
      t_error_if (es_url sub \<noteq> '''' \<and>
        (case url_parse (es_url sub) of
           None \<Rightarrow> True
         | Some u \<Rightarrow> url_Scheme u \<noteq> ''http'' \<and> url_Scheme u \<noteq> ''https'' \<or> url_Host u = '''')) ''subject url'']"

definition check_addressed :: "Fixtures \<Rightarrow> Capabilities \<Rightarrow> Addressed \<Rightarrow> ('s, unit) test" where
  "check_addressed f caps a = t_steps
     [t_error_if (ad_identity_id a \<noteq> ir_id (fx_Identity f)) ''addressed identity is not the fixture identity'',
      if ad_via a = ViaMention \<or> ad_via a = ViaReviewRequest \<or> ad_via a = ViaAssignment \<or> ad_via a = ViaLabel
      then t_error_if (\<not> SupportsTrigger caps (triggerFor (ad_via a))) ''the trigger is not declared''
      else t_Error ''unknown addressed.via'']"

definition event_checks :: "Fixtures \<Rightarrow> Capabilities \<Rightarrow> Event \<Rightarrow> ('s, unit) test list" where
  "event_checks f caps ev = (let actor = ev_actor ev in
     [t_error_if (ev_id ev = '''') ''event id is required'',
      t_error_if (\<not> validEventKind (ev_kind ev)) ''unknown event kind'',
      t_error_if (ev_action ev = '''') ''event action is required'',
      t_error_if (rr_full_path (ev_repo ev) = '''' \<or> rr_host (ev_repo ev) = '''') ''event repo needs host and full_path'',
      t_error_if (ac_login actor = '''') ''event actor login is required'',
      t_error_if (ac_kind actor \<noteq> ActorUser \<and> ac_kind actor \<noteq> ActorBot) ''actor kind is invalid'',
      t_error_if (ac_permission actor \<noteq> '''' \<and> \<not> Permission_Valid (ac_permission actor)) ''actor permission is invalid'',
      (case ev_subject ev of None \<Rightarrow> t_ok | Some sub \<Rightarrow> check_subject sub),
      t_error_if (ev_kind ev = EventCheck \<and> (case ev_check ev of None \<Rightarrow> True | Some c \<Rightarrow> ci_conclusion c = ''''))
        ''check events need check.conclusion'',
      t_error_if (ev_kind ev = EventPush \<and> (case ev_push ev of None \<Rightarrow> True | Some u \<Rightarrow> pu_ref u = '''')) ''push events need push.ref'',
      t_each (ev_addressed ev) (check_addressed f caps)])"

definition checkEventInvariants :: "Fixtures \<Rightarrow> Capabilities \<Rightarrow> Event \<Rightarrow> ('s, unit) test" where
  "checkEventInvariants f caps ev = t_steps (event_checks f caps ev @ [noLeak f (mustJSON (e_Event ev))])"

definition subject_differs :: "Event \<Rightarrow> (EventSubject \<Rightarrow> bool) \<Rightarrow> bool" where
  "subject_differs ev same = (case ev_subject ev of None \<Rightarrow> True | Some sub \<Rightarrow> \<not> same sub)"

definition checkWant :: "Event \<Rightarrow> Want \<Rightarrow> Capabilities \<Rightarrow> ('s, unit) test" where
  "checkWant ev w caps = t_steps
     [t_error_if (ev_kind ev \<noteq> wn_Kind w) ''kind'',
      t_error_if (wn_Action w \<noteq> '''' \<and> ev_action ev \<noteq> wn_Action w) ''action'',
      t_error_if (wn_RepoPath w \<noteq> '''' \<and> rr_full_path (ev_repo ev) \<noteq> wn_RepoPath w) ''repo'',
      t_error_if (wn_SubjectKind w \<noteq> '''' \<and> subject_differs ev (\<lambda>sub. es_kind sub = wn_SubjectKind w)) ''subject kind'',
      t_error_if (wn_SubjectNumber w \<noteq> '''' \<and> subject_differs ev (\<lambda>sub. es_number sub = wn_SubjectNumber w)) ''subject number'',
      t_error_if (wn_ActorLogin w \<noteq> '''' \<and> ac_login (ev_actor ev) \<noteq> wn_ActorLogin w) ''actor'',
      t_error_if (wn_ActorKind w \<noteq> '''' \<and> ac_kind (ev_actor ev) \<noteq> wn_ActorKind w) ''actor kind'',
      t_error_if (sorted_join (map ad_via (ev_addressed ev)) \<noteq>
        sorted_join (filter (\<lambda>v. SupportsTrigger caps (triggerFor v)) (wn_Addressed w))) ''addressed'',
      t_error_if (wn_CheckConclusion w \<noteq> '''' \<and>
        (case ev_check ev of None \<Rightarrow> True | Some c \<Rightarrow> ci_conclusion c \<noteq> wn_CheckConclusion w)) ''check conclusion'']"

fun check_events :: "Fixtures \<Rightarrow> Capabilities \<Rightarrow> string list \<Rightarrow> (Event \<times> Want) list \<Rightarrow> ('s, unit) test" where
  "check_events f caps ids [] = t_ok"
| "check_events f caps ids ((ev, w) # rest) = t_steps
     [checkEventInvariants f caps ev,
      t_error_if (list_contains ids (ev_id ev)) ''duplicate event id within one delivery'',
      checkWant ev w caps,
      check_events f caps (ev_id ev # ids) rest]"

definition webhook_case :: "'s Provider \<Rightarrow> Fixtures \<Rightarrow> Capabilities \<Rightarrow> WebhookCase \<Rightarrow> ('s, unit) test" where
  "webhook_case p f caps wc =
     t_bind (t_must (pv_VerifyAndParseWebhook p) (wc_Request wc) ''VerifyAndParseWebhook'') (\<lambda>evs. t_steps
       [t_fatal_if (length evs \<noteq> length (wc_Want wc)) ''number of events'',
        check_events f caps [] (zip evs (wc_Want wc)),
        t_bind (t_call (pv_VerifyAndParseWebhook p) (wc_Request wc)) (\<lambda>r. t_steps
          [t_fatal_if (reply_bad r (\<lambda>again. length again \<noteq> length evs)) ''second parse'',
           t_each (zip (reply_value [] r) evs) (\<lambda>(a, ev). t_error_if (ev_id a \<noteq> ev_id ev) ''event id is not deterministic'')])])"

definition testWebhooks :: "'s Provider \<Rightarrow> Fixtures \<Rightarrow> ('s, unit) test" where
  "testWebhooks p f =
     t_bind (t_caps p) (\<lambda>caps. t_steps
       [if wr_body (fx_BadSignature f) \<noteq> [] \<or> wr_headers (fx_BadSignature f) \<noteq> []
        then t_bind (t_call (pv_VerifyAndParseWebhook p) (fx_BadSignature f)) (\<lambda>r. t_steps
          [mustCode f r [CodeInvalidSignature],
           t_error_if (reply_value [] r \<noteq> []) ''a delivery that fails verification must produce no events''])
        else t_Error ''Fixtures.BadSignature is required'',
        t_fatal_if (fx_Webhooks f = []) ''Fixtures.Webhooks is required'',
        t_each (fx_Webhooks f) (\<lambda>wc. t_Run (wc_Name wc) (webhook_case p f caps wc))])"

end
