(* ===== verification/ConformanceReads.thy ===== *)
theory ConformanceReads
  imports Conformance
begin

text \<open>
  \<^verbatim>\<open>conformance.go\<close>, second part: the tests of the credentials, the policy inputs, the
  reads, the operations that are not declared, the identity's description and the access
  grants.  \<open>now\<close> is the time the test reads from the clock.
\<close>

section \<open>Credentials\<close>

definition fixtureKind :: "Fixtures \<Rightarrow> Capabilities \<Rightarrow> IdentityKind" where
  "fixtureKind f caps =
     (if fx_IdentityKind f \<noteq> '''' then fx_IdentityKind f
      else case cap_identity_kinds caps of k # _ \<Rightarrow> k | [] \<Rightarrow> '''')"

definition minutes :: "int \<Rightarrow> int" where
  "minutes n = n * 60000000000"

definition check_expiry :: "gotime \<Rightarrow> gotime \<Rightarrow> ('s, unit) test" where
  "check_expiry now expires =
     (let d = expires - now
      in if expires = 0 then t_Error ''ephemeral credentials must carry ExpiresAt''
         else if d \<le> 0 \<or> minutes 65 < d then t_Error ''ephemeral credential lifetime is outside (0, 65m]''
         else t_error_if (minutes 10 < d) ''ephemeral credential lifetime exceeds the requested TTL'')"

definition mint_checks :: "gotime \<Rightarrow> 's Provider \<Rightarrow> Fixtures \<Rightarrow> Capabilities \<Rightarrow> Access \<Rightarrow> ('s, unit) test" where
  "mint_checks now p f caps access =
     t_bind (t_must (pv_MintCredential p) \<lparr>mr_target = target f, mr_access = access, mr_ttl_seconds = 300\<rparr> ''MintCredential'') (\<lambda>c. t_steps
       [t_error_if (cd_secret c = '''' \<or> cd_username c = '''') ''credential needs username and secret'',
        t_when (kp_credential_model (Profile caps (fixtureKind f caps)) = CredentialEphemeral)
          (check_expiry now (cd_expires_at c))])"

definition testCredentials :: "gotime \<Rightarrow> 's Provider \<Rightarrow> Fixtures \<Rightarrow> ('s, unit) test" where
  "testCredentials now p f =
     t_bind (t_caps p) (\<lambda>caps. t_steps
       [t_each [AccessRead, AccessWrite] (mint_checks now p f caps),
        t_refused f (pv_MintCredential p) (zero_MintRequest\<lparr>mr_target := target f, mr_access := ''admin''\<rparr>) [CodeValidation],
        t_when (rr_full_path (fx_InvisibleRepo f) \<noteq> '''')
          (t_refused f (pv_MintCredential p)
            (zero_MintRequest\<lparr>mr_target := \<lparr>tg_identity = fx_Identity f, tg_repo = fx_InvisibleRepo f\<rparr>, mr_access := AccessRead\<rparr>)
            [CodeNotFound, CodeForbidden])])"

section \<open>Policy inputs\<close>

definition actor_checks :: "'s Provider \<Rightarrow> Fixtures \<Rightarrow> string \<times> Permission \<Rightarrow> ('s, unit) test" where
  "actor_checks p f = (\<lambda>(login, want).
     t_bind (t_must (pv_GetActorPermission p) \<lparr>ap_target = target f, ap_login = login\<rparr> ''GetActorPermission'') (\<lambda>got. t_steps
       [t_error_if (\<not> Permission_Valid got) ''not a defined permission'',
        t_error_if (got \<noteq> want) ''GetActorPermission'']))"

definition testPolicyInputs :: "'s Provider \<Rightarrow> Fixtures \<Rightarrow> ('s, unit) test" where
  "testPolicyInputs p f = t_steps
     [t_each (fx_Actors f) (actor_checks p f),
      t_bind (t_call (pv_GetActorPermission p) \<lparr>ap_target = target f, ap_login = ''nobody-at-all-xyz''\<rparr>) (\<lambda>r.
        t_error_if (reply_bad r (\<lambda>got. got \<noteq> PermissionNone)) ''unknown login''),
      t_bind (t_call (pv_GetBranchProtection p) \<lparr>bq_target = target f, bq_branch = rr_default_branch (fx_Repo f)\<rparr>) (\<lambda>r.
        t_error_if (reply_bad r (\<lambda>_. False)) ''GetBranchProtection'')]"

section \<open>Reads\<close>

definition fixture_cr :: "Fixtures \<Rightarrow> PagedCRRequest" where
  "fixture_cr f = zero_PagedCRRequest\<lparr>pcr_target := target f, pcr_number := fx_ChangeRequest f\<rparr>"

definition fixture_diff :: "Fixtures \<Rightarrow> DiffRequest" where
  "fixture_diff f = zero_DiffRequest\<lparr>dr_target := target f, dr_number := fx_ChangeRequest f\<rparr>"

definition no_such_file :: string where "no_such_file = ''no/such/file.xyz''"

definition reads_change_request :: "'s Provider \<Rightarrow> Fixtures \<Rightarrow> ('s, unit) test" where
  "reads_change_request p f =
     t_bind (t_must (pv_GetChangeRequest p) \<lparr>crq_target = target f, crq_number = fx_ChangeRequest f\<rparr> ''GetChangeRequest'') (\<lambda>cr. t_steps
       [t_error_if (cr_state cr \<noteq> CROpen \<and> cr_state cr \<noteq> CRClosed \<and> cr_state cr \<noteq> CRMerged) ''state is invalid'',
        t_error_if (cr_number cr \<noteq> fx_ChangeRequest f \<or> cr_title cr = '''' \<or> br_ref (cr_head cr) = '''' \<or>
          br_ref (cr_base cr) = '''' \<or> cr_url cr = '''' \<or> cr_author cr = '''') ''incomplete change request'',
        t_refused f (pv_GetChangeRequest p) \<lparr>crq_target = target f, crq_number = fx_MissingCR f\<rparr> [CodeNotFound]])"

text \<open>The files of one page, and the pages, at most \<open>n\<close>; \<open>files\<close> is what has been seen.\<close>

fun note_files :: "string list \<Rightarrow> ChangedFile list \<Rightarrow> ('s, string list) test" where
  "note_files files [] = t_pure files"
| "note_files files (cf # cfs) =
     t_bind (t_error_if (list_contains files (cf_path cf)) ''file listed twice across pages'') (\<lambda>_.
       note_files (files @ [cf_path cf]) cfs)"

primrec file_pages :: "nat \<Rightarrow> ('s, PagedCRRequest, ChangedFilePage) op \<Rightarrow> Fixtures \<Rightarrow> string \<Rightarrow> string list \<Rightarrow> ('s, string list) test" where
  "file_pages 0 lister f cursor files = t_pure files"
| "file_pages (Suc n) lister f cursor files =
     t_bind (t_must lister (fixture_cr f\<lparr>pcr_cursor := cursor\<rparr>) ''ListChangedFiles'') (\<lambda>page.
       t_bind (note_files files (cfp_items page)) (\<lambda>files'.
         if cfp_next_cursor page = '''' then t_pure files'
         else file_pages n lister f (cfp_next_cursor page) files'))"

text \<open>\<^verbatim>\<open>sort.Strings(files)\<close> sorts in place: the first file is the least.\<close>

definition reads_diff :: "'s Provider \<Rightarrow> Fixtures \<Rightarrow> string list \<Rightarrow> ('s, unit) test" where
  "reads_diff p f files =
     t_bind (t_must (pv_GetDiff p) (fixture_diff f) ''GetDiff'') (\<lambda>full. t_steps
       [t_fatal_if (df_text full = '''') ''GetDiff'',
        (case files of
           [] \<Rightarrow> t_ok
         | path # _ \<Rightarrow>
             t_bind (t_call (pv_GetDiff p) (fixture_diff f\<lparr>dr_path := path\<rparr>)) (\<lambda>r. t_steps
               [t_error_if (reply_bad r (\<lambda>one. df_text one = '''' \<or> length (df_text full) < length (df_text one))) ''per-file GetDiff'',
                t_refused f (pv_GetDiff p) (fixture_diff f\<lparr>dr_path := no_such_file\<rparr>) [CodeNotFound]])),
        t_when (20 < length (df_text full))
          (t_bind (t_must (pv_GetDiff p) (fixture_diff f\<lparr>dr_max_bytes := 10\<rparr>) ''GetDiff with MaxBytes'') (\<lambda>cut.
            t_error_if (10 < length (df_text cut) \<or> \<not> df_truncated cut \<or> \<not> valid_utf8 (df_text cut)) ''MaxBytes=10''))])"

definition reads_files :: "'s Provider \<Rightarrow> Fixtures \<Rightarrow> ('s, unit) test" where
  "reads_files p f =
     t_bind (file_pages 100 (pv_ListChangedFiles p) f '''' []) (\<lambda>files. t_steps
       [t_error_if (fx_ChangedFiles f \<noteq> [] \<and> sorted_join files \<noteq> sorted_join (fx_ChangedFiles f)) ''changed files'',
        reads_diff p f (sort files)])"

definition check_comment :: "Comment \<Rightarrow> ('s, unit) test" where
  "check_comment c =
     t_error_if (co_id c = '''' \<or> co_author c = '''' \<or> co_author_kind c \<noteq> ActorUser \<and> co_author_kind c \<noteq> ActorBot)
       ''incomplete thread comment''"

definition reads_threads :: "'s Provider \<Rightarrow> Fixtures \<Rightarrow> ('s, unit) test" where
  "reads_threads p f =
     t_bind (t_must (pv_ListThreads p) (fixture_cr f) ''ListThreads'') (\<lambda>threads.
       t_each (thp_items threads) (\<lambda>th. t_steps
         [t_error_if (th_id th = '''' \<or> th_comments th = []) ''thread needs an id and at least one comment'',
          t_each (th_comments th) check_comment]))"

definition reads_issue :: "'s Provider \<Rightarrow> Fixtures \<Rightarrow> ('s, unit) test" where
  "reads_issue p f =
     t_bind (t_call (pv_GetIssue p) \<lparr>iq_target = target f, iq_number = fx_IssueNumber f\<rparr>) (\<lambda>r. t_steps
       [t_error_if (reply_bad r (\<lambda>i. iss_title i = '''' \<or> iss_url i = '''')) ''GetIssue'',
        t_refused f (pv_GetIssue p) \<lparr>iq_target = target f, iq_number = fx_MissingCR f\<rparr> [CodeNotFound]])"

definition reads_comments :: "'s Provider \<Rightarrow> Fixtures \<Rightarrow> ('s, unit) test" where
  "reads_comments p f =
     t_bind (t_call (pv_ListComments p) (zero_ListCommentsRequest\<lparr>lc_target := target f,
         lc_subject := \<lparr>sr_kind = SubjectChangeRequest, sr_number = fx_ChangeRequest f\<rparr>\<rparr>)) (\<lambda>r.
       t_error_if (reply_bad r (\<lambda>_. False)) ''ListComments'')"

definition reads_checks :: "'s Provider \<Rightarrow> Fixtures \<Rightarrow> ('s, unit) test" where
  "reads_checks p f =
     t_bind (t_must (pv_GetChecks p) \<lparr>chq_target = target f, chq_ref = fx_HeadSHA f\<rparr> ''GetChecks'') (\<lambda>checks.
       t_each checks (\<lambda>c. t_error_if (ch_id c = '''' \<or> ch_name c = '''' \<or> \<not> CheckState_Valid (ch_state c)) ''invalid check''))"

definition reads_logs :: "'s Provider \<Rightarrow> Fixtures \<Rightarrow> ('s, unit) test" where
  "reads_logs p f = (let req = zero_CheckLogsRequest\<lparr>cl_target := target f, cl_check_id := fx_FailingCheckID f\<rparr> in
     t_bind (t_call (pv_GetCheckLogs p) req) (\<lambda>r.
       let logs = reply_value zero_Logs r in t_steps
       [t_error_if (reply_bad r (\<lambda>l. lg_text l = '''')) ''GetCheckLogs'',
        t_bind (t_call (pv_GetCheckLogs p) (req\<lparr>cl_tail_bytes := 5\<rparr>)) (\<lambda>r'.
          t_error_if (reply_bad r' (\<lambda>t. 5 < length (lg_text t) \<or> \<not> valid_utf8 (lg_text t) \<or>
            5 < length (lg_text logs) \<and> \<not> lg_truncated t)) ''tail-limited logs''),
        t_refused f (pv_GetCheckLogs p) (req\<lparr>cl_check_id := ''no-such-check''\<rparr>) [CodeNotFound]]))"

definition reads_invisible :: "'s Provider \<Rightarrow> Fixtures \<Rightarrow> ('s, unit) test" where
  "reads_invisible p f =
     t_refused f (pv_GetChangeRequest p)
       \<lparr>crq_target = \<lparr>tg_identity = fx_Identity f, tg_repo = fx_InvisibleRepo f\<rparr>, crq_number = fx_ChangeRequest f\<rparr>
       [CodeNotFound, CodeForbidden]"

section \<open>Optional reads\<close>

fun note_issues :: "string list \<Rightarrow> Issue list \<Rightarrow> ('s, string list) test" where
  "note_issues seen [] = t_pure seen"
| "note_issues seen (i # is) =
     t_bind (t_error_if (iss_number i = '''' \<or> list_contains seen (iss_number i) \<or> iss_title i = '''' \<or> iss_url i = '''' \<or>
         iss_state i \<noteq> ''open'' \<and> iss_state i \<noteq> ''closed'') ''invalid or duplicate issue'') (\<lambda>_.
       note_issues (iss_number i # seen) is)"

text \<open>
  One turn of the loop; \<open>k\<close> is what it does with a further cursor.  \<open>room\<close> is how many
  cursors the set \<^verbatim>\<open>cursors\<close> may still take, \<^verbatim>\<open>100 - len(cursors)\<close>.
\<close>

definition issue_page ::
    "('s, ListIssuesRequest, IssuePage) op \<Rightarrow> Fixtures \<Rightarrow> string \<Rightarrow> string list \<Rightarrow>
      (string \<Rightarrow> string list \<Rightarrow> ('s, string list) test) \<Rightarrow> ('s, string list) test" where
  "issue_page lister f cursor seen k =
     t_bind (t_must lister \<lparr>li_target = target f, li_state = ''all'', li_cursor = cursor\<rparr> ''ListIssues'') (\<lambda>page.
       t_bind (note_issues seen (ip_items page)) (\<lambda>seen'.
         if ip_next_cursor page = '''' then t_pure seen' else k (ip_next_cursor page) seen'))"

primrec issue_pages ::
    "nat \<Rightarrow> ('s, ListIssuesRequest, IssuePage) op \<Rightarrow> Fixtures \<Rightarrow> string list \<Rightarrow> string \<Rightarrow> string list \<Rightarrow> ('s, string list) test" where
  "issue_pages 0 lister f cursors cursor seen =
     issue_page lister f cursor seen (\<lambda>_ _. t_Fatal ''ListIssues pagination did not terminate'')"
| "issue_pages (Suc room) lister f cursors cursor seen =
     issue_page lister f cursor seen (\<lambda>next seen'.
       if list_contains cursors next then t_Fatal ''ListIssues pagination did not terminate''
       else issue_pages room lister f (next # cursors) next seen')"

definition reads_issues :: "('s, ListIssuesRequest, IssuePage) op \<Rightarrow> Fixtures \<Rightarrow> ('s, unit) test" where
  "reads_issues lister f =
     t_bind (issue_pages 100 lister f [] '''' []) (\<lambda>seen. t_steps
       [t_error_if (fx_IssueNumber f \<noteq> '''' \<and> \<not> list_contains seen (fx_IssueNumber f)) ''ListIssues did not return fixture issue'',
        t_when (rr_full_path (fx_InvisibleRepo f) \<noteq> '''')
          (t_refused f lister
            (zero_ListIssuesRequest\<lparr>li_target := \<lparr>tg_identity = fx_Identity f, tg_repo = fx_InvisibleRepo f\<rparr>\<rparr>)
            [CodeNotFound, CodeForbidden])])"

definition reads_file :: "('s, FileRequest, File) op \<Rightarrow> Fixtures \<Rightarrow> ('s, unit) test" where
  "reads_file fr f = (let req = zero_FileRequest\<lparr>fr_target := target f, fr_ref := fx_File_Ref f, fr_path := fx_File_Path f\<rparr> in
     t_bind (t_call fr req) (\<lambda>r. t_steps
       [t_error_if (reply_bad r (\<lambda>file. fi_content file = [])) ''GetFile'',
        t_refused f fr (req\<lparr>fr_path := no_such_file\<rparr>) [CodeNotFound],
        t_when (4 < length (fi_content (reply_value zero_File r)))
          (t_bind (t_call fr (req\<lparr>fr_max_bytes := 4\<rparr>)) (\<lambda>r'.
            t_error_if (reply_bad r' (\<lambda>cut. 4 < length (fi_content cut) \<or> \<not> fi_truncated cut)) ''GetFile MaxBytes=4''))]))"

definition reads_search :: "('s, CodeSearchRequest, CodeHits) op \<Rightarrow> Fixtures \<Rightarrow> ('s, unit) test" where
  "reads_search cs f =
     t_bind (t_call cs \<lparr>csq_target = target f, csq_query = fx_SearchQuery f\<rparr>) (\<lambda>r.
       t_error_if (reply_bad r (\<lambda>hits. hits_items hits = [])) ''SearchCode'')"

text \<open>\<^verbatim>\<open>if x, ok := p.(I); ok && cond\<close>.\<close>

definition t_optional :: "'a option \<Rightarrow> bool \<Rightarrow> ('a \<Rightarrow> ('s, unit) test) \<Rightarrow> ('s, unit) test" where
  "t_optional x cond m = (case x of None \<Rightarrow> t_ok | Some v \<Rightarrow> t_when cond (m v))"

definition optional_reads :: "'s Provider \<Rightarrow> Fixtures \<Rightarrow> ('s, unit) test" where
  "optional_reads p f =
     t_bind (t_caps p) (\<lambda>caps. t_steps
       [t_optional (pv_IssueLister p) (cap_issue_list caps) (\<lambda>lister. reads_issues lister f),
        t_optional (pv_FileReader p) (cap_file_read caps \<and> fx_File_Path f \<noteq> '''') (\<lambda>fr. reads_file fr f),
        t_optional (pv_CodeSearcher p) (cap_code_search caps \<and> fx_SearchQuery f \<noteq> '''') (\<lambda>cs. reads_search cs f)])"

definition testReads :: "'s Provider \<Rightarrow> Fixtures \<Rightarrow> ('s, unit) test" where
  "testReads p f = t_steps
     [reads_change_request p f,
      reads_files p f,
      reads_threads p f,
      t_when (fx_IssueNumber f \<noteq> '''') (reads_issue p f),
      reads_comments p f,
      t_when (fx_HeadSHA f \<noteq> '''') (reads_checks p f),
      t_when (fx_FailingCheckID f \<noteq> '''') (reads_logs p f),
      t_when (rr_full_path (fx_InvisibleRepo f) \<noteq> '''') (reads_invisible p f),
      optional_reads p f]"

section \<open>Operations that are not declared\<close>

definition unsupported_answer :: "int \<times> bytes \<Rightarrow> bool" where
  "unsupported_answer = (\<lambda>(status, body).
     status = HTTPStatus CodeUnsupported \<and>
     (case read_envelope body of
        None \<Rightarrow> False
      | Some e \<Rightarrow> \<not> env_ok e \<and> (case env_error e of None \<Rightarrow> False | Some err \<Rightarrow> er_code err = CodeUnsupported)))"

definition testUnsupported :: "(string \<Rightarrow> string) \<Rightarrow> 's Provider \<Rightarrow> ('s, unit) test" where
  "testUnsupported quote p =
     t_bind (t_caps p) (\<lambda>caps.
       t_each Operations (\<lambda>op.
         t_when (op_Capability op \<noteq> '''' \<and> \<not> declared caps (op_Capability op))
           (t_bind (t_dispatch quote p (op_Name op) ''{}'') (\<lambda>answer.
             t_error_if (\<not> unsupported_answer answer) (op_Name op @ '' is not declared'')))))"

section \<open>Describing an identity\<close>

definition no_such_identity :: IdentityRef where
  "no_such_identity = zero_IdentityRef\<lparr>ir_id := ''no-such-identity''\<rparr>"

definition identity_checks :: "('s, DescribeIdentityRequest, Identity) op \<Rightarrow> Fixtures \<Rightarrow> Identity \<Rightarrow> ('s, unit) test" where
  "identity_checks d f i = (let ref = idn_ref i in t_steps
     [t_error_if (ir_id ref \<noteq> ir_id (fx_Identity f)) ''Ref.ID'',
      t_error_if (ir_handle ref = '''' \<or> idn_display_name i = '''' \<or> idn_host i = '''' \<or> idn_kind i = '''') ''incomplete identity'',
      t_error_if (ir_handle (fx_Identity f) \<noteq> '''' \<and> ir_handle ref \<noteq> ir_handle (fx_Identity f)) ''Ref.Handle'',
      noLeak f (mustJSON (e_Identity i)),
      t_bind (t_call d \<lparr>de_identity = ref\<rparr>) (\<lambda>r.
        t_error_if (reply_bad r (\<lambda>again. ir_id (idn_ref again) \<noteq> ir_id ref \<or> ir_handle (idn_ref again) \<noteq> ir_handle ref))
          ''DescribeIdentity is not stable''),
      t_refused f d \<lparr>de_identity = no_such_identity\<rparr> [CodeNotFound, CodeForbidden, CodeValidation]])"

definition testDescribeIdentity :: "'s Provider \<Rightarrow> Fixtures \<Rightarrow> ('s, unit) test" where
  "testDescribeIdentity p f =
     t_bind (t_caps p) (\<lambda>caps.
       case pv_IdentityDescriber p of
         None \<Rightarrow> t_Skip
       | Some d \<Rightarrow>
           if \<not> cap_identity_description caps then t_Skip
           else t_bind (t_must d \<lparr>de_identity = (fx_Identity f)\<lparr>ir_handle := ''''\<rparr>\<rparr> ''DescribeIdentity'') (identity_checks d f))"

section \<open>Access grants\<close>

definition complete_access :: "Fixtures \<Rightarrow> string \<Rightarrow> CompleteAccessRequest" where
  "complete_access f st = \<lparr>ca_identity = fx_Identity f, ca_state = st, ca_params = fx_AccessGrantParams f\<rparr>"

definition access_step :: "Fixtures \<Rightarrow> SetupStep \<Rightarrow> ('s, unit) test" where
  "access_step f step = t_steps
     [if ss_kind step = StepRedirect \<or> ss_kind step = StepFormPost
      then t_error_if (ss_url step = '''') ''redirect/form_post steps need a URL''
      else t_Error ''an access grant is a trip to the platform'',
      t_error_if (ss_state step = '''') ''the step needs a State'',
      noLeak f (mustJSON (e_SetupStep step))]"

definition grants_once :: "('s, CompleteAccessRequest, AccessGrant) op \<Rightarrow> Fixtures \<Rightarrow> string \<Rightarrow> ('s, unit) test" where
  "grants_once complete f st =
     t_bind (t_must complete (complete_access f st) ''CompleteAccessGrant'') (\<lambda>grant. t_steps
       [noLeak f (mustJSON (e_AccessGrant grant)),
        t_refused f complete (complete_access f st) [CodeForbidden, CodeNotFound, CodeValidation]])"

definition grant_checks ::
    "('s, BeginAccessRequest, SetupStep) op \<Rightarrow> ('s, CompleteAccessRequest, AccessGrant) op \<Rightarrow> Fixtures \<Rightarrow> ('s, unit) test" where
  "grant_checks start complete f =
     (let req = \<lparr>ba_identity = fx_Identity f, ba_owner = fx_AccessOwner f, ba_return_url = ''https://paca.test/return'',
          ba_callback_url = ''https://paca.test/cb''\<rparr>
      in t_bind (t_must start req ''BeginAccessGrant'') (\<lambda>step. t_steps
        [access_step f step,
         t_refused f start (req\<lparr>ba_identity := no_such_identity\<rparr>) [CodeNotFound, CodeForbidden, CodeValidation],
         t_refused f complete (complete_access f '''') [CodeValidation, CodeForbidden],
         t_refused f complete (complete_access f ''never-issued'') [CodeForbidden, CodeNotFound, CodeValidation],
         t_when (fx_AccessGrantParams f \<noteq> []) (grants_once complete f (ss_state step))]))"

definition testAccessGrants :: "'s Provider \<Rightarrow> Fixtures \<Rightarrow> ('s, unit) test" where
  "testAccessGrants p f =
     t_bind (t_caps p) (\<lambda>caps.
       case pv_AccessGranter p of
         None \<Rightarrow> t_Skip
       | Some (start, complete) \<Rightarrow> if \<not> cap_access_grants caps then t_Skip else grant_checks start complete f)"

end
