(* ===== verification/ConformanceWrites.thy ===== *)
theory ConformanceWrites
  imports ConformanceReads
begin

text \<open>
  \<^verbatim>\<open>conformance.go\<close>, third part: the tests of the writes, required and optional, and \<^verbatim>\<open>Run\<close>.
  Every subtest runs on a fresh provider, whose state is \<open>s0\<close>.
\<close>

section \<open>Writes\<close>

definition fixture_subject :: "Fixtures \<Rightarrow> SubjectRef" where
  "fixture_subject f = \<lparr>sr_kind = SubjectChangeRequest, sr_number = fx_ChangeRequest f\<rparr>"

definition fixture_open :: "Fixtures \<Rightarrow> string \<Rightarrow> string \<Rightarrow> OpenCRRequest" where
  "fixture_open f title head = zero_OpenCRRequest\<lparr>oc_target := target f, oc_title := title, oc_head := head,
     oc_base := fx_BaseBranch f\<rparr>"

definition draft_checks :: "'s Provider \<Rightarrow> Fixtures \<Rightarrow> ('s, unit) test" where
  "draft_checks p f =
     t_bind (t_call (pv_OpenChangeRequest p)
         (fixture_open f ''Draft'' (orDefault (fx_DraftBranchHead f) ''draft-branch'')\<lparr>oc_draft := True\<rparr>)) (\<lambda>r.
       t_error_if (reply_bad r (\<lambda>d. \<not> cr_draft d)) ''draft change request'')"

text \<open>Two results of the same retried write: both there and related.\<close>

definition retried_bad :: "'r reply \<Rightarrow> 'r reply \<Rightarrow> ('r \<Rightarrow> 'r \<Rightarrow> bool) \<Rightarrow> bool" where
  "retried_bad a b same = reply_bad a (\<lambda>x. reply_bad b (\<lambda>y. \<not> same x y))"

definition idempotent_open :: "'s Provider \<Rightarrow> Fixtures \<Rightarrow> ('s, unit) test" where
  "idempotent_open p f =
     (let req = fixture_open f ''Idem'' (orDefault (fx_IdempotentBranchHead f) ''idem-branch'')\<lparr>oc_idempotency_key := ''k1''\<rparr>
      in t_bind (t_call (pv_OpenChangeRequest p) req) (\<lambda>a.
         t_bind (t_call (pv_OpenChangeRequest p) req) (\<lambda>b.
           t_error_if (retried_bad a b (\<lambda>x y. cr_number x = cr_number y)) ''idempotent open'')))"

definition update_checks :: "'s Provider \<Rightarrow> Fixtures \<Rightarrow> string \<Rightarrow> ('s, unit) test" where
  "update_checks p f number = (let req = zero_UpdateCRRequest\<lparr>uc_target := target f, uc_number := number\<rparr> in
     t_bind (t_call (pv_UpdateChangeRequest p) (req\<lparr>uc_title := Some ''Renamed''\<rparr>)) (\<lambda>r. t_steps
       [t_error_if (reply_bad r (\<lambda>up. cr_title up \<noteq> ''Renamed'')) ''UpdateChangeRequest'',
        t_refused f (pv_UpdateChangeRequest p) (req\<lparr>uc_state := Some CRMerged\<rparr>) [CodeValidation]]))"

definition write_open :: "'s Provider \<Rightarrow> Fixtures \<Rightarrow> ('s, unit) test" where
  "write_open p f =
     t_bind (t_caps p) (\<lambda>caps.
       if fx_NewBranchHead f = '''' then t_Skip
       else t_bind (t_must (pv_OpenChangeRequest p) (fixture_open f ''Conformance'' (fx_NewBranchHead f)\<lparr>oc_body := ''body''\<rparr>)
           ''OpenChangeRequest'') (\<lambda>cr. t_steps
         [t_error_if (cr_number cr = '''' \<or> cr_state cr \<noteq> CROpen \<or> br_ref (cr_head cr) \<noteq> fx_NewBranchHead f \<or> cr_url cr = '''')
            ''unexpected change request'',
          t_refused f (pv_OpenChangeRequest p) (fixture_open f ''Again'' (fx_NewBranchHead f)) [CodeConflict, CodeValidation],
          t_refused f (pv_OpenChangeRequest p) (fixture_open f '''' (fx_NewBranchHead f)) [CodeValidation],
          t_when (cap_draft_change_requests caps) (draft_checks p f),
          t_when (cap_idempotent_writes caps) (idempotent_open p f),
          update_checks p f (cr_number cr)]))"

definition fixture_comment :: "Fixtures \<Rightarrow> string \<Rightarrow> CommentRequest" where
  "fixture_comment f body = zero_CommentRequest\<lparr>cmq_target := target f, cmq_subject := fixture_subject f, cmq_body := body\<rparr>"

definition idempotent_comment :: "'s Provider \<Rightarrow> Fixtures \<Rightarrow> ('s, unit) test" where
  "idempotent_comment p f = (let req = fixture_comment f ''same''\<lparr>cmq_idempotency_key := ''c1''\<rparr> in
     t_bind (t_call (pv_Comment p) req) (\<lambda>ra.
     t_bind (t_call (pv_Comment p) req) (\<lambda>rb.
       let a = reply_value zero_CommentResult ra; b = reply_value zero_CommentResult rb
       in t_error_if (cmr_id a = '''' \<or> cmr_id a \<noteq> cmr_id b) ''idempotent comment'')))"

definition reply_checks :: "'s Provider \<Rightarrow> Fixtures \<Rightarrow> ('s, unit) test" where
  "reply_checks p f = (let req = zero_ReplyThreadRequest\<lparr>rt_target := target f, rt_number := fx_ChangeRequest f\<rparr> in
     t_bind (t_call (pv_ReplyThread p) (req\<lparr>rt_thread_id := fx_ThreadID f, rt_body := ''done''\<rparr>)) (\<lambda>r. t_steps
       [t_error_if (reply_bad r (\<lambda>rr. cmr_id rr = '''')) ''ReplyThread'',
        t_refused f (pv_ReplyThread p) (req\<lparr>rt_thread_id := ''no-such-thread'', rt_body := ''x''\<rparr>) [CodeNotFound]]))"

definition write_comments :: "'s Provider \<Rightarrow> Fixtures \<Rightarrow> ('s, unit) test" where
  "write_comments p f =
     t_bind (t_caps p) (\<lambda>caps.
     t_bind (t_must (pv_Comment p) (fixture_comment f ''hello'') ''Comment'') (\<lambda>r. t_steps
       [t_fatal_if (cmr_id r = '''') ''Comment'',
        t_refused f (pv_Comment p) (fixture_comment f ''  '') [CodeValidation],
        t_refused f (pv_Comment p)
          (fixture_comment f ''x''\<lparr>cmq_subject := \<lparr>sr_kind = SubjectChangeRequest, sr_number = fx_MissingCR f\<rparr>\<rparr>) [CodeNotFound],
        t_when (cap_idempotent_writes caps) (idempotent_comment p f),
        t_when (fx_ThreadID f \<noteq> '''') (reply_checks p f)]))"

definition fixture_review :: "Fixtures \<Rightarrow> SubmitReviewRequest" where
  "fixture_review f = zero_SubmitReviewRequest\<lparr>sv_target := target f, sv_number := fx_ChangeRequest f, sv_verdict := VerdictComment\<rparr>"

definition inline_comments :: "Fixtures \<Rightarrow> InlineComment list" where
  "inline_comments f =
     (case fx_ChangedFiles f of
        [] \<Rightarrow> []
      | path # _ \<Rightarrow> [\<lparr>ic_path = path, ic_line = 1, ic_side = ''new'', ic_body = ''nit''\<rparr>])"

definition write_review :: "'s Provider \<Rightarrow> Fixtures \<Rightarrow> ('s, unit) test" where
  "write_review p f =
     t_bind (t_caps p) (\<lambda>caps.
     t_bind (t_must (pv_SubmitReview p) (fixture_review f\<lparr>sv_summary := ''looks fine'', sv_comments := inline_comments f\<rparr>)
         ''SubmitReview'') (\<lambda>res. t_steps
       [t_error_if (rv_posted res \<noteq> int (length (inline_comments f))) ''Posted'',
        t_error_if (rv_emulated res = cap_batch_review caps) ''Emulated contradicts BatchReview'',
        t_refused f (pv_SubmitReview p) (fixture_review f\<lparr>sv_verdict := ''shrug''\<rparr>) [CodeValidation],
        t_refused f (pv_SubmitReview p)
          (fixture_review f\<lparr>sv_comments := [\<lparr>ic_path = ''not/in/the/diff.go'', ic_line = 1, ic_side = '''', ic_body = ''x''\<rparr>]\<rparr>) [CodeValidation],
        t_refused f (pv_SubmitReview p) (fixture_review f\<lparr>sv_number := fx_MissingCR f, sv_summary := ''x''\<rparr>) [CodeNotFound]]))"

definition fixture_status :: "Fixtures \<Rightarrow> SetStatusRequest" where
  "fixture_status f = zero_SetStatusRequest\<lparr>st_target := target f, st_subject := fixture_subject f, st_sha := fx_HeadSHA f,
     st_title := ''Paca / dev''\<rparr>"

definition write_status :: "'s Provider \<Rightarrow> Fixtures \<Rightarrow> ('s, unit) test" where
  "write_status p f =
     t_bind (t_must (pv_SetStatus p) (fixture_status f\<lparr>st_state := RunQueued\<rparr>) ''SetStatus'') (\<lambda>st. t_steps
       [t_fatal_if (str_status_ref st = '''') ''SetStatus'',
        t_bind (t_call (pv_SetStatus p)
            (fixture_status f\<lparr>st_state := RunSuccess, st_summary := ''done'', st_status_ref := str_status_ref st\<rparr>)) (\<lambda>r.
          t_error_if (reply_bad r (\<lambda>upd. str_status_ref upd = '''')) ''updating a status by its reference'')])"

definition testWrites :: "'s Provider \<Rightarrow> Fixtures \<Rightarrow> 's \<Rightarrow> ('s, unit) test" where
  "testWrites p f s0 = t_steps
     [t_Run ''open-change-request'' (t_fresh s0 (write_open p f)),
      t_Run ''comments'' (t_fresh s0 (write_comments p f)),
      t_Run ''review'' (t_fresh s0 (write_review p f)),
      t_Run ''status'' (t_fresh s0 (write_status p f))]"

section \<open>Optional writes\<close>

text \<open>A call whose error is reported and not fatal.\<close>

definition t_try :: "('q \<Rightarrow> 's \<Rightarrow> 's \<times> 'r reply) \<Rightarrow> 'q \<Rightarrow> string \<Rightarrow> ('s, unit) test" where
  "t_try fn q msg = t_bind (t_call fn q) (\<lambda>r. t_error_if (reply_bad r (\<lambda>_. False)) msg)"

text \<open>The last thread of the page with the fixture's id decides.\<close>

definition reported_resolved :: "Fixtures \<Rightarrow> Thread list \<Rightarrow> bool" where
  "reported_resolved f ths = fold (\<lambda>th resolved. if th_id th = fx_ThreadID f then th_resolved th else resolved) ths False"

definition resolve_thread_checks :: "'s Provider \<Rightarrow> Fixtures \<Rightarrow> ('s, unit) test" where
  "resolve_thread_checks p f =
     (let req = \<lparr>rth_target = target f, rth_number = fx_ChangeRequest f, rth_thread_id = fx_ThreadID f, rth_resolved = True\<rparr>
      in t_bind (t_assert (pv_ThreadResolver p)) (\<lambda>tr.
         t_bind (t_must tr req ''ResolveThread'') (\<lambda>_.
         t_bind (t_must (pv_ListThreads p) (fixture_cr f) ''ListThreads'') (\<lambda>page. t_steps
           [t_error_if (\<not> reported_resolved f (thp_items page)) ''thread is not reported resolved'',
            t_refused f tr (req\<lparr>rth_thread_id := ''no-such-thread''\<rparr>) [CodeNotFound]]))))"

definition fixture_branch :: "Fixtures \<Rightarrow> string \<Rightarrow> CreateBranchRequest" where
  "fixture_branch f name = zero_CreateBranchRequest\<lparr>cb_target := target f, cb_name := name\<rparr>"

definition idempotent_branch :: "('s, CreateBranchRequest, BranchInfo) op \<Rightarrow> Fixtures \<Rightarrow> string \<Rightarrow> ('s, unit) test" where
  "idempotent_branch create f name =
     (let req = fixture_branch f (name @ ''-idem'')\<lparr>cb_idempotency_key := ''b1''\<rparr>
      in t_bind (t_call create req) (\<lambda>a.
         t_bind (t_call create req) (\<lambda>b.
           t_error_if (retried_bad a b (\<lambda>x y. x = y)) ''idempotent branch create'')))"

definition create_branch_checks ::
    "('s, GetBranchRequest, BranchInfo) op \<Rightarrow> ('s, CreateBranchRequest, BranchInfo) op \<Rightarrow> Capabilities \<Rightarrow> Fixtures \<Rightarrow>
      string \<Rightarrow> BranchInfo \<Rightarrow> ('s, unit) test" where
  "create_branch_checks look create caps f name base =
     t_bind (t_must create (fixture_branch f name) ''CreateBranch'') (\<lambda>made. t_steps
       [t_fatal_if (bi_name made \<noteq> name \<or> bi_sha made \<noteq> bi_sha base) ''CreateBranch from the default branch'',
        t_bind (t_call look \<lparr>gb_target = target f, gb_name = name\<rparr>) (\<lambda>r.
          t_error_if (reply_bad r (\<lambda>got. bi_sha got \<noteq> bi_sha made)) ''created branch not visible''),
        t_refused f create (fixture_branch f name) [CodeConflict],
        t_refused f create (fixture_branch f (name @ ''-from-missing'')\<lparr>cb_from := ''no-such-branch''\<rparr>) [CodeNotFound],
        t_each [''bad name~^'', ''-leading-dash'', ''a..b'', ''trailing.'']
          (\<lambda>bad. t_refused f create (fixture_branch f bad) [CodeValidation]),
        t_when (cap_idempotent_writes caps) (idempotent_branch create f name)])"

definition branch_checks :: "'s Provider \<Rightarrow> Capabilities \<Rightarrow> Fixtures \<Rightarrow> ('s, unit) test" where
  "branch_checks p caps f =
     t_bind (t_assert (pv_BranchManager p)) (\<lambda>(look, create).
       let def = orDefault (rr_default_branch (fx_Repo f)) (fx_BaseBranch f);
           name = orDefault (fx_NewBranchName f) ''paca/conformance''
       in t_bind (t_must look \<lparr>gb_target = target f, gb_name = def\<rparr> ''GetBranch(default)'') (\<lambda>base. t_steps
         [t_fatal_if (bi_name base \<noteq> def \<or> bi_sha base = '''') ''GetBranch(default)'',
          t_refused f look \<lparr>gb_target = target f, gb_name = ''no-such-branch''\<rparr> [CodeNotFound],
          t_refused f look \<lparr>gb_target = target f, gb_name = ''''\<rparr> [CodeValidation],
          create_branch_checks look create caps f name base]))"

definition label_checks :: "'s Provider \<Rightarrow> Fixtures \<Rightarrow> ('s, unit) test" where
  "label_checks p f =
     t_bind (t_assert (pv_LabelManager p)) (\<lambda>lm. t_steps
       [t_try lm \<lparr>lb_target = target f, lb_subject = fixture_subject f, lb_labels = [''paca'']\<rparr> ''AddLabels'',
        t_bind (t_call (pv_GetChangeRequest p) \<lparr>crq_target = target f, crq_number = fx_ChangeRequest f\<rparr>) (\<lambda>r.
          t_error_if (reply_bad r (\<lambda>cr. \<not> list_contains (cr_labels cr) ''paca'')) ''label not visible afterwards'')])"

definition reviewer_checks :: "'s Provider \<Rightarrow> Fixtures \<Rightarrow> ('s, unit) test" where
  "reviewer_checks p f =
     t_bind (t_assert (pv_ReviewerRequester p)) (\<lambda>rr.
       t_try rr \<lparr>pp_target = target f, pp_subject = fixture_subject f, pp_logins = [fx_Reviewer f]\<rparr> ''RequestReviewers'')"

definition assignee_checks :: "'s Provider \<Rightarrow> Fixtures \<Rightarrow> ('s, unit) test" where
  "assignee_checks p f =
     t_bind (t_assert (pv_AssigneeSetter p)) (\<lambda>as.
       t_try as \<lparr>pp_target = target f, pp_subject = \<lparr>sr_kind = SubjectIssue, sr_number = fx_IssueNumber f\<rparr>,
         pp_logins = [ir_handle (fx_Identity f)]\<rparr> ''SetAssignees'')"

definition fixture_merge :: "Fixtures \<Rightarrow> MergeRequest" where
  "fixture_merge f = zero_MergeRequest\<lparr>mg_target := target f, mg_number := fx_ChangeRequest f\<rparr>"

definition merge_checks :: "'s Provider \<Rightarrow> Fixtures \<Rightarrow> ('s, unit) test" where
  "merge_checks p f = (let get = \<lparr>crq_target = target f, crq_number = fx_ChangeRequest f\<rparr> in
     t_bind (t_assert (pv_Merger p)) (\<lambda>m.
     t_bind (t_must (pv_GetChangeRequest p) get ''GetChangeRequest'') (\<lambda>cr. t_steps
       [t_refused f m (fixture_merge f) [CodeValidation],
        t_refused f m (fixture_merge f\<lparr>mg_expected_head_sha := ''stale-sha''\<rparr>) [CodeConflict],
        t_bind (t_must m (fixture_merge f\<lparr>mg_expected_head_sha := br_sha (cr_head cr), mg_method := ''squash''\<rparr>)
            ''merge with the right head'') (\<lambda>_.
          t_bind (t_call (pv_GetChangeRequest p) get) (\<lambda>r.
            t_error_if (cr_state (reply_value zero_ChangeRequest r) \<noteq> CRMerged) ''state after merge''))])))"

definition rerun_test :: "'s Provider \<Rightarrow> Fixtures \<Rightarrow> ('s, unit) test" where
  "rerun_test p f =
     t_bind (t_assert (pv_CheckRerunner p)) (\<lambda>cr.
       t_try cr (zero_RerunRequest\<lparr>rru_target := target f, rru_ref := fx_HeadSHA f\<rparr>) ''RerunChecks'')"

definition react_checks :: "'s Provider \<Rightarrow> Fixtures \<Rightarrow> ('s, unit) test" where
  "react_checks p f =
     t_bind (t_assert (pv_Reactor p)) (\<lambda>r. t_steps
       [t_try r \<lparr>re_target = target f, re_comment_id = ''c-1'', re_emoji = ''eyes''\<rparr> ''React'',
        t_refused f r \<lparr>re_target = target f, re_comment_id = ''c-1'', re_emoji = ''not-an-emoji''\<rparr> [CodeValidation]])"

definition webhook_checks :: "'s Provider \<Rightarrow> Fixtures \<Rightarrow> ('s, unit) test" where
  "webhook_checks p f = (let req = \<lparr>ew_target = target f, ew_url = ''https://paca.test/hook''\<rparr> in
     t_bind (t_assert (pv_WebhookManager p)) (\<lambda>(ensure, remove).
     t_bind (t_must ensure req ''EnsureWebhook'') (\<lambda>a. t_steps
       [t_fatal_if (wh_id a = '''') ''EnsureWebhook'',
        t_bind (t_call ensure req) (\<lambda>r.
          t_error_if (reply_bad r (\<lambda>b. wh_id b \<noteq> wh_id a)) ''EnsureWebhook must be idempotent''),
        t_try remove \<lparr>rw_target = target f, rw_webhook = a\<rparr> ''RemoveWebhook'',
        t_try remove \<lparr>rw_target = target f, rw_webhook = a\<rparr> ''removing an already-removed webhook must not fail''])))"

definition deletion_checks :: "'s Provider \<Rightarrow> Fixtures \<Rightarrow> ('s, unit) test" where
  "deletion_checks p f =
     t_bind (t_assert (pv_IdentityDeleter p)) (\<lambda>d. t_try d \<lparr>di_identity = fx_Identity f\<rparr> ''DeleteIdentity'')"

text \<open>The subtests of the optional writes with the conditions under which they run.\<close>

definition optional_write_tests :: "'s Provider \<Rightarrow> Fixtures \<Rightarrow> Capabilities \<Rightarrow> (bool \<times> string \<times> ('s, unit) test) list" where
  "optional_write_tests p f caps =
     [(cap_resolve_threads caps \<and> fx_ThreadID f \<noteq> '''', ''resolve-thread'', resolve_thread_checks p f),
      (cap_branches caps, ''branches'', branch_checks p caps f),
      (cap_labels caps, ''labels'', label_checks p f),
      (cap_reviewer_requests caps \<and> fx_Reviewer f \<noteq> '''', ''reviewers'', reviewer_checks p f),
      (cap_assignees caps \<and> fx_IssueNumber f \<noteq> '''', ''assignees'', assignee_checks p f),
      (cap_merge caps, ''merge'', merge_checks p f),
      (cap_rerun_checks caps \<and> fx_HeadSHA f \<noteq> '''', ''rerun-checks'', rerun_test p f),
      (cap_reactions caps, ''react'', react_checks p f),
      (cap_webhook_management caps \<and> kp_webhook_scope (Profile caps (fixtureKind f caps)) \<noteq> WebhookApp,
        ''webhook-management'', webhook_checks p f),
      (cap_identity_deletion caps, ''delete-identity'', deletion_checks p f)]"

definition testOptionalWrites :: "'s Provider \<Rightarrow> Fixtures \<Rightarrow> 's \<Rightarrow> ('s, unit) test" where
  "testOptionalWrites p f s0 =
     t_bind (t_caps p) (\<lambda>caps.
       t_each (optional_write_tests p f caps) (\<lambda>(cond, name, m). t_when cond (t_Run name (t_fresh s0 m))))"

section \<open>Run\<close>

definition suite :: "(string \<Rightarrow> string) \<Rightarrow> gotime \<Rightarrow> 's Provider \<Rightarrow> 's \<Rightarrow> Fixtures \<Rightarrow> (string \<times> ('s, unit) test) list" where
  "suite quote now p s0 f =
     [(''describe'', testDescribe p f),
      (''wire'', testWire quote p),
      (''setup'', testSetup p f),
      (''repositories'', testRepositories p f),
      (''webhooks'', testWebhooks p f),
      (''credentials'', testCredentials now p f),
      (''policy-inputs'', testPolicyInputs p f),
      (''reads'', testReads p f),
      (''unsupported'', testUnsupported quote p),
      (''access-grants'', testAccessGrants p f),
      (''describe-identity'', testDescribeIdentity p f)] @
     (if fx_MutationsAllowed f
      then [(''writes'', testWrites p f s0), (''optional-writes'', testOptionalWrites p f s0)]
      else [])"

definition RunSuite :: "(string \<Rightarrow> string) \<Rightarrow> gotime \<Rightarrow> 's Harness \<Rightarrow> ('s, unit) test" where
  "RunSuite quote now h =
     (case hn_New h of
        None \<Rightarrow> t_Fatal ''conformance: Harness.New is required''
      | Some (p, s0) \<Rightarrow> t_each (suite quote now p s0 (hn_Fixtures h)) (\<lambda>(name, m). t_Run name (t_fresh s0 m)))"

end
