(* ===== verification/FakeHarness.thy ===== *)
theory FakeHarness
  imports FakeProvider ConformanceWrites
begin

text \<open>
  \<^verbatim>\<open>fakeprovider/harness.go\<close>: the fixtures that describe the fakes' seed data, the canned
  deliveries of their platform, and the harness the suite runs them with.
\<close>

section \<open>Deliveries\<close>

definition e_fakeHook :: "fakeHook \<Rightarrow> json option" where [codec]:
  "e_fakeHook h = e_struct
    [(''delivery'', e_str (fh_delivery h)), (''type'', e_str (fh_type h)), (''action'', e_str (fh_action h)),
     (''repo'', e_str (fh_repo h)), (''subject'', e_str (fh_subject h)), (''number'', e_str (fh_number h)),
     (''actor'', e_str (fh_actor h)), (''actor_kind'', e_str (fh_actor_kind h)), (''text'', e_str (fh_text h)),
     (''path'', e_str (fh_path h)), (''line'', e_int (fh_line h)), (''thread'', e_str (fh_thread h)),
     (''comment'', e_str (fh_comment h)), (''head_ref'', e_str (fh_head_ref h)), (''head_sha'', e_str (fh_head_sha h)),
     (''base'', e_str (fh_base h)), (''draft'', e_bool (fh_draft h)), (''label'', e_str (fh_label h)),
     (''check'', e_str (fh_check h)), (''created'', e_bool (fh_created h)), (''deleted'', e_bool (fh_deleted h)),
     (''conclusion'', e_str (fh_conclusion h)), (''requested'', e_str (fh_requested h)), (''assignee'', e_str (fh_assignee h))]"

definition delivery :: "(bytes \<Rightarrow> bytes \<Rightarrow> bytes) \<Rightarrow> fakeHook \<Rightarrow> WebhookRequest" where
  "delivery mac h = (let body = marshal_or_nil (e_fakeHook h) in
     \<lparr>wr_identity = zero_IdentityRef\<lparr>ir_id := IdentityID\<rparr>, wr_method = ''POST'',
      wr_headers = [(''x-fake-signature'', Sign mac body)], wr_query = [], wr_body = body\<rparr>)"

definition bad_delivery :: "(bytes \<Rightarrow> bytes \<Rightarrow> bytes) \<Rightarrow> WebhookRequest" where
  "bad_delivery mac = (delivery mac (zero_fakeHook\<lparr>fh_delivery := ''d-bad'', fh_type := ''comment'', fh_repo := RepoPath,
     fh_number := ''1'', fh_actor := ''octocat'', fh_text := ''@paca-bot hi''\<rparr>))
     \<lparr>wr_headers := [(''x-fake-signature'', ''sha256=deadbeef'')]\<rparr>"

section \<open>Fixtures\<close>

text \<open>The cases as the hook and what it must produce.\<close>

abbreviation zero_Want :: Want where
  "zero_Want \<equiv> \<lparr>wn_Kind = '''', wn_Action = '''', wn_RepoPath = '''', wn_SubjectKind = '''', wn_SubjectNumber = '''',
     wn_ActorLogin = '''', wn_ActorKind = '''', wn_Addressed = [], wn_CheckConclusion = ''''\<rparr>"

definition webhook_cases :: "(string \<times> fakeHook \<times> Want list) list" where
  "webhook_cases =
     [(''mention-in-comment'',
       zero_fakeHook\<lparr>fh_delivery := ''d1'', fh_type := ''comment'', fh_action := ''created'', fh_repo := RepoPath,
         fh_subject := ''change_request'', fh_number := ''1'', fh_actor := ''octocat'', fh_text := ''@paca-bot please fix the test'',
         fh_path := ''src/main.go'', fh_line := 3, fh_thread := ''thr-1'', fh_comment := ''c-9''\<rparr>,
       [zero_Want\<lparr>wn_Kind := EventComment, wn_Action := ''created'', wn_RepoPath := RepoPath, wn_SubjectKind := SubjectChangeRequest,
         wn_SubjectNumber := ''1'', wn_ActorLogin := ''octocat'', wn_ActorKind := ActorUser, wn_Addressed := [ViaMention]\<rparr>]),
      (''comment-without-mention'',
       zero_fakeHook\<lparr>fh_delivery := ''d2'', fh_type := ''comment'', fh_action := ''created'', fh_repo := RepoPath,
         fh_subject := ''issue'', fh_number := ''7'', fh_actor := ''reader'', fh_text := ''thanks!''\<rparr>,
       [zero_Want\<lparr>wn_Kind := EventComment, wn_SubjectKind := SubjectIssue, wn_SubjectNumber := ''7'',
         wn_ActorLogin := ''reader'', wn_ActorKind := ActorUser\<rparr>]),
      (''email-address-is-not-a-mention'',
       zero_fakeHook\<lparr>fh_delivery := ''d3'', fh_type := ''comment'', fh_action := ''created'', fh_repo := RepoPath,
         fh_number := ''1'', fh_actor := ''octocat'', fh_text := ''mail me at dev@paca-bot.example''\<rparr>,
       [zero_Want\<lparr>wn_Kind := EventComment, wn_ActorLogin := ''octocat''\<rparr>]),
      (''bot-actor'',
       zero_fakeHook\<lparr>fh_delivery := ''d4'', fh_type := ''comment'', fh_action := ''created'', fh_repo := RepoPath,
         fh_number := ''1'', fh_actor := ''dependabot'', fh_actor_kind := ''bot'', fh_text := ''bump''\<rparr>,
       [zero_Want\<lparr>wn_Kind := EventComment, wn_ActorLogin := ''dependabot'', wn_ActorKind := ActorBot\<rparr>]),
      (''review-requested-from-bot'',
       zero_fakeHook\<lparr>fh_delivery := ''d5'', fh_type := ''review_request'', fh_action := ''requested'', fh_repo := RepoPath,
         fh_number := ''1'', fh_actor := ''octocat'', fh_requested := IdentityHandle\<rparr>,
       [zero_Want\<lparr>wn_Kind := EventReviewRequest, wn_Action := ''requested'', wn_ActorLogin := ''octocat'',
         wn_Addressed := [ViaReviewRequest]\<rparr>]),
      (''assigned-to-bot'',
       zero_fakeHook\<lparr>fh_delivery := ''d6'', fh_type := ''assignment'', fh_action := ''assigned'', fh_repo := RepoPath,
         fh_subject := ''issue'', fh_number := ''7'', fh_actor := ''octocat'', fh_assignee := IdentityHandle\<rparr>,
       [zero_Want\<lparr>wn_Kind := EventAssignment, wn_SubjectKind := SubjectIssue, wn_Addressed := [ViaAssignment]\<rparr>]),
      (''ci-failed'',
       zero_fakeHook\<lparr>fh_delivery := ''d7'', fh_type := ''check'', fh_action := ''completed'', fh_repo := RepoPath,
         fh_number := ''1'', fh_actor := ''ci'', fh_actor_kind := ''bot'', fh_head_sha := SeedHeadSHA, fh_check := ''ci/test'',
         fh_conclusion := ''failure''\<rparr>,
       [zero_Want\<lparr>wn_Kind := EventCheck, wn_Action := ''completed'', wn_ActorKind := ActorBot, wn_CheckConclusion := ''failure''\<rparr>]),
      (''branch-created-by-push'',
       zero_fakeHook\<lparr>fh_delivery := ''d10'', fh_type := ''push'', fh_action := ''created'', fh_repo := RepoPath,
         fh_actor := ''octocat'', fh_head_ref := ''feat/PACA-12-x'', fh_head_sha := ''def456'', fh_created := True\<rparr>,
       [zero_Want\<lparr>wn_Kind := EventPush, wn_Action := ''created'', wn_ActorLogin := ''octocat''\<rparr>]),
      (''unmapped-event-is-dropped'',
       zero_fakeHook\<lparr>fh_delivery := ''d8'', fh_type := ''star'', fh_repo := RepoPath, fh_actor := ''octocat''\<rparr>, []),
      (''unknown-repository-is-dropped'',
       zero_fakeHook\<lparr>fh_delivery := ''d9'', fh_type := ''comment'', fh_action := ''created'', fh_repo := ''nobody/knows'',
         fh_number := ''1'', fh_actor := ''octocat'', fh_text := ''@paca-bot''\<rparr>, [])]"

definition HarnessFixtures :: "(bytes \<Rightarrow> bytes \<Rightarrow> bytes) \<Rightarrow> Fixtures" where
  "HarnessFixtures mac =
     (let identity = \<lparr>ir_id = IdentityID, ir_handle = IdentityHandle, ir_provider_ref = []\<rparr> in
      \<lparr>fx_Identity = identity, fx_IdentityKind = '''',
       fx_Repo = zero_RepoRef\<lparr>rr_host := Host, rr_full_path := RepoPath, rr_default_branch := ''main''\<rparr>,
       fx_InvisibleRepo = zero_RepoRef\<lparr>rr_host := Host, rr_full_path := ''secret/hidden''\<rparr>,
       fx_RepoURL = ''https://'' @ Host @ ''/'' @ RepoPath @ ''.git'',
       fx_Candidates = [identity], fx_ExpectedRepoPaths = allRepoPaths,
       fx_ChangeRequest = SeedCRNumber, fx_MissingCR = ''999'',
       fx_ChangedFiles = [''src/main.go'', ''src/util.go'', ''docs/guide.md''],
       fx_HeadSHA = SeedHeadSHA, fx_FailingCheckID = ''chk-1'', fx_IssueNumber = ''7'', fx_ThreadID = ''thr-1'',
       fx_Actors = [(''octocat'', PermissionWrite), (''reader'', PermissionRead), (''owner'', PermissionAdmin)],
       fx_Webhooks = map (\<lambda>(name, h, want). \<lparr>wc_Name = name, wc_Request = delivery mac h, wc_Want = want\<rparr>) webhook_cases,
       fx_BadSignature = bad_delivery mac, fx_Secrets = [WebhookSecret, StaticSecret],
       fx_SetupHost = Host, fx_SetupCompleteParams = [(''token'', ''pasted-token'')],
       fx_MutationsAllowed = True, fx_NewBranchHead = ''feat/new'', fx_DraftBranchHead = '''', fx_IdempotentBranchHead = '''',
       fx_NewBranchName = '''', fx_BaseBranch = ''main'', fx_File_Ref = ''main'', fx_File_Path = ''README.md'',
       fx_SearchQuery = ''package main'', fx_Reviewer = ''reader'',
       fx_AccessGrantParams = [(''owner'', ''acme'')], fx_AccessOwner = ''acme''\<rparr>)"

definition FakeHarness :: "(string \<Rightarrow> string) \<Rightarrow> (bytes \<Rightarrow> bytes \<Rightarrow> bytes) \<Rightarrow> gotime \<Rightarrow> bool \<Rightarrow> Core Harness" where
  "FakeHarness quote mac now minimal =
     \<lparr>hn_New = Some (if minimal then (minimal_provider quote mac now, NewMinimal) else (full_provider quote mac now, NewFull)),
      hn_Fixtures = HarnessFixtures mac\<rparr>"

end
