(* ===== verification/ConformanceFacts.thy ===== *)
theory ConformanceFacts
  imports ConformanceWrites WireFacts
begin

text \<open>
  What the suite's verdict means: what a provider that passes \<^verbatim>\<open>testDescribe\<close> promises, and
  which tests say nothing about the provider because \<^verbatim>\<open>Dispatch\<close> decides them.
\<close>

section \<open>Refusals pass\<close>

lemma json_Error_refusal: "refusal err \<Longrightarrow> er_code (json_Error err) = er_code err"
  by (auto simp: refusal_def json_Error_def wire_consts CodeUnsupported_def CodeValidation_def)

lemma refused_envelope_refusal: "refusal err \<Longrightarrow> refused_envelope (read_envelope (snd (fail err)))"
  using json_Error_refusal [of err]
  by (auto simp: refused_envelope_def read_envelope_def refusal_reads_back refusal_def)

lemma unsupported_answer_refusal:
  "refusal err \<Longrightarrow> er_code err = CodeUnsupported \<Longrightarrow> unsupported_answer (fail err)"
  using json_Error_refusal [of err]
  by (simp add: unsupported_answer_def read_envelope_def refusal_reads_back split_beta) (simp add: fail_def)

lemma quoted_unsupported: "quote_string CodeUnsupported = [QUOTE] @ CodeUnsupported @ [QUOTE]"
  by code_simp

lemma join_with_first: "\<exists>b. join_with sep (x # xs) = x @ b"
  by (cases xs) auto

lemma join_with_second: "\<exists>a. join_with sep [x, y] = a @ y"
  by simp

lemma error_member_prefix: "\<exists>a b. print_json (error_json e) = a @ quote_string (er_code e) @ b"
proof -
  obtain ms where ms: "error_json e = JObj ((''code'', '''', JStr (er_code e)) # ms)"
    by (simp add: error_json_def)
  obtain b where b: "join_with '','' (print_member (''code'', '''', JStr (er_code e)) # map print_member ms) =
      print_member (''code'', '''', JStr (er_code e)) @ b"
    using join_with_first by blast
  have "print_json (error_json e) = (CHR ''{'' # quote_string ''code'' @ '':'') @ quote_string (er_code e) @ (b @ ''}'')"
    unfolding ms print_JObj list.map b by (simp add: print_member_def)
  then show ?thesis by blast
qed

lemma failure_ends_with_error: "\<exists>a b. print_json (failure_json e) = a @ print_json (error_json e) @ b"
proof -
  obtain a where a: "join_with '','' [print_member (''ok'', '''', JBool False), print_member (''error'', '''', error_json e)] =
      a @ print_member (''error'', '''', error_json e)"
    using join_with_second by blast
  have "print_json (failure_json e) = (CHR ''{'' # a @ quote_string ''error'' @ '':'') @ print_json (error_json e) @ ''}''"
    unfolding failure_json_def print_JObj list.map a by (simp add: print_member_def)
  then show ?thesis by blast
qed

lemma unsupported_named:
  assumes "er_code err = CodeUnsupported"
  shows "contains (snd (fail err)) CodeUnsupported"
proof -
  obtain a b where a: "print_json (failure_json err) = a @ print_json (error_json err) @ b"
    using failure_ends_with_error by blast
  obtain c d where c: "print_json (error_json err) = c @ quote_string (er_code err) @ d"
    using error_member_prefix by blast
  have "print_json (failure_json err) = (a @ c @ [QUOTE]) @ CodeUnsupported @ ([QUOTE] @ d @ b)"
    unfolding a c assms quoted_unsupported by (simp only: append_assoc)
  then have "sublist CodeUnsupported (print_json (failure_json err))" unfolding sublist_def by blast
  then show ?thesis by (simp only: contains_iff fail_print snd_conv)
qed

section \<open>The tests that Dispatch decides\<close>

text \<open>A test that reports nothing, changes nothing and goes on.\<close>

definition t_quiet :: "('s, unit) test \<Rightarrow> 's \<Rightarrow> bool" where
  "t_quiet m s \<longleftrightarrow> m s = (s, [], Goes ())"

lemma t_quiet_intros:
  "t_quiet t_ok s" "\<not> b \<Longrightarrow> t_quiet (t_error_if b msg) s" "(b \<Longrightarrow> t_quiet m s) \<Longrightarrow> t_quiet (t_when b m) s"
  "t_quiet m s \<Longrightarrow> t_quiet (k ()) s \<Longrightarrow> t_quiet (t_bind m k) s"
  by (simp_all add: t_quiet_def t_pure_def t_error_if_def t_when_def t_bind_def)

lemma t_quiet_caps:
  "pv_Describe p s = Returned info \<Longrightarrow> t_quiet (k (info_capabilities info)) s \<Longrightarrow> t_quiet (t_bind (t_caps p) k) s"
  by (simp add: t_quiet_def t_pure_def t_bind_def t_caps_def t_describe_def)

lemma t_quiet_each: "(\<And>x. x \<in> set xs \<Longrightarrow> t_quiet (f x) s) \<Longrightarrow> t_quiet (t_each xs f) s"
  by (induction xs) (simp_all add: t_quiet_intros)

lemma t_quiet_steps: "(\<And>m. m \<in> set ms \<Longrightarrow> t_quiet m s) \<Longrightarrow> t_quiet (t_steps ms) s"
  by (induction ms) (simp_all add: t_quiet_intros)

lemma t_quiet_dispatch:
  "Dispatch quote p opn body s = (s, answer) \<Longrightarrow> t_quiet (k answer) s \<Longrightarrow> t_quiet (t_bind (t_dispatch quote p opn body) k) s"
  by (cases answer) (simp add: t_quiet_def t_bind_def t_dispatch_def)

lemma listed_available:
  assumes "op \<in> set Operations"
  shows "available cs (op_Name op) \<longleftrightarrow> op_Capability op = '''' \<or> declared cs (op_Capability op)"
proof -
  obtain e where e: "(e :: unit opEntry) \<in> set operations" "op = oe_Operation e"
    using assms by (auto simp: Operations_def)
  then have "opIndex (op_Name op) = Some e" by (simp add: opIndex_iff)
  then show ?thesis unfolding available_iff [where 's = unit] by (simp add: e(2))
qed

lemma unsupported_quiet:
  assumes "pv_Describe p s = Returned info"
  shows "t_quiet (testUnsupported quote p) s"
  unfolding testUnsupported_def
proof (intro t_quiet_caps [OF assms] t_quiet_each t_quiet_intros)
  fix op assume op: "op \<in> set Operations"
    "op_Capability op \<noteq> '''' \<and> \<not> declared (info_capabilities info) (op_Capability op)"
  then have "offers p s (op_Name op) = Returned False"
    using listed_available [OF op(1)] by (simp add: offers_described [OF assms])
  then obtain err where "Dispatch quote p (op_Name op) ''{}'' s = (s, fail err)" "refusal err" "er_code err = CodeUnsupported"
    using dispatch_unavailable [of p s "op_Name op" quote "''{}''"] by blast
  then show "t_quiet (t_bind (t_dispatch quote p (op_Name op) ''{}'') (\<lambda>answer.
      t_error_if (\<not> unsupported_answer answer) (op_Name op @ '' is not declared''))) s"
    using unsupported_answer_refusal [of err] by (intro t_quiet_dispatch t_quiet_intros) simp_all
qed

lemma wire_refuses_quiet:
  assumes "pv_Describe p s = Returned info" "body = [] \<or> parse_json body = None"
  shows "t_quiet (wire_refuses quote p body msg) s"
  unfolding wire_refuses_def
proof (intro t_quiet_each)
  fix op assume "op \<in> set other_operations"
  then have "op_Name op \<noteq> ''describe''" by (simp add: other_operations_def)
  then obtain err where err: "Dispatch quote p (op_Name op) body s = (s, fail err)" "refusal err"
    using assms(2) dispatch_refusal [OF offers_described [OF assms(1), of "op_Name op"], of body quote] by blast
  show "t_quiet (t_bind (t_dispatch quote p (op_Name op) body) (\<lambda>(status, out).
      t_error_if (\<not> refused_envelope (read_envelope out)) (op_Name op @ msg))) s"
    by (intro t_quiet_dispatch [OF err(1)]) (simp add: split_beta t_quiet_intros refused_envelope_refusal [OF err(2)])
qed

lemma no_such_operation: "\<not> available cs ''no_such_operation''"
proof -
  have "list_all (\<lambda>op. op_Name op \<noteq> ''no_such_operation'') Operations"
    by (simp add: Operations_def operations_def required_def optional_def)
  then show ?thesis by (auto simp: available_def list_all_iff)
qed

lemma wire_unknown_quiet:
  assumes "pv_Describe p s = Returned info"
  shows "t_quiet (wire_unknown quote p) s"
proof -
  obtain err where err: "Dispatch quote p ''no_such_operation'' [] s = (s, fail err)" "er_code err = CodeUnsupported"
    using dispatch_refusal [OF offers_described [OF assms, of "''no_such_operation''"], of "[]" quote] no_such_operation by blast
  have "fail err = (HTTPStatus CodeUnsupported, snd (fail err))" by (simp add: fail_def err(2))
  then show ?thesis unfolding wire_unknown_def
    using unsupported_named [OF err(2)] err(2)
    by (intro t_quiet_dispatch [OF err(1)]) (simp add: split_beta fail_def t_quiet_intros)
qed

section \<open>Describe over the wire\<close>

lemma e_Terms_ok: "1 \<le> k \<Longrightarrow> enc_ok k (e_Terms x)"
  unfolding e_Terms_def by (auto intro!: enc_ok_struct)

lemma e_Info_ok: "5 \<le> k \<Longrightarrow> enc_ok k (e_Info x)"
  unfolding e_Info_def
  by (auto simp: omit_def intro!: enc_ok_struct enc_ok_list e_Capabilities_ok e_Terms_ok split: if_splits)

lemma describe_entry:
  "\<exists>entry :: 's opEntry. opIndex ''describe'' = Some entry \<and> (\<forall>p body s. oe_call entry p body s =
     (s, case pv_Describe p s of Panicked \<Rightarrow> Panics | Returned info \<Rightarrow> Answers (e_Info info)))"
proof -
  let ?e = "\<lparr>oe_Operation = \<lparr>op_Name = ''describe'', op_Capability = ''''\<rparr>,
      oe_call = (\<lambda>p body s. (s, case pv_Describe p s of Panicked \<Rightarrow> Panics | Returned info \<Rightarrow> Answers (e_Info info)))\<rparr> :: 's opEntry"
  have "?e \<in> set operations" by (simp add: operations_def)
  then have "opIndex ''describe'' = Some ?e" by (simp add: opIndex_iff)
  then show ?thesis by auto
qed

lemma describe_available: "available cs ''describe''"
proof -
  have "\<exists>op\<in>set Operations. op_Name op = ''describe'' \<and> op_Capability op = ''''"
    by (simp add: Operations_def operations_def)
  then show ?thesis by (auto simp: available_def)
qed

lemma describe_offered: "offers p s ''describe'' = Returned True"
proof -
  have "''describe'' \<in> op_Name ` set Operations" using describe_available [of zero_Capabilities] by (force simp: available_def)
  then show ?thesis by (simp add: offers_def describe_available split: outcome.split)
qed

lemma dispatch_describe_outcome:
  fixes p :: "'s Provider"
  shows "Dispatch quote p ''describe'' body s =
     outcome (s, case pv_Describe p s of Panicked \<Rightarrow> Panics | Returned info \<Rightarrow> Answers (e_Info info))"
proof -
  obtain entry :: "'s opEntry" where e: "opIndex ''describe'' = Some entry"
      "Dispatch quote p ''describe'' body s = outcome (oe_call entry p body s)"
    using dispatch_available [OF describe_offered, of quote p body s] by (elim exE conjE)
  obtain entry' :: "'s opEntry" where e': "opIndex ''describe'' = Some entry'"
      "oe_call entry' p body s = (s, case pv_Describe p s of Panicked \<Rightarrow> Panics | Returned info \<Rightarrow> Answers (e_Info info))"
    using describe_entry [where 's = 's] by (elim exE conjE) (drule spec)+
  have "entry = entry'" using e(1) e'(1) by simp
  then show ?thesis by (simp only: e(2) e'(2))
qed

lemma dispatch_describe:
  assumes "pv_Describe p s = Returned info"
  shows "\<exists>v. e_Info info = Some v \<and> enc_ok 5 (Some v) \<and> Dispatch quote p ''describe'' body s = (s, 200, print_json (success_json v))"
proof -
  obtain v where v: "e_Info info = Some v" "enc_ok 5 (Some v)"
    using e_Info_ok [of 5 info] by (auto simp: enc_ok_def split: option.splits)
  have "Dispatch quote p ''describe'' body s = outcome (s, Answers (Some v))"
    by (simp add: dispatch_describe_outcome assms v(1))
  then show ?thesis using v success_print [OF v(2)] by (simp add: outcome_def max_depth_def)
qed

text \<open>A panicking description: \<^verbatim>\<open>Dispatch\<close> recovers and answers 500.\<close>

lemma dispatch_describe_panics:
  "pv_Describe p s = Panicked \<Longrightarrow> Dispatch quote p ''describe'' body s = (s, fail internal_error)"
  by (simp add: dispatch_describe_outcome outcome_def internal_error_def)

lemma wire_describe_quiet:
  assumes "pv_Describe p s = Returned info"
  shows "t_quiet (wire_describe quote p) s"
proof -
  obtain v where v: "e_Info info = Some v" "enc_ok 5 (Some v)"
      "Dispatch quote p ''describe'' [] s = (s, 200, print_json (success_json v))"
    using dispatch_describe [OF assms, of quote "[]"] by blast
  have "read_envelope (print_json (success_json v)) = Some \<lparr>env_ok = True, env_result = print_json v, env_error = None\<rparr>"
    using success_reads_back [OF v(2)] by (simp add: read_envelope_def max_depth_def)
  then show ?thesis unfolding wire_describe_def
    by (intro t_quiet_dispatch [OF v(3)])
       (simp add: t_quiet_def t_bind_def t_pure_def t_fatal_if_def t_describe_def t_error_if_def mustJSON_def marshal_or_nil_def marshal_def v(1) assms)
qed

lemma wire_describe_fails:
  assumes "pv_Describe p s = Panicked"
  shows "wire_describe quote p s = (s, [''describe status''], Stops)"
  unfolding wire_describe_def t_bind_def t_dispatch_def dispatch_describe_panics [OF assms]
  by (simp add: fail_def internal_error_def Errorf_def HTTPStatus_def CodeInternal_def wire_consts t_fatal_if_def t_Fatal_def)

lemma not_json_broken: "parse_json not_json = None"
  by code_simp

lemma wire_quiet:
  assumes "pv_Describe p s = Returned info"
  shows "t_quiet (testWire quote p) s"
  unfolding testWire_def
  by (intro t_quiet_intros t_quiet_steps wire_describe_quiet [OF assms])
     (auto simp: wire_unknown_quiet [OF assms] wire_refuses_quiet [OF assms] not_json_broken)

lemma wire_fails:
  "pv_Describe p s = Panicked \<Longrightarrow> testWire quote p s = (s, [''describe status''], Stops)"
  by (simp add: testWire_def t_bind_def wire_describe_fails)

lemma unsupported_crashes: "pv_Describe p s = Panicked \<Longrightarrow> testUnsupported quote p s = (s, [], Crashes)"
  by (simp add: testUnsupported_def t_bind_def t_caps_def t_describe_def)

text \<open>
  C15: of a provider two of the suite's tests judge only whether it describes itself; the rest
  of what they look at is \<^verbatim>\<open>Dispatch\<close>.  Whatever else the provider does, however its operations
  answer or panic: when its description returns, \<^verbatim>\<open>testWire\<close> and \<^verbatim>\<open>testUnsupported\<close> report no
  failure and leave its state as it was, for describe over the wire is the description, and an
  unknown operation, an empty and a broken body and an operation that is not declared are
  refused before the provider is called.  When its description panics, \<^verbatim>\<open>testWire\<close> reports the
  500 that \<^verbatim>\<open>Dispatch\<close> answers to describe and stops there, and \<^verbatim>\<open>testUnsupported\<close> panics with it.
\<close>

theorem wire_tests_pass:
  "case pv_Describe p s of
     Returned info \<Rightarrow> testWire quote p s = (s, [], Goes ()) \<and> testUnsupported quote p s = (s, [], Goes ())
   | Panicked \<Rightarrow> testWire quote p s = (s, [''describe status''], Stops) \<and> testUnsupported quote p s = (s, [], Crashes)"
  using wire_quiet [of p s _ quote] unsupported_quiet [of p s _ quote] wire_fails [of p s quote] unsupported_crashes [of p s quote]
  by (auto simp: t_quiet_def split: outcome.split)

section \<open>What a passed description promises\<close>

text \<open>The description the contract asks for.\<close>

definition well_described :: "Fixtures \<Rightarrow> Info \<Rightarrow> bool" where
  "well_described f info \<longleftrightarrow> (let c = info_capabilities info; tm = info_terms info in
     info_spi_version info = SPIVersion \<and> info_id info \<noteq> '''' \<and> info_display_name info \<noteq> '''' \<and> info_hosts info \<noteq> [] \<and>
     tm_change_request tm \<noteq> '''' \<and> tm_change_request_plural tm \<noteq> '''' \<and> tm_repository tm \<noteq> '''' \<and>
     cap_identity_kinds c \<noteq> [] \<and> set (cap_identity_kinds c) \<subseteq> {IdentityApp, IdentityBotUser, IdentityToken} \<and>
     valid_model (cap_credential_model c) \<and> valid_scope (cap_webhook_scope c) \<and>
     cap_status_kind c \<in> {StatusCheckRun, StatusCommitStatus, StatusComment} \<and>
     distinct (cap_triggers c) \<and> set (cap_triggers c) \<subseteq> set AllTriggerKinds \<and>
     (\<forall>g\<in>set (cap_ci_config_globs c). trim_space g \<noteq> '''') \<and>
     distinct (map kp_kind (cap_kinds c)) \<and>
     (\<forall>kp\<in>set (cap_kinds c). kp_kind kp \<in> set (cap_identity_kinds c) \<and> valid_model (kp_credential_model kp) \<and>
        valid_scope (kp_webhook_scope kp) \<and> (kp_access_grants kp \<longrightarrow> cap_access_grants c)) \<and>
     (fx_IdentityKind f \<noteq> '''' \<longrightarrow> fx_IdentityKind f \<in> set (cap_identity_kinds c)))"

lemma list_contains_iff [simp]: "list_contains xs s \<longleftrightarrow> s \<in> set xs"
  by (auto simp: list_contains_def list_ex_iff)

lemma isValidTrigger_iff [simp]: "isValidTrigger k \<longleftrightarrow> k \<in> set AllTriggerKinds"
  by (auto simp: isValidTrigger_def list_ex_iff)

lemma t_looks_steps [simp]: "list_all t_looks ms \<Longrightarrow> t_looks (t_steps ms)"
  by (induction ms) simp_all

lemma describe_triggers_looks [simp]: "t_looks (describe_triggers seen ks)"
  by (induction seen ks rule: describe_triggers.induct) simp_all

lemma describe_triggers_pass:
  "t_passes (describe_triggers seen ks) s \<longleftrightarrow> set ks \<subseteq> set AllTriggerKinds \<and> distinct ks \<and> set ks \<inter> set seen = {}"
  by (induction seen ks rule: describe_triggers.induct) (auto simp: t_passes_steps simp del: t_steps.simps)

lemma describe_kinds_looks [simp]: "t_looks (describe_kinds c profiled kps)"
  by (induction c profiled kps rule: describe_kinds.induct) simp_all

lemma describe_kinds_pass:
  "t_passes (describe_kinds c profiled kps) s \<longleftrightarrow>
     distinct (map kp_kind kps) \<and> kp_kind ` set kps \<inter> set profiled = {} \<and>
     (\<forall>kp\<in>set kps. kp_kind kp \<in> set (cap_identity_kinds c) \<and> valid_model (kp_credential_model kp) \<and>
        valid_scope (kp_webhook_scope kp) \<and> (kp_access_grants kp \<longrightarrow> cap_access_grants c))"
  by (induction c profiled kps rule: describe_kinds.induct) (auto simp: t_passes_steps simp del: t_steps.simps)

lemma check_capability_looks [simp]: "t_looks (check_capability x)"
  by (cases x) (simp add: check_capability_def)

lemma check_capability_pass: "t_passes (check_capability (name, d, i)) s \<longleftrightarrow> d = i"
  by (cases d; cases i) (simp_all add: check_capability_def)

lemma t_passes_describe:
  "t_passes (t_bind (t_describe p) k) s \<longleftrightarrow> (\<exists>info. pv_Describe p s = Returned info \<and> t_passes (k info) s)"
  by (simp add: t_passes_def t_bind_def t_describe_def split_beta split: outcome.split)

lemma describe_info_pass:
  "t_passes (describe_info info) s \<longleftrightarrow> info_spi_version info = SPIVersion \<and> info_id info \<noteq> '''' \<and>
     info_display_name info \<noteq> '''' \<and> info_hosts info \<noteq> [] \<and> tm_change_request (info_terms info) \<noteq> '''' \<and>
     tm_change_request_plural (info_terms info) \<noteq> '''' \<and> tm_repository (info_terms info) \<noteq> ''''"
  by (auto simp: describe_info_def Let_def t_passes_steps simp del: t_steps.simps)

lemma describe_info_looks [simp]: "t_looks (describe_info info)"
  by (simp add: describe_info_def Let_def)

lemma describe_capabilities_looks [simp]: "t_looks (describe_capabilities f c)"
  by (simp add: describe_capabilities_def)

lemma describe_pass: "t_passes (describe_info info) s \<and> t_passes (describe_capabilities f (info_capabilities info)) s \<longleftrightarrow> well_described f info"
  unfolding describe_info_pass describe_capabilities_def well_described_def Let_def
  by (simp add: t_passes_steps t_passes_each describe_triggers_pass describe_kinds_pass subset_iff del: t_steps.simps) blast

text \<open>The flags agree exactly when the same operations are available.\<close>

lemma flags_agree:
  "(\<forall>x\<in>set (capability_checks c i). t_passes (check_capability x) s) \<longleftrightarrow> list_all (\<lambda>(n, g). g c = g i) optional_flags"
  unfolding capability_checks_def optional_flags_def
  by (simp add: check_capability_pass) (rule iffI; elim conjE; intro conjI; assumption)

lemma flag_operation:
  "list_all (\<lambda>(n, g). \<exists>op\<in>set Operations. op_Capability op = n) optional_flags"
  by (simp add: optional_flags_def Operations_def operations_def required_def optional_def)

lemma flag_names: "(n, g) \<in> set optional_flags \<Longrightarrow> n \<noteq> ''''"
  by (auto simp: optional_flags_def)

lemma flags_available:
  "list_all (\<lambda>(n, g). g c = g i) optional_flags \<longleftrightarrow> (\<forall>opn. available c opn \<longleftrightarrow> available i opn)"
proof
  assume agree: "list_all (\<lambda>(n, g). g c = g i) optional_flags"
  show "\<forall>opn. available c opn \<longleftrightarrow> available i opn"
    using agree unfolding available_def list_all_iff by fast
next
  assume same: "\<forall>opn. available c opn \<longleftrightarrow> available i opn"
  show "list_all (\<lambda>(n, g). g c = g i) optional_flags"
    unfolding list_all_iff
  proof clarify
    fix n g assume ng: "(n, g) \<in> set optional_flags"
    then obtain op where op: "op \<in> set Operations" "op_Capability op = n"
      using flag_operation by (fastforce simp: list_all_iff)
    have "available cs (op_Name op) \<longleftrightarrow> g cs" for cs
      using listed_available [OF op(1), of cs] flag_names [OF ng] declared_flag [OF ng, of cs] op(2) by simp
    then show "g c = g i" using same by metis
  qed
qed

text \<open>
  C14: a provider passes \<^verbatim>\<open>testDescribe\<close> exactly when its description returns (a panic fails the
  test), is the one the contract asks for, and its capabilities are honest: an operation of the
  wire is available by what it declares if and only if it is available by the interfaces it
  implements.
\<close>

theorem describe_conforms:
  "t_passes (testDescribe p f) s \<longleftrightarrow>
     (\<exists>info. pv_Describe p s = Returned info \<and> well_described f info \<and>
       (\<forall>opn. available (info_capabilities info) opn \<longleftrightarrow> available (Implemented p) opn))"
proof -
  have "t_passes (testDescribe p f) s \<longleftrightarrow> (\<exists>info. pv_Describe p s = Returned info \<and>
      (t_passes (describe_info info) s \<and> t_passes (describe_capabilities f (info_capabilities info)) s) \<and>
      (\<forall>x\<in>set (capability_checks (info_capabilities info) (Implemented p)). t_passes (check_capability x) s))"
    unfolding testDescribe_def t_passes_describe by (simp add: t_passes_steps t_passes_each conj_assoc del: t_steps.simps)
  then show ?thesis unfolding describe_pass flags_agree flags_available .
qed

end
