(* ===== verification/FakeHooks.thy ===== *)
theory FakeHooks
  imports FakeHarness ConformanceFacts
begin

text \<open>
  The canned deliveries of the harness: each is read back from the JSON it is sent as, and
  the suite's test of a delivery as a verdict on the events it produces.
\<close>

section \<open>Texts in printed JSON\<close>

text \<open>
  What is written between the separators of a value: a secret without separators occurs in
  the printed value only inside one of them.
\<close>

fun json_texts :: "json \<Rightarrow> string list" where
  "json_texts (JStr s) = [quote_chars s]"
| "json_texts (JArr vs) = concat (map json_texts vs)"
| "json_texts (JObj ms) = concat (map (\<lambda>(k, raw, v). quote_chars k # json_texts v) ms)"
| "json_texts v = [print_json v]"

definition word_text :: "string \<Rightarrow> bool" where
  "word_text s \<longleftrightarrow> s \<noteq> [] \<and> list_all (\<lambda>c. c \<notin> set s) (QUOTE # ''[]{}:,'')"

lemma sublist_sep: "x \<notin> set sub \<Longrightarrow> sublist sub (a @ x # b) \<longleftrightarrow> sublist sub a \<or> sublist sub b"
proof
  assume x: "x \<notin> set sub" and "sublist sub (a @ x # b)"
  then obtain p s where "a @ x # b = p @ sub @ s" by (auto simp: sublist_def)
  then obtain us where "a = p @ us \<and> us @ x # b = sub @ s \<or> a @ us = p \<and> x # b = us @ sub @ s"
    by (auto simp: append_eq_append_conv2)
  then show "sublist sub a \<or> sublist sub b"
  proof (elim disjE conjE)
    assume "a = p @ us" "us @ x # b = sub @ s"
    moreover from this x obtain vs where "us = sub @ vs"
      by (auto simp: append_eq_append_conv2 Cons_eq_append_conv)
    ultimately show ?thesis by (auto simp: sublist_def)
  next
    assume "a @ us = p" "x # b = us @ sub @ s"
    with x show ?thesis by (cases us; cases sub) (auto simp: sublist_def)
  qed
qed (auto simp: sublist_append sublist_Cons_right)

lemma sublist_first: "x \<notin> set sub \<Longrightarrow> sublist sub (x # b) \<longleftrightarrow> sub = [] \<or> sublist sub b"
  using sublist_sep [of x sub "[]" b] by auto

lemma sublist_last: "x \<notin> set sub \<Longrightarrow> sublist sub (a @ [x]) \<longleftrightarrow> sub = [] \<or> sublist sub a"
  using sublist_sep [of x sub a "[]"] by auto

lemma sublist_join:
  "sub \<noteq> [] \<Longrightarrow> CHR '','' \<notin> set sub \<Longrightarrow> sublist sub (join_with '','' xs) \<longleftrightarrow> (\<exists>x\<in>set xs. sublist sub x)"
  by (induction "'',''" xs rule: join_with.induct) (auto simp: sublist_sep)

lemma sublist_print:
  assumes "word_text sub"
  shows "sublist sub (print_json v) \<Longrightarrow> \<exists>t\<in>set (json_texts v). sublist sub t"
proof (induction v)
  case (JArr vs)
  then show ?case using assms by (fastforce simp: word_text_def sublist_first sublist_last sublist_join)
next
  case (JObj ms)
  then show ?case using assms
    by (fastforce simp: word_text_def sublist_first sublist_last sublist_join sublist_sep quote_string_def)
qed (use assms in \<open>auto simp: word_text_def quote_string_def sublist_first sublist_last\<close>)

lemma noLeak_pass:
  assumes "x = Some v" "list_all word_text (fx_Secrets f)"
    "list_all (\<lambda>t. list_all (\<lambda>s. \<not> contains t s) (fx_Secrets f)) (json_texts v)"
  shows "t_quiet (noLeak f (mustJSON x)) s"
  unfolding noLeak_def
proof (rule t_quiet_each)
  fix w assume "w \<in> set (fx_Secrets f)"
  then have "\<not> contains (print_json v) w"
    using assms(2,3) sublist_print [of w v] by (auto simp: list_all_iff contains_iff)
  then show "t_quiet (t_fatal_if (w \<noteq> '''' \<and> contains (mustJSON x) w) ''secret leaked'') s"
    by (simp add: t_quiet_def t_fatal_if_def t_pure_def mustJSON_def marshal_or_nil_def marshal_def assms(1))
qed

section \<open>Deliveries are read back\<close>

definition hook_texts :: "fakeHook \<Rightarrow> string list" where
  "hook_texts h = [fh_delivery h, fh_type h, fh_action h, fh_repo h, fh_subject h, fh_number h, fh_actor h, fh_actor_kind h,
     fh_text h, fh_path h, fh_thread h, fh_comment h, fh_head_ref h, fh_head_sha h, fh_base h, fh_label h, fh_check h,
     fh_conclusion h, fh_requested h, fh_assignee h]"

definition plain_hook :: "fakeHook \<Rightarrow> bool" where
  "plain_hook h \<longleftrightarrow> list_all valid_utf8 (hook_texts h) \<and> min_int64 \<le> fh_line h \<and> fh_line h \<le> max_int64"

lemma e_fakeHook_ok: "plain_hook h \<Longrightarrow> enc_ok 1 (e_fakeHook h)"
  unfolding e_fakeHook_def plain_hook_def by (auto intro!: enc_ok_struct)

lemma hook_reads_back:
  assumes "plain_hook h"
  shows "parse_hook (marshal_or_nil (e_fakeHook h)) = Some h"
proof -
  have int: "fst (atoi (itoa (fh_line h))) = fh_line h" "snd (atoi (itoa (fh_line h)))"
    using assms by (simp_all add: plain_hook_def atoi_itoa)
  have texts: "list_all valid_utf8 (hook_texts h)" using assms by (simp add: plain_hook_def)
  obtain v where v: "e_fakeHook h = Some v" "plain_json v" "json_depth v \<le> 1"
    using enc_okD [OF e_fakeHook_ok [OF assms]] by blast
  have "d_fakeHook zero_fakeHook (print_json v, norm_json v) = Some h"
    using v(1) texts int
    apply (simp add: e_fakeHook_def e_struct_def e_str_def e_int_def e_bool_def hook_texts_def)
    apply (drule sym)
    apply (simp add: d_fakeHook_def d_struct_Cons d_struct_Nil fld_def d_str_def d_int_def d_bool_def split_beta to_valid_id)
    done
  moreover have "parse_hook (print_json v) = d_fakeHook zero_fakeHook (print_json v, norm_json v)"
    using v(2,3) by (simp add: parse_hook_def unmarshal_print max_depth_def)
  ultimately show ?thesis by (simp add: marshal_or_nil_def marshal_def v(1))
qed

definition hook_events :: "Core \<Rightarrow> fakeHook \<Rightarrow> Event list" where
  "hook_events c h =
     (case map_of (repos c) (fh_repo h) of
        None \<Rightarrow> []
      | Some r \<Rightarrow> if event_kind (fh_type h) = '''' then [] else [hook_event (caps c) r h (event_kind (fh_type h))])"

lemma delivery_answer:
  "plain_hook h \<Longrightarrow> VerifyAndParseWebhook mac parse_hook (delivery mac h) c = (c, Answers (hook_events c h))"
  by (simp add: VerifyAndParseWebhook_def delivery_def Let_def hook_reads_back hook_events_def param_def split: option.split)

lemma bad_delivery_answer:
  "Sign mac (wr_body (bad_delivery mac)) \<noteq> ''sha256=deadbeef'' \<Longrightarrow>
    VerifyAndParseWebhook mac parse_hook (bad_delivery mac) c = (c, fails CodeInvalidSignature ''signature mismatch'')"
  by (auto simp: VerifyAndParseWebhook_def bad_delivery_def param_def)

section \<open>Judging the events\<close>

lemma looks_quiet: "t_looks m \<Longrightarrow> t_passes m s \<Longrightarrow> t_quiet m s"
  unfolding t_looks_def t_passes_def t_quiet_def by (drule spec [of _ s]) (cases "m s", simp)

definition clean :: "string list \<Rightarrow> json option \<Rightarrow> bool" where
  "clean secrets v = (case v of None \<Rightarrow> False | Some j \<Rightarrow> list_all (\<lambda>t. list_all (\<lambda>s. \<not> contains t s) secrets) (json_texts j))"

lemma check_subject_looks [simp]: "t_looks (check_subject sub)"
  by (simp add: check_subject_def)

lemma check_addressed_looks [simp]: "t_looks (check_addressed f cs a)"
  by (simp add: check_addressed_def)

lemma checkWant_looks [simp]: "t_looks (checkWant ev w cs)"
  by (simp add: checkWant_def)

lemma event_checks_looks: "list_all t_looks (event_checks f cs ev)"
  by (simp add: event_checks_def Let_def split: option.split)

lemma event_quiet:
  assumes "t_passes (t_steps (event_checks f cs ev)) s" "clean (fx_Secrets f) (e_Event ev)"
    and "list_all word_text (fx_Secrets f)"
  shows "t_quiet (checkEventInvariants f cs ev) s"
proof -
  have "t_quiet (noLeak f (mustJSON (e_Event ev))) s"
    using assms(2,3) by (auto simp: clean_def split: option.splits intro: noLeak_pass)
  then show ?thesis
    using assms(1) event_checks_looks [of f cs ev] unfolding checkEventInvariants_def
    by (intro t_quiet_steps) (auto simp: t_passes_steps list_all_iff intro: looks_quiet)
qed

text \<open>The events of one delivery against what it must produce.\<close>

fun judge :: "Fixtures \<Rightarrow> Capabilities \<Rightarrow> Core \<Rightarrow> string list \<Rightarrow> Event list \<Rightarrow> Want list \<Rightarrow> bool" where
  "judge f cs s ids [] [] = True"
| "judge f cs s ids (ev # evs) (w # ws) \<longleftrightarrow>
     t_passes (t_steps (event_checks f cs ev)) s \<and> clean (fx_Secrets f) (e_Event ev) \<and>
     \<not> list_contains ids (ev_id ev) \<and> t_passes (checkWant ev w cs) s \<and> judge f cs s (ev_id ev # ids) evs ws"
| "judge f cs s ids _ _ = False"

lemma judge_quiet:
  "judge f cs s ids evs ws \<Longrightarrow> list_all word_text (fx_Secrets f) \<Longrightarrow>
     length evs = length ws \<and> t_quiet (check_events f cs ids (zip evs ws)) s"
proof (induction f cs s ids evs ws rule: judge.induct)
  case (2 f cs s ids ev evs w ws)
  then have "t_quiet (checkEventInvariants f cs ev) s" "t_quiet (checkWant ev w cs) s"
    by (auto intro: event_quiet looks_quiet)
  with 2 show ?case by (auto intro!: t_quiet_intros)
qed (simp_all add: t_quiet_intros)

lemma webhook_case_quiet:
  assumes "pv_VerifyAndParseWebhook p (wc_Request wc) s = (s, Answers evs)"
    and "length evs = length (wc_Want wc)" "t_quiet (check_events f cs [] (zip evs (wc_Want wc))) s"
  shows "t_quiet (webhook_case p f cs wc) s"
proof -
  have "t_quiet (t_each (zip evs evs) (\<lambda>(a, ev). t_error_if (ev_id a \<noteq> ev_id ev) ''event id is not deterministic'')) s"
    by (intro t_quiet_each) (auto simp: zip_same_conv_map intro!: t_quiet_intros)
  with assms show ?thesis
    by (simp add: t_quiet_def webhook_case_def t_must_def t_bind_def t_call_def t_pure_def t_fatal_if_def)
qed

text \<open>The events on the seed state, which the rest of the state does not matter to.\<close>

definition seed_events :: "Capabilities \<Rightarrow> fakeHook \<Rightarrow> Event list" where
  "seed_events cs h =
     (if fh_repo h \<notin> set allRepoPaths \<or> event_kind (fh_type h) = '''' then []
      else [hook_event cs (seedRepo (fh_repo h) False) h (event_kind (fh_type h))])"

lemma seed_repos:
  "map_of (repos (newCore cs)) k = (if k \<in> set allRepoPaths then Some (seedRepo k (k = allRepoPaths ! 2)) else None)"
  by (auto simp: newCore_def allRepoPaths_def enumerate_eq_zip RepoPath_def)

lemma hook_event_private: "hook_event cs (seedRepo k b) h kind = hook_event cs (seedRepo k False) h kind"
  by (simp add: hook_event_def seedRepo_def)

lemma hook_events_seed: "hook_events (newCore cs) h = seed_events cs h"
  using hook_event_private [of cs "fh_repo h" "fh_repo h = allRepoPaths ! 2" h]
  by (simp add: hook_events_def seed_repos seed_events_def)

fun cases_ok :: "Fixtures \<Rightarrow> Capabilities \<Rightarrow> Core \<Rightarrow> (string \<times> fakeHook \<times> Want list) list \<Rightarrow> bool" where
  "cases_ok f cs s [] = True"
| "cases_ok f cs s ((name, h, want) # rest) \<longleftrightarrow>
     plain_hook h \<and> judge f cs s [] (seed_events cs h) want \<and> cases_ok f cs s rest"
end
