(* ===== verification/WireExamples.thy ===== *)
theory WireExamples
  imports FakeProvider
begin

text \<open>
  The properties of \<^verbatim>\<open>Dispatch\<close> at the fakes: requests that are refused, that fail and that
  succeed.
\<close>

abbreviation plain_quote :: "string \<Rightarrow> string" where
  "plain_quote s \<equiv> [QUOTE] @ s @ [QUOTE]"

abbreviation toy_mac :: "bytes \<Rightarrow> bytes \<Rightarrow> bytes" where
  "toy_mac key body \<equiv> take 2 (key @ body)"

abbreviation full0 :: "Core Provider" where
  "full0 \<equiv> full_provider plain_quote toy_mac 0"

abbreviation minimal0 :: "Core Provider" where
  "minimal0 \<equiv> minimal_provider plain_quote toy_mac 0"

lemma parse_null: "parse_json ''null'' = Some JNull"
  by code_simp

lemma parse_broken: "parse_json ''{'' = None"
  by code_simp

lemma offered_full0: "opn \<in> op_Name ` set Operations \<Longrightarrow> offers full0 NewFull opn = Returned True"
  using full_serves [of opn] full.offers [of NewFull plain_quote toy_mac 0 opn]
  by (simp add: NewFull_def reachable_new)

lemma not_offered_minimal0: "offers minimal0 NewMinimal ''merge_change_request'' = Returned False"
proof -
  have "list_all (\<lambda>op. op_Name op = ''merge_change_request'' \<longrightarrow> op_Capability op \<noteq> '''') Operations"
    by (simp add: Operations_def operations_def required_def optional_def)
  then have "\<not> available minimalCapabilities ''merge_change_request''"
    by (auto simp: minimal_serves list_all_iff)
  then show ?thesis
    using minimal.offers [of NewMinimal plain_quote toy_mac 0 "''merge_change_request''"] by (simp add: NewMinimal_def reachable_new)
qed

text \<open>A merge asked of the minimal fake, which does not declare merging.\<close>

theorem dispatch_refuses_witness:
  "\<exists>err out. Dispatch plain_quote minimal0 ''merge_change_request'' ''null'' NewMinimal = (NewMinimal, HTTPStatus (er_code err), out) \<and>
     er_code err = CodeUnsupported \<and>
     unmarshal zero_Envelope d_Envelope out = Some \<lparr>env_ok = False, env_result = [], env_error = Some (json_Error err)\<rparr>"
proof -
  have "offers minimal0 NewMinimal ''merge_change_request'' \<noteq> Returned True \<or>
      ''merge_change_request'' \<noteq> ''describe'' \<and> (''null'' = [] \<or> parse_json ''null'' = None)"
    unfolding not_offered_minimal0 by simp
  note refused = dispatch_refuses [OF this, of plain_quote]
  from refused obtain err out where "Dispatch plain_quote minimal0 ''merge_change_request'' ''null'' NewMinimal = (NewMinimal, HTTPStatus (er_code err), out)"
      "offers minimal0 NewMinimal ''merge_change_request'' = Returned False \<longrightarrow> er_code err = CodeUnsupported"
      "unmarshal zero_Envelope d_Envelope out = Some \<lparr>env_ok = False, env_result = [], env_error = Some (json_Error err)\<rparr>"
    by (elim exE conjE)
  then show ?thesis unfolding not_offered_minimal0 by blast
qed

lemma delete_entry:
  "\<exists>entry. opIndex ''delete_identity'' = Some entry \<and> oe_call entry full0 ''null'' NewFull =
     (fst (DeleteIdentity zero_DeleteIdentityRequest NewFull), Answers (Some (JObj [])))"
proof -
  let ?e = "optional ''delete_identity'' ''identity_deletion'' zero_DeleteIdentityRequest d_DeleteIdentityRequest e_unit pv_IdentityDeleter
    :: Core opEntry"
  have "?e \<in> set operations" by (simp add: operations_def)
  then have "opIndex ''delete_identity'' = Some ?e" by (simp add: opIndex_iff optional_def)
  moreover have "oe_call ?e full0 ''null'' NewFull = (fst (DeleteIdentity zero_DeleteIdentityRequest NewFull), Answers (Some (JObj [])))"
    by (simp add: optional_def decode_def unmarshal_def parse_null d_DeleteIdentityRequest_def d_struct_def full_fields DeleteIdentity_def e_unit_def)
  ultimately show ?thesis by blast
qed

text \<open>An identity deleted on the full fake.\<close>

theorem dispatch_result_witness:
  "\<exists>out. Dispatch plain_quote full0 ''delete_identity'' ''null'' NewFull =
       (fst (DeleteIdentity zero_DeleteIdentityRequest NewFull), 200, out) \<and>
     unmarshal zero_Envelope d_Envelope out = Some \<lparr>env_ok = True, env_result = ''{'' @ ''}'', env_error = None\<rparr>"
proof -
  obtain entry where e: "opIndex ''delete_identity'' = Some entry" "oe_call entry full0 ''null'' NewFull =
     (fst (DeleteIdentity zero_DeleteIdentityRequest NewFull), Answers (Some (JObj [])))"
    using delete_entry by auto
  have "offers full0 NewFull ''delete_identity'' = Returned True"
    by (rule offered_full0) (simp add: Operations_def operations_def required_def optional_def)
  from dispatch_result [OF this e, of plain_quote] show ?thesis by (simp add: max_depth_def)
qed

text \<open>An issue asked for without a repository.\<close>

lemma get_issue_fails: "fst (snd (Dispatch plain_quote full0 ''get_issue'' ''null'' NewFull)) = 404"
proof -
  let ?e = "required ''get_issue'' zero_IssueRequest d_IssueRequest e_Issue pv_GetIssue :: Core opEntry"
  have "?e \<in> set operations" by (simp add: operations_def)
  then have e: "opIndex ''get_issue'' = Some ?e" by (simp add: opIndex_iff required_def)
  have "find_repo NewFull (iq_target zero_IssueRequest) = None"
    by (simp add: find_repo_def zero_IssueRequest_def zero_Target_def zero_IdentityRef_def IdentityID_def split: option.split)
  then have "oe_call ?e full0 ''null'' NewFull = (NewFull, fails CodeNotFound ''repository not found'')"
    by (simp add: required_def decode_def unmarshal_def parse_null d_IssueRequest_def d_struct_def full_fields GetIssue_def with_repo_def fails_def)
  moreover have "offers full0 NewFull ''get_issue'' = Returned True"
    by (rule offered_full0) (simp add: Operations_def operations_def required_def optional_def)
  ultimately show ?thesis
    using dispatch_available [of full0 NewFull "''get_issue''" plain_quote "''null''"] e
    by (auto simp: outcome_def fails_def fail_def AsError_def Errorf_def HTTPStatus_def)
qed

theorem dispatch_failure_witness:
  "\<exists>err. fst (snd (Dispatch plain_quote full0 ''get_issue'' ''null'' NewFull)) = HTTPStatus (er_code err) \<and>
     unmarshal zero_Envelope d_Envelope (snd (snd (Dispatch plain_quote full0 ''get_issue'' ''null'' NewFull))) =
       Some \<lparr>env_ok = False, env_result = [], env_error = Some err\<rparr>"
proof -
  obtain s' status out where d: "Dispatch plain_quote full0 ''get_issue'' ''null'' NewFull = (s', status, out)"
    using prod_cases3 by blast
  then have "status \<noteq> 200" using get_issue_fails by simp
  from dispatch_failure [OF full.errors_fit d this] show ?thesis by (simp only: d fst_conv snd_conv)
qed

end
