(* ===== verification/FakeConformance.thy ===== *)
theory FakeConformance
  imports FakeHooks WireExamples
begin

text \<open>
  The two fakes under the suite.  \<open>fake_core\<close> is what the suite asks of the required operations
  of either, \<open>fake_full\<close> and \<open>fake_minimal\<close> add the optional ones; the tests are evaluated inside
  them on the seed state, and both providers are instances.
\<close>

section \<open>The fixtures without the deliveries\<close>

definition seed_fixtures :: "WebhookCase list \<Rightarrow> WebhookRequest \<Rightarrow> Fixtures" where
  "seed_fixtures W B =
     (let identity = \<lparr>ir_id = IdentityID, ir_handle = IdentityHandle, ir_provider_ref = []\<rparr> in
      \<lparr>fx_Identity = identity, fx_IdentityKind = '''',
       fx_Repo = zero_RepoRef\<lparr>rr_host := Host, rr_full_path := RepoPath, rr_default_branch := ''main''\<rparr>,
       fx_InvisibleRepo = zero_RepoRef\<lparr>rr_host := Host, rr_full_path := ''secret/hidden''\<rparr>,
       fx_RepoURL = ''https://'' @ Host @ ''/'' @ RepoPath @ ''.git'',
       fx_Candidates = [identity], fx_ExpectedRepoPaths = allRepoPaths,
       fx_ChangeRequest = SeedCRNumber, fx_MissingCR = ''999'',
       fx_ChangedFiles = [''src/main.go'', ''src/util.go'', ''docs/guide.md''],
       fx_HeadSHA = SeedHeadSHA, fx_FailingCheckID = ''chk-1'', fx_IssueNumber = ''7'', fx_ThreadID = ''thr-1'',
       fx_Actors = [(''octocat'', PermissionWrite), (''reader'', PermissionRead), (''owner'', PermissionAdmin)],
       fx_Webhooks = W, fx_BadSignature = B, fx_Secrets = [WebhookSecret, StaticSecret],
       fx_SetupHost = Host, fx_SetupCompleteParams = [(''token'', ''pasted-token'')],
       fx_MutationsAllowed = True, fx_NewBranchHead = ''feat/new'', fx_DraftBranchHead = '''', fx_IdempotentBranchHead = '''',
       fx_NewBranchName = '''', fx_BaseBranch = ''main'', fx_File_Ref = ''main'', fx_File_Path = ''README.md'',
       fx_SearchQuery = ''package main'', fx_Reviewer = ''reader'',
       fx_AccessGrantParams = [(''owner'', ''acme'')], fx_AccessOwner = ''acme''\<rparr>)"

lemma fixtures_seed:
  "HarnessFixtures mac = seed_fixtures (fx_Webhooks (HarnessFixtures mac)) (bad_delivery mac)"
  by (simp add: seed_fixtures_def HarnessFixtures_def Let_def)

section \<open>The required operations\<close>

definition core_describe :: "(Core, Info) test" where
  "core_describe s = (s, [], Goes (Describe s))"

locale fake_core =
  fixes p :: "Core Provider" and mac :: "bytes \<Rightarrow> bytes \<Rightarrow> bytes" and now :: gotime
  assumes describe: "pv_Describe p = (\<lambda>c. Returned (Describe c))"
    and begin_setup: "pv_BeginIdentitySetup p = BeginIdentitySetup plain_quote"
    and complete_setup: "pv_CompleteIdentitySetup p = CompleteIdentitySetup"
    and list_repositories: "pv_ListRepositories p = ListRepositories"
    and resolve: "pv_ResolveRepository p = ResolveRepository"
    and webhook: "pv_VerifyAndParseWebhook p = VerifyAndParseWebhook mac parse_hook"
    and mint: "pv_MintCredential p = MintCredential now"
    and actor: "pv_GetActorPermission p = GetActorPermission"
    and protection: "pv_GetBranchProtection p = GetBranchProtection"
    and change_request: "pv_GetChangeRequest p = GetChangeRequest"
    and changed_files: "pv_ListChangedFiles p = ListChangedFiles"
    and diff: "pv_GetDiff p = GetDiff"
    and threads: "pv_ListThreads p = ListThreads"
    and comments: "pv_ListComments p = ListComments"
    and issue: "pv_GetIssue p = GetIssue"
    and checks: "pv_GetChecks p = GetChecks"
    and logs: "pv_GetCheckLogs p = GetCheckLogs"
    and open_cr: "pv_OpenChangeRequest p = OpenChangeRequest"
    and update_cr: "pv_UpdateChangeRequest p = UpdateChangeRequest"
    and comment: "pv_Comment p = PostComment"
    and reply: "pv_ReplyThread p = ReplyThread"
    and review: "pv_SubmitReview p = SubmitReview plain_quote"
    and status: "pv_SetStatus p = SetStatus"
begin

lemma describes: "t_describe p = core_describe"
  by (rule ext) (simp add: t_describe_def core_describe_def describe)

lemmas caps = t_caps_def describes

lemmas setup_ops = testSetup_def setup_completes_def begin_setup complete_setup caps
lemmas credential_ops = testCredentials_def mint_checks_def mint caps
lemmas read_ops =
  testReads_def reads_change_request_def reads_files_def reads_diff_def reads_threads_def reads_issue_def
  reads_comments_def reads_checks_def reads_logs_def reads_invisible_def optional_reads_def
  change_request changed_files diff threads issue comments checks logs caps
lemmas open_ops = write_open_def draft_checks_def idempotent_open_def update_checks_def open_cr update_cr caps
lemmas comment_ops = write_comments_def idempotent_comment_def reply_checks_def comment reply caps
lemmas review_ops = write_review_def review caps

lemma repositories_pass: "t_passes (testRepositories p (seed_fixtures W B)) (newCore cs)"
  unfolding testRepositories_def resolve_checks_def list_repositories resolve by code_simp

lemma policy_passes: "t_passes (testPolicyInputs p (seed_fixtures W B)) (newCore cs)"
  unfolding testPolicyInputs_def actor_checks_def actor protection by code_simp

lemma status_passes: "t_passes (write_status p (seed_fixtures W B)) (newCore cs)"
  unfolding write_status_def status by code_simp

end

section \<open>The full fake\<close>

locale fake_full = fake_core +
  assumes lister: "pv_IssueLister p = Some ListIssues"
    and resolver: "pv_ThreadResolver p = Some ResolveThread"
    and file_reader: "pv_FileReader p = Some GetFile"
    and searcher: "pv_CodeSearcher p = Some SearchCode"
    and labels: "pv_LabelManager p = Some AddLabels"
    and reviewers: "pv_ReviewerRequester p = Some RequestReviewers"
    and assignees: "pv_AssigneeSetter p = Some SetAssignees"
    and merger: "pv_Merger p = Some MergeChangeRequest"
    and rerunner: "pv_CheckRerunner p = Some RerunChecks"
    and reactor: "pv_Reactor p = Some React"
    and branches: "pv_BranchManager p = Some (GetBranch, CreateBranch)"
    and hooks: "pv_WebhookManager p = Some (EnsureWebhook, RemoveWebhook)"
    and deleter: "pv_IdentityDeleter p = Some DeleteIdentity"
    and describer: "pv_IdentityDescriber p = Some DescribeIdentity"
    and granter: "pv_AccessGranter p = Some (BeginAccessGrant, CompleteAccessGrant)"
begin

lemmas optional = lister resolver file_reader searcher labels reviewers assignees merger rerunner reactor branches hooks
  deleter describer granter

lemma describe_passes: "t_passes (testDescribe p (seed_fixtures W B)) NewFull"
  unfolding testDescribe_def Implemented_def optional describes by code_simp

lemma setup_passes: "t_passes (testSetup p (seed_fixtures W B)) NewFull"
  unfolding setup_ops by code_simp

lemma reads_pass: "t_passes (testReads p (seed_fixtures W B)) NewFull"
  unfolding read_ops lister file_reader searcher by code_simp

lemma grants_pass: "t_passes (testAccessGrants p (seed_fixtures W B)) NewFull"
  unfolding testAccessGrants_def granter caps by code_simp

lemma identity_passes: "t_passes (testDescribeIdentity p (seed_fixtures W B)) NewFull"
  unfolding testDescribeIdentity_def describer caps by code_simp

lemma open_passes: "t_passes (write_open p (seed_fixtures W B)) NewFull"
  unfolding open_ops by code_simp

lemma comments_pass: "t_passes (write_comments p (seed_fixtures W B)) NewFull"
  unfolding comment_ops by code_simp

lemma review_passes: "t_passes (write_review p (seed_fixtures W B)) NewFull"
  unfolding review_ops by code_simp

lemma resolve_passes: "t_passes (resolve_thread_checks p (seed_fixtures W B)) NewFull"
  unfolding resolve_thread_checks_def resolver threads by code_simp

lemma branches_pass: "t_passes (branch_checks p fullCapabilities (seed_fixtures W B)) NewFull"
  unfolding branch_checks_def branches by code_simp

lemma labels_pass: "t_passes (label_checks p (seed_fixtures W B)) NewFull"
  unfolding label_checks_def labels change_request by code_simp

lemma reviewers_pass: "t_passes (reviewer_checks p (seed_fixtures W B)) NewFull"
  unfolding reviewer_checks_def reviewers by code_simp

lemma assignees_pass: "t_passes (assignee_checks p (seed_fixtures W B)) NewFull"
  unfolding assignee_checks_def assignees by code_simp

lemma merge_passes: "t_passes (merge_checks p (seed_fixtures W B)) NewFull"
  unfolding merge_checks_def merger change_request by code_simp

lemma rerun_passes: "t_passes (rerun_test p (seed_fixtures W B)) NewFull"
  unfolding rerun_test_def rerunner by code_simp

lemma react_passes: "t_passes (react_checks p (seed_fixtures W B)) NewFull"
  unfolding react_checks_def reactor by code_simp

lemma deletion_passes: "t_passes (deletion_checks p (seed_fixtures W B)) NewFull"
  unfolding deletion_checks_def deleter by code_simp

end

section \<open>The minimal fake\<close>

locale fake_minimal = fake_core +
  assumes absent: "pv_IssueLister p = None" "pv_ThreadResolver p = None" "pv_FileReader p = None"
    "pv_CodeSearcher p = None" "pv_LabelManager p = None" "pv_ReviewerRequester p = None" "pv_AssigneeSetter p = None"
    "pv_Merger p = None" "pv_CheckRerunner p = None" "pv_Reactor p = None" "pv_BranchManager p = None"
    "pv_WebhookManager p = None" "pv_IdentityDeleter p = None" "pv_IdentityDescriber p = None" "pv_AccessGranter p = None"
begin

lemma describe_passes: "t_passes (testDescribe p (seed_fixtures W B)) NewMinimal"
  unfolding testDescribe_def Implemented_def absent describes by code_simp

lemma setup_passes: "t_passes (testSetup p (seed_fixtures W B)) NewMinimal"
  unfolding setup_ops by code_simp

lemma credentials_pass: "t_passes (testCredentials now p (seed_fixtures W B)) NewMinimal"
  unfolding credential_ops by code_simp

lemma reads_pass: "t_passes (testReads p (seed_fixtures W B)) NewMinimal"
  unfolding read_ops absent by code_simp

lemma grants_pass: "t_passes (testAccessGrants p (seed_fixtures W B)) NewMinimal"
  unfolding testAccessGrants_def absent caps by code_simp

lemma identity_passes: "t_passes (testDescribeIdentity p (seed_fixtures W B)) NewMinimal"
  unfolding testDescribeIdentity_def absent caps by code_simp

lemma open_passes: "t_passes (write_open p (seed_fixtures W B)) NewMinimal"
  unfolding open_ops by code_simp

lemma comments_pass: "t_passes (write_comments p (seed_fixtures W B)) NewMinimal"
  unfolding comment_ops by code_simp

lemma review_passes: "t_passes (write_review p (seed_fixtures W B)) NewMinimal"
  unfolding review_ops by code_simp

end

end
