(* ===== verification/FakeConforms.thy ===== *)
theory FakeConforms
  imports FakeConformance
begin

text \<open>
  \<^verbatim>\<open>TestConformance_Full\<close> and \<^verbatim>\<open>TestConformance_Minimal\<close>: the tests of the deliveries and of the
  credentials, the whole suite, and the two fakes as its subjects.
\<close>

section \<open>Subtests\<close>

text \<open>A subtest on a fresh provider that passes reports nothing and leaves the parent's state.\<close>

lemma fresh_quiet: "t_passes m s0 \<Longrightarrow> t_quiet (t_Run name (t_fresh s0 m)) s"
  by (cases "m s0") (auto simp: t_passes_def t_quiet_def t_Run_def t_fresh_def split: progress.splits)

lemma t_quiet_fatal: "t_quiet (t_fatal_if b msg) s \<longleftrightarrow> \<not> b"
  by (simp add: t_quiet_def t_fatal_if_def t_pure_def t_Fatal_def)

lemma t_quiet_run: "t_quiet m s \<Longrightarrow> t_quiet (t_Run name m) s"
  by (simp add: t_quiet_def t_Run_def)

lemma quiet_passes: "t_quiet m s \<Longrightarrow> t_passes m s"
  by (simp add: t_quiet_def t_passes_def)

lemma step_pass: "m s = (s', [], Goes ()) \<Longrightarrow> t_passes (t_steps ms) s' \<Longrightarrow> t_passes (t_steps (m # ms)) s"
  by (simp add: t_passes_bind) (simp add: t_passes_def)

lemma writes_pass:
  assumes "t_passes (write_open p f) s0" "t_passes (write_comments p f) s0" "t_passes (write_review p f) s0"
    "t_passes (write_status p f) s0"
  shows "t_passes (testWrites p f s0) s"
  unfolding testWrites_def using assms by (intro quiet_passes t_quiet_steps) (auto intro: fresh_quiet)

lemma optional_writes_pass:
  assumes "pv_Describe p s = Returned info"
    and "list_all (\<lambda>(cond, name, m). cond \<longrightarrow> t_passes m s0) (optional_write_tests p f (info_capabilities info))"
  shows "t_passes (testOptionalWrites p f s0) s"
  unfolding testOptionalWrites_def
proof (intro quiet_passes t_quiet_caps [OF assms(1)] t_quiet_each, clarify)
  fix cond name m assume "(cond, name, m) \<in> set (optional_write_tests p f (info_capabilities info))"
  then have "cond \<longrightarrow> t_passes m s0" using assms(2) by (auto simp: list_all_iff)
  then show "t_quiet (t_when cond (t_Run name (t_fresh s0 m))) s" by (auto intro: t_quiet_intros fresh_quiet)
qed

section \<open>Deliveries\<close>

lemma full_deliveries:
  "cases_ok (seed_fixtures W B) fullCapabilities s webhook_cases"
  by code_simp

lemma minimal_deliveries:
  "cases_ok (seed_fixtures W B) minimalCapabilities s webhook_cases"
  by code_simp

lemma seed_secrets: "fx_Secrets (HarnessFixtures mac) = [WebhookSecret, StaticSecret]"
  by (simp add: HarnessFixtures_def Let_def)

lemma secrets_are_words: "list_all word_text [WebhookSecret, StaticSecret]"
  by code_simp

lemma mismatch_clean: "\<not> contains ''signature mismatch'' WebhookSecret" "\<not> contains ''signature mismatch'' StaticSecret"
  by code_simp+

lemma mismatch_quiet: "t_quiet (mustCode (HarnessFixtures mac) (fails CodeInvalidSignature ''signature mismatch'') [CodeInvalidSignature]) s"
  by (simp add: mustCode_def fails_def Errorf_def noLeak_def seed_secrets mismatch_clean t_quiet_intros t_fatal_if_def)

lemma cases_okD:
  "cases_ok f cs s xs \<Longrightarrow> (name, h, want) \<in> set xs \<Longrightarrow> plain_hook h \<and> judge f cs s [] (seed_events cs h) want"
  by (induction f cs s xs rule: cases_ok.induct) auto

context fake_core
begin

lemma caps_of: "t_passes (t_bind (t_caps p) k) s \<longleftrightarrow> t_passes (k (caps s)) s"
  by (simp add: t_caps_def t_bind_assoc t_passes_describe describe Describe_def)

lemma bad_signature_quiet:
  assumes "Sign mac (wr_body (bad_delivery mac)) \<noteq> ''sha256=deadbeef''"
    and "t_quiet (k (fails CodeInvalidSignature ''signature mismatch'')) s"
  shows "t_quiet (t_bind (t_call (pv_VerifyAndParseWebhook p) (bad_delivery mac)) k) s"
  using assms(2) bad_delivery_answer [OF assms(1), of s]
  by (simp add: webhook t_quiet_def t_bind_def t_call_def fails_def)

lemma webhooks_pass:
  assumes "cases_ok (HarnessFixtures mac) cs s webhook_cases" "s = newCore cs"
    and "Sign mac (wr_body (bad_delivery mac)) \<noteq> ''sha256=deadbeef''"
  shows "t_quiet (testWebhooks p (HarnessFixtures mac)) s"
proof -
  let ?f = "HarnessFixtures mac"
  have described: "pv_Describe p s = Returned (Describe s)" "info_capabilities (Describe s) = cs"
    by (simp_all add: describe Describe_def assms(2) newCore_def)
  have cases: "t_quiet (webhook_case p ?f cs wc) s" if "wc \<in> set (fx_Webhooks ?f)" for wc
  proof -
    obtain name h want where wc: "wc = \<lparr>wc_Name = name, wc_Request = delivery mac h, wc_Want = want\<rparr>"
        and "(name, h, want) \<in> set webhook_cases"
      using \<open>wc \<in> set (fx_Webhooks ?f)\<close> by (auto simp: HarnessFixtures_def Let_def)
    then have "plain_hook h" "judge ?f cs s [] (seed_events cs h) want" using cases_okD [OF assms(1)] by blast+
    moreover have "hook_events s h = seed_events cs h" by (simp add: assms(2) hook_events_seed)
    ultimately have ok: "plain_hook h" "judge ?f cs s [] (hook_events s h) want"
      by simp_all
    show ?thesis
      using judge_quiet [OF ok(2)] secrets_are_words delivery_answer [OF ok(1), of mac s]
      by (intro webhook_case_quiet) (auto simp: wc webhook seed_secrets)
  qed
  have bad: "fx_BadSignature ?f = bad_delivery mac" "wr_headers (bad_delivery mac) \<noteq> []" "fx_Webhooks ?f \<noteq> []"
    by (simp_all add: HarnessFixtures_def Let_def bad_delivery_def webhook_cases_def)
  have parts: "t_quiet (t_fatal_if (fx_Webhooks ?f = []) ''Fixtures.Webhooks is required'') s"
      "t_quiet (t_each (fx_Webhooks ?f) (\<lambda>wc. t_Run (wc_Name wc) (webhook_case p ?f (info_capabilities (Describe s)) wc))) s"
    using bad(3) by (auto simp: t_quiet_fatal described(2) intro!: t_quiet_each t_quiet_run cases)
  have first: "t_quiet (t_bind (t_call (pv_VerifyAndParseWebhook p) (bad_delivery mac)) (\<lambda>r. t_steps
      [mustCode ?f r [CodeInvalidSignature],
       t_error_if (reply_value [] r \<noteq> []) ''a delivery that fails verification must produce no events''])) s"
    by (intro bad_signature_quiet [OF assms(3)] t_quiet_steps) (auto simp: mismatch_quiet mismatch_quiet [unfolded fails_def] fails_def intro!: t_quiet_intros)
  show ?thesis
    unfolding testWebhooks_def using bad(2) parts first
    by (intro t_quiet_caps [OF described(1)] t_quiet_steps) (auto simp: bad(1))
qed

end

section \<open>Credentials\<close>

lemma full_ephemeral: "kp_credential_model (Profile fullCapabilities (fixtureKind (HarnessFixtures mac) fullCapabilities)) = CredentialEphemeral"
  by (simp add: HarnessFixtures_def Let_def fixtureKind_def fullCapabilities_def Profile_def zero_Capabilities_def)

lemma ttl_kept: "wrap64 300000000000 = minutes 5" "0 < minutes 5" "\<not> hour < minutes 5" "\<not> minutes 10 < minutes 5"
    "\<not> minutes 65 < minutes 5" "cap_credential_model fullCapabilities = CredentialEphemeral" "CredentialEphemeral \<noteq> CredentialStatic"
    "AccessRead \<noteq> AccessWrite"
  by (simp_all add: wrap64_def minutes_def hour_def fullCapabilities_def zero_Capabilities_def CredentialEphemeral_def
      CredentialStatic_def AccessRead_def AccessWrite_def)

lemma full_app_scope: "kp_webhook_scope (Profile fullCapabilities (fixtureKind (seed_fixtures W B) fullCapabilities)) = WebhookApp"
  by (simp add: seed_fixtures_def Let_def fixtureKind_def fullCapabilities_def Profile_def zero_Capabilities_def)

lemma seed_target: "\<not> Option.is_none (find_repo NewFull (target (seed_fixtures W B)))"
  by code_simp

context fake_full
begin

lemma mint_runs:
  assumes c: "caps c = fullCapabilities" "find_repo c (target (HarnessFixtures mac)) = Some r" and "0 < now"
    and access: "access = AccessRead \<or> access = AccessWrite"
  shows "mint_checks now p (HarnessFixtures mac) fullCapabilities access c = (c\<lparr>seq := seq c + 1\<rparr>, [], Goes ())"
proof -
  have "MintCredential now \<lparr>mr_target = target (HarnessFixtures mac), mr_access = access, mr_ttl_seconds = 300\<rparr> c =
      (c\<lparr>seq := seq c + 1\<rparr>, Answers \<lparr>cd_username = ''x-access-token'', cd_secret = ''tok-'' @ access @ ''-'' @ itoa (seq c + 1),
        cd_expires_at = now + minutes 5\<rparr>)"
    using c access ttl_kept by (auto simp: MintCredential_def with_repo_def next_id_def Let_def)
  then show ?thesis
    using assms(3) ttl_kept
    by (simp add: check_expiry_def t_error_if_def t_when_def mint_checks_def mint t_must_def t_bind_def t_call_def t_pure_def full_ephemeral)
qed

lemma mint_refusals:
  "t_passes (t_steps
     [t_refused (seed_fixtures W B) (pv_MintCredential p) (zero_MintRequest\<lparr>mr_target := target (seed_fixtures W B), mr_access := ''admin''\<rparr>)
        [CodeValidation],
      t_when (rr_full_path (fx_InvisibleRepo (seed_fixtures W B)) \<noteq> [])
        (t_refused (seed_fixtures W B) (pv_MintCredential p)
          (zero_MintRequest\<lparr>mr_target := \<lparr>tg_identity = fx_Identity (seed_fixtures W B), tg_repo = fx_InvisibleRepo (seed_fixtures W B)\<rparr>,
             mr_access := AccessRead\<rparr>) [CodeNotFound, CodeForbidden])])
     (NewFull\<lparr>seq := 2\<rparr>)"
  unfolding mint by code_simp

lemma credentials_pass:
  assumes "0 < now"
  shows "t_passes (testCredentials now p (HarnessFixtures mac)) NewFull"
proof -
  let ?f = "HarnessFixtures mac"
  obtain W B where f: "?f = seed_fixtures W B" using fixtures_seed by blast
  obtain r where r: "find_repo NewFull (target ?f) = Some r"
    using seed_target [of W B] unfolding f by (auto simp: Option.is_none_def)
  have full: "caps NewFull = fullCapabilities" "seq NewFull = 0" by (simp_all add: NewFull_def newCore_def)
  have repo: "find_repo (NewFull\<lparr>seq := n\<rparr>) (target ?f) = Some r" for n using r by (simp add: find_repo_def)
  have mints: "t_each [AccessRead, AccessWrite] (mint_checks now p ?f fullCapabilities) NewFull = (NewFull\<lparr>seq := 2\<rparr>, [], Goes ())"
    using mint_runs [OF full(1) r assms] mint_runs [of "NewFull\<lparr>seq := 1\<rparr>" r, OF _ repo assms]
    by (simp add: full t_bind_def t_pure_def)
  show ?thesis
    unfolding testCredentials_def caps_of full
    using mint_refusals [of W B] unfolding f [symmetric] by (rule step_pass [of "t_each [AccessRead, AccessWrite] (mint_checks now p ?f fullCapabilities)" NewFull, OF mints])
qed

end

section \<open>Both fakes\<close>

context fake_full
begin

lemma suite_passes:
  assumes "0 < now" "Sign mac (wr_body (bad_delivery mac)) \<noteq> ''sha256=deadbeef''"
  shows "list_all (\<lambda>(name, m). t_passes m NewFull) (suite plain_quote now p NewFull (HarnessFixtures mac))"
proof -
  obtain W B where f: "HarnessFixtures mac = seed_fixtures W B" using fixtures_seed by blast
  have described: "pv_Describe p NewFull = Returned (Describe NewFull)" and caps: "info_capabilities (Describe NewFull) = fullCapabilities"
    by (simp_all add: describe Describe_def NewFull_def newCore_def)
  have "t_passes (testWebhooks p (HarnessFixtures mac)) NewFull"
    using full_deliveries [of W B] by (intro quiet_passes webhooks_pass [OF _ NewFull_def assms(2)]) (simp add: f)
  moreover have "t_passes (testOptionalWrites p (seed_fixtures W B) NewFull) NewFull"
    by (rule optional_writes_pass [OF described])
       (simp add: caps optional_write_tests_def resolve_passes branches_pass labels_pass reviewers_pass assignees_pass
        merge_passes rerun_passes react_passes deletion_passes full_app_scope)
  moreover have "t_passes (testWrites p (seed_fixtures W B) NewFull) NewFull"
    by (rule writes_pass [OF open_passes comments_pass review_passes status_passes [of _ _ fullCapabilities, folded NewFull_def]])
  ultimately show ?thesis
    using credentials_pass [OF assms(1)] repositories_pass [of W B fullCapabilities] policy_passes [of W B fullCapabilities]
    unfolding f NewFull_def [symmetric]
    by (simp add: suite_def describe_passes setup_passes reads_pass grants_pass identity_passes
        wire_quiet [OF described, THEN quiet_passes] unsupported_quiet [OF described, THEN quiet_passes])
qed

end

context fake_minimal
begin

lemma suite_passes:
  assumes "Sign mac (wr_body (bad_delivery mac)) \<noteq> ''sha256=deadbeef''"
  shows "list_all (\<lambda>(name, m). t_passes m NewMinimal) (suite plain_quote now p NewMinimal (HarnessFixtures mac))"
proof -
  obtain W B where f: "HarnessFixtures mac = seed_fixtures W B" using fixtures_seed by blast
  have described: "pv_Describe p NewMinimal = Returned (Describe NewMinimal)"
    and caps: "info_capabilities (Describe NewMinimal) = minimalCapabilities"
    by (simp_all add: describe Describe_def NewMinimal_def newCore_def)
  have "t_passes (testWebhooks p (HarnessFixtures mac)) NewMinimal"
    using minimal_deliveries [of W B] by (intro quiet_passes webhooks_pass [OF _ NewMinimal_def assms]) (simp add: f)
  moreover have "t_passes (testOptionalWrites p (seed_fixtures W B) NewMinimal) NewMinimal"
    by (rule optional_writes_pass [OF described])
       (simp add: caps optional_write_tests_def minimalCapabilities_def zero_Capabilities_def)
  moreover have "t_passes (testWrites p (seed_fixtures W B) NewMinimal) NewMinimal"
    by (rule writes_pass [OF open_passes comments_pass review_passes status_passes [of _ _ minimalCapabilities, folded NewMinimal_def]])
  ultimately show ?thesis
    using repositories_pass [of W B minimalCapabilities] policy_passes [of W B minimalCapabilities]
    unfolding f NewMinimal_def [symmetric]
    by (simp add: suite_def describe_passes setup_passes credentials_pass reads_pass grants_pass identity_passes
        wire_quiet [OF described, THEN quiet_passes] unsupported_quiet [OF described, THEN quiet_passes])
qed

end

interpretation full_suite: fake_full "full_provider plain_quote mac now" mac now for mac now
  by unfold_locales (rule full_fields)+

interpretation minimal_suite: fake_minimal "minimal_provider plain_quote mac now" mac now for mac now
  by unfold_locales (rule minimal_fields)+

lemma suite_quiet:
  "list_all (\<lambda>(name, m). t_passes m s0) xs \<Longrightarrow> t_quiet (t_each xs (\<lambda>(name, m). t_Run name (t_fresh s0 m))) s"
  by (rule t_quiet_each) (auto simp: list_all_iff intro: fresh_quiet)

text \<open>
  C13: both fakes conform.  \<^verbatim>\<open>Run\<close> on the harness of the full fake and on that of the minimal one
  reports no failure, on any subtest: all that the contract's suite asks, of reads, writes,
  deliveries, errors, secrets and honest capabilities, the reference providers do.  The clock
  is past the zero time, and the code of the broken delivery is not the right one by accident.
\<close>

theorem fakes_conform:
  assumes "0 < now" "Sign mac (wr_body (bad_delivery mac)) \<noteq> ''sha256=deadbeef''"
  shows "RunSuite plain_quote now (FakeHarness plain_quote mac now minimal) s = (s, [], Goes ())"
  using suite_quiet [OF full_suite.suite_passes [OF assms], of s]
    suite_quiet [OF minimal_suite.suite_passes [OF assms(2)], of now s]
  by (cases minimal) (simp_all add: RunSuite_def FakeHarness_def t_quiet_def)

theorem fakes_conform_witness:
  "RunSuite plain_quote 1 (FakeHarness plain_quote (\<lambda>_ _. []) 1 True) NewMinimal = (NewMinimal, [], Goes ()) \<and>
   RunSuite plain_quote 1 (FakeHarness plain_quote (\<lambda>_ _. []) 1 False) NewMinimal = (NewMinimal, [], Goes ())"
  by (intro conjI fakes_conform) (simp_all add: Sign_def hex_encode_def)

end
