(* ===== verification/WasmMemory.thy ===== *)
theory WasmMemory
  imports GoStrings "HOL-Library.Word"
begin

text \<open>
  The memory side of the WASM boundary: the bump allocator of \<^verbatim>\<open>wasm_backends.go\<close>
  the host writes its data through, \<^verbatim>\<open>wasmSlice\<close> that reads it back, the packed
  results of \<^verbatim>\<open>wasm_exports.go\<close>, the bound on them (\<^verbatim>\<open>wasm_result.go\<close>) and the output
  buffer of a query (\<^verbatim>\<open>wasm_output.go\<close>).  An \<^verbatim>\<open>int32\<close> is a 32-bit word read as two's
  complement, and its \<^verbatim>\<open>+\<close> and \<^verbatim>\<open>-\<close> wrap.
\<close>

unbundle bit_operations_syntax

type_synonym i32 = "32 word"
type_synonym i64 = "64 word"

section \<open>The arena\<close>

text \<open>\<^verbatim>\<open>len(mallocBuffer)\<close>: one MiB.\<close>

definition arena_len :: nat where
  "arena_len = 1048576"

record arena =
  mallocBuffer :: bytes
  mallocOffset :: i32
  mallocBase :: i32

text \<open>
  \<open>addr\<close> is the linear-memory address of \<^verbatim>\<open>mallocBuffer[0]\<close>, which the linker chooses;
  the code caches it in \<^verbatim>\<open>mallocBase\<close> at the first use.
\<close>

definition cache_base :: "i32 \<Rightarrow> arena \<Rightarrow> arena" where
  "cache_base addr a = (if mallocBase a = 0 then a\<lparr>mallocBase := addr\<rparr> else a)"

definition wasmMalloc :: "i32 \<Rightarrow> i32 \<Rightarrow> arena \<Rightarrow> i32 \<times> arena" where
  "wasmMalloc addr n a =
     (if n \<le>s 0 then (0, a)
      else let a1 = cache_base addr a; bufOffset = mallocOffset a1
           in if of_nat arena_len <s bufOffset + n then (0, a1)
              else (mallocBase a1 + bufOffset, a1\<lparr>mallocOffset := bufOffset + n\<rparr>))"

definition wasmResetAllocator :: "arena \<Rightarrow> arena" where
  "wasmResetAllocator a = a\<lparr>mallocOffset := 0\<rparr>"

text \<open>
  A slice expression \<^verbatim>\<open>mallocBuffer[lo:hi]\<close> panics unless \<open>0 \<le> lo \<le> hi \<le> len\<close>.
  \<open>None\<close> is the \<^verbatim>\<open>nil\<close> slice.
\<close>

definition slice_buffer :: "bytes \<Rightarrow> i32 \<Rightarrow> i32 \<Rightarrow> bytes outcome" where
  "slice_buffer buf lo hi =
     (if 0 \<le>s lo \<and> lo \<le>s hi \<and> sint hi \<le> int (length buf)
      then Returned (take (unat (hi - lo)) (drop (unat lo) buf)) else Panicked)"

definition wasmSlice :: "i32 \<Rightarrow> i32 \<Rightarrow> i32 \<Rightarrow> arena \<Rightarrow> bytes option outcome \<times> arena" where
  "wasmSlice addr ptr len a =
     (if len = 0 \<or> ptr = 0 then (Returned None, a)
      else let a1 = cache_base addr a; start = ptr - mallocBase a1
           in if start <s 0 \<or> of_nat arena_len <s start + len then (Returned None, a1)
              else (bind_outcome (slice_buffer (mallocBuffer a1) start (start + len)) (\<lambda>b. Returned (Some b)), a1))"

text \<open>The host's side of the protocol: it writes at an address \<open>paca_malloc\<close> returned.\<close>

definition host_write :: "i32 \<Rightarrow> i32 \<Rightarrow> bytes \<Rightarrow> arena \<Rightarrow> arena" where
  "host_write addr ptr data a =
     (let start = unat (ptr - addr)
      in a\<lparr>mallocBuffer := take start (mallocBuffer a) @ data @ drop (start + length data) (mallocBuffer a)\<rparr>)"

section \<open>Results handed to the host\<close>

definition maxResultBytes :: nat where
  "maxResultBytes = 16 * 2 ^ 20"

definition resultTooLarge :: "nat \<Rightarrow> string" where
  "resultTooLarge n = ''plugin: result of '' @ itoa (int n) @ '' bytes exceeds the limit of '' @
     itoa (int maxResultBytes) @ '' bytes''"

definition boundResult :: "bytes \<Rightarrow> (string \<Rightarrow> bytes) \<Rightarrow> bytes" where
  "boundResult result tooLarge =
     (if length result \<le> maxResultBytes then result else tooLarge (resultTooLarge (length result)))"

text \<open>
  \<open>packWASMResult\<close> keeps the result alive in \<^verbatim>\<open>resultBuf\<close> and returns its packed address
  and length; \<open>place\<close> gives the address of the Go heap object that holds the result.
\<close>

definition packWASMResult :: "(bytes \<Rightarrow> i32) \<Rightarrow> bytes \<Rightarrow> (string \<Rightarrow> bytes) \<Rightarrow> i64 \<times> bytes option" where
  "packWASMResult place result tooLarge =
     (let r = boundResult result tooLarge
      in if length r = 0 then (0, None)
         else (push_bit 32 (ucast (place r)) OR of_nat (length r), Some r))"

section \<open>The output buffer of a query\<close>

definition le32 :: "bytes \<Rightarrow> nat \<Rightarrow> i32" where
  "le32 buf i =
     of_char (buf ! i) OR push_bit 8 (of_char (buf ! (i + 1))) OR
     push_bit 16 (of_char (buf ! (i + 2))) OR push_bit 24 (of_char (buf ! (i + 3)))"

definition decodeQuery2Output :: "bytes \<Rightarrow> (i32 \<times> i32 \<times> i32 \<times> i32) outcome" where
  "decodeQuery2Output buf =
     (if length buf < 16 then Panicked
      else Returned (le32 buf 0, le32 buf 4, le32 buf 8, le32 buf 12))"

text \<open>How a host lays a 32-bit value out: the little-endian bytes WASM stores.\<close>

definition le32_bytes :: "i32 \<Rightarrow> bytes" where
  "le32_bytes w = map (\<lambda>k. char_of (unat (drop_bit (8 * k) w))) [0, 1, 2, 3]"

lemma of_char_of_word: "(of_char (char_of n) :: 'a::len word) = take_bit 8 (of_nat n)" for n :: nat
proof -
  have "(of_char (char_of n) :: 'a word) = of_nat (of_char (char_of n))" by (simp only: of_nat_of_char)
  also have "(of_char (char_of n) :: nat) = take_bit 8 n" by (simp add: take_bit_eq_mod)
  finally show ?thesis by (simp only: of_nat_take_bit)
qed

lemma length_le32_bytes [simp]: "length (le32_bytes w) = 4"
  by (simp add: le32_bytes_def)

lemma le32_append_left: "le32 (xs @ ys) (length xs + i) = le32 ys i"
  by (simp add: le32_def nth_append add.assoc)

lemma le32_append_right: "i + 3 < length xs \<Longrightarrow> le32 (xs @ ys) i = le32 xs i"
  by (simp add: le32_def nth_append)

lemma le32_bytes_roundtrip: "le32 (le32_bytes w) 0 = w"
proof -
  have "take_bit 8 w OR push_bit 8 (take_bit 8 (drop_bit 8 w)) OR
      push_bit 16 (take_bit 8 (drop_bit 16 w)) OR push_bit 24 (take_bit 8 (drop_bit 24 w)) = w"
  proof (rule bit_word_eqI)
    fix n
    assume "n < LENGTH(32)"
    then show "bit (take_bit 8 w OR push_bit 8 (take_bit 8 (drop_bit 8 w)) OR
      push_bit 16 (take_bit 8 (drop_bit 16 w)) OR push_bit 24 (take_bit 8 (drop_bit 24 w))) n = bit w n"
      by (cases "n < 8"; cases "n < 16"; cases "n < 24") (auto simp: bit_simps)
  qed
  then show ?thesis by (simp add: le32_def le32_bytes_def of_char_of_word)
qed

section \<open>Signed words without wrap-around\<close>

lemma sint_add_small:
  "- (2 ^ 31) \<le> sint a + sint b \<Longrightarrow> sint a + sint b < 2 ^ 31 \<Longrightarrow> sint (a + b) = sint a + sint b"
  for a b :: i32
  by (simp add: sint_word_add signed_take_bit_int_eq_self)

lemma unat_sint_nonneg: "0 \<le> sint w \<Longrightarrow> int (unat w) = sint w" for w :: i32
  using sint_less [of w] by (simp add: uint_sint take_bit_int_eq_self)

lemma sint_arena_len: "sint (of_nat arena_len :: i32) = 1048576"
  by (simp add: arena_len_def)

section \<open>The allocator keeps its blocks apart\<close>

text \<open>
  The linker puts the buffer at a non-null address and inside the 32-bit address
  space.
\<close>

definition addr_ok :: "i32 \<Rightarrow> bool" where
  "addr_ok addr \<longleftrightarrow> 0 < unat addr \<and> unat addr + arena_len < 2 ^ 32"

definition wf_arena :: "i32 \<Rightarrow> arena \<Rightarrow> bool" where
  "wf_arena addr a \<longleftrightarrow>
     length (mallocBuffer a) = arena_len \<and> 0 \<le> sint (mallocOffset a) \<and>
     sint (mallocOffset a) \<le> int arena_len \<and> (mallocBase a = 0 \<or> mallocBase a = addr)"

definition used :: "arena \<Rightarrow> nat" where
  "used a = unat (mallocOffset a)"

lemma cache_base_simps [simp]:
  "mallocBuffer (cache_base addr a) = mallocBuffer a"
  "mallocOffset (cache_base addr a) = mallocOffset a"
  "wf_arena addr a \<Longrightarrow> mallocBase (cache_base addr a) = addr"
  "wf_arena addr a \<Longrightarrow> wf_arena addr (cache_base addr a)"
  by (auto simp: cache_base_def wf_arena_def)

lemma wf_reset: "wf_arena addr a \<Longrightarrow> wf_arena addr (wasmResetAllocator a) \<and> used (wasmResetAllocator a) = 0"
  by (simp add: wf_arena_def wasmResetAllocator_def used_def)

lemma wasmMalloc_cases:
  assumes "wf_arena addr a" "0 < sint n" "sint n < 2 ^ 30"
  shows "int (used a) + sint n \<le> int arena_len \<Longrightarrow>
      \<exists>a'. wasmMalloc addr n a = (addr + mallocOffset a, a') \<and> wf_arena addr a' \<and>
        used a' = used a + nat (sint n) \<and> mallocBuffer a' = mallocBuffer a"
    and "int arena_len < int (used a) + sint n \<Longrightarrow>
      \<exists>a'. wasmMalloc addr n a = (0, a') \<and> wf_arena addr a' \<and> used a' = used a \<and>
        mallocBuffer a' = mallocBuffer a"
proof -
  have off: "0 \<le> sint (mallocOffset a)" "sint (mallocOffset a) \<le> 1048576"
    "int (used a) = sint (mallocOffset a)"
    using assms(1) unat_sint_nonneg by (auto simp: wf_arena_def used_def arena_len_def)
  have sum: "sint (mallocOffset a + n) = int (used a) + sint n"
    using off assms by (subst sint_add_small) auto
  have m: "wasmMalloc addr n a =
      (if 1048576 < int (used a) + sint n then (0, cache_base addr a)
       else (addr + mallocOffset a, (cache_base addr a)\<lparr>mallocOffset := mallocOffset a + n\<rparr>))"
    using assms sum sint_arena_len
    by (simp add: wasmMalloc_def word_sle_eq word_sless_alt Let_def)
  show "int arena_len < int (used a) + sint n \<Longrightarrow> \<exists>a'. wasmMalloc addr n a = (0, a') \<and>
      wf_arena addr a' \<and> used a' = used a \<and> mallocBuffer a' = mallocBuffer a"
    using assms(1) by (simp add: m arena_len_def used_def)
  assume fits: "int (used a) + sint n \<le> int arena_len"
  let ?a = "(cache_base addr a)\<lparr>mallocOffset := mallocOffset a + n\<rparr>"
  have "int (used ?a) = int (used a) + sint n"
    using unat_sint_nonneg [of "mallocOffset a + n"] sum off assms(2) by (simp add: used_def)
  moreover have "wf_arena addr ?a"
    using cache_base_simps(4) [OF assms(1)] assms(1,2) off sum fits
    by (auto simp: wf_arena_def arena_len_def cache_base_def)
  ultimately show "\<exists>a'. wasmMalloc addr n a = (addr + mallocOffset a, a') \<and> wf_arena addr a' \<and>
        used a' = used a + nat (sint n) \<and> mallocBuffer a' = mallocBuffer a"
    using fits assms(2) by (simp add: m arena_len_def)
qed

lemma unat_of_nat_small: "n < 2 ^ 31 \<Longrightarrow> unat (of_nat n :: i32) = n"
  by (simp add: unat_of_nat take_bit_nat_eq_self)

lemma sint_of_nat_small: "n < 2 ^ 31 \<Longrightarrow> sint (of_nat n :: i32) = int n"
  using sint_sbintrunc' [of "int n", where ?'a = 32] by (simp add: signed_take_bit_int_eq_self)

lemma block_addr_nonnull:
  assumes "addr_ok addr" "s \<le> arena_len"
  shows "addr + of_nat s \<noteq> 0"
proof -
  have "unat (of_nat s :: i32) = s" using assms(2) by (simp add: unat_of_nat_small arena_len_def)
  then have "unat (addr + of_nat s) = unat addr + s"
    using assms unat_add_lem [of addr "of_nat s"] by (simp add: addr_ok_def)
  then have "0 < unat (addr + of_nat s)" using assms(1) by (simp add: addr_ok_def)
  then show ?thesis by (metis less_irrefl unat_0)
qed

lemma wasmSlice_block:
  assumes "wf_arena addr a" "addr_ok addr" "0 < n" "s + n \<le> arena_len"
  shows "wasmSlice addr (addr + of_nat s) (of_nat n) a =
    (Returned (Some (take n (drop s (mallocBuffer a)))), cache_base addr a)"
proof -
  have small: "s < 2 ^ 31" "n < 2 ^ 31" "s + n < 2 ^ 31" "s < 2 ^ 32" using assms(4) by (auto simp: arena_len_def)
  have s: "sint (of_nat s :: i32) = int s" "sint (of_nat s + of_nat n :: i32) = int (s + n)"
    "unat (of_nat s :: i32) = s" "unat (of_nat n :: i32) = n"
    using small sint_of_nat_small [of s] sint_of_nat_small [of "s + n"]
      unat_of_nat_small [of s] unat_of_nat_small [of n] by simp_all
  have nz: "addr + of_nat s \<noteq> 0" using block_addr_nonnull [OF assms(2)] assms(4) by simp
  have nz': "(of_nat n :: i32) \<noteq> 0" using s(4) assms(3) by (metis less_irrefl unat_0)
  have base: "addr + of_nat s - mallocBase (cache_base addr a) = of_nat s" using assms(1) by simp
  have "slice_buffer (mallocBuffer a) (of_nat s) (of_nat s + of_nat n) =
      Returned (take n (drop s (mallocBuffer a)))"
    using assms(1,4) s by (simp add: slice_buffer_def word_sle_eq wf_arena_def)
  then show ?thesis
    using nz nz' base s assms(4) sint_arena_len
    by (simp add: wasmSlice_def Let_def word_sless_alt arena_len_def)
qed

section \<open>The host's interface to the arena\<close>

text \<open>What the host does with one piece of data: allocate, then write at the block.\<close>

definition host_put :: "i32 \<Rightarrow> bytes \<Rightarrow> arena \<Rightarrow> i32 \<times> arena" where
  "host_put addr data a =
     (let (p, a1) = wasmMalloc addr (of_nat (length data)) a
      in if p = 0 then (0, a1) else (p, host_write addr p data a1))"

text \<open>The block at \<open>p\<close> is allocated and holds the bytes \<open>d\<close>.\<close>

definition holds :: "i32 \<Rightarrow> arena \<Rightarrow> i32 \<Rightarrow> bytes \<Rightarrow> bool" where
  "holds addr a p d \<longleftrightarrow> d \<noteq> [] \<and>
     (\<exists>s. p = addr + of_nat s \<and> s + length d \<le> used a \<and>
        take (length d) (drop s (mallocBuffer a)) = d)"

text \<open>
  The contract of a memory the host delivers its arguments through: a piece that fits
  gets a non-null pointer, reads back as it was written, and leaves every piece
  delivered before it readable; a piece that does not fit is refused.
\<close>

locale host_memory =
  fixes put :: "bytes \<Rightarrow> 'a \<Rightarrow> i32 \<times> 'a"
    and get :: "i32 \<Rightarrow> i32 \<Rightarrow> 'a \<Rightarrow> bytes option outcome \<times> 'a"
    and reset :: "'a \<Rightarrow> 'a"
    and invar :: "'a \<Rightarrow> bool"
    and room :: "'a \<Rightarrow> nat"
    and stored :: "'a \<Rightarrow> i32 \<Rightarrow> bytes \<Rightarrow> bool"
    and capacity :: nat
  assumes invar_reset: "invar a \<Longrightarrow> invar (reset a)"
    and room_reset: "invar a \<Longrightarrow> room (reset a) = capacity"
    and put_fits: "invar a \<Longrightarrow> d \<noteq> [] \<Longrightarrow> length d \<le> room a \<Longrightarrow>
      \<exists>p a'. put d a = (p, a') \<and> p \<noteq> 0 \<and> invar a' \<and> room a' = room a - length d \<and> stored a' p d \<and>
        (\<forall>q e. stored a q e \<longrightarrow> stored a' q e)"
    and put_refused: "invar a \<Longrightarrow> room a < length d \<Longrightarrow> length d < 2 ^ 30 \<Longrightarrow>
      \<exists>a'. put d a = (0, a') \<and> invar a' \<and> room a' = room a"
    and get_stored: "invar a \<Longrightarrow> stored a p d \<Longrightarrow>
      \<exists>a'. get p (of_nat (length d)) a = (Returned (Some d), a') \<and> invar a' \<and> room a' = room a \<and>
        (\<forall>q e. stored a q e \<longrightarrow> stored a' q e)"
begin

lemma put_get:
  assumes "invar a" "d \<noteq> []" "length d \<le> room a"
  shows "\<exists>p a1 a2. put d a = (p, a1) \<and> p \<noteq> 0 \<and> get p (of_nat (length d)) a1 = (Returned (Some d), a2)"
  using put_fits [OF assms] get_stored by blast

text \<open>Two arguments of one call, as the topic and the payload of an event.\<close>

lemma put_get_two:
  assumes "invar a" "d \<noteq> []" "e \<noteq> []" "length d + length e \<le> room a"
  shows "\<exists>p a1 q a2 a3 a4. put d a = (p, a1) \<and> put e a1 = (q, a2) \<and> p \<noteq> 0 \<and> q \<noteq> 0 \<and>
    get p (of_nat (length d)) a2 = (Returned (Some d), a3) \<and>
    get q (of_nat (length e)) a3 = (Returned (Some e), a4) \<and> room a4 = room a - length d - length e"
proof -
  obtain p a1 where p: "put d a = (p, a1)" "p \<noteq> 0" "invar a1" "room a1 = room a - length d" "stored a1 p d"
    using put_fits [OF assms(1,2)] assms(4) by force
  obtain q a2 where q: "put e a1 = (q, a2)" "q \<noteq> 0" "invar a2" "stored a2 q e" "stored a2 p d" "room a2 = room a1 - length e"
    using put_fits [OF p(3) assms(3)] p(4,5) assms(4) by force
  obtain a3 where a3: "get p (of_nat (length d)) a2 = (Returned (Some d), a3)" "invar a3" "stored a3 q e" "room a3 = room a2"
    using get_stored [OF q(3,5)] q(4) by blast
  obtain a4 where "get q (of_nat (length e)) a3 = (Returned (Some e), a4)" "room a4 = room a3"
    using get_stored [OF a3(2,3)] by blast
  with a3 p q show ?thesis by auto
qed

end

section \<open>The arena of the SDK is such a memory\<close>

definition arena_room :: "arena \<Rightarrow> nat" where
  "arena_room a = arena_len - used a"

lemma used_le: "wf_arena addr a \<Longrightarrow> used a \<le> arena_len"
proof -
  assume wf: "wf_arena addr a"
  then have "int (used a) = sint (mallocOffset a)"
    using unat_sint_nonneg by (simp add: wf_arena_def used_def)
  then show "used a \<le> arena_len" using wf by (simp add: wf_arena_def)
qed

lemma mallocOffset_used: "mallocOffset a = of_nat (used a)"
  by (simp add: used_def)

text \<open>Writing the block that was just allocated does not touch what is below it.\<close>

lemma host_write_buffer:
  assumes "length buf = arena_len" "s + length d \<le> arena_len"
  shows "take (length d) (drop s (take s buf @ d @ drop (s + length d) buf)) = d"
    and "t + m \<le> s \<Longrightarrow> take m (drop t (take s buf @ d @ drop (s + length d) buf)) = take m (drop t buf)"
  using assms by (simp_all add: take_drop min_def)

lemma host_put_fits:
  assumes "wf_arena addr a" "addr_ok addr" "d \<noteq> []" "length d \<le> arena_room a"
  shows "\<exists>p a'. host_put addr d a = (p, a') \<and> p \<noteq> 0 \<and> wf_arena addr a' \<and>
    arena_room a' = arena_room a - length d \<and> holds addr a' p d \<and>
    (\<forall>q e. holds addr a q e \<longrightarrow> holds addr a' q e)"
proof -
  let ?s = "used a" and ?n = "of_nat (length d) :: i32"
  have fits: "?s + length d \<le> arena_len" "length d \<le> arena_len" "0 < length d"
    using assms(3,4) used_le [OF assms(1)] by (auto simp: arena_room_def)
  then have n: "sint ?n = int (length d)" by (simp add: sint_of_nat_small arena_len_def)
  then obtain a1 where a1: "wasmMalloc addr ?n a = (addr + of_nat ?s, a1)" "wf_arena addr a1"
      "used a1 = ?s + length d" "mallocBuffer a1 = mallocBuffer a"
    using wasmMalloc_cases(1) [of addr a ?n] assms(1) fits mallocOffset_used [of a]
    by (auto simp: arena_len_def)
  have nz: "addr + of_nat ?s \<noteq> 0" using block_addr_nonnull [OF assms(2)] fits(1) by simp
  have start: "unat (addr + of_nat ?s - addr) = ?s"
    using fits by (simp add: unat_of_nat_small arena_len_def)
  define a2 where "a2 = host_write addr (addr + of_nat ?s) d a1"
  have buf: "mallocBuffer a2 = take ?s (mallocBuffer a) @ d @ drop (?s + length d) (mallocBuffer a)"
    and "used a2 = ?s + length d"
    using start a1 by (simp_all add: a2_def host_write_def used_def Let_def)
  moreover have len: "length (mallocBuffer a) = arena_len" using assms(1) by (simp add: wf_arena_def)
  ultimately have "wf_arena addr a2" "arena_room a2 = arena_room a - length d"
    using a1(2) fits by (simp_all add: wf_arena_def a2_def host_write_def arena_room_def Let_def)
  moreover have "holds addr a2 (addr + of_nat ?s) d"
    using assms(3) host_write_buffer(1) [OF len fits(1)] buf \<open>used a2 = ?s + length d\<close>
    by (auto simp: holds_def)
  moreover have "holds addr a2 q e" if "holds addr a q e" for q e
    using that host_write_buffer(2) [OF len fits(1)] buf \<open>used a2 = ?s + length d\<close>
    by (auto simp: holds_def)
  ultimately show ?thesis
    using a1(1) nz by (simp add: host_put_def a2_def)
qed

lemma host_put_refused:
  assumes "wf_arena addr a" "arena_room a < length d" "length d < 2 ^ 30"
  shows "\<exists>a'. host_put addr d a = (0, a') \<and> wf_arena addr a' \<and> arena_room a' = arena_room a"
proof -
  have n: "sint (of_nat (length d) :: i32) = int (length d)"
    using assms(3) by (simp add: sint_of_nat_small)
  have "int arena_len < int (used a) + int (length d)" "d \<noteq> []"
    using assms(2) used_le [OF assms(1)] by (auto simp: arena_room_def)
  then have "\<exists>a'. wasmMalloc addr (of_nat (length d)) a = (0, a') \<and> wf_arena addr a' \<and> used a' = used a"
    using wasmMalloc_cases(2) [of addr a "of_nat (length d)"] assms n by auto
  then show ?thesis by (auto simp: host_put_def arena_room_def)
qed

lemma wasmSlice_holds:
  assumes "wf_arena addr a" "addr_ok addr" "holds addr a p d"
  shows "\<exists>a'. wasmSlice addr p (of_nat (length d)) a = (Returned (Some d), a') \<and> wf_arena addr a' \<and>
    arena_room a' = arena_room a \<and> (\<forall>q e. holds addr a q e \<longrightarrow> holds addr a' q e)"
proof -
  obtain s where s: "p = addr + of_nat s" "s + length d \<le> used a" "0 < length d"
      "take (length d) (drop s (mallocBuffer a)) = d"
    using assms(3) by (auto simp: holds_def)
  then have "wasmSlice addr p (of_nat (length d)) a = (Returned (Some d), cache_base addr a)"
    using wasmSlice_block [OF assms(1,2)] used_le [OF assms(1)] by simp
  then show ?thesis using assms(1) by (auto simp: holds_def used_def arena_room_def)
qed

text \<open>An arena that is well formed, with its buffer where the linker can put it.\<close>

definition ready_arena :: "i32 \<Rightarrow> arena \<Rightarrow> bool" where
  "ready_arena addr a \<longleftrightarrow> addr_ok addr \<and> wf_arena addr a"

interpretation arena_memory: host_memory "host_put addr" "wasmSlice addr" wasmResetAllocator
  "ready_arena addr" arena_room "holds addr" arena_len
  for addr
proof unfold_locales
  fix a :: arena and d :: bytes assume "ready_arena addr a" "d \<noteq> []" "length d \<le> arena_room a"
  then show "\<exists>p a'. host_put addr d a = (p, a') \<and> p \<noteq> 0 \<and> ready_arena addr a' \<and>
      arena_room a' = arena_room a - length d \<and> holds addr a' p d \<and>
      (\<forall>q e. holds addr a q e \<longrightarrow> holds addr a' q e)"
    using host_put_fits by (auto simp: ready_arena_def)
next
  fix a :: arena and p :: i32 and d :: bytes assume "ready_arena addr a" "holds addr a p d"
  then show "\<exists>a'. wasmSlice addr p (of_nat (length d)) a = (Returned (Some d), a') \<and> ready_arena addr a' \<and>
      arena_room a' = arena_room a \<and> (\<forall>q e. holds addr a q e \<longrightarrow> holds addr a' q e)"
    using wasmSlice_holds by (auto simp: ready_arena_def)
qed (use host_put_refused wf_reset in \<open>auto simp: ready_arena_def arena_room_def\<close>)

text \<open>A module whose buffer is linked at 64 KiB, with \<open>k\<close> bytes already handed out.\<close>

definition linked_arena :: "i32 \<Rightarrow> arena" where
  "linked_arena k = \<lparr>mallocBuffer = replicate arena_len (CHR 0x00), mallocOffset = k, mallocBase = 0\<rparr>"

lemma linked_arena_ready: "ready_arena 0x10000 (linked_arena 0)" "ready_arena 0x10000 (linked_arena 1)"
  by (auto simp: ready_arena_def addr_ok_def wf_arena_def linked_arena_def arena_len_def)

section \<open>Properties of the memory boundary\<close>

text \<open>
  C5: the bounds check of \<^verbatim>\<open>wasmMalloc\<close> adds in 32 bits before it compares.  After one
  byte has been allocated, a request for 2^31 - 1 bytes wraps to a negative end,
  passes the check, and gets a pointer into the one-MiB arena; the offset the
  allocator keeps is negative from then on.
\<close>

theorem wasmMalloc_overflow:
  assumes "ready_arena addr a" and "0 < used a"
  shows "fst (wasmMalloc addr 0x7FFFFFFF a) = addr + of_nat (used a) \<and>
    addr + of_nat (used a) \<noteq> 0 \<and>
    mallocOffset (snd (wasmMalloc addr 0x7FFFFFFF a)) <s 0"
proof -
  have wf: "wf_arena addr a" "addr_ok addr" using assms by (auto simp: ready_arena_def)
  have u: "0 < used a" "used a \<le> 1048576" using assms(2) used_le [OF wf(1)] by (auto simp: arena_len_def)
  have "sint (mallocOffset a) = int (used a)"
    using wf(1) unat_sint_nonneg by (simp add: wf_arena_def used_def)
  then have "sint (mallocOffset a + 0x7FFFFFFF) = signed_take_bit 31 (int (used a) + 0x7FFFFFFF)"
    by (simp add: sint_word_add)
  also have "\<dots> = int (used a) + 0x7FFFFFFF - 2 ^ 32"
  proof -
    have "(4294967295 + int (used a)) mod 4294967296 = (int (used a) - 1 + 4294967296) mod 4294967296"
      by (simp add: algebra_simps)
    also have "\<dots> = int (used a) - 1"
      using u by (simp only: mod_add_self2) (simp add: mod_pos_pos_trivial)
    finally show ?thesis by (simp add: signed_take_bit_eq_take_bit_shift take_bit_eq_mod)
  qed
  finally have neg: "sint (mallocOffset a + 0x7FFFFFFF) < 0" using u by simp
  then have "wasmMalloc addr 0x7FFFFFFF a =
      (addr + mallocOffset a, (cache_base addr a)\<lparr>mallocOffset := mallocOffset a + 0x7FFFFFFF\<rparr>)"
    using wf(1) sint_arena_len by (simp add: wasmMalloc_def word_sle_eq word_sless_alt Let_def)
  then show ?thesis
    using neg block_addr_nonnull [OF wf(2) used_le [OF wf(1)]] mallocOffset_used [of a]
    by (simp add: word_sless_alt)
qed

theorem wasmMalloc_overflow_witness:
  "fst (wasmMalloc 0x10000 0x7FFFFFFF (linked_arena 1)) = 0x10001 \<and>
    mallocOffset (snd (wasmMalloc 0x10000 0x7FFFFFFF (linked_arena 1))) <s 0"
  using wasmMalloc_overflow [OF linked_arena_ready(2)] by (simp add: used_def linked_arena_def)

text \<open>
  The four words of a query's output buffer.  A buffer in which the host stored
  result pointer, result length, error pointer and error length as little-endian
  words decodes to exactly those four.
\<close>

theorem decodeQuery2Output_roundtrip:
  "decodeQuery2Output (le32_bytes resPtr @ le32_bytes resLen @ le32_bytes errPtr @ le32_bytes errLen) =
     Returned (resPtr, resLen, errPtr, errLen)"
proof -
  have "le32 (xs @ le32_bytes w @ ys) (length xs) = w" for xs w ys
    using le32_append_left [of xs "le32_bytes w @ ys" 0] le32_append_right [of 0 "le32_bytes w" ys]
    by (simp add: le32_bytes_roundtrip)
  from this [of "[]" resPtr] this [of "le32_bytes resPtr" resLen]
    this [of "le32_bytes resPtr @ le32_bytes resLen" errPtr]
    this [of "le32_bytes resPtr @ le32_bytes resLen @ le32_bytes errPtr" errLen "[]"]
  show ?thesis by (simp add: decodeQuery2Output_def)
qed

lemma pack_unpack:
  assumes "length r < 2 ^ 32"
  shows "ucast (drop_bit 32 (push_bit 32 (ucast a) OR (of_nat (length r) :: i64))) = (a :: i32)"
    and "unat (take_bit 32 (push_bit 32 (ucast a) OR (of_nat (length r) :: i64))) = length r"
proof -
  have "take_bit 32 (length r) = length r" using assms by (simp add: take_bit_nat_eq_self)
  then have hi: "\<And>n. 32 \<le> n \<Longrightarrow> \<not> bit (length r) n"
    by (metis bit_take_bit_iff not_less)
  show "ucast (drop_bit 32 (push_bit 32 (ucast a) OR (of_nat (length r) :: i64))) = a"
    by (rule bit_word_eqI) (auto simp: bit_simps hi)
  have "take_bit 32 (push_bit 32 (ucast a) OR (of_nat (length r) :: i64)) = of_nat (length r)"
    using hi by (intro bit_word_eqI) (auto simp: bit_simps)
  moreover have "unat (of_nat (length r) :: i64) = length r"
    using assms by (simp add: unat_of_nat take_bit_nat_eq_self)
  ultimately show "unat (take_bit 32 (push_bit 32 (ucast a) OR (of_nat (length r) :: i64))) = length r" by simp
qed

text \<open>
  The host unpacks from a result exactly the address and the length of the bytes it was
  promised: the packed value is zero only for an empty result, its upper half is the address of
  the buffer kept alive and its lower half the buffer's length, which is below 2^32 as every
  slice of a 32-bit module is.
\<close>

lemma packWASMResult_unpack:
  assumes "length (boundResult result tooLarge) < 2 ^ 32"
  shows "case packWASMResult place result tooLarge of
      (packed, None) \<Rightarrow> packed = 0 \<and> boundResult result tooLarge = []
    | (packed, Some r) \<Rightarrow> r = boundResult result tooLarge \<and> r \<noteq> [] \<and>
        ucast (drop_bit 32 packed) = place r \<and> unat (take_bit 32 packed) = length r"
  using pack_unpack [OF assms] by (simp add: packWASMResult_def Let_def)

end
