(* ===== verification/FetchChunks.thy ===== *)
theory FetchChunks
  imports GoStrings
begin

text \<open>
  \<^verbatim>\<open>host_limits.go\<close> and \<^verbatim>\<open>fetch_chunks.go\<close>: the errors the SDK builds from what the
  host answers, and the loop that pulls a parked response body in chunks.
\<close>

section \<open>Errors\<close>

text \<open>
  The sentinels an error can wrap with \<^verbatim>\<open>%w\<close>, which is what \<^verbatim>\<open>errors.Is\<close> looks for, and
  an error as its text and the sentinel in its chain.
\<close>

datatype sentinel = ErrResponseTooLarge | ErrHostNoData

record go_error =
  err_text :: string
  err_wraps :: "sentinel option"

definition errors_Is :: "go_error \<Rightarrow> sentinel \<Rightarrow> bool" where
  "errors_Is e s \<longleftrightarrow> err_wraps e = Some s"

definition plain_error :: "string \<Rightarrow> go_error" where
  "plain_error t = \<lparr>err_text = t, err_wraps = None\<rparr>"

definition hostCodeResponseTooLarge :: string where
  "hostCodeResponseTooLarge = ''response_too_large''"

definition hostResultError :: "string \<Rightarrow> string \<Rightarrow> string \<Rightarrow> go_error" where
  "hostResultError op msg0 code =
     (let msg = trim_prefix msg0 (op @ '': '')
      in if code = hostCodeResponseTooLarge
         then \<lparr>err_text = ''plugin: '' @ op @ '': response too large: '' @ msg,
               err_wraps = Some ErrResponseTooLarge\<rparr>
         else plain_error (''plugin: '' @ op @ '': '' @ msg))"

definition errEmptyHostResponse :: "string \<Rightarrow> go_error" where
  "errEmptyHostResponse op =
     \<lparr>err_text = ''plugin: '' @ op @ '': host returned no data (the result may not have fit in the plugin's host buffer, or the host call failed; this does not necessarily mean the network is unreachable)'',
      err_wraps = Some ErrHostNoData\<rparr>"

section \<open>The loop over the chunks\<close>

definition fetchChunkSize :: int where "fetchChunkSize = 256 * 1024"
definition minFetchChunkSize :: int where "minFetchChunkSize = 4 * 1024"
definition maxFetchBodyBytes :: int where "maxFetchBodyBytes = 64 * 2 ^ 20"

record fetchChunk =
  chunk :: bytes
  chunk_body_size :: int
  done_flag :: bool
  chunk_error :: string
  chunk_code :: string

text \<open>
  A \<^verbatim>\<open>chunkReader\<close> is one call of the host; the host has a state \<open>'s\<close> of its own that
  the call may change.
\<close>

type_synonym 's chunkReader = "'s \<Rightarrow> string \<Rightarrow> int \<Rightarrow> int \<Rightarrow> 's \<times> (go_error + fetchChunk)"

definition retryable :: "go_error \<Rightarrow> int \<Rightarrow> bool" where
  "retryable err limit \<longleftrightarrow>
     (errors_Is err ErrResponseTooLarge \<or> errors_Is err ErrHostNoData) \<and> minFetchChunkSize < limit"

definition overrunError :: "int \<Rightarrow> go_error" where
  "overrunError sz = plain_error (''plugin: fetch: host sent more than the announced '' @ itoa sz @ '' bytes'')"

definition sizeMismatchError :: "int \<Rightarrow> int \<Rightarrow> go_error" where
  "sizeMismatchError got sz =
     plain_error (''plugin: fetch: body is '' @ itoa got @ '' bytes, host announced '' @ itoa sz)"

definition emptyChunkError :: "int \<Rightarrow> int \<Rightarrow> go_error" where
  "emptyChunkError off sz =
     plain_error (''plugin: fetch: host returned an empty chunk at offset '' @ itoa off @ '' of '' @ itoa sz)"

definition announcedTooLargeError :: "int \<Rightarrow> go_error" where
  "announcedTooLargeError sz =
     \<lparr>err_text = ''plugin: fetch: response too large: host announced a body of '' @ itoa sz @
        '' bytes (limit '' @ itoa maxFetchBodyBytes @ '')'', err_wraps = Some ErrResponseTooLarge\<rparr>"

lemma chunk_room: "\<not> sz < int n + int (length xs) \<Longrightarrow> xs \<noteq> [] \<Longrightarrow> int n < sz"
  by (cases xs) auto

text \<open>
  The \<^verbatim>\<open>for\<close> loop: \<open>body\<close> is the builder, \<open>limit\<close> the current chunk size.  Every pass
  either halves the limit, or makes the body longer without passing the announced
  size, or returns.
\<close>

function read_loop ::
    "'s chunkReader \<Rightarrow> string \<Rightarrow> int \<Rightarrow> 's \<Rightarrow> bytes \<Rightarrow> int \<Rightarrow> 's \<times> (go_error + string)" where
  "read_loop read handle sz s body limit =
     (case read s handle (int (length body)) limit of
        (s', Inl err) \<Rightarrow>
          if retryable err limit then read_loop read handle sz s' body (limit div 2)
          else (s', Inl err)
      | (s', Inr c) \<Rightarrow>
          if sz < int (length body) + int (length (chunk c)) then (s', Inl (overrunError sz))
          else if done_flag c
            then (if int (length (body @ chunk c)) \<noteq> sz
                  then (s', Inl (sizeMismatchError (int (length (body @ chunk c))) sz))
                  else (s', Inr (body @ chunk c)))
          else if chunk c = [] then (s', Inl (emptyChunkError (int (length body)) sz))
          else read_loop read handle sz s' (body @ chunk c) limit)"
  by pat_completeness auto
termination
  by (relation "measures [\<lambda>(read, h, sz, s, body, limit). nat (sz - int (length body)),
                          \<lambda>(read, h, sz, s, body, limit). nat limit]")
     (auto simp: retryable_def minFetchChunkSize_def intro: chunk_room)

declare read_loop.simps [simp del]

definition readBodyChunks ::
    "string \<Rightarrow> int \<Rightarrow> 's chunkReader \<Rightarrow> 's \<Rightarrow> 's \<times> (go_error + string)" where
  "readBodyChunks handle sz read s =
     (if sz < 0 \<or> maxFetchBodyBytes < sz then (s, Inl (announcedTooLargeError sz))
      else read_loop read handle sz s '''' fetchChunkSize)"

section \<open>A rule for the loop\<close>

text \<open>
  One induction for every fact below: \<open>P\<close> holds of the host's state, the body and the
  limit at the head of each pass, \<open>Q\<close> of the state and the result at each exit.
\<close>

lemma read_loop_rule:
  assumes "P s body limit"
    and retry: "\<And>s body limit s' err. P s body limit \<Longrightarrow>
      read s h (int (length body)) limit = (s', Inl err) \<Longrightarrow> retryable err limit \<Longrightarrow> P s' body (limit div 2)"
    and fail: "\<And>s body limit s' err. P s body limit \<Longrightarrow>
      read s h (int (length body)) limit = (s', Inl err) \<Longrightarrow> \<not> retryable err limit \<Longrightarrow> Q s' (Inl err)"
    and more: "\<And>s body limit s' c. P s body limit \<Longrightarrow>
      read s h (int (length body)) limit = (s', Inr c) \<Longrightarrow> int (length (body @ chunk c)) \<le> sz \<Longrightarrow>
      \<not> done_flag c \<Longrightarrow> chunk c \<noteq> [] \<Longrightarrow> P s' (body @ chunk c) limit"
    and exit: "\<And>s body limit s' c. P s body limit \<Longrightarrow>
      read s h (int (length body)) limit = (s', Inr c) \<Longrightarrow>
      (sz < int (length (body @ chunk c)) \<longrightarrow> Q s' (Inl (overrunError sz))) \<and>
      (int (length (body @ chunk c)) \<le> sz \<and> done_flag c \<longrightarrow>
        (if int (length (body @ chunk c)) = sz then Q s' (Inr (body @ chunk c))
         else Q s' (Inl (sizeMismatchError (int (length (body @ chunk c))) sz)))) \<and>
      (int (length (body @ chunk c)) \<le> sz \<and> \<not> done_flag c \<and> chunk c = [] \<longrightarrow>
        Q s' (Inl (emptyChunkError (int (length body)) sz)))"
  shows "case read_loop read h sz s body limit of (s', r) \<Rightarrow> Q s' r"
  using assms(1)
proof (induction "nat (sz - int (length body))" arbitrary: s body limit rule: less_induct)
  case (less body s limit)
  note outer = less.hyps
  have "P s body limit \<Longrightarrow> case read_loop read h sz s body limit of (s', r) \<Rightarrow> Q s' r"
  proof (induction "nat limit" arbitrary: s limit rule: less_induct)
    case (less limit s)
    obtain s1 r1 where r: "read s h (int (length body)) limit = (s1, r1)" by fastforce
    show ?case
    proof (cases r1)
      case (Inl err)
      then show ?thesis
        using retry [OF less.prems, of s1 err] fail [OF less.prems, of s1 err] less.hyps [of "limit div 2" s1] r
        by (subst read_loop.simps) (auto simp: retryable_def minFetchChunkSize_def)
    next
      case (Inr c)
      show ?thesis
      proof (cases "int (length (body @ chunk c)) \<le> sz \<and> \<not> done_flag c \<and> chunk c \<noteq> []")
        case True
        then have "int (length body) < sz"
          by (intro chunk_room [where xs = "chunk c"]) auto
        with True show ?thesis
          using more [OF less.prems, of s1 c] outer [of "body @ chunk c" s1 limit] r Inr
          by (subst read_loop.simps) auto
      next
        case False
        then show ?thesis
          using exit [OF less.prems, of s1 c] r Inr by (subst read_loop.simps) auto
      qed
    qed
  qed
  from this [OF less.prems] show ?case .
qed

section \<open>What the loop asks and returns\<close>

text \<open>
  A reader that also writes down every call it serves: offset, limit and reply.
\<close>

type_synonym call = "int \<times> int \<times> (go_error + fetchChunk)"

definition traced :: "'s chunkReader \<Rightarrow> ('s \<times> call list) chunkReader" where
  "traced read sl h off lim =
     (let (s', r) = read (fst sl) h off lim in ((s', snd sl @ [(off, lim, r)]), r))"

definition received :: "call list \<Rightarrow> bytes" where
  "received log = concat (map (\<lambda>(_, _, r). case r of Inl _ \<Rightarrow> [] | Inr c \<Rightarrow> chunk c) log)"

lemma received_snoc [simp]:
  "received (log @ [(off, lim, r)]) = received log @ (case r of Inl _ \<Rightarrow> [] | Inr c \<Rightarrow> chunk c)"
  by (simp add: received_def)

text \<open>\<open>halved k\<close> is the chunk size after \<open>k\<close> retries; the sixth is the smallest.\<close>

definition halved :: "nat \<Rightarrow> int" where
  "halved k = fetchChunkSize div 2 ^ k"

lemma halved_0: "halved 0 = fetchChunkSize"
  by (simp add: halved_def)

lemma halved_Suc: "halved (Suc k) = halved k div 2"
  using zdiv_zmult2_eq [of 2 fetchChunkSize "2 ^ k"] by (simp add: halved_def mult.commute)

lemma halved_values:
  "k \<le> 6 \<Longrightarrow> halved k \<in> {262144, 131072, 65536, 32768, 16384, 8192, 4096} \<and> (4096 < halved k \<longleftrightarrow> k < 6)"
proof -
  assume "k \<le> 6"
  then have "k = 0 \<or> k = 1 \<or> k = 2 \<or> k = 3 \<or> k = 4 \<or> k = 5 \<or> k = 6" by linarith
  then show ?thesis by (elim disjE) (simp_all add: halved_def fetchChunkSize_def)
qed

definition sane_log :: "int \<Rightarrow> call list \<Rightarrow> nat \<Rightarrow> bool" where
  "sane_log sz log k \<longleftrightarrow> k \<le> 6 \<and> int (length (received log)) \<le> sz \<and>
     length log \<le> length (received log) + k \<and>
     (\<forall>(off, lim, r) \<in> set log. 0 \<le> off \<and> off \<le> sz \<and> lim \<in> halved ` {0..k})"

lemma sane_log_retry:
  "sane_log sz log k \<Longrightarrow> retryable err (halved k) \<Longrightarrow>
     sane_log sz (log @ [(int (length (received log)), halved k, Inl err)]) (Suc k)"
  using halved_values [of k]
  by (fastforce simp: sane_log_def retryable_def minFetchChunkSize_def)

lemma sane_log_more:
  "sane_log sz log k \<Longrightarrow> int (length (received log @ chunk c)) \<le> sz \<Longrightarrow> chunk c \<noteq> [] \<Longrightarrow>
     sane_log sz (log @ [(int (length (received log)), halved k, Inr c)]) k"
  by (cases "chunk c") (auto simp: sane_log_def)

text \<open>What holds of the whole log, whatever the reply to the last call was.\<close>

definition bounded_calls :: "int \<Rightarrow> call list \<Rightarrow> bool" where
  "bounded_calls sz log \<longleftrightarrow> length log \<le> nat sz + 7 \<and>
     (\<forall>(off, lim, r) \<in> set log. 0 \<le> off \<and> off \<le> sz \<and> lim \<in> halved ` {0..6})"

lemma sane_log_last:
  "sane_log sz log k \<Longrightarrow> bounded_calls sz (log @ [(int (length (received log)), halved k, r)])"
  by (fastforce simp: sane_log_def bounded_calls_def)

definition explains :: "int \<Rightarrow> call list \<Rightarrow> go_error + string \<Rightarrow> bool" where
  "explains sz log res \<longleftrightarrow> (case last log of
     (off, lim, Inl err) \<Rightarrow> res = Inl err \<and> \<not> retryable err lim
   | (off, lim, Inr c) \<Rightarrow>
       (let n = int (length (received log))
        in if sz < n then res = Inl (overrunError sz)
           else if done_flag c then res = (if n = sz then Inr (received log) else Inl (sizeMismatchError n sz))
           else chunk c = [] \<and> res = Inl (emptyChunkError off sz)))"

lemma read_loop_traced:
  assumes "0 \<le> sz"
  shows "case read_loop (traced read) h sz (s, []) [] fetchChunkSize of
           (sl, r) \<Rightarrow> snd sl \<noteq> [] \<and> bounded_calls sz (snd sl) \<and> explains sz (snd sl) r"
proof (rule read_loop_rule [where P = "\<lambda>sl body limit. \<exists>k. body = received (snd sl) \<and> limit = halved k \<and> sane_log sz (snd sl) k"])
  show "\<exists>k. [] = received (snd (s, [])) \<and> fetchChunkSize = halved k \<and> sane_log sz (snd (s, [])) k"
    using assms halved_0 by (intro exI [of _ 0]) (simp add: received_def sane_log_def)
next
  fix sl body limit sl' err
  assume "\<exists>k. body = received (snd sl) \<and> limit = halved k \<and> sane_log sz (snd sl) k"
    and r: "traced read sl h (int (length body)) limit = (sl', Inl err)" "retryable err limit"
  then obtain k where k: "body = received (snd sl)" "limit = halved k" "sane_log sz (snd sl) k" by blast
  with r have "snd sl' = snd sl @ [(int (length body), limit, Inl err)]"
    by (auto simp: traced_def split: prod.splits)
  with k sane_log_retry [OF k(3)] r
  show "\<exists>k. body = received (snd sl') \<and> limit div 2 = halved k \<and> sane_log sz (snd sl') k"
    by (intro exI [of _ "Suc k"]) (simp add: halved_Suc)
next
  fix sl body limit sl' err
  assume "\<exists>k. body = received (snd sl) \<and> limit = halved k \<and> sane_log sz (snd sl) k"
    and r: "traced read sl h (int (length body)) limit = (sl', Inl err)" "\<not> retryable err limit"
  then obtain k where k: "body = received (snd sl)" "limit = halved k" "sane_log sz (snd sl) k" by blast
  with r have "snd sl' = snd sl @ [(int (length body), limit, Inl err)]"
    by (auto simp: traced_def split: prod.splits)
  with k sane_log_last [OF k(3)] r
  show "snd sl' \<noteq> [] \<and> bounded_calls sz (snd sl') \<and> explains sz (snd sl') (Inl err)"
    by (simp add: explains_def)
next
  fix sl body limit sl' c
  assume "\<exists>k. body = received (snd sl) \<and> limit = halved k \<and> sane_log sz (snd sl) k"
    and r: "traced read sl h (int (length body)) limit = (sl', Inr c)"
      "int (length (body @ chunk c)) \<le> sz" "\<not> done_flag c" "chunk c \<noteq> []"
  then obtain k where k: "body = received (snd sl)" "limit = halved k" "sane_log sz (snd sl) k" by blast
  with r have "snd sl' = snd sl @ [(int (length body), limit, Inr c)]"
    by (auto simp: traced_def split: prod.splits)
  with k sane_log_more [OF k(3)] r
  show "\<exists>k. body @ chunk c = received (snd sl') \<and> limit = halved k \<and> sane_log sz (snd sl') k"
    by (intro exI [of _ k]) simp
next
  fix sl body limit sl' c
  assume "\<exists>k. body = received (snd sl) \<and> limit = halved k \<and> sane_log sz (snd sl) k"
    and r: "traced read sl h (int (length body)) limit = (sl', Inr c)"
  then obtain k where k: "body = received (snd sl)" "limit = halved k" "sane_log sz (snd sl) k" by blast
  from k r have e: "snd sl' = snd sl @ [(int (length body), limit, Inr c)]"
    by (auto simp: traced_def split: prod.splits)
  with k have "bounded_calls sz (snd sl')" "received (snd sl') = body @ chunk c"
    using sane_log_last by auto
  with e show "(sz < int (length (body @ chunk c)) \<longrightarrow>
          snd sl' \<noteq> [] \<and> bounded_calls sz (snd sl') \<and> explains sz (snd sl') (Inl (overrunError sz))) \<and>
      (int (length (body @ chunk c)) \<le> sz \<and> done_flag c \<longrightarrow>
        (if int (length (body @ chunk c)) = sz
         then snd sl' \<noteq> [] \<and> bounded_calls sz (snd sl') \<and> explains sz (snd sl') (Inr (body @ chunk c))
         else snd sl' \<noteq> [] \<and> bounded_calls sz (snd sl') \<and>
           explains sz (snd sl') (Inl (sizeMismatchError (int (length (body @ chunk c))) sz)))) \<and>
      (int (length (body @ chunk c)) \<le> sz \<and> \<not> done_flag c \<and> chunk c = [] \<longrightarrow>
        snd sl' \<noteq> [] \<and> bounded_calls sz (snd sl') \<and>
        explains sz (snd sl') (Inl (emptyChunkError (int (length body)) sz)))"
    by (simp add: explains_def Let_def)
qed

lemma readBodyChunks_in_range:
  "0 \<le> sz \<Longrightarrow> sz \<le> maxFetchBodyBytes \<Longrightarrow>
     readBodyChunks h sz read s = read_loop read h sz s '''' fetchChunkSize"
  by (simp add: readBodyChunks_def)

lemma readBodyChunks_out_of_range:
  "sz < 0 \<or> maxFetchBodyBytes < sz \<Longrightarrow> readBodyChunks h sz read s = (s, Inl (announcedTooLargeError sz))"
  by (simp add: readBodyChunks_def)

text \<open>
  C7: However the host answers, \<^verbatim>\<open>readBodyChunks\<close> returns after at most
  \<^verbatim>\<open>size + 7\<close> calls, every one of them for an offset inside the announced body and for
  a chunk of one of the seven sizes from 256 KiB down to 4 KiB.  A body announced
  outside the limits makes no call at all.
\<close>

theorem readBodyChunks_calls_bounded:
  "case readBodyChunks h sz (traced read) (s, []) of (sl, r) \<Rightarrow>
     length (snd sl) \<le> nat sz + 7 \<and>
     list_all (\<lambda>(off, lim, reply). 0 \<le> off \<and> off \<le> sz \<and>
       lim \<in> {262144, 131072, 65536, 32768, 16384, 8192, 4096}) (snd sl)"
proof (cases "sz < 0 \<or> maxFetchBodyBytes < sz")
  case True
  then show ?thesis by (simp add: readBodyChunks_out_of_range)
next
  case False
  then have "bounded_calls sz (snd (fst (readBodyChunks h sz (traced read) (s, []))))"
    using read_loop_traced [of sz read h s] by (simp add: readBodyChunks_in_range split: prod.splits)
  then show ?thesis
    using halved_values by (fastforce simp: bounded_calls_def list_all_iff split: prod.splits)
qed

text \<open>
  When \<^verbatim>\<open>readBodyChunks\<close> returns a body, the body is the concatenation of the
  chunks the host sent, in the order it sent them, the last of them was marked
  \<^verbatim>\<open>done\<close>, and its length is exactly the announced size, at most 64 MiB.
\<close>

theorem readBodyChunks_success:
  assumes "readBodyChunks h sz (traced read) (s, []) = ((s', log), Inr body)"
  shows "body = received log \<and> int (length body) = sz \<and> sz \<le> 64 * 2 ^ 20 \<and>
    (\<exists>off lim c. last log = (off, lim, Inr c) \<and> done_flag c)"
proof -
  have range: "0 \<le> sz" "sz \<le> maxFetchBodyBytes"
    using assms by (auto simp: readBodyChunks_def split: if_splits)
  then have "explains sz log (Inr body)"
    using assms read_loop_traced [of sz read h s] by (simp add: readBodyChunks_in_range)
  moreover obtain off lim rep where l: "last log = (off, lim, rep)" by (cases "last log")
  ultimately show ?thesis
    using range by (cases rep) (auto simp: explains_def maxFetchBodyBytes_def Let_def split: if_splits)
qed

text \<open>
  C8: When \<^verbatim>\<open>readBodyChunks\<close> fails, either the announced size was out of range and no
  call was made, or the last reply explains the error: the host's own error, which is
  neither "too large" nor "no data" unless the chunk size was already at its minimum;
  more bytes than announced; fewer bytes than announced at the end; or an empty chunk.
\<close>

theorem readBodyChunks_failure:
  assumes "readBodyChunks h sz (traced read) (s, []) = ((s', log), Inl err)"
  shows "(sz < 0 \<or> 64 * 2 ^ 20 < sz) \<and> log = [] \<and> err = announcedTooLargeError sz \<or>
    (\<exists>off lim. last log = (off, lim, Inl err) \<and>
       ((errors_Is err ErrResponseTooLarge \<or> errors_Is err ErrHostNoData) \<longrightarrow> lim \<le> 4096)) \<or>
    (\<exists>off lim c. last log = (off, lim, Inr c) \<and>
       (sz < int (length (received log)) \<and> err = overrunError sz \<or>
        done_flag c \<and> int (length (received log)) < sz \<and>
          err = sizeMismatchError (int (length (received log))) sz \<or>
        \<not> done_flag c \<and> chunk c = [] \<and> err = emptyChunkError off sz))"
proof (cases "sz < 0 \<or> maxFetchBodyBytes < sz")
  case True
  with assms show ?thesis by (simp add: readBodyChunks_out_of_range maxFetchBodyBytes_def)
next
  case False
  then have "explains sz log (Inl err)"
    using assms read_loop_traced [of sz read h s] by (simp add: readBodyChunks_in_range)
  moreover obtain off lim rep where l: "last log = (off, lim, rep)" by (cases "last log")
  ultimately show ?thesis
    by (cases rep) (auto simp: explains_def retryable_def minFetchChunkSize_def Let_def split: if_splits)
qed

section \<open>An honest host\<close>

text \<open>
  A host that holds \<open>whole\<close> under the handle: it may refuse a chunk above \<open>fit\<close> bytes
  as too large, or answer nothing; otherwise it sends the next bytes of the body, at
  least one while there are any, and says \<^verbatim>\<open>done\<close> exactly at the end.  It does so in every
  state that is \<open>fine\<close>, and stays in such states.
\<close>

definition honest_host :: "('s \<Rightarrow> bool) \<Rightarrow> 's chunkReader \<Rightarrow> string \<Rightarrow> bytes \<Rightarrow> int \<Rightarrow> bool" where
  "honest_host fine read h whole fit \<longleftrightarrow>
     (\<forall>s off lim. fine s \<longrightarrow> off \<le> length whole \<longrightarrow> 0 < lim \<longrightarrow>
       fine (fst (read s h (int off) lim)) \<and>
       (case snd (read s h (int off) lim) of
          Inl e \<Rightarrow> fit < lim \<and> (errors_Is e ErrResponseTooLarge \<or> errors_Is e ErrHostNoData)
        | Inr c \<Rightarrow> (\<exists>rest. drop off whole = chunk c @ rest \<and> (done_flag c \<longleftrightarrow> rest = []) \<and>
                     (chunk c = [] \<longrightarrow> rest = []))))"

lemma honest_hostD:
  assumes "honest_host fine read h whole fit" "fine s" and r: "read s h (int off) lim = (s', r)"
    and "off \<le> length whole" "0 < lim"
  shows "fine s' \<and> (case r of
          Inl e \<Rightarrow> fit < lim \<and> (errors_Is e ErrResponseTooLarge \<or> errors_Is e ErrHostNoData)
        | Inr c \<Rightarrow> (\<exists>rest. drop off whole = chunk c @ rest \<and> (done_flag c \<longleftrightarrow> rest = []) \<and>
                     (chunk c = [] \<longrightarrow> rest = [])))"
proof -
  have "fst (read s h (int off) lim) = s'" "snd (read s h (int off) lim) = r" using r by simp_all
  then show ?thesis using assms unfolding honest_host_def by blast
qed

lemma read_loop_honest:
  assumes host: "honest_host fine read h whole fit" and fit: "minFetchChunkSize \<le> fit" and "fine s"
  shows "case read_loop read h (int (length whole)) s [] fetchChunkSize of (s', r) \<Rightarrow> fine s' \<and> r = Inr whole"
proof (rule read_loop_rule [where P = "\<lambda>s body lim. fine s \<and> prefix body whole \<and> 0 < lim"])
  show "fine s \<and> prefix [] whole \<and> 0 < fetchChunkSize" using assms(3) by (simp add: fetchChunkSize_def)
next
  fix s body limit s' err
  assume P: "fine s \<and> prefix body whole \<and> 0 < limit" and r: "read s h (int (length body)) limit = (s', Inl err)"
    and "retryable err limit"
  then show "fine s' \<and> prefix body whole \<and> 0 < limit div 2"
    using honest_hostD [OF host _ r] prefix_length_le [of body whole] by (auto simp: retryable_def minFetchChunkSize_def)
next
  fix s body limit s' err
  assume P: "fine s \<and> prefix body whole \<and> 0 < limit" and r: "read s h (int (length body)) limit = (s', Inl err)"
    and "\<not> retryable err limit"
  moreover have "fit < limit \<and> (errors_Is err ErrResponseTooLarge \<or> errors_Is err ErrHostNoData)"
    using honest_hostD [OF host _ r] P prefix_length_le [of body whole] by simp
  ultimately have False using fit by (auto simp: retryable_def)
  then show "fine s' \<and> Inl err = Inr whole" ..
next
  fix s body limit s' c
  assume P: "fine s \<and> prefix body whole \<and> 0 < limit" and r: "read s h (int (length body)) limit = (s', Inr c)"
  have "fine s' \<and> (\<exists>rest. drop (length body) whole = chunk c @ rest \<and> (done_flag c \<longleftrightarrow> rest = []) \<and>
      (chunk c = [] \<longrightarrow> rest = []))"
    using honest_hostD [OF host _ r] P prefix_length_le [of body whole] by simp
  then obtain rest where rest: "drop (length body) whole = chunk c @ rest" "done_flag c \<longleftrightarrow> rest = []"
      "chunk c = [] \<longrightarrow> rest = []" and f: "fine s'" by blast
  with P have whole: "whole = body @ chunk c @ rest"
    by (metis prefix_append_iff_drop)
  then show "(int (length whole) < int (length (body @ chunk c)) \<longrightarrow>
        fine s' \<and> Inl (overrunError (int (length whole))) = Inr whole) \<and>
      (int (length (body @ chunk c)) \<le> int (length whole) \<and> done_flag c \<longrightarrow>
        (if int (length (body @ chunk c)) = int (length whole) then fine s' \<and> Inr (body @ chunk c) = Inr whole
         else fine s' \<and> Inl (sizeMismatchError (int (length (body @ chunk c))) (int (length whole))) = Inr whole)) \<and>
      (int (length (body @ chunk c)) \<le> int (length whole) \<and> \<not> done_flag c \<and> chunk c = [] \<longrightarrow>
        fine s' \<and> Inl (emptyChunkError (int (length body)) (int (length whole))) = Inr whole)"
    using rest f by auto
  show "fine s' \<and> prefix (body @ chunk c) whole \<and> 0 < limit" using P f whole by simp
qed

lemma readBodyChunks_honest:
  assumes "honest_host fine read h whole fit" "4096 \<le> fit" "int (length whole) \<le> 64 * 2 ^ 20" "fine s"
  shows "\<exists>s'. readBodyChunks h (int (length whole)) read s = (s', Inr whole) \<and> fine s'"
  using read_loop_honest [OF assms(1) _ assms(4)] assms(2,3)
  by (simp add: readBodyChunks_in_range minFetchChunkSize_def maxFetchBodyBytes_def split: prod.splits)

text \<open>
  C6: From every honest host that can deliver 4 KiB at a time, whatever chunk sizes it
  refuses or cuts short on the way and whatever state it keeps, \<^verbatim>\<open>readBodyChunks\<close>
  returns the whole body.
\<close>

theorem readBodyChunks_complete:
  assumes "honest_host fine read h whole fit" "4096 \<le> fit" "int (length whole) \<le> 64 * 2 ^ 20" "fine s"
  shows "snd (readBodyChunks h (int (length whole)) read s) = Inr whole"
  using readBodyChunks_honest [OF assms] by auto

text \<open>The \<^verbatim>\<open>fakeHost\<close> of \<^verbatim>\<open>fetch_chunks_test.go\<close>; its state is the list of limits asked for.\<close>

definition fake_host :: "bytes \<Rightarrow> int \<Rightarrow> int list chunkReader" where
  "fake_host body maxFit calls h off lim =
     (calls @ [lim],
      if 0 < maxFit \<and> maxFit < lim
      then Inl (hostResultError ''fetch'' ''does not fit'' hostCodeResponseTooLarge)
      else (let e = min (nat (off + lim)) (length body)
            in Inr \<lparr>chunk = drop (nat off) (take e body), chunk_body_size = int (length body),
                    done_flag = (e = length body), chunk_error = '''', chunk_code = ''''\<rparr>))"

lemma fake_host_honest: "0 < fit \<Longrightarrow> honest_host (\<lambda>_. True) (fake_host body fit) h body fit"
proof -
  assume fit: "0 < fit"
  have "\<exists>rest. drop off body = drop off (take (min (off + n) (length body)) body) @ rest \<and>
      (min (off + n) (length body) = length body \<longleftrightarrow> rest = []) \<and>
      (drop off (take (min (off + n) (length body)) body) = [] \<longrightarrow> rest = [])"
    if "off \<le> length body" "0 < n" for off n
    using that append_take_drop_id [of n "drop off body"]
    by (intro exI [of _ "drop (off + n) body"]) (auto simp: min_def drop_take add.commute)
  from this [of _ "nat _"] show ?thesis using fit
    by (auto simp: honest_host_def fake_host_def hostResultError_def errors_Is_def Let_def nat_add_distrib)
qed

text \<open>
  The hypotheses of the properties are met by the test's host, which refuses more than
  4 KiB and holds a body of 5000 bytes: the chunk size shrinks and the body comes in
  two pieces.
\<close>

lemma readBodyChunks_complete_witness:
  "snd (readBodyChunks ''h'' 5000 (fake_host (replicate 5000 CHR ''x'') 4096) []) = Inr (replicate 5000 CHR ''x'')"
  using readBodyChunks_complete [OF fake_host_honest [of 4096 "replicate 5000 CHR ''x''" "''h''"], of "[]"]
  by simp

lemma readBodyChunks_failure_witness:
  "\<exists>log err. readBodyChunks ''h'' (-1) (traced (fake_host ''abc'' 0)) ([], []) = (([], log), Inl err) \<and>
    err = announcedTooLargeError (-1)"
proof -
  have run: "readBodyChunks ''h'' (-1) (traced (fake_host ''abc'' 0)) ([], []) =
      (([], []), Inl (announcedTooLargeError (-1)))"
    by (simp add: readBodyChunks_out_of_range)
  from readBodyChunks_failure [OF this] this show ?thesis by auto
qed

end
