(* ===== verification/Http.thy ===== *)
theory Http
  imports GoCodec
begin

text \<open>
  \<^verbatim>\<open>request.go\<close>, \<^verbatim>\<open>response.go\<close>, \<^verbatim>\<open>event.go\<close>: what a handler is given and what it fills in.
  A map that is only looked up is a HOL map; the headers of a response are written out, so
  they are an association list.  A nil map and an empty one are one value.
\<close>

section \<open>Requests\<close>

record CallerIdentity =
  ci_CallerID :: string
  ci_UserID :: string
  ci_CallerRole :: string
  ci_ProjectID :: string

record Request =
  req_Method :: string
  req_Path :: string
  req_PathParams :: "string \<rightharpoonup> string"
  req_Query :: "string \<rightharpoonup> string"
  req_Headers :: "string \<rightharpoonup> string"
  req_Body :: bytes
  req_Caller :: CallerIdentity

text \<open>Indexing a Go map gives the zero value for a missing key.\<close>

definition index_map :: "(string \<rightharpoonup> string) \<Rightarrow> string \<Rightarrow> string" where
  "index_map m k = (case m k of Some v \<Rightarrow> v | None \<Rightarrow> '''')"

definition PathParam :: "Request \<Rightarrow> string \<Rightarrow> string" where
  "PathParam r name = index_map (req_PathParams r) name"

definition QueryParam :: "Request \<Rightarrow> string \<Rightarrow> string" where
  "QueryParam r name = index_map (req_Query r) name"

text \<open>The value decoded, or \<open>None\<close> with the error.\<close>

definition JSONBody :: "'a \<Rightarrow> 'a decoder \<Rightarrow> Request \<Rightarrow> 'a option" where
  "JSONBody zero d r = (if req_Body r = [] then Some zero else unmarshal zero d (req_Body r))"

section \<open>Events\<close>

record PluginEvent =
  evt_Topic :: string
  evt_Payload :: bytes

definition JSONPayload :: "'a \<Rightarrow> 'a decoder \<Rightarrow> PluginEvent \<Rightarrow> 'a option" where
  "JSONPayload zero d e = (if evt_Payload e = [] then Some zero else unmarshal zero d (evt_Payload e))"

section \<open>Responses\<close>

record Response =
  res_StatusCode :: int
  res_Headers :: "(string \<times> string) list"
  res_Body :: bytes

definition NewResponse :: Response where
  "NewResponse = \<lparr>res_StatusCode = 200, res_Headers = [], res_Body = []\<rparr>"

definition set_header :: "string \<Rightarrow> string \<Rightarrow> Response \<Rightarrow> Response" where
  "set_header k v r = r\<lparr>res_Headers := AList.update k v (res_Headers r)\<rparr>"

definition Response_JSON :: "int \<Rightarrow> json option \<Rightarrow> Response \<Rightarrow> Response" where
  "Response_JSON status body r =
     (case marshal body of
        None \<Rightarrow> r\<lparr>res_StatusCode := 500,
                  res_Body := ''{'' @ [QUOTE] @ ''error'' @ [QUOTE] @ '':'' @ [QUOTE] @ ''internal serialisation error'' @ [QUOTE] @ ''}''\<rparr>
      | Some data \<Rightarrow> (set_header ''Content-Type'' ''application/json'' (r\<lparr>res_StatusCode := status\<rparr>))\<lparr>res_Body := data\<rparr>)"

definition Response_Text :: "int \<Rightarrow> string \<Rightarrow> Response \<Rightarrow> Response" where
  "Response_Text status text r = (set_header ''Content-Type'' ''text/plain'' (r\<lparr>res_StatusCode := status\<rparr>))\<lparr>res_Body := text\<rparr>"

definition NoContent :: "Response \<Rightarrow> Response" where
  "NoContent r = r\<lparr>res_StatusCode := 204, res_Body := []\<rparr>"

definition error_object :: "string \<Rightarrow> json option" where
  "error_object msg = e_map [(''error'', msg)]"

definition Response_Error :: "int \<Rightarrow> string \<Rightarrow> Response \<Rightarrow> Response" where
  "Response_Error status message = Response_JSON status (error_object message)"

definition BodyString :: "Response \<Rightarrow> string" where
  "BodyString r = res_Body r"

section \<open>The host's forms\<close>

text \<open>\<^verbatim>\<open>native_protocol.go\<close> and \<^verbatim>\<open>wasm_protocol.go\<close>, which are the same: what the host reads.\<close>

record hostResponse =
  hs_status :: int
  hs_headers :: "(string \<times> string) list"
  hs_body :: bytes

definition e_hostResponse :: "hostResponse \<Rightarrow> json option" where [codec]:
  "e_hostResponse x = e_struct
    [(''status'', e_int (hs_status x)),
     (''headers'', e_map (hs_headers x)),
     (''body'', e_bytes (hs_body x))]"

definition d_hostResponse :: "hostResponse decoder" where [codec]:
  "d_hostResponse = d_struct
    [(''status'', fld d_int hs_status (\<lambda>y. hs_status_update (\<lambda>_. y))),
     (''headers'', fld d_map hs_headers (\<lambda>y. hs_headers_update (\<lambda>_. y))),
     (''body'', fld d_bytes hs_body (\<lambda>y. hs_body_update (\<lambda>_. y)))]"

definition zero_hostResponse :: hostResponse where
  "zero_hostResponse = \<lparr>hs_status = 0, hs_headers = [], hs_body = []\<rparr>"

definition marshalResponse :: "Response \<Rightarrow> bytes" where
  "marshalResponse r = marshal_or_nil (e_hostResponse
     \<lparr>hs_status = res_StatusCode r, hs_headers = res_Headers r, hs_body = res_Body r\<rparr>)"

definition errorResponse :: "int \<Rightarrow> string \<Rightarrow> bytes" where
  "errorResponse status msg = marshal_or_nil (e_hostResponse
     \<lparr>hs_status = status, hs_headers = [(''Content-Type'', ''application/json'')],
      hs_body = marshal_or_nil (error_object msg)\<rparr>)"

section \<open>Reading a response back\<close>

lemma map_of_updates:
  "map_of (foldl (\<lambda>m (k, v). AList.update k v m) m l) = map_of m ++ map_of (rev l)"
  by (induction l arbitrary: m) (auto simp: update_conv' map_add_def split: option.splits)

lemma d_map_object:
  "d_map old (raw, JObj (map (\<lambda>(k, v). (k, r k v, JStr v)) l)) = Some (foldl (\<lambda>m (k, v). AList.update k v m) old l)"
proof -
  have "foldl (\<lambda>acc (k, raw, v). case acc of None \<Rightarrow> None
        | Some m \<Rightarrow> map_option (\<lambda>s. AList.update k s m) (d_str '''' (raw, v)))
      (Some m) (map (\<lambda>(k, v). (k, r k v, JStr v)) l) = Some (foldl (\<lambda>m (k, v). AList.update k v m) m l)" for m
    by (induction l arbitrary: m) (auto simp: d_str_def)
  then show ?thesis by (simp add: d_map_def)
qed

definition map_json :: "(string \<times> string) list \<Rightarrow> json" where
  "map_json m = (if m = [] then JNull else JObj (map (\<lambda>(k, v). (k, '''', JStr v)) (sort_key fst m)))"

lemma e_map_json: "e_map m = Some (map_json m)"
  by (simp add: e_map_def map_json_def)

lemma plain_map: "plain_json (map_json m)"
  by (auto simp: map_json_def list_all_iff)

lemma map_json_depth: "json_depth (map_json m) \<le> 1"
proof -
  have "foldr max (map (\<lambda>(k, raw, v). json_depth v) (map (\<lambda>(k, v). (k, '''' :: string, JStr v)) (sort_key fst m))) 0 \<le> 0"
    by (rule foldr_max_le) auto
  then show ?thesis by (simp add: map_json_def)
qed

definition valid_map :: "(string \<times> string) list \<Rightarrow> bool" where
  "valid_map m \<longleftrightarrow> distinct (map fst m) \<and> list_all (\<lambda>(k, v). valid_utf8 k \<and> valid_utf8 v) m"

lemma distinct_sort_keys: "distinct (map fst m) \<Longrightarrow> distinct (map fst (sort_key fst m))"
  by (simp add: distinct_map distinct_sort)

lemma map_of_sort_key: "distinct (map fst m) \<Longrightarrow> map_of (sort_key fst m) = map_of m"
  using distinct_sort_keys by (intro map_of_inject_set [THEN iffD2]) simp_all

lemma d_map_back:
  assumes "valid_map m"
  shows "\<exists>m'. d_map [] (raw, norm_json (map_json m)) = Some m' \<and> map_of m' = map_of m"
proof (cases "m = []")
  case False
  let ?l = "sort_key fst m"
  have v: "list_all (\<lambda>(k, v). valid_utf8 k \<and> valid_utf8 v) ?l" and d: "distinct (map fst ?l)"
    using assms distinct_sort_keys unfolding valid_map_def by (auto simp: list_all_iff)
  have "norm_json (map_json m) = JObj (map (\<lambda>(k, v). (k, print_json (JStr v), JStr v)) ?l)"
    using False v by (auto simp: map_json_def list_all_iff to_valid_id)
  then have "d_map [] (raw, norm_json (map_json m)) = Some (foldl (\<lambda>m (k, v). AList.update k v m) [] ?l)"
    using d_map_object [of "[]" raw "\<lambda>k v. print_json (JStr v)" ?l] by simp
  moreover have "map_of (foldl (\<lambda>m (k, v). AList.update k v m) [] ?l) = map_of m"
    using assms d by (simp add: map_of_updates map_of_rev map_of_sort_key valid_map_def)
  ultimately show ?thesis by blast
qed (simp add: map_json_def d_map_def)

definition body_json :: "bytes \<Rightarrow> json" where
  "body_json b = (if b = [] then JNull else JStr (b64_encode b))"

definition host_json :: "hostResponse \<Rightarrow> json" where
  "host_json x = JObj [(''status'', '''', JNum (itoa (hs_status x))), (''headers'', '''', map_json (hs_headers x)),
     (''body'', '''', body_json (hs_body x))]"

lemma e_hostResponse_json: "e_hostResponse x = Some (host_json x)"
  by (simp add: e_hostResponse_def host_json_def body_json_def e_struct_def e_int_def e_map_json e_bytes_def)

lemma b64_char_ascii: "n < 64 \<Longrightarrow> byte_val (b64_char n) < 128"
  by (auto simp: b64_char_def byte_val_char_of)

lemma b64_encode_ascii: "is_ascii (b64_encode s)"
  by (induction s rule: b64_encode.induct) (simp_all add: b64_char_ascii b64_bounds)

lemma plain_host:
  assumes "min_int64 \<le> hs_status x" "hs_status x \<le> max_int64"
  shows "plain_json (host_json x) \<and> json_depth (host_json x) \<le> max_depth"
  using assms plain_map map_json_depth [of "hs_headers x"]
  by (simp add: host_json_def body_json_def atoi_itoa_id max_depth_def)

lemma d_body_back: "d_bytes [] (raw, norm_json (body_json b)) = Some b"
  by (simp add: body_json_def d_bytes_def b64_encode_ascii b64_roundtrip)

lemma host_response_back:
  assumes "min_int64 \<le> hs_status x" "hs_status x \<le> max_int64" "valid_map (hs_headers x)"
  shows "\<exists>h. unmarshal zero_hostResponse d_hostResponse (marshal_or_nil (e_hostResponse x)) = Some h \<and>
     hs_status h = hs_status x \<and> map_of (hs_headers h) = map_of (hs_headers x) \<and> hs_body h = hs_body x"
proof -
  obtain m' where m': "d_map [] (print_json (map_json (hs_headers x)), norm_json (map_json (hs_headers x))) = Some m'"
      "map_of m' = map_of (hs_headers x)"
    using d_map_back [OF assms(3)] by blast
  have "unmarshal zero_hostResponse d_hostResponse (print_json (host_json x)) =
      d_hostResponse zero_hostResponse (print_json (host_json x), norm_json (host_json x))"
    using plain_host [OF assms(1,2)] by (intro unmarshal_print) auto
  also have "\<dots> = Some \<lparr>hs_status = hs_status x, hs_headers = m', hs_body = hs_body x\<rparr>"
    using atoi_itoa [OF assms(1,2)] m'(1) d_body_back [of "print_json (body_json (hs_body x))" "hs_body x"]
    by (simp add: d_hostResponse_def host_json_def d_struct_Cons d_struct_Nil fld_def d_int_def zero_hostResponse_def)
  finally show ?thesis using m'(2) by (simp add: marshal_or_nil_def marshal_def e_hostResponse_json)
qed

lemma response_back:
  assumes "min_int64 \<le> res_StatusCode r" "res_StatusCode r \<le> max_int64" "valid_map (res_Headers r)"
  shows "\<exists>h. unmarshal zero_hostResponse d_hostResponse (marshalResponse r) = Some h \<and>
     hs_status h = res_StatusCode r \<and> map_of (hs_headers h) = map_of (res_Headers r) \<and> hs_body h = res_Body r"
  using host_response_back [of "\<lparr>hs_status = res_StatusCode r, hs_headers = res_Headers r, hs_body = res_Body r\<rparr>"] assms
  by (simp add: marshalResponse_def)

text \<open>An error response is the one \<^verbatim>\<open>Response.Error\<close> of a fresh response gives.\<close>

lemma errorResponse_Error: "errorResponse status msg = marshalResponse (Response_Error status msg NewResponse)"
  by (simp add: errorResponse_def marshalResponse_def Response_Error_def Response_JSON_def error_object_def e_map_json
      marshal_def marshal_or_nil_def set_header_def NewResponse_def)

end
