(* ===== verification/Automation.thy ===== *)
theory Automation
  imports Http
begin

text \<open>
  \<^verbatim>\<open>automation.go\<close>: the requests and results of a plugin's condition and action nodes and
  their JSON forms.
\<close>

section \<open>Values of any type\<close>

text \<open>
  A value decoded into \<^verbatim>\<open>any\<close> is kept as the JSON value it was.  A number becomes a
  \<^verbatim>\<open>float64\<close>, and one that rounds beyond the largest of them is an error.
\<close>

definition number_exponent :: "string \<Rightarrow> int" where
  "number_exponent s =
     (case s of
        [] \<Rightarrow> 0
      | c # t \<Rightarrow> if c = CHR ''-'' then - int (digits_val t) else if c = CHR ''+'' then int (digits_val t) else int (digits_val s))"

definition float_overflows :: "string \<Rightarrow> bool" where
  "float_overflows s =
     (let u = (if has_prefix s ''-'' then drop 1 s else s);
          m = takeWhile (\<lambda>c. c \<noteq> CHR ''e'' \<and> c \<noteq> CHR ''E'') u;
          whole = takeWhile (\<lambda>c. c \<noteq> CHR ''.'') m;
          frac = drop (length whole + 1) m;
          mant = int (digits_val (whole @ frac));
          ex = number_exponent (drop (length m + 1) u) - int (length frac);
          limit = 2 ^ 1024 - 2 ^ 970
      in if mant = 0 then False
         else if 0 \<le> ex then limit \<le> mant * 10 ^ nat ex
         else limit * 10 ^ nat (- ex) \<le> mant)"

fun decodes_any :: "json \<Rightarrow> bool" where
  "decodes_any (JNum s) = (\<not> float_overflows s)"
| "decodes_any (JArr vs) = list_all decodes_any vs"
| "decodes_any (JObj ms) = list_all (\<lambda>(k, raw, v). decodes_any v) ms"
| "decodes_any _ = True"

definition d_any_map :: "(string \<times> json) list decoder" where
  "d_any_map old p =
     (case snd p of
        JObj ms \<Rightarrow> if decodes_any (JObj ms) then Some (foldl (\<lambda>m (k, raw, v). AList.update k v m) old ms) else None
      | JNull \<Rightarrow> Some []
      | _ \<Rightarrow> None)"

section \<open>Requests\<close>

record TaskSnapshot =
  ts_ID :: string
  ts_StatusID :: "string option"
  ts_AssigneeIDs :: "string list"
  ts_Importance :: int
  ts_Tags :: "string list"
  ts_CustomFields :: "(string \<times> json) list"

record ConditionRequest =
  cnd_NodeType :: string
  cnd_Config :: bytes
  cnd_Task :: TaskSnapshot
  cnd_ProjectID :: string

record ActionRequest =
  act_NodeType :: string
  act_Config :: bytes
  act_Task :: TaskSnapshot
  act_ProjectID :: string
  act_IdempotencyKey :: string

definition zero_TaskSnapshot :: TaskSnapshot where
  "zero_TaskSnapshot = \<lparr>ts_ID = '''', ts_StatusID = None, ts_AssigneeIDs = [], ts_Importance = 0, ts_Tags = [], ts_CustomFields = []\<rparr>"

definition zero_ConditionRequest :: ConditionRequest where
  "zero_ConditionRequest = \<lparr>cnd_NodeType = '''', cnd_Config = [], cnd_Task = zero_TaskSnapshot, cnd_ProjectID = ''''\<rparr>"

definition zero_ActionRequest :: ActionRequest where
  "zero_ActionRequest = \<lparr>act_NodeType = '''', act_Config = [], act_Task = zero_TaskSnapshot, act_ProjectID = '''',
     act_IdempotencyKey = ''''\<rparr>"

definition d_TaskSnapshot :: "TaskSnapshot decoder" where [codec]:
  "d_TaskSnapshot = d_struct
    [(''id'', fld d_str ts_ID (\<lambda>y. ts_ID_update (\<lambda>_. y))),
     (''status_id'', fld (d_opt '''' d_str) ts_StatusID (\<lambda>y. ts_StatusID_update (\<lambda>_. y))),
     (''assignee_ids'', fld (d_list '''' d_str) ts_AssigneeIDs (\<lambda>y. ts_AssigneeIDs_update (\<lambda>_. y))),
     (''importance'', fld d_int ts_Importance (\<lambda>y. ts_Importance_update (\<lambda>_. y))),
     (''tags'', fld (d_list '''' d_str) ts_Tags (\<lambda>y. ts_Tags_update (\<lambda>_. y))),
     (''custom_fields'', fld d_any_map ts_CustomFields (\<lambda>y. ts_CustomFields_update (\<lambda>_. y)))]"

definition d_ConditionRequest :: "ConditionRequest decoder" where [codec]:
  "d_ConditionRequest = d_struct
    [(''node_type'', fld d_str cnd_NodeType (\<lambda>y. cnd_NodeType_update (\<lambda>_. y))),
     (''config'', fld d_raw cnd_Config (\<lambda>y. cnd_Config_update (\<lambda>_. y))),
     (''task'', fld d_TaskSnapshot cnd_Task (\<lambda>y. cnd_Task_update (\<lambda>_. y))),
     (''project_id'', fld d_str cnd_ProjectID (\<lambda>y. cnd_ProjectID_update (\<lambda>_. y)))]"

definition d_ActionRequest :: "ActionRequest decoder" where [codec]:
  "d_ActionRequest = d_struct
    [(''node_type'', fld d_str act_NodeType (\<lambda>y. act_NodeType_update (\<lambda>_. y))),
     (''config'', fld d_raw act_Config (\<lambda>y. act_Config_update (\<lambda>_. y))),
     (''task'', fld d_TaskSnapshot act_Task (\<lambda>y. act_Task_update (\<lambda>_. y))),
     (''project_id'', fld d_str act_ProjectID (\<lambda>y. act_ProjectID_update (\<lambda>_. y))),
     (''idempotency_key'', fld d_str act_IdempotencyKey (\<lambda>y. act_IdempotencyKey_update (\<lambda>_. y)))]"

section \<open>Results\<close>

record ConditionResult =
  cr_Matched :: bool
  cr_Error :: string

record ActionResult =
  ar_Applied :: bool
  ar_Error :: string

definition e_ConditionResult :: "ConditionResult \<Rightarrow> json option" where [codec]:
  "e_ConditionResult x = e_struct (concat
    [[(''matched'', e_bool (cr_Matched x))], omit (cr_Error x = '''') ''error'' (e_str (cr_Error x))])"

definition e_ActionResult :: "ActionResult \<Rightarrow> json option" where [codec]:
  "e_ActionResult x = e_struct (concat
    [[(''applied'', e_bool (ar_Applied x))], omit (ar_Error x = '''') ''error'' (e_str (ar_Error x))])"

definition d_ConditionResult :: "ConditionResult decoder" where [codec]:
  "d_ConditionResult = d_struct
    [(''matched'', fld d_bool cr_Matched (\<lambda>y. cr_Matched_update (\<lambda>_. y))),
     (''error'', fld d_str cr_Error (\<lambda>y. cr_Error_update (\<lambda>_. y)))]"

definition d_ActionResult :: "ActionResult decoder" where [codec]:
  "d_ActionResult = d_struct
    [(''applied'', fld d_bool ar_Applied (\<lambda>y. ar_Applied_update (\<lambda>_. y))),
     (''error'', fld d_str ar_Error (\<lambda>y. ar_Error_update (\<lambda>_. y)))]"

definition zero_ConditionResult :: ConditionResult where
  "zero_ConditionResult = \<lparr>cr_Matched = False, cr_Error = ''''\<rparr>"

definition zero_ActionResult :: ActionResult where
  "zero_ActionResult = \<lparr>ar_Applied = False, ar_Error = ''''\<rparr>"

definition marshalConditionResult :: "ConditionResult \<Rightarrow> bytes" where
  "marshalConditionResult r = marshal_or_nil (e_ConditionResult r)"

definition marshalActionResult :: "ActionResult \<Rightarrow> bytes" where
  "marshalActionResult r = marshal_or_nil (e_ActionResult r)"

lemma condition_result_back:
  "unmarshal zero_ConditionResult d_ConditionResult (marshalConditionResult r) =
     Some (r\<lparr>cr_Error := to_valid_utf8 (cr_Error r)\<rparr>)"
proof -
  let ?v = "JObj ([(''matched'', '''', JBool (cr_Matched r))] @ (if cr_Error r = '''' then [] else [(''error'', '''', JStr (cr_Error r))]))"
  have "marshalConditionResult r = print_json ?v"
    by (simp add: marshalConditionResult_def marshal_or_nil_def marshal_def e_ConditionResult_def e_struct_def omit_def e_bool_def e_str_def)
  moreover have "unmarshal zero_ConditionResult d_ConditionResult (print_json ?v) =
      d_ConditionResult zero_ConditionResult (print_json ?v, norm_json ?v)"
    by (intro unmarshal_print) (auto simp: max_depth_def)
  ultimately show ?thesis
    by (simp add: d_ConditionResult_def d_struct_Cons d_struct_Nil fld_def d_bool_def d_str_def zero_ConditionResult_def)
qed

lemma action_result_back:
  "unmarshal zero_ActionResult d_ActionResult (marshalActionResult r) = Some (r\<lparr>ar_Error := to_valid_utf8 (ar_Error r)\<rparr>)"
proof -
  let ?v = "JObj ([(''applied'', '''', JBool (ar_Applied r))] @ (if ar_Error r = '''' then [] else [(''error'', '''', JStr (ar_Error r))]))"
  have "marshalActionResult r = print_json ?v"
    by (simp add: marshalActionResult_def marshal_or_nil_def marshal_def e_ActionResult_def e_struct_def omit_def e_bool_def e_str_def)
  moreover have "unmarshal zero_ActionResult d_ActionResult (print_json ?v) =
      d_ActionResult zero_ActionResult (print_json ?v, norm_json ?v)"
    by (intro unmarshal_print) (auto simp: max_depth_def)
  ultimately show ?thesis
    by (simp add: d_ActionResult_def d_struct_Cons d_struct_Nil fld_def d_bool_def d_str_def zero_ActionResult_def)
qed

end
