(* ===== verification/InMemoryDB.thy ===== *)
theory InMemoryDB
  imports GoCodec
begin

text \<open>
  \<^verbatim>\<open>plugintest/backends.go\<close>, \<^verbatim>\<open>InMemoryDB\<close>: the tables, the SQL it parses and the statements it
  runs.  A slice out of range and an index into an empty list panic.  The columns of a table
  are a slice the caller of \<^verbatim>\<open>SeedRows\<close> and of \<^verbatim>\<open>Query\<close> shares with it; a caller that writes into
  it is not modelled.
\<close>

section \<open>Values and results\<close>

text \<open>A value of type \<^verbatim>\<open>any\<close>; \<open>GoOther\<close> is one of any other type, with what \<^verbatim>\<open>fmt.Sprint\<close> makes of it.\<close>

datatype go_any = GoNil | GoStr string | GoInt int | GoBool bool | GoOther string

fun sprint :: "go_any \<Rightarrow> string" where
  "sprint GoNil = ''<nil>''"
| "sprint (GoStr s) = s"
| "sprint (GoInt i) = itoa i"
| "sprint (GoBool b) = (if b then ''true'' else ''false'')"
| "sprint (GoOther t) = t"

text \<open>A Go function with an error result, which may panic.\<close>

type_synonym 'a res = "(string + 'a) outcome"

definition ok :: "'a \<Rightarrow> 'a res" where "ok x = Returned (Inr x)"
definition err :: "string \<Rightarrow> 'a res" where "err e = Returned (Inl e)"

fun bind_res :: "'a res \<Rightarrow> ('a \<Rightarrow> 'b res) \<Rightarrow> 'b res" where
  "bind_res Panicked f = Panicked"
| "bind_res (Returned (Inl e)) f = Returned (Inl e)"
| "bind_res (Returned (Inr x)) f = f x"

lemma bind_ok [simp]: "bind_res (ok x) f = f x"
  by (simp add: ok_def)

lemma bind_err [simp]: "bind_res (err e) f = err e"
  by (simp add: err_def)

lemma ok_not [simp]: "ok x \<noteq> err e" "ok x \<noteq> Panicked" "err e \<noteq> Panicked" "ok x = ok y \<longleftrightarrow> x = y"
  by (simp_all add: ok_def err_def)

fun map_res :: "('a \<Rightarrow> 'b res) \<Rightarrow> 'a list \<Rightarrow> 'b list res" where
  "map_res f [] = ok []"
| "map_res f (x # xs) = bind_res (f x) (\<lambda>y. bind_res (map_res f xs) (\<lambda>ys. ok (y # ys)))"

text \<open>
  What the code takes from the library and the model does not spell out: the case mappings
  beyond ASCII, \<^verbatim>\<open>%q\<close>, and the text of the error of \<^verbatim>\<open>Sscanf\<close>.
\<close>

record golib =
  lib_upper :: "string \<Rightarrow> string"
  lib_lower :: "string \<Rightarrow> string"
  lib_quote :: "string \<Rightarrow> string"
  lib_scan_error :: "string \<Rightarrow> string"

definition slice_from :: "string \<Rightarrow> nat \<Rightarrow> string res" where
  "slice_from s n = (if n \<le> length s then ok (drop n s) else Panicked)"

definition slice_to :: "string \<Rightarrow> nat \<Rightarrow> string res" where
  "slice_to s n = (if n \<le> length s then ok (take n s) else Panicked)"

definition slice_between :: "string \<Rightarrow> nat \<Rightarrow> nat \<Rightarrow> string res" where
  "slice_between s i j = (if i \<le> j \<and> j \<le> length s then ok (take (j - i) (drop i s)) else Panicked)"

definition first_field :: "string \<Rightarrow> string res" where
  "first_field s = (case GoStrings.fields s of [] \<Rightarrow> Panicked | f # _ \<Rightarrow> ok f)"

text \<open>\<^verbatim>\<open>strings.EqualFold\<close> with a word of ASCII capitals.\<close>

definition equal_fold :: "string \<Rightarrow> string \<Rightarrow> bool" where
  "equal_fold s word \<longleftrightarrow> fold_name s = word"

text \<open>\<^verbatim>\<open>fmt.Sscanf\<close> with \<^verbatim>\<open>%d\<close>: what follows the number is not looked at.\<close>

definition scan_d :: "string \<Rightarrow> int option" where
  "scan_d s =
     (let neg = (has_prefix s ''-''); t = (if neg \<or> has_prefix s ''+'' then drop 1 s else s);
          ds = takeWhile is_digit t;
          i = (if neg then - int (digits_val ds) else int (digits_val ds))
      in if ds = [] \<or> i < min_int64 \<or> max_int64 < i then None else Some i)"

section \<open>Parsing\<close>

record colParam =
  cp_column :: string
  cp_paramIdx :: int

record condition =
  cond_column :: string
  cond_paramIdx :: int
  cond_isNull :: bool
  cond_isNotNull :: bool

definition parseColParam :: "golib \<Rightarrow> string \<Rightarrow> (string \<times> int) res" where
  "parseColParam L s =
     (case GoStrings.fields s of
        col # _ # paramStr # _ \<Rightarrow>
          (if \<not> has_prefix paramStr ''$'' then err (''parseColParam: expected $N, got '' @ lib_quote L paramStr)
           else (case scan_d (drop 1 paramStr) of
                   None \<Rightarrow> err (lib_scan_error L (drop 1 paramStr))
                 | Some idx \<Rightarrow> ok (col, idx)))
      | _ \<Rightarrow> err (''parseColParam: unexpected '' @ lib_quote L s))"

definition parseCondition :: "golib \<Rightarrow> string \<Rightarrow> condition res" where
  "parseCondition L s =
     (let fs = GoStrings.fields s
      in if length fs = 3 \<and> equal_fold (fs ! 1) ''IS'' \<and> equal_fold (fs ! 2) ''NULL''
         then ok \<lparr>cond_column = fs ! 0, cond_paramIdx = 0, cond_isNull = True, cond_isNotNull = False\<rparr>
         else if length fs = 4 \<and> equal_fold (fs ! 1) ''IS'' \<and> equal_fold (fs ! 2) ''NOT'' \<and> equal_fold (fs ! 3) ''NULL''
         then ok \<lparr>cond_column = fs ! 0, cond_paramIdx = 0, cond_isNull = False, cond_isNotNull = True\<rparr>
         else bind_res (parseColParam L s) (\<lambda>(col, idx).
           ok \<lparr>cond_column = col, cond_paramIdx = idx, cond_isNull = False, cond_isNotNull = False\<rparr>))"

definition parseConditions :: "golib \<Rightarrow> string \<Rightarrow> condition list res" where
  "parseConditions L s = map_res (\<lambda>part. parseCondition L (trim_space part)) (split s ''AND'')"

definition parseTableAndConditions :: "golib \<Rightarrow> string \<Rightarrow> (string \<times> condition list) res" where
  "parseTableAndConditions L sql =
     (case index_of '' FROM '' (to_upper (lib_upper L) sql) of
        None \<Rightarrow> err (''parseTableAndConditions: no FROM in '' @ lib_quote L sql)
      | Some fromIdx \<Rightarrow>
          bind_res (slice_from sql (fromIdx + 6)) (\<lambda>tail.
            let rest = trim_space tail
            in case index_of '' WHERE '' (to_upper (lib_upper L) rest) of
                 None \<Rightarrow> bind_res (first_field rest) (\<lambda>t. ok (t, []))
               | Some whereIdx \<Rightarrow>
                   bind_res (slice_to rest whereIdx) (\<lambda>head.
                     bind_res (first_field head) (\<lambda>t.
                       bind_res (slice_from rest (whereIdx + 7)) (\<lambda>body.
                         bind_res (parseConditions L (trim_space body)) (\<lambda>conds. ok (t, conds)))))))"

definition parseAssignments :: "golib \<Rightarrow> string \<Rightarrow> colParam list res" where
  "parseAssignments L s =
     map_res (\<lambda>part. bind_res (parseColParam L (trim_space part)) (\<lambda>(col, idx). ok \<lparr>cp_column = col, cp_paramIdx = idx\<rparr>))
       (split s '','')"

definition parseSimpleUpdate :: "golib \<Rightarrow> string \<Rightarrow> (string \<times> colParam list \<times> condition list) res" where
  "parseSimpleUpdate L sql =
     (let trimmed = trim_space sql; upper = to_upper (lib_upper L) trimmed
      in if \<not> has_prefix upper ''UPDATE '' then err (''parseSimpleUpdate: no UPDATE in '' @ lib_quote L sql)
         else case index_of '' SET '' upper of
           None \<Rightarrow> err (''parseSimpleUpdate: no SET in '' @ lib_quote L sql)
         | Some setIdx \<Rightarrow>
             (case index_of '' WHERE '' upper of
                None \<Rightarrow> err (''parseSimpleUpdate: no WHERE in '' @ lib_quote L sql)
              | Some whereIdx \<Rightarrow>
                  bind_res (slice_between trimmed 7 setIdx) (\<lambda>name.
                    bind_res (slice_between trimmed (setIdx + 5) whereIdx) (\<lambda>sets.
                      bind_res (parseAssignments L sets) (\<lambda>assignments.
                        bind_res (slice_from trimmed (whereIdx + 7)) (\<lambda>body.
                          bind_res (parseConditions L body) (\<lambda>conds.
                            ok (trim_space name, assignments, conds))))))))"

definition non_empty_parts :: "string \<Rightarrow> string list" where
  "non_empty_parts s = filter (\<lambda>t. t \<noteq> '''') (map trim_space (split s '',''))"

definition parseInsertColumns :: "golib \<Rightarrow> string \<Rightarrow> (string \<times> string list) res" where
  "parseInsertColumns L sql =
     (case index_of '' INTO '' (to_upper (lib_upper L) sql) of
        None \<Rightarrow> err (''parseInsertColumns: no INTO in '' @ lib_quote L sql)
      | Some intoIdx \<Rightarrow>
          bind_res (slice_from sql (intoIdx + 6)) (\<lambda>tail.
            let rest = trim_space tail
            in case index_of ''('' rest of
                 None \<Rightarrow> bind_res (first_field rest) (\<lambda>t. ok (t, []))
               | Some openIdx \<Rightarrow>
                   (case index_of '')'' (drop openIdx rest) of
                      None \<Rightarrow> err (''parseInsertColumns: no closing ')' in '' @ lib_quote L sql)
                    | Some closeIdx \<Rightarrow>
                        bind_res (slice_between rest (openIdx + 1) (openIdx + closeIdx)) (\<lambda>columnList.
                          ok (trim_space (take openIdx rest), non_empty_parts columnList)))))"

definition parseReturningColumns :: "golib \<Rightarrow> string \<Rightarrow> string list res" where
  "parseReturningColumns L sql =
     (case index_of '' RETURNING '' (to_upper (lib_upper L) sql) of
        None \<Rightarrow> ok []
      | Some returningIdx \<Rightarrow>
          bind_res (slice_from sql (returningIdx + 11)) (\<lambda>tail.
            let colsPart = trim_space tail
            in if colsPart = '''' then err (''parseReturningColumns: missing RETURNING columns in '' @ lib_quote L sql)
               else ok (non_empty_parts colsPart)))"

fun colIndex_from :: "(string \<Rightarrow> string) \<Rightarrow> nat \<Rightarrow> string list \<Rightarrow> string \<Rightarrow> nat option" where
  "colIndex_from lc i [] col = None"
| "colIndex_from lc i (c # cs) col = (if to_lower lc c = to_lower lc col then Some i else colIndex_from lc (i + 1) cs col)"

text \<open>\<open>None\<close> is -1.\<close>

definition colIndex :: "golib \<Rightarrow> string list \<Rightarrow> string \<Rightarrow> nat option" where
  "colIndex L columns col = (if col = '''' then None else colIndex_from (lib_lower L) 0 columns col)"

section \<open>Rows\<close>

record table =
  tb_columns :: "string list"
  tb_rows :: "go_any list list"

type_synonym InMemoryDB = "string \<rightharpoonup> table"

record 'v DBQueryResult =
  qr_Columns :: "string list"
  qr_Rows :: "'v list list"

fun matchesConditions :: "golib \<Rightarrow> string list \<Rightarrow> go_any list \<Rightarrow> condition list \<Rightarrow> go_any list \<Rightarrow> bool res" where
  "matchesConditions L columns row [] params = ok True"
| "matchesConditions L columns row (c # cs) params =
     (case colIndex L columns (cond_column c) of
        None \<Rightarrow> err (''matchesConditions: column '' @ lib_quote L (cond_column c) @ '' not found'')
      | Some i \<Rightarrow>
          (if length row \<le> i then err (''matchesConditions: column '' @ lib_quote L (cond_column c) @ '' not found'')
           else if cond_isNull c then
             (if row ! i \<noteq> GoNil then ok False else matchesConditions L columns row cs params)
           else if cond_isNotNull c then
             (if row ! i = GoNil then ok False else matchesConditions L columns row cs params)
           else if cond_paramIdx c \<le> 0 \<or> int (length params) < cond_paramIdx c
           then err (''matchesConditions: param index '' @ itoa (cond_paramIdx c) @ '' out of range'')
           else if sprint (row ! i) \<noteq> sprint (params ! nat (cond_paramIdx c - 1)) then ok False
           else matchesConditions L columns row cs params))"

section \<open>Statements\<close>

definition table_named :: "golib \<Rightarrow> InMemoryDB \<Rightarrow> string \<Rightarrow> table option" where
  "table_named L db name = db (to_lower (lib_lower L) name)"

definition put_table :: "golib \<Rightarrow> string \<Rightarrow> table \<Rightarrow> InMemoryDB \<Rightarrow> InMemoryDB" where
  "put_table L name t db = db(to_lower (lib_lower L) name \<mapsto> t)"

definition newInMemoryDB :: InMemoryDB where "newInMemoryDB = Map.empty"

definition SeedRows :: "golib \<Rightarrow> string \<Rightarrow> string list \<Rightarrow> go_any list list \<Rightarrow> InMemoryDB \<Rightarrow> InMemoryDB" where
  "SeedRows L name columns rows db = put_table L name \<lparr>tb_columns = columns, tb_rows = rows\<rparr> db"

definition AllRows :: "golib \<Rightarrow> string \<Rightarrow> InMemoryDB \<Rightarrow> go_any list list" where
  "AllRows L name db = (case table_named L db name of None \<Rightarrow> [] | Some t \<Rightarrow> tb_rows t)"

fun select_rows :: "golib \<Rightarrow> string list \<Rightarrow> condition list \<Rightarrow> go_any list \<Rightarrow> go_any list list \<Rightarrow> go_any list list res" where
  "select_rows L columns conds params [] = ok []"
| "select_rows L columns conds params (row # rows) =
     bind_res (matchesConditions L columns row conds params) (\<lambda>m.
       bind_res (select_rows L columns conds params rows) (\<lambda>rs. ok (if m then row # rs else rs)))"

definition querySelect :: "golib \<Rightarrow> string \<Rightarrow> go_any list \<Rightarrow> InMemoryDB \<Rightarrow> go_any DBQueryResult res" where
  "querySelect L sql params db =
     bind_res (parseTableAndConditions L sql) (\<lambda>(name, conds).
       case table_named L db name of
         None \<Rightarrow> ok \<lparr>qr_Columns = [], qr_Rows = []\<rparr>
       | Some t \<Rightarrow>
           bind_res (select_rows L (tb_columns t) conds params (tb_rows t)) (\<lambda>rs.
             ok \<lparr>qr_Columns = tb_columns t, qr_Rows = rs\<rparr>))"

fun fill_columns ::
    "golib \<Rightarrow> string \<Rightarrow> string list \<Rightarrow> (string \<times> go_any) list \<Rightarrow> go_any list \<Rightarrow> go_any list res" where
  "fill_columns L name columns [] row = ok row"
| "fill_columns L name columns ((col, v) # cvs) row =
     (case colIndex L columns col of
        None \<Rightarrow> err (''InMemoryDB.insertRow: column '' @ lib_quote L col @ '' not found in table '' @ lib_quote L name)
      | Some i \<Rightarrow> fill_columns L name columns cvs (row[i := v]))"

definition generated_id :: "nat \<Rightarrow> go_any" where
  "generated_id n = GoStr (''generated-id-'' @ itoa (int n + 1))"

definition with_id :: "golib \<Rightarrow> table \<Rightarrow> go_any list \<Rightarrow> go_any list" where
  "with_id L t row =
     (case colIndex L (tb_columns t) ''id'' of
        None \<Rightarrow> row
      | Some i \<Rightarrow> if row ! i = GoNil then row[i := generated_id (length (tb_rows t))] else row)"

definition insert_values :: "golib \<Rightarrow> string \<Rightarrow> table \<Rightarrow> string list \<Rightarrow> go_any list \<Rightarrow> go_any list res" where
  "insert_values L name t cols params =
     (let expected = (if cols = [] then length (tb_columns t) else length cols)
      in if length params \<noteq> expected
         then err (''InMemoryDB.insertRow: expected '' @ itoa (int expected) @ '' params for table '' @ lib_quote L name @
                   '', got '' @ itoa (int (length params)))
         else if cols = [] then ok params
         else fill_columns L name (tb_columns t) (zip cols params) (replicate (length (tb_columns t)) GoNil))"

text \<open>The table before the insertion, the row that was added and the database after it.\<close>

definition insertRow :: "golib \<Rightarrow> string \<Rightarrow> go_any list \<Rightarrow> InMemoryDB \<Rightarrow> (table \<times> go_any list \<times> InMemoryDB) res" where
  "insertRow L sql params db =
     bind_res (parseInsertColumns L sql) (\<lambda>(name, cols).
       case table_named L db name of
         None \<Rightarrow> err (''InMemoryDB: table '' @ lib_quote L name @ '' not found'')
       | Some t \<Rightarrow>
           bind_res (insert_values L name t cols params) (\<lambda>row0.
             let row = with_id L t row0
             in ok (t, row, put_table L name (t\<lparr>tb_rows := tb_rows t @ [row]\<rparr>) db)))"

definition parseInsertTableName :: "golib \<Rightarrow> string \<Rightarrow> string" where
  "parseInsertTableName L sql = (case parseInsertColumns L sql of Returned (Inr (name, cols)) \<Rightarrow> name | _ \<Rightarrow> '''')"

definition returned_value :: "golib \<Rightarrow> string \<Rightarrow> table \<Rightarrow> go_any list \<Rightarrow> string \<Rightarrow> go_any res" where
  "returned_value L sql t row col =
     (case colIndex L (tb_columns t) col of
        None \<Rightarrow> err (''InMemoryDB.queryInsert: column '' @ lib_quote L col @ '' not found in table '' @
                     lib_quote L (parseInsertTableName L sql))
      | Some i \<Rightarrow>
          (if length row \<le> i then err (''InMemoryDB.queryInsert: column '' @ lib_quote L col @ '' not found in table '' @
                     lib_quote L (parseInsertTableName L sql))
           else ok (row ! i)))"

text \<open>The state is the one after the call, whether it succeeds, fails or panics.\<close>

definition queryInsert :: "golib \<Rightarrow> string \<Rightarrow> go_any list \<Rightarrow> InMemoryDB \<Rightarrow> InMemoryDB \<times> go_any DBQueryResult res" where
  "queryInsert L sql params db =
     (case parseReturningColumns L sql of
        Panicked \<Rightarrow> (db, Panicked)
      | Returned (Inl e) \<Rightarrow> (db, err e)
      | Returned (Inr cols) \<Rightarrow>
          (if cols = [] then (db, err (''InMemoryDB.Query: INSERT queries must include RETURNING (got '' @ lib_quote L sql @ '')''))
           else (case insertRow L sql params db of
                   Panicked \<Rightarrow> (db, Panicked)
                 | Returned (Inl e) \<Rightarrow> (db, err e)
                 | Returned (Inr (t, row, db')) \<Rightarrow>
                     (db', bind_res (map_res (returned_value L sql t row) cols) (\<lambda>vs.
                        ok \<lparr>qr_Columns = cols, qr_Rows = [vs]\<rparr>)))))"

definition db_Query :: "golib \<Rightarrow> string \<Rightarrow> go_any list \<Rightarrow> InMemoryDB \<Rightarrow> InMemoryDB \<times> go_any DBQueryResult res" where
  "db_Query L sql params db =
     (let upper = trim_space (to_upper (lib_upper L) sql)
      in if has_prefix upper ''SELECT'' then (db, querySelect L sql params db)
         else if has_prefix upper ''INSERT'' then queryInsert L sql params db
         else (db, err (''InMemoryDB.Query: only SELECT and INSERT ... RETURNING are supported (got '' @ lib_quote L sql @ '')'')))"

definition execInsert :: "golib \<Rightarrow> string \<Rightarrow> go_any list \<Rightarrow> InMemoryDB \<Rightarrow> InMemoryDB \<times> int res" where
  "execInsert L sql params db =
     (case insertRow L sql params db of
        Panicked \<Rightarrow> (db, Panicked)
      | Returned (Inl e) \<Rightarrow> (db, err e)
      | Returned (Inr (t, row, db')) \<Rightarrow> (db', ok 1))"

fun keep_rows :: "golib \<Rightarrow> string list \<Rightarrow> condition list \<Rightarrow> go_any list \<Rightarrow> go_any list list \<Rightarrow> (go_any list list \<times> int) res" where
  "keep_rows L columns conds params [] = ok ([], 0)"
| "keep_rows L columns conds params (row # rows) =
     bind_res (matchesConditions L columns row conds params) (\<lambda>m.
       bind_res (keep_rows L columns conds params rows) (\<lambda>(kept, deleted).
         ok (if m then (kept, deleted + 1) else (row # kept, deleted))))"

definition execDelete :: "golib \<Rightarrow> string \<Rightarrow> go_any list \<Rightarrow> InMemoryDB \<Rightarrow> InMemoryDB \<times> int res" where
  "execDelete L sql params db =
     (case parseTableAndConditions L sql of
        Panicked \<Rightarrow> (db, Panicked)
      | Returned (Inl e) \<Rightarrow> (db, err e)
      | Returned (Inr (name, conds)) \<Rightarrow>
          (case table_named L db name of
             None \<Rightarrow> (db, ok 0)
           | Some t \<Rightarrow>
               (case keep_rows L (tb_columns t) conds params (tb_rows t) of
                  Panicked \<Rightarrow> (db, Panicked)
                | Returned (Inl e) \<Rightarrow> (db, err e)
                | Returned (Inr (kept, deleted)) \<Rightarrow> (put_table L name (t\<lparr>tb_rows := kept\<rparr>) db, ok deleted))))"

text \<open>The assignments to one row, in place: the row as far as they got, and how they ended.\<close>

fun assign_row :: "golib \<Rightarrow> string \<Rightarrow> string list \<Rightarrow> go_any list \<Rightarrow> colParam list \<Rightarrow> go_any list \<Rightarrow> go_any list \<times> unit res" where
  "assign_row L name columns params [] row = (row, ok ())"
| "assign_row L name columns params (a # as) row =
     (case colIndex L columns (cp_column a) of
        None \<Rightarrow> (row, err (''InMemoryDB.execUpdate: column '' @ lib_quote L (cp_column a) @ '' not found in table '' @ lib_quote L name))
      | Some i \<Rightarrow>
          (if length row \<le> i
           then (row, err (''InMemoryDB.execUpdate: column '' @ lib_quote L (cp_column a) @ '' not found in table '' @ lib_quote L name))
           else if cp_paramIdx a - 1 < 0 \<or> int (length params) \<le> cp_paramIdx a - 1 then (row, Panicked)
           else assign_row L name columns params as (row[i := params ! nat (cp_paramIdx a - 1)])))"

fun update_rows ::
    "golib \<Rightarrow> string \<Rightarrow> string list \<Rightarrow> colParam list \<Rightarrow> condition list \<Rightarrow> go_any list \<Rightarrow> go_any list list \<Rightarrow>
     go_any list list \<times> int res" where
  "update_rows L name columns as conds params [] = ([], ok 0)"
| "update_rows L name columns as conds params (row # rows) =
     (case matchesConditions L columns row conds params of
        Panicked \<Rightarrow> (row # rows, Panicked)
      | Returned (Inl e) \<Rightarrow> (row # rows, err e)
      | Returned (Inr False) \<Rightarrow>
          (let (rows', r) = update_rows L name columns as conds params rows in (row # rows', r))
      | Returned (Inr True) \<Rightarrow>
          (case assign_row L name columns params as row of
             (row', Panicked) \<Rightarrow> (row' # rows, Panicked)
           | (row', Returned (Inl e)) \<Rightarrow> (row' # rows, err e)
           | (row', Returned (Inr u)) \<Rightarrow>
               (let (rows', r) = update_rows L name columns as conds params rows
                in (row' # rows', bind_res r (\<lambda>n. ok (n + 1))))))"

definition execUpdate :: "golib \<Rightarrow> string \<Rightarrow> go_any list \<Rightarrow> InMemoryDB \<Rightarrow> InMemoryDB \<times> int res" where
  "execUpdate L sql params db =
     (case parseSimpleUpdate L sql of
        Panicked \<Rightarrow> (db, Panicked)
      | Returned (Inl e) \<Rightarrow> (db, err e)
      | Returned (Inr (name, as, conds)) \<Rightarrow>
          (case table_named L db name of
             None \<Rightarrow> (db, ok 0)
           | Some t \<Rightarrow>
               (let (rows, r) = update_rows L name (tb_columns t) as conds params (tb_rows t)
                in (put_table L name (t\<lparr>tb_rows := rows\<rparr>) db, r))))"

definition db_Exec :: "golib \<Rightarrow> string \<Rightarrow> go_any list \<Rightarrow> InMemoryDB \<Rightarrow> InMemoryDB \<times> int res" where
  "db_Exec L sql params db =
     (let upper = trim_space (to_upper (lib_upper L) sql)
      in if has_prefix upper ''INSERT'' then execInsert L sql params db
         else if has_prefix upper ''UPDATE'' then execUpdate L sql params db
         else if has_prefix upper ''DELETE'' then execDelete L sql params db
         else (db, err (''InMemoryDB.Exec: unsupported statement '' @ lib_quote L sql)))"

end
