(* ===== verification/Backends.thy ===== *)
theory Backends
  imports GoStrings "HOL-Library.Word" "HOL-Library.Signed_Division"
begin

text \<open>
  \<^verbatim>\<open>backends.go\<close> and the small stores of \<^verbatim>\<open>plugintest/backends.go\<close>: the helpers a plugin sees,
  the interfaces behind them, and the in-memory key-value store, cache, logger, configuration
  and permissions of the test kit.  Each method takes its mutex, so it is one step.
\<close>

section \<open>The helpers\<close>

text \<open>A backend's methods over its state; the helpers pass every call on.\<close>

record 's KVBackend =
  kvb_Get :: "string \<Rightarrow> 's \<Rightarrow> 's \<times> string option"
  kvb_Set :: "string \<Rightarrow> string \<Rightarrow> 's \<Rightarrow> 's"
  kvb_Delete :: "string \<Rightarrow> 's \<Rightarrow> 's"

definition KV_Get :: "'s KVBackend \<Rightarrow> string \<Rightarrow> 's \<Rightarrow> 's \<times> string option" where
  "KV_Get b key = kvb_Get b key"

definition KV_Set :: "'s KVBackend \<Rightarrow> string \<Rightarrow> string \<Rightarrow> 's \<Rightarrow> 's" where
  "KV_Set b key val = kvb_Set b key val"

definition KV_Delete :: "'s KVBackend \<Rightarrow> string \<Rightarrow> 's \<Rightarrow> 's" where
  "KV_Delete b key = kvb_Delete b key"

text \<open>Durations are nanoseconds in a 64-bit integer.\<close>

record 's CacheBackend =
  cab_Get :: "string \<Rightarrow> 's \<Rightarrow> 's \<times> string option"
  cab_Set :: "string \<Rightarrow> string \<Rightarrow> 64 word \<Rightarrow> 's \<Rightarrow> 's"
  cab_Delete :: "string \<Rightarrow> 's \<Rightarrow> 's"

definition Cache_Get :: "'s CacheBackend \<Rightarrow> string \<Rightarrow> 's \<Rightarrow> 's \<times> string option" where
  "Cache_Get b key = cab_Get b key"

definition Cache_Set :: "'s CacheBackend \<Rightarrow> string \<Rightarrow> string \<Rightarrow> 64 word \<Rightarrow> 's \<Rightarrow> 's" where
  "Cache_Set b key val ttl = cab_Set b key val ttl"

definition Cache_Delete :: "'s CacheBackend \<Rightarrow> string \<Rightarrow> 's \<Rightarrow> 's" where
  "Cache_Delete b key = cab_Delete b key"

definition second :: "64 word" where "second = 1000000000"

text \<open>The sum wraps at 64 bits, the quotient is signed, and the conversion keeps 32 bits.\<close>

definition ttlToSeconds :: "64 word \<Rightarrow> 32 word" where
  "ttlToSeconds ttl =
     (if ttl <=s 0 then 0 else word_of_int (sint (ttl + second - 1) sdiv 1000000000))"

definition log_at :: "(int \<Rightarrow> string \<Rightarrow> 's \<Rightarrow> 's) \<Rightarrow> int \<Rightarrow> string \<Rightarrow> 's \<Rightarrow> 's" where
  "log_at b level msg = b level msg"

definition Logger_Debug where "Logger_Debug b = log_at b 0"
definition Logger_Info where "Logger_Info b = log_at b 1"
definition Logger_Warn where "Logger_Warn b = log_at b 2"
definition Logger_Error where "Logger_Error b = log_at b 3"

section \<open>The key-value store\<close>

type_synonym InMemoryKV = "string \<rightharpoonup> string"

definition newInMemoryKV :: InMemoryKV where "newInMemoryKV = Map.empty"

definition InMemoryKV_Get :: "string \<Rightarrow> InMemoryKV \<Rightarrow> InMemoryKV \<times> string option" where
  "InMemoryKV_Get key d = (d, d key)"

definition InMemoryKV_Set :: "string \<Rightarrow> string \<Rightarrow> InMemoryKV \<Rightarrow> InMemoryKV" where
  "InMemoryKV_Set key val d = d(key \<mapsto> val)"

definition InMemoryKV_Delete :: "string \<Rightarrow> InMemoryKV \<Rightarrow> InMemoryKV" where
  "InMemoryKV_Delete key d = d(key := None)"

section \<open>The cache\<close>

text \<open>
  Times are nanoseconds since the zero time.  The clock is the wall clock until the first
  \<^verbatim>\<open>Advance\<close>, which freezes it; \<open>wall\<close> is the wall clock at the call.
\<close>

record cacheEntry =
  ce_value :: string
  ce_expireAt :: int

datatype clock = WallClock | FrozenAt int

fun now_of :: "clock \<Rightarrow> int \<Rightarrow> int" where
  "now_of WallClock wall = wall"
| "now_of (FrozenAt t) wall = t"

record InMemoryCache =
  ca_data :: "string \<rightharpoonup> cacheEntry"
  ca_now :: clock

definition newInMemoryCache :: InMemoryCache where
  "newInMemoryCache = \<lparr>ca_data = Map.empty, ca_now = WallClock\<rparr>"

definition InMemoryCache_Get :: "int \<Rightarrow> string \<Rightarrow> InMemoryCache \<Rightarrow> InMemoryCache \<times> string option" where
  "InMemoryCache_Get wall key c =
     (case ca_data c key of
        None \<Rightarrow> (c, None)
      | Some e \<Rightarrow>
          (if ce_expireAt e \<noteq> 0 \<and> \<not> now_of (ca_now c) wall < ce_expireAt e
           then (c\<lparr>ca_data := (ca_data c)(key := None)\<rparr>, None)
           else (c, Some (ce_value e))))"

definition InMemoryCache_Set :: "int \<Rightarrow> string \<Rightarrow> string \<Rightarrow> 64 word \<Rightarrow> InMemoryCache \<Rightarrow> InMemoryCache" where
  "InMemoryCache_Set wall key val ttl c =
     c\<lparr>ca_data := (ca_data c)(key \<mapsto>
       \<lparr>ce_value = val, ce_expireAt = (if 0 <s ttl then now_of (ca_now c) wall + sint ttl else 0)\<rparr>)\<rparr>"

definition InMemoryCache_Delete :: "string \<Rightarrow> InMemoryCache \<Rightarrow> InMemoryCache" where
  "InMemoryCache_Delete key c = c\<lparr>ca_data := (ca_data c)(key := None)\<rparr>"

definition Advance :: "int \<Rightarrow> 64 word \<Rightarrow> InMemoryCache \<Rightarrow> InMemoryCache" where
  "Advance wall d c = c\<lparr>ca_now := FrozenAt (now_of (ca_now c) wall + sint d)\<rparr>"

section \<open>Logger, configuration, permissions\<close>

record LogEntry =
  le_Level :: int
  le_Msg :: string

definition CapturingLogger_Log :: "int \<Rightarrow> string \<Rightarrow> LogEntry list \<Rightarrow> LogEntry list" where
  "CapturingLogger_Log level msg es = es @ [\<lparr>le_Level = level, le_Msg = msg\<rparr>]"

definition Entries :: "LogEntry list \<Rightarrow> LogEntry list" where
  "Entries es = es"

definition HasMessage :: "string \<Rightarrow> LogEntry list \<Rightarrow> bool" where
  "HasMessage substr es = list_ex (\<lambda>e. contains (le_Msg e) substr) es"

definition InMemoryConfig_Set :: "string \<Rightarrow> string \<Rightarrow> (string \<rightharpoonup> string) \<Rightarrow> (string \<rightharpoonup> string)" where
  "InMemoryConfig_Set key val d = d(key \<mapsto> val)"

definition InMemoryConfig_Get :: "string \<Rightarrow> (string \<rightharpoonup> string) \<Rightarrow> string option" where
  "InMemoryConfig_Get key d = d key"

definition Grant :: "string \<Rightarrow> (string \<rightharpoonup> bool) \<Rightarrow> (string \<rightharpoonup> bool)" where
  "Grant permission g = g(permission \<mapsto> True)"

definition Revoke :: "string \<Rightarrow> (string \<rightharpoonup> bool) \<Rightarrow> (string \<rightharpoonup> bool)" where
  "Revoke permission g = g(permission := None)"

definition Permissions_Check :: "string \<Rightarrow> (string \<rightharpoonup> bool) \<Rightarrow> bool" where
  "Permissions_Check permission g = (case g permission of Some b \<Rightarrow> b | None \<Rightarrow> False)"

section \<open>What a plugin relies on\<close>

text \<open>
  The contract of a key-value backend: \<open>content\<close> is what a fresh read would find, a read
  answers it and changes nothing a later read sees.
\<close>

locale kv_store =
  fixes b :: "'s KVBackend"
    and content :: "'s \<Rightarrow> string \<rightharpoonup> string"
  assumes get_answers: "snd (kvb_Get b k s) = content s k"
    and get_keeps: "content (fst (kvb_Get b k s)) = content s"
    and set_stores: "content (kvb_Set b k v s) = (content s)(k \<mapsto> v)"
    and delete_removes: "content (kvb_Delete b k s) = (content s)(k := None)"
begin

text \<open>A write that is not overwritten is what a plugin reads later, whatever it reads between.\<close>

lemma set_then_get: "snd (KV_Get b k (KV_Set b k v s)) = Some v"
  by (simp add: KV_Get_def KV_Set_def get_answers set_stores)

lemma other_keys: "k \<noteq> k' \<Longrightarrow> snd (KV_Get b k' (KV_Set b k v s)) = snd (KV_Get b k' s)"
  by (simp add: KV_Get_def KV_Set_def get_answers set_stores)

lemma reads_invisible:
  "content (fold (\<lambda>k s. fst (KV_Get b k s)) ks s) = content s"
  by (induction ks arbitrary: s) (simp_all add: KV_Get_def get_keeps)

lemma delete_then_get: "snd (KV_Get b k (KV_Delete b k s)) = None"
  by (simp add: KV_Get_def KV_Delete_def get_answers delete_removes)

end

definition in_memory_kv :: "InMemoryKV KVBackend" where
  "in_memory_kv = \<lparr>kvb_Get = InMemoryKV_Get, kvb_Set = InMemoryKV_Set, kvb_Delete = InMemoryKV_Delete\<rparr>"

interpretation in_memory: kv_store in_memory_kv "\<lambda>d. d"
  by unfold_locales (simp_all add: in_memory_kv_def InMemoryKV_Get_def InMemoryKV_Set_def InMemoryKV_Delete_def)

text \<open>A cache at a fixed moment is such a store too: a read may drop an entry, but only one that is over.\<close>

definition live :: "int \<Rightarrow> InMemoryCache \<Rightarrow> string \<rightharpoonup> string" where
  "live wall c k = snd (InMemoryCache_Get wall k c)"

definition cache_as_kv :: "int \<Rightarrow> InMemoryCache KVBackend" where
  "cache_as_kv wall = \<lparr>kvb_Get = InMemoryCache_Get wall, kvb_Set = (\<lambda>k v. InMemoryCache_Set wall k v 0),
     kvb_Delete = InMemoryCache_Delete\<rparr>"

interpretation in_memory_cache: kv_store "cache_as_kv wall" "live wall" for wall
proof unfold_locales
  fix k v s
  show "snd (kvb_Get (cache_as_kv wall) k s) = live wall s k" by (simp add: cache_as_kv_def live_def)
  show "live wall (fst (kvb_Get (cache_as_kv wall) k s)) = live wall s"
    by (rule ext) (auto simp: cache_as_kv_def live_def InMemoryCache_Get_def split: option.split)
  show "live wall (kvb_Set (cache_as_kv wall) k v s) = (live wall s)(k \<mapsto> v)"
    by (rule ext) (auto simp: cache_as_kv_def live_def InMemoryCache_Get_def InMemoryCache_Set_def split: option.split)
  show "live wall (kvb_Delete (cache_as_kv wall) k s) = (live wall s)(k := None)"
    by (rule ext) (auto simp: cache_as_kv_def live_def InMemoryCache_Get_def InMemoryCache_Delete_def split: option.split)
qed

section \<open>Time to live\<close>

lemma word_positive: "0 <s (w :: 64 word) \<longleftrightarrow> 0 < sint w"
  by (simp add: word_sless_alt)

lemma word_nonpositive: "(w :: 64 word) <=s 0 \<longleftrightarrow> sint w \<le> 0"
  by (simp add: word_sle_eq)

text \<open>
  C34: a cached entry is found until its time to live has passed and never after: after it is
  set, a read when the clock has moved on by \<open>d\<close> finds it exactly if the duration given was not
  positive, which means no expiry, or is more than \<open>d\<close>.
\<close>

theorem cache_ttl:
  assumes "0 < now_of (ca_now c) wall" "0 \<le> sint d"
  shows "snd (InMemoryCache_Get wall' k (Advance wall d (InMemoryCache_Set wall k v ttl c))) =
    (if sint ttl \<le> 0 \<or> sint d < sint ttl then Some v else None)"
  using assms by (auto simp: InMemoryCache_Get_def InMemoryCache_Set_def Advance_def word_positive split: option.split)

theorem cache_ttl_witness:
  "snd (InMemoryCache_Get 0 ''k'' (Advance 5 240 (InMemoryCache_Set 5 ''k'' ''v'' 300 newInMemoryCache))) = Some ''v'' \<and>
   snd (InMemoryCache_Get 0 ''k'' (Advance 5 360 (InMemoryCache_Set 5 ''k'' ''v'' 300 newInMemoryCache))) = None"
  using cache_ttl [of newInMemoryCache 5 240 0 "''k''" "''v''" 300] cache_ttl [of newInMemoryCache 5 360 0 "''k''" "''v''" 300]
  by (simp add: newInMemoryCache_def)

text \<open>
  The whole seconds a host is given cover the duration and are less than a second more,
  and a positive duration never becomes the zero that means no expiry, for durations up to
  the \<open>2^31 - 1\<close> seconds a 32-bit integer can hold.
\<close>

theorem ttl_rounds_up:
  assumes "sint ttl \<le> 2147483647 * 1000000000"
  shows "(if sint ttl \<le> 0 then ttlToSeconds ttl = 0
    else 0 < sint (ttlToSeconds ttl) \<and> sint ttl \<le> sint (ttlToSeconds ttl) * 1000000000 \<and>
      sint (ttlToSeconds ttl) * 1000000000 < sint ttl + 1000000000)"
proof (cases "sint ttl \<le> 0")
  case True
  then show ?thesis by (simp add: ttlToSeconds_def word_nonpositive)
next
  case False
  let ?q = "(sint ttl + 999999999) div 1000000000"
  have "ttl + second - 1 = word_of_int (sint ttl + 999999999)" by (simp add: second_def)
  then have sum: "sint (ttl + second - 1) = sint ttl + 999999999"
    using assms False by (simp add: sint_sbintrunc' signed_take_bit_int_eq_self del: of_int_add)
  have q: "0 < ?q" "?q \<le> 2147483647" "sint ttl \<le> ?q * 1000000000" "?q * 1000000000 < sint ttl + 1000000000"
    using assms False by linarith+
  have "(sint ttl + 999999999) sdiv 1000000000 = ?q" using False by (simp add: signed_divide_int_def sgn_if)
  then have "ttlToSeconds ttl = word_of_int ?q" using False by (simp add: ttlToSeconds_def word_nonpositive sum)
  moreover have "sint (word_of_int ?q :: 32 word) = ?q" using q by (simp add: sint_sbintrunc' signed_take_bit_int_eq_self)
  ultimately show ?thesis using False q by simp
qed

text \<open>Beyond that the conversion wraps: \<open>2^32\<close> seconds become the zero that means no expiry.\<close>

lemma ttl_becomes_permanent: "0 < sint (4294967296000000000 :: 64 word) \<and> ttlToSeconds 4294967296000000000 = 0"
  by (simp add: ttlToSeconds_def second_def word_nonpositive signed_divide_int_def)

end
