(* ===== verification/WasmHost.thy ===== *)
theory WasmHost
  imports WasmMemory FetchChunks Automation InMemoryDB Backends
begin

text \<open>
  \<^verbatim>\<open>wasm_backends.go\<close> and \<^verbatim>\<open>custom_host_call.go\<close>: the calls of the guest to its host.  The host is
  not part of the repository; its imports are parameters.  An import is given what its pointer
  and length arguments point at and the state of the guest, which it may change because a host
  delivers data through the guest's arena, and what it stores at the addresses it was given is
  its result: 32-bit words, which WASM lays out in little-endian order in the output buffer.
\<close>

section \<open>The guest and its imports\<close>

record 'h guest =
  gu_arena :: arena
  gu_host :: 'h

type_synonym 'h reads = "bytes \<Rightarrow> 'h guest \<Rightarrow> 'h guest \<times> i32 \<times> i32"

record 'h host_imports =
  hostLog :: "i32 \<Rightarrow> bytes \<Rightarrow> 'h guest \<Rightarrow> 'h guest"
  hostDBQuery2 :: "bytes \<Rightarrow> bytes \<Rightarrow> 'h guest \<Rightarrow> 'h guest \<times> (i32 \<times> i32) \<times> i32 \<times> i32"
  hostDBExec :: "bytes \<Rightarrow> bytes \<Rightarrow> 'h guest \<Rightarrow> 'h guest \<times> i64 \<times> i32 \<times> i32"
  hostStorageGet :: "'h reads"
  hostStorageSet :: "bytes \<Rightarrow> bytes \<Rightarrow> 'h guest \<Rightarrow> 'h guest"
  hostStorageDelete :: "bytes \<Rightarrow> 'h guest \<Rightarrow> 'h guest"
  hostCacheGet :: "'h reads"
  hostCacheSet :: "bytes \<Rightarrow> bytes \<Rightarrow> i32 \<Rightarrow> 'h guest \<Rightarrow> 'h guest"
  hostCacheDelete :: "bytes \<Rightarrow> 'h guest \<Rightarrow> 'h guest"
  hostEventEmit :: "bytes \<Rightarrow> bytes \<Rightarrow> 'h guest \<Rightarrow> 'h guest"
  hostFetch :: "'h reads"
  hostActivityRecord :: "bytes \<Rightarrow> 'h guest \<Rightarrow> 'h guest"
  hostConfigGet :: "'h reads"
  hostPermissionCheck :: "bytes \<Rightarrow> 'h guest \<Rightarrow> 'h guest \<times> i32"
  hostSettingsGet :: "'h guest \<Rightarrow> 'h guest \<times> i32 \<times> i32"

text \<open>The output buffer after the host stored two words, and how it is read.\<close>

definition pair_buffer :: "i32 \<Rightarrow> i32 \<Rightarrow> bytes" where
  "pair_buffer p n = le32_bytes p @ le32_bytes n"

definition decode_pair :: "bytes \<Rightarrow> i32 \<times> i32" where
  "decode_pair buf = (le32 buf 0, le32 buf 4)"

text \<open>A copy of the bytes at an address of the arena; \<^verbatim>\<open>nil\<close> is the empty one.\<close>

definition copy_slice :: "i32 \<Rightarrow> i32 \<Rightarrow> i32 \<Rightarrow> 'h guest \<Rightarrow> ('h guest \<times> bytes) outcome" where
  "copy_slice addr ptr len g =
     (let (r, a) = wasmSlice addr ptr len (gu_arena g)
      in bind_outcome r (\<lambda>b. Returned (g\<lparr>gu_arena := a\<rparr>, case b of None \<Rightarrow> [] | Some x \<Rightarrow> x)))"

definition release :: "'h guest \<Rightarrow> 'h guest" where
  "release g = g\<lparr>gu_arena := wasmResetAllocator (gu_arena g)\<rparr>"

text \<open>What a call delivered: nothing, or bytes that are copied before the arena is released.\<close>

definition delivered :: "i32 \<Rightarrow> 'h guest \<times> i32 \<times> i32 \<Rightarrow> ('h guest \<times> bytes option) outcome" where
  "delivered addr call =
     (let (g, p, n) = call; (ptr, len) = decode_pair (pair_buffer p n)
      in if len = 0 then Returned (g, None)
         else bind_outcome (copy_slice addr ptr len g) (\<lambda>(g', b). Returned (release g', Some b)))"

section \<open>The stores\<close>

definition wasmKV_Get :: "'h host_imports \<Rightarrow> i32 \<Rightarrow> string \<Rightarrow> 'h guest \<Rightarrow> ('h guest \<times> string option) outcome" where
  "wasmKV_Get I addr key g = delivered addr (hostStorageGet I key g)"

definition wasmKV_Set :: "'h host_imports \<Rightarrow> string \<Rightarrow> string \<Rightarrow> 'h guest \<Rightarrow> 'h guest" where
  "wasmKV_Set I key val g = hostStorageSet I key val g"

definition wasmKV_Delete :: "'h host_imports \<Rightarrow> string \<Rightarrow> 'h guest \<Rightarrow> 'h guest" where
  "wasmKV_Delete I key g = hostStorageDelete I key g"

definition wasmCache_Get :: "'h host_imports \<Rightarrow> i32 \<Rightarrow> string \<Rightarrow> 'h guest \<Rightarrow> ('h guest \<times> string option) outcome" where
  "wasmCache_Get I addr key g = delivered addr (hostCacheGet I key g)"

definition wasmCache_Set :: "'h host_imports \<Rightarrow> string \<Rightarrow> string \<Rightarrow> 64 word \<Rightarrow> 'h guest \<Rightarrow> 'h guest" where
  "wasmCache_Set I key val ttl g = hostCacheSet I key val (ttlToSeconds ttl) g"

definition wasmCache_Delete :: "'h host_imports \<Rightarrow> string \<Rightarrow> 'h guest \<Rightarrow> 'h guest" where
  "wasmCache_Delete I key g = hostCacheDelete I key g"

definition wasmLog_Log :: "'h host_imports \<Rightarrow> int \<Rightarrow> string \<Rightarrow> 'h guest \<Rightarrow> 'h guest" where
  "wasmLog_Log I level msg g = (if msg = [] then g else hostLog I (word_of_int level) msg g)"

definition wasmConfig_Get :: "'h host_imports \<Rightarrow> i32 \<Rightarrow> string \<Rightarrow> 'h guest \<Rightarrow> ('h guest \<times> string option) outcome" where
  "wasmConfig_Get I addr key g = delivered addr (hostConfigGet I key g)"

definition wasmPermission_Check :: "'h host_imports \<Rightarrow> string \<Rightarrow> 'h guest \<Rightarrow> 'h guest \<times> bool" where
  "wasmPermission_Check I permission g =
     (if permission = [] then (g, False)
      else let (g', r) = hostPermissionCheck I permission g in (g', r \<noteq> 0))"

section \<open>The database\<close>

text \<open>
  The parameters and the payloads are values of any type: what matters of them is what
  \<^verbatim>\<open>json.Marshal\<close> makes of them, and \<open>None\<close> is its failure, whose text is \<open>me\<close>.  A cell is the
  JSON value it was decoded from.
\<close>

definition d_any :: "json decoder" where
  "d_any old p = (if decodes_any (snd p) then Some (snd p) else None)"

definition zero_DBQueryResult :: "json DBQueryResult" where
  "zero_DBQueryResult = \<lparr>qr_Columns = [], qr_Rows = []\<rparr>"

definition d_DBQueryResult :: "json DBQueryResult decoder" where
  "d_DBQueryResult = d_struct
     [(''columns'', fld (d_list '''' d_str) qr_Columns (\<lambda>y. qr_Columns_update (\<lambda>_. y))),
      (''rows'', fld (d_list [] (d_list JNull d_any)) qr_Rows (\<lambda>y. qr_Rows_update (\<lambda>_. y)))]"

definition query2_buffer :: "(i32 \<times> i32) \<times> i32 \<times> i32 \<Rightarrow> bytes" where
  "query2_buffer w = (case w of ((rp, rl), ep, el) \<Rightarrow> le32_bytes rp @ le32_bytes rl @ le32_bytes ep @ le32_bytes el)"

definition wasmDB_Query ::
    "'h host_imports \<Rightarrow> i32 \<Rightarrow> (bytes \<Rightarrow> string) \<Rightarrow> string \<Rightarrow> string \<Rightarrow> json option \<Rightarrow> 'h guest \<Rightarrow>
     ('h guest \<times> (go_error + json DBQueryResult)) outcome" where
  "wasmDB_Query I addr je me sql params g =
     (case marshal params of
        None \<Rightarrow> Returned (g, Inl (plain_error me))
      | Some paramsJSON \<Rightarrow>
          (let (g1, w) = hostDBQuery2 I sql paramsJSON g
           in bind_outcome (decodeQuery2Output (query2_buffer w)) (\<lambda>(resPtr, resLen, errPtr, errLen).
             if 0 <s errLen then
               bind_outcome (copy_slice addr errPtr errLen g1) (\<lambda>(g2, msg). Returned (release g2, Inl (plain_error msg)))
             else if resLen = 0 then Returned (g1, Inr zero_DBQueryResult)
             else bind_outcome (copy_slice addr resPtr resLen g1) (\<lambda>(g2, b).
               Returned (release g2,
                 case unmarshal zero_DBQueryResult d_DBQueryResult b of
                   None \<Rightarrow> Inl (plain_error (je b))
                 | Some r \<Rightarrow> Inr r)))))"

definition le64_bytes :: "i64 \<Rightarrow> bytes" where
  "le64_bytes w = map (\<lambda>k. char_of (unat (drop_bit (8 * k) w))) [0, 1, 2, 3, 4, 5, 6, 7]"

definition le64 :: "bytes \<Rightarrow> i64" where
  "le64 buf =
     of_char (buf ! 0) OR push_bit 8 (of_char (buf ! 1)) OR push_bit 16 (of_char (buf ! 2)) OR
     push_bit 24 (of_char (buf ! 3)) OR push_bit 32 (of_char (buf ! 4)) OR push_bit 40 (of_char (buf ! 5)) OR
     push_bit 48 (of_char (buf ! 6)) OR push_bit 56 (of_char (buf ! 7))"

definition exec_buffer :: "i64 \<times> i32 \<times> i32 \<Rightarrow> bytes" where
  "exec_buffer w = (case w of (rows, ep, el) \<Rightarrow> le64_bytes rows @ le32_bytes ep @ le32_bytes el)"

definition wasmDB_Exec ::
    "'h host_imports \<Rightarrow> i32 \<Rightarrow> string \<Rightarrow> string \<Rightarrow> json option \<Rightarrow> 'h guest \<Rightarrow> ('h guest \<times> (go_error + i64)) outcome" where
  "wasmDB_Exec I addr me sql params g =
     (case marshal params of
        None \<Rightarrow> Returned (g, Inl (plain_error me))
      | Some paramsJSON \<Rightarrow>
          (let (g1, w) = hostDBExec I sql paramsJSON g; buf = exec_buffer w;
               rowsAffected = le64 buf; errPtr = le32 buf 8; errLen = le32 buf 12
           in if 0 <s errLen then
                bind_outcome (copy_slice addr errPtr errLen g1) (\<lambda>(g2, msg). Returned (release g2, Inl (plain_error msg)))
              else Returned (g1, Inr rowsAffected)))"

section \<open>Events and activities\<close>

definition EmitEvent :: "'h host_imports \<Rightarrow> string \<Rightarrow> json option \<Rightarrow> 'h guest \<Rightarrow> 'h guest" where
  "EmitEvent I topic payload g = hostEventEmit I topic (marshal_or_nil payload) g"

record activityInput =
  ac_TaskID :: string
  ac_ProjectID :: string
  ac_ActorID :: string
  ac_ActivityType :: string
  ac_Content :: "json option"

definition e_activityInput :: "activityInput \<Rightarrow> json option" where
  "e_activityInput x = e_struct
     ([(''task_id'', e_str (ac_TaskID x)), (''project_id'', e_str (ac_ProjectID x))] @
      omit (ac_ActorID x = '''') ''actor_id'' (e_str (ac_ActorID x)) @
      [(''activity_type'', e_str (ac_ActivityType x)), (''content'', ac_Content x)])"

definition RecordActivity ::
    "'h host_imports \<Rightarrow> string \<Rightarrow> string \<Rightarrow> string \<Rightarrow> string \<Rightarrow> json option \<Rightarrow> 'h guest \<Rightarrow> 'h guest" where
  "RecordActivity I taskID projectID actorUserID activityType content g =
     hostActivityRecord I (marshal_or_nil (e_activityInput
       \<lparr>ac_TaskID = taskID, ac_ProjectID = projectID, ac_ActorID = actorUserID, ac_ActivityType = activityType,
        ac_Content = content\<rparr>)) g"

section \<open>Fetch\<close>

record FetchResponse =
  fr_Status :: int
  fr_Body :: string
  fr_Headers :: "(string \<times> string) list"
  fr_Error :: string
  fr_Code :: string

record fetchEnvelope = FetchResponse +
  fe_BodyHandle :: string
  fe_BodySize :: int

definition zero_fetchEnvelope :: fetchEnvelope where
  "zero_fetchEnvelope = \<lparr>fr_Status = 0, fr_Body = '''', fr_Headers = [], fr_Error = '''', fr_Code = '''',
     fe_BodyHandle = '''', fe_BodySize = 0\<rparr>"

text \<open>The fields of an embedded struct are fields of the object.\<close>

definition d_fetchEnvelope :: "fetchEnvelope decoder" where
  "d_fetchEnvelope = d_struct
     [(''status'', fld d_int fr_Status (\<lambda>y. fr_Status_update (\<lambda>_. y))),
      (''body'', fld d_str fr_Body (\<lambda>y. fr_Body_update (\<lambda>_. y))),
      (''headers'', fld d_map fr_Headers (\<lambda>y. fr_Headers_update (\<lambda>_. y))),
      (''error'', fld d_str fr_Error (\<lambda>y. fr_Error_update (\<lambda>_. y))),
      (''code'', fld d_str fr_Code (\<lambda>y. fr_Code_update (\<lambda>_. y))),
      (''body_handle'', fld d_str fe_BodyHandle (\<lambda>y. fe_BodyHandle_update (\<lambda>_. y))),
      (''body_size'', fld d_int fe_BodySize (\<lambda>y. fe_BodySize_update (\<lambda>_. y)))]"

definition zero_fetchChunk :: fetchChunk where
  "zero_fetchChunk = \<lparr>chunk = [], chunk_body_size = 0, done_flag = False, chunk_error = '''', chunk_code = ''''\<rparr>"

definition d_fetchChunk :: "fetchChunk decoder" where
  "d_fetchChunk = d_struct
     [(''chunk'', fld d_bytes chunk (\<lambda>y. chunk_update (\<lambda>_. y))),
      (''body_size'', fld d_int chunk_body_size (\<lambda>y. chunk_body_size_update (\<lambda>_. y))),
      (''done'', fld d_bool done_flag (\<lambda>y. done_flag_update (\<lambda>_. y))),
      (''error'', fld d_str chunk_error (\<lambda>y. chunk_error_update (\<lambda>_. y))),
      (''code'', fld d_str chunk_code (\<lambda>y. chunk_code_update (\<lambda>_. y)))]"

text \<open>A call that must deliver something, and the error of an answer that does not decode.\<close>

definition answered_bytes :: "string \<Rightarrow> i32 \<Rightarrow> 'h guest \<times> i32 \<times> i32 \<Rightarrow> ('h guest \<times> (go_error + bytes)) outcome" where
  "answered_bytes op addr call =
     bind_outcome (delivered addr call) (\<lambda>(g, r).
       Returned (g, case r of None \<Rightarrow> Inl (errEmptyHostResponse op) | Some b \<Rightarrow> Inr b))"

definition decode_error :: "string \<Rightarrow> (bytes \<Rightarrow> string) \<Rightarrow> bytes \<Rightarrow> go_error" where
  "decode_error what je b = plain_error (''plugin: '' @ what @ '': '' @ je b)"

definition callFetchHost :: "'h host_imports \<Rightarrow> i32 \<Rightarrow> bytes \<Rightarrow> 'h guest \<Rightarrow> ('h guest \<times> (go_error + bytes)) outcome" where
  "callFetchHost I addr reqJSON g = answered_bytes ''fetch'' addr (hostFetch I reqJSON g)"

text \<open>A map is written in the order of its keys.\<close>

definition e_chunk_request :: "string \<Rightarrow> int \<Rightarrow> int \<Rightarrow> json option" where
  "e_chunk_request handle offset limit =
     e_struct [(''body_handle'', e_str handle), (''limit'', e_int limit), (''offset'', e_int offset)]"

definition readFetchChunk ::
    "'h host_imports \<Rightarrow> i32 \<Rightarrow> (bytes \<Rightarrow> string) \<Rightarrow> string \<Rightarrow> int \<Rightarrow> int \<Rightarrow> 'h guest \<Rightarrow>
     ('h guest \<times> (go_error + fetchChunk)) outcome" where
  "readFetchChunk I addr je handle offset limit g =
     bind_outcome (callFetchHost I addr (marshal_or_nil (e_chunk_request handle offset limit)) g) (\<lambda>(g', r).
       Returned (g',
         case r of
           Inl e \<Rightarrow> Inl e
         | Inr b \<Rightarrow>
             (case unmarshal zero_fetchChunk d_fetchChunk b of
                None \<Rightarrow> Inl (decode_error ''fetch: decode body chunk'' je b)
              | Some c \<Rightarrow> if chunk_error c \<noteq> '''' then Inl (hostResultError ''fetch'' (chunk_error c) (chunk_code c)) else Inr c)))"

text \<open>
  As a reader for \<open>readBodyChunks\<close>: its state is the guest and whether a read panicked.  A panic
  ends the loop, because an error that wraps nothing is not retried.
\<close>

definition chunk_reader ::
    "'h host_imports \<Rightarrow> i32 \<Rightarrow> (bytes \<Rightarrow> string) \<Rightarrow> ('h guest \<times> bool) chunkReader" where
  "chunk_reader I addr je s handle offset limit =
     (case readFetchChunk I addr je handle offset limit (fst s) of
        Panicked \<Rightarrow> ((fst s, True), Inl (plain_error ''panic''))
      | Returned (g', r) \<Rightarrow> ((g', snd s), r))"

definition e_fetch_request :: "string \<Rightarrow> string \<Rightarrow> (string \<times> string) list \<Rightarrow> string \<Rightarrow> json option" where
  "e_fetch_request httpMethod rawURL headers body = e_struct
     [(''method'', e_str httpMethod), (''url'', e_str rawURL), (''headers'', e_map headers), (''body'', e_str body),
      (''chunked'', e_bool True)]"

definition parked_body ::
    "'h host_imports \<Rightarrow> i32 \<Rightarrow> (bytes \<Rightarrow> string) \<Rightarrow> fetchEnvelope \<Rightarrow> 'h guest \<Rightarrow>
     ('h guest \<times> (go_error + FetchResponse)) outcome" where
  "parked_body I addr je env g =
     (if fe_BodyHandle env = '''' then Returned (g, Inr (FetchResponse.truncate env))
      else let ((g', panicked), r) = readBodyChunks (fe_BodyHandle env) (fe_BodySize env) (chunk_reader I addr je) (g, False)
           in if panicked then Panicked
              else Returned (g',
                case r of Inl e \<Rightarrow> Inl e | Inr body \<Rightarrow> Inr (FetchResponse.truncate (env\<lparr>fr_Body := body\<rparr>))))"

definition Fetch ::
    "'h host_imports \<Rightarrow> i32 \<Rightarrow> (bytes \<Rightarrow> string) \<Rightarrow> string \<Rightarrow> string \<Rightarrow> (string \<times> string) list \<Rightarrow> string \<Rightarrow> 'h guest \<Rightarrow>
     ('h guest \<times> (go_error + FetchResponse)) outcome" where
  "Fetch I addr je httpMethod rawURL headers body g =
     bind_outcome (callFetchHost I addr (marshal_or_nil (e_fetch_request httpMethod rawURL headers body)) g) (\<lambda>(g1, r).
       case r of
         Inl e \<Rightarrow> Returned (g1, Inl e)
       | Inr b \<Rightarrow>
           (case unmarshal zero_fetchEnvelope d_fetchEnvelope b of
              None \<Rightarrow> Returned (g1, Inl (decode_error ''fetch: decode response'' je b))
            | Some env \<Rightarrow>
                (if fr_Error env \<noteq> '''' then Returned (g1, Inl (hostResultError ''fetch'' (fr_Error env) (fr_Code env)))
                 else parked_body I addr je env g1)))"

section \<open>Branding and custom calls\<close>

record BrandingInfo =
  bi_LogoURL :: string
  bi_BrandName :: string
  bi_PrimaryColorLight :: string
  bi_PrimaryColorDark :: string

record brandingResult = BrandingInfo +
  br_Error :: string
  br_Code :: string

definition zero_brandingResult :: brandingResult where
  "zero_brandingResult = \<lparr>bi_LogoURL = '''', bi_BrandName = '''', bi_PrimaryColorLight = '''', bi_PrimaryColorDark = '''',
     br_Error = '''', br_Code = ''''\<rparr>"

definition d_brandingResult :: "brandingResult decoder" where
  "d_brandingResult = d_struct
     [(''logo_url'', fld d_str bi_LogoURL (\<lambda>y. bi_LogoURL_update (\<lambda>_. y))),
      (''brand_name'', fld d_str bi_BrandName (\<lambda>y. bi_BrandName_update (\<lambda>_. y))),
      (''primary_color_light'', fld d_str bi_PrimaryColorLight (\<lambda>y. bi_PrimaryColorLight_update (\<lambda>_. y))),
      (''primary_color_dark'', fld d_str bi_PrimaryColorDark (\<lambda>y. bi_PrimaryColorDark_update (\<lambda>_. y))),
      (''error'', fld d_str br_Error (\<lambda>y. br_Error_update (\<lambda>_. y))),
      (''code'', fld d_str br_Code (\<lambda>y. br_Code_update (\<lambda>_. y)))]"

definition GetBranding ::
    "'h host_imports \<Rightarrow> i32 \<Rightarrow> (bytes \<Rightarrow> string) \<Rightarrow> 'h guest \<Rightarrow> ('h guest \<times> (go_error + BrandingInfo)) outcome" where
  "GetBranding I addr je g =
     bind_outcome (answered_bytes ''settings_get'' addr (hostSettingsGet I g)) (\<lambda>(g', r).
       Returned (g',
         case r of
           Inl e \<Rightarrow> Inl e
         | Inr b \<Rightarrow>
             (case unmarshal zero_brandingResult d_brandingResult b of
                None \<Rightarrow> Inl (decode_error ''settings_get: decode response'' je b)
              | Some res \<Rightarrow> if br_Error res \<noteq> '''' then Inl (hostResultError ''settings_get'' (br_Error res) (br_Code res))
                            else Inr (BrandingInfo.truncate res))))"

text \<open>
  A custom import follows the convention of \<^verbatim>\<open>hostFetch\<close>.  The response decodes into a variable
  that holds \<open>old\<close>; without one nothing is decoded.
\<close>

definition CallHostFunction ::
    "'h reads \<Rightarrow> i32 \<Rightarrow> (bytes \<Rightarrow> string) \<Rightarrow> string \<Rightarrow> json option \<Rightarrow> ('a \<times> 'a decoder) option \<Rightarrow> 'h guest \<Rightarrow>
     ('h guest \<times> (go_error + 'a option)) outcome" where
  "CallHostFunction hostFn addr je me request response g =
     (case marshal request of
        None \<Rightarrow> Returned (g, Inl (plain_error me))
      | Some reqJSON \<Rightarrow>
          bind_outcome (answered_bytes ''custom host call'' addr (hostFn reqJSON g)) (\<lambda>(g', r).
            Returned (g',
              case r of
                Inl e \<Rightarrow> Inl e
              | Inr b \<Rightarrow>
                  (case response of
                     None \<Rightarrow> Inr None
                   | Some (old, d) \<Rightarrow>
                       (case unmarshal old d b of
                          None \<Rightarrow> Inl (decode_error ''custom host call: decode response'' je b)
                        | Some x \<Rightarrow> Inr (Some x))))))"

end
