(* ===== verification/NativeBackends.thy ===== *)
theory NativeBackends
  imports WasmHost
begin

text \<open>
  \<^verbatim>\<open>native_backends.go\<close>: the backends of a build outside WASM, and the rest of the helpers of
  \<^verbatim>\<open>backends.go\<close>.  Every stub is inert: it answers nothing or \<^verbatim>\<open>errNotWASM\<close>, so a test that does not
  inject a double sees no data.
\<close>

section \<open>Database, configuration and permissions\<close>

text \<open>\<open>'p\<close> is a parameter of a statement, \<open>'v\<close> a value of a row.\<close>

record ('s, 'p, 'v) DBBackend =
  dbb_Query :: "string \<Rightarrow> 'p list \<Rightarrow> 's \<Rightarrow> 's \<times> (go_error + 'v DBQueryResult)"
  dbb_Exec :: "string \<Rightarrow> 'p list \<Rightarrow> 's \<Rightarrow> 's \<times> (go_error + i64)"

definition DB_Query :: "('s, 'p, 'v) DBBackend \<Rightarrow> string \<Rightarrow> 'p list \<Rightarrow> 's \<Rightarrow> 's \<times> (go_error + 'v DBQueryResult)" where
  "DB_Query d sql params = dbb_Query d sql params"

definition DB_Exec :: "('s, 'p, 'v) DBBackend \<Rightarrow> string \<Rightarrow> 'p list \<Rightarrow> 's \<Rightarrow> 's \<times> (go_error + i64)" where
  "DB_Exec d sql params = dbb_Exec d sql params"

record 's ConfigBackend =
  cfb_Get :: "string \<Rightarrow> 's \<Rightarrow> 's \<times> string option"

definition Config_Get :: "'s ConfigBackend \<Rightarrow> string \<Rightarrow> 's \<Rightarrow> 's \<times> string option" where
  "Config_Get c key = cfb_Get c key"

record 's PermissionBackend =
  pmb_Check :: "string \<Rightarrow> 's \<Rightarrow> 's \<times> bool"

definition Permissions_Checked :: "'s PermissionBackend \<Rightarrow> string \<Rightarrow> 's \<Rightarrow> 's \<times> bool" where
  "Permissions_Checked p permission = pmb_Check p permission"

section \<open>Stubs\<close>

definition errNotWASM :: go_error where
  "errNotWASM = plain_error ''plugin: this function is only available in a WASM module''"

definition stubDBBackend :: "('s, 'p, 'v) DBBackend" where
  "stubDBBackend = \<lparr>dbb_Query = (\<lambda>_ _ s. (s, Inl errNotWASM)), dbb_Exec = (\<lambda>_ _ s. (s, Inl errNotWASM))\<rparr>"

definition stubKVBackend :: "'s KVBackend" where
  "stubKVBackend = \<lparr>kvb_Get = (\<lambda>_ s. (s, None)), kvb_Set = (\<lambda>_ _ s. s), kvb_Delete = (\<lambda>_ s. s)\<rparr>"

definition stubCacheBackend :: "'s CacheBackend" where
  "stubCacheBackend = \<lparr>cab_Get = (\<lambda>_ s. (s, None)), cab_Set = (\<lambda>_ _ _ s. s), cab_Delete = (\<lambda>_ s. s)\<rparr>"

definition stubLog :: "int \<Rightarrow> string \<Rightarrow> 's \<Rightarrow> 's" where
  "stubLog level msg s = s"

definition stubConfigBackend :: "'s ConfigBackend" where
  "stubConfigBackend = \<lparr>cfb_Get = (\<lambda>_ s. (s, None))\<rparr>"

definition stubPermissionBackend :: "'s PermissionBackend" where
  "stubPermissionBackend = \<lparr>pmb_Check = (\<lambda>_ s. (s, False))\<rparr>"

definition native_EmitEvent :: "string \<Rightarrow> 'p \<Rightarrow> 's \<Rightarrow> 's" where
  "native_EmitEvent topic payload s = s"

definition native_RecordActivity :: "string \<Rightarrow> string \<Rightarrow> string \<Rightarrow> string \<Rightarrow> 'p \<Rightarrow> 's \<Rightarrow> 's" where
  "native_RecordActivity taskID projectID actorUserID activityType content s = s"

definition native_Fetch ::
    "string \<Rightarrow> string \<Rightarrow> (string \<times> string) list \<Rightarrow> string \<Rightarrow> 's \<Rightarrow> 's \<times> (go_error + FetchResponse)" where
  "native_Fetch method url headers body s = (s, Inl errNotWASM)"

definition native_GetBranding :: "'s \<Rightarrow> 's \<times> (go_error + BrandingInfo)" where
  "native_GetBranding s = (s, Inl errNotWASM)"

definition native_CallHostFunction :: "'f \<Rightarrow> 'q \<Rightarrow> 'r \<Rightarrow> 's \<Rightarrow> 's \<times> go_error option" where
  "native_CallHostFunction hostFn request response s = (s, Some errNotWASM)"

lemmas native_stubs = stubDBBackend_def stubKVBackend_def stubCacheBackend_def stubLog_def stubConfigBackend_def
  stubPermissionBackend_def native_EmitEvent_def native_RecordActivity_def native_Fetch_def native_GetBranding_def
  native_CallHostFunction_def

text \<open>What is written through a stub is not read back: a stub is no store.\<close>

lemma stub_forgets:
  "KV_Get stubKVBackend key (KV_Set stubKVBackend key val s) = (s, None)"
  "Cache_Get stubCacheBackend key (Cache_Set stubCacheBackend key val ttl s) = (s, None)"
  by (simp_all add: KV_Get_def KV_Set_def Cache_Get_def Cache_Set_def native_stubs)

lemma stub_refuses:
  "DB_Query stubDBBackend sql params s = (s, Inl errNotWASM)" "DB_Exec stubDBBackend sql params s = (s, Inl errNotWASM)"
  "\<not> snd (Permissions_Checked stubPermissionBackend permission s)"
  by (simp_all add: DB_Query_def DB_Exec_def Permissions_Checked_def native_stubs)

end
