(* ===== verification/FakeLifecycle.thy ===== *)
theory FakeLifecycle
  imports FakeHistory
begin

text \<open>
  The life of the things the fake keeps: a change request from opening to merging, a
  branch, a registered webhook, a comment.
\<close>

section \<open>Reading back what was written\<close>

lemma with_repo_found: "find_repo c t = Some r \<Longrightarrow> with_repo c t k = k r"
  by (simp add: with_repo_def)

lemma with_cr_found: "find_repo c t = Some r \<Longrightarrow> map_of (rs_crs r) n = Some x \<Longrightarrow> with_cr c t n k = k r x"
  by (simp add: with_cr_def with_repo_def)

lemma find_put_cr:
  "find_repo c t = Some r0 \<Longrightarrow> find_repo (put_cr t n x r c) t = Some (r\<lparr>rs_crs := AList.update n x (rs_crs r)\<rparr>)"
  by (simp add: put_cr_def find_put_repo)

lemma get_put_cr:
  assumes "find_repo c t = Some r0"
  shows "GetChangeRequest \<lparr>crq_target = t, crq_number = n\<rparr> (put_cr t n x r c) = (put_cr t n x r c, Answers (crs_cr x))"
  using find_put_cr [OF assms, of n x r]
  by (simp add: GetChangeRequest_def with_cr_def with_repo_def AList.update_conv')

lemma with_cr_put:
  "find_repo c t = Some r0 \<Longrightarrow> with_cr (put_cr t n x r c) t n k = k (r\<lparr>rs_crs := AList.update n x (rs_crs r)\<rparr>) x"
  by (simp add: with_cr_def with_repo_def find_put_cr AList.update_conv')

section \<open>Change requests\<close>

text \<open>
  C20: a merge happens exactly when it was asked for what was reviewed.  \<^verbatim>\<open>MergeChangeRequest\<close>
  on an existing change request answers if and only if the expected head commit is given,
  is the head commit, and the change request is open; then the change request is merged
  and otherwise unchanged, and the same call again is a conflict that changes nothing.
\<close>

theorem merge_guarded:
  assumes r: "find_repo c (mg_target req) = Some r" and x: "map_of (rs_crs r) (mg_number req) = Some x"
  shows "(case MergeChangeRequest req c of
      (c', Answers m) \<Rightarrow>
        mg_expected_head_sha req \<noteq> '''' \<and> mg_expected_head_sha req = br_sha (cr_head (crs_cr x)) \<and>
        cr_state (crs_cr x) = CROpen \<and>
        snd (GetChangeRequest \<lparr>crq_target = mg_target req, crq_number = mg_number req\<rparr> c') =
          Answers ((crs_cr x)\<lparr>cr_state := CRMerged\<rparr>) \<and>
        MergeChangeRequest req c' = (c', fails CodeConflict ''change request is not open'')
    | (c', e) \<Rightarrow> c' = c \<and> (fails_with e CodeValidation \<or> fails_with e CodeConflict) \<and>
        \<not> (mg_expected_head_sha req \<noteq> '''' \<and> mg_expected_head_sha req = br_sha (cr_head (crs_cr x)) \<and>
           cr_state (crs_cr x) = CROpen))"
proof (cases "mg_expected_head_sha req \<noteq> '''' \<and> mg_expected_head_sha req = br_sha (cr_head (crs_cr x)) \<and>
    cr_state (crs_cr x) = CROpen")
  case True
  then have t: "br_sha (cr_head (crs_cr x)) \<noteq> ''''" "mg_expected_head_sha req = br_sha (cr_head (crs_cr x))"
    "cr_state (crs_cr x) = CROpen" by auto
  let ?x = "x\<lparr>crs_cr := (crs_cr x)\<lparr>cr_state := CRMerged\<rparr>\<rparr>"
  let ?c = "put_cr (mg_target req) (mg_number req) ?x r c"
  have "MergeChangeRequest req c = (?c, Answers \<lparr>mgr_sha = ''merge-'' @ br_sha (cr_head (crs_cr x))\<rparr>)"
    using t by (simp add: MergeChangeRequest_def with_cr_found [OF r x])
  moreover have "MergeChangeRequest req ?c = (?c, fails CodeConflict ''change request is not open'')"
    using t by (simp add: MergeChangeRequest_def with_cr_put [OF r] wire_consts)
  ultimately show ?thesis using t get_put_cr [OF r] by simp
next
  case False
  then show ?thesis by (auto simp: MergeChangeRequest_def with_cr_found [OF r x] fails_def fails_with_def AsError_def Errorf_def)
qed

text \<open>
  C21: \<^verbatim>\<open>UpdateChangeRequest\<close> checks the state after it has applied the rest.  A call with
  a new title and an invalid state is refused as a validation error, and the change
  request has the new title all the same.
\<close>

theorem update_refused_but_applied:
  assumes r: "find_repo c (uc_target req) = Some r" and x: "map_of (rs_crs r) (uc_number req) = Some x"
    and "uc_title req = Some t" "uc_state req = Some s" "s \<noteq> CROpen" "s \<noteq> CRClosed"
  shows "case UpdateChangeRequest req c of (c', e) \<Rightarrow>
    fails_with e CodeValidation \<and>
    (\<exists>y. snd (GetChangeRequest \<lparr>crq_target = uc_target req, crq_number = uc_number req\<rparr> c') = Answers y \<and>
         cr_title y = t)"
  using assms(3-)
  by (simp add: UpdateChangeRequest_def with_cr_found [OF r x] Let_def get_put_cr [OF r] set_opt_def split: option.split)

text \<open>
  C22: a merged change request can be opened again.  \<^verbatim>\<open>UpdateChangeRequest\<close> looks at the
  state that is asked for and never at the current one, so a change request that was
  merged answers to state \<^verbatim>\<open>open\<close>, and merging it a second time succeeds.
\<close>

theorem merged_reopens:
  assumes r: "find_repo c (uc_target req) = Some r" and x: "map_of (rs_crs r) (uc_number req) = Some x"
    and "cr_state (crs_cr x) = CRMerged" and h: "br_sha (cr_head (crs_cr x)) \<noteq> ''''"
    and req: "uc_state req = Some CROpen"
  shows "\<exists>c' y c'' m. UpdateChangeRequest req c = (c', Answers y) \<and> cr_state y = CROpen \<and>
    MergeChangeRequest \<lparr>mg_target = uc_target req, mg_number = uc_number req, mg_method = '''',
      mg_expected_head_sha = br_sha (cr_head (crs_cr x))\<rparr> c' = (c'', Answers m)"
proof -
  obtain y where y: "UpdateChangeRequest req c =
      (put_cr (uc_target req) (uc_number req) (x\<lparr>crs_cr := y\<rparr>) r c, Answers y)"
    "cr_state y = CROpen" "cr_head y = cr_head (crs_cr x)"
    using req by (auto simp: UpdateChangeRequest_def with_cr_found [OF r x] Let_def set_opt_def split: option.splits)
  then show ?thesis
    using h by (simp add: MergeChangeRequest_def with_cr_put [OF r])
qed

section \<open>Branches\<close>

text \<open>
  What the interface \<^verbatim>\<open>BranchManager\<close> promises of a creation: it changes no branch (it was
  refused, or answered from a memoised first call), or it was answered with the commit of its
  source, the name was free, and it now has that commit while no other branch changed.
\<close>

locale branch_manager =
  fixes inv :: "'s \<Rightarrow> bool"
    and get :: "'s \<Rightarrow> string \<Rightarrow> string option"
    and create :: "'q \<Rightarrow> 's \<Rightarrow> 's \<times> string option"
    and name_of :: "'q \<Rightarrow> string"
    and source_of :: "'q \<Rightarrow> string"
  assumes created: "inv s \<Longrightarrow> create q s = (s', answer) \<Longrightarrow>
      inv s' \<and> (get s' = get s \<or> (\<exists>sha. answer = Some sha \<and> get s (source_of q) = Some sha \<and>
        get s (name_of q) = None \<and> get s' = (get s)(name_of q \<mapsto> sha)))"
begin

lemma create_cases:
  assumes "inv s"
  shows "inv (fst (create q s)) \<and> (get (fst (create q s)) = get s \<or>
    (\<exists>sha. get s (source_of q) = Some sha \<and> get s (name_of q) = None \<and>
       get (fst (create q s)) = (get s)(name_of q \<mapsto> sha)))"
  using created [OF assms, of q "fst (create q s)" "snd (create q s)"] by auto

text \<open>Any number of creations, successful, refused or replayed.\<close>

lemma creations:
  assumes "inv s"
  shows "inv (fold (\<lambda>q s. fst (create q s)) qs s) \<and> get s \<subseteq>\<^sub>m get (fold (\<lambda>q s. fst (create q s)) qs s) \<and>
    ran (get (fold (\<lambda>q s. fst (create q s)) qs s)) \<subseteq> ran (get s) \<and>
    dom (get (fold (\<lambda>q s. fst (create q s)) qs s)) \<subseteq> dom (get s) \<union> name_of ` set qs"
  using assms
proof (induction qs arbitrary: s)
  case (Cons q qs)
  let ?s = "fst (create q s)"
  have step: "inv ?s" "get s \<subseteq>\<^sub>m get ?s" "ran (get ?s) \<subseteq> ran (get s)" "dom (get ?s) \<subseteq> dom (get s) \<union> {name_of q}"
    using create_cases [OF Cons.prems, of q] by (auto simp: map_le_def intro: ranI split: if_splits)
  let ?t = "fold (\<lambda>q s. fst (create q s)) qs ?s"
  have rest: "inv ?t" "get ?s \<subseteq>\<^sub>m get ?t" "ran (get ?t) \<subseteq> ran (get ?s)" "dom (get ?t) \<subseteq> dom (get ?s) \<union> name_of ` set qs"
    using Cons.IH [OF step(1)] by auto
  have "dom (get ?t) \<subseteq> dom (get s) \<union> name_of ` set (q # qs)"
    using step(4) rest(4) by (simp only: list.set image_insert) blast
  then show ?case using rest(1) map_le_trans [OF step(2) rest(2)] subset_trans [OF rest(3) step(3)] by simp
qed simp

end

text \<open>The fake's branches of one repository, through its two operations.\<close>

definition branch_of :: "Target \<Rightarrow> Core \<Rightarrow> string \<Rightarrow> string option" where
  "branch_of t c b = (case snd (GetBranch \<lparr>gb_target = t, gb_name = b\<rparr> c) of
     Answers i \<Rightarrow> Some (bi_sha i) | _ \<Rightarrow> None)"

definition create_branch :: "CreateBranchRequest \<Rightarrow> Core \<Rightarrow> Core \<times> string option" where
  "create_branch q c = (case CreateBranch q c of
     (c', Answers i) \<Rightarrow> (c', Some (bi_sha i)) | (c', _) \<Rightarrow> (c', None))"

definition branch_source :: "CreateBranchRequest \<Rightarrow> string" where
  "branch_source q = (if cb_from q = '''' then ''main'' else cb_from q)"

lemma reachable_repo:
  assumes "reachable cs c" "find_repo c t = Some r"
  shows "\<exists>b. repo_evolves (seedRepo (rr_full_path (tg_repo t)) b) r"
proof -
  let ?p = "rr_full_path (tg_repo t)"
  have wf: "wf_core (newCore cs)" by (rule wf_newCore)
  have e: "evolves (newCore cs) c" using assms(1) run_evolves [OF wf] by (simp add: reachable_def)
  have "map_of (repos c) ?p = Some r" using find_repoD [OF assms(2)] by simp
  then have "?p \<in> fst ` set (repos c)" by (force dest: map_of_SomeD)
  then have "?p \<in> set (map fst (repos c))" by simp
  moreover have "map fst (repos c) = allRepoPaths" using reachable_wf [OF assms(1)] by (simp add: wf_core_def)
  ultimately have "?p \<in> set allRepoPaths" by (simp only:)
  then obtain b where b: "map_of (repos (newCore cs)) ?p = Some (seedRepo ?p b)"
    by (auto simp: newCore_def allRepoPaths_def)
  have "map_evolves repo_evolves (map_of (repos (newCore cs))) (map_of (repos c))"
    using e by (simp add: evolves_def)
  from map_evolvesD [OF this b] show ?thesis using \<open>map_of (repos c) ?p = Some r\<close> by auto
qed

lemma reachable_default_branch: "reachable cs c \<Longrightarrow> find_repo c t = Some r \<Longrightarrow> rr_default_branch (rs_ref r) = ''main''"
  using reachable_repo [of cs c t r] by (auto simp: repo_evolves_def seedRepo_def)

lemma branch_of_found:
  "find_repo c t = Some r \<Longrightarrow> branch_of t c b = (if b = '''' then None else rs_branches r b)"
  by (simp add: branch_of_def GetBranch_def with_repo_found branch_info_def split: option.split)

lemma validBranchName_nonempty: "validBranchName b \<Longrightarrow> b \<noteq> ''''"
  by (auto simp: validBranchName_def)


lemma branch_of_cong: "repos c' = repos c \<Longrightarrow> branch_of t c' = branch_of t c"
  by (rule ext) (simp add: branch_of_def GetBranch_def with_repo_def find_repo_def split: option.split)

text \<open>What \<^verbatim>\<open>CreateBranch\<close> may do to the repositories, whatever its idempotency key.\<close>

lemma CreateBranch_cases:
  assumes "CreateBranch q c = (c', a)"
  shows "repos c' = repos c \<or> (\<exists>r sha i. find_repo c (cb_target q) = Some r \<and> a = Answers i \<and> bi_sha i = sha \<and>
     cb_name q \<noteq> '''' \<and> rs_branches r (if cb_from q = '''' then rr_default_branch (rs_ref r) else cb_from q) = Some sha \<and>
     rs_branches r (cb_name q) = None \<and>
     repos c' = repos (put_repo (cb_target q) (r\<lparr>rs_branches := (rs_branches r)(cb_name q \<mapsto> sha)\<rparr>) c))"
  using assms
  by (auto simp: CreateBranch_def with_repo_def once_branch_def once_def Let_def branch_info_def validBranchName_nonempty
      split: option.splits if_splits prod.splits reply.splits)

lemma branch_of_put:
  assumes "find_repo c t0 = Some r"
  shows "branch_of t (put_repo t0 (r\<lparr>rs_branches := bs\<rparr>) c) =
    (if find_repo c t = Some r \<and> rr_full_path (tg_repo t) = rr_full_path (tg_repo t0)
     then (\<lambda>b. if b = '''' then None else bs b) else branch_of t c)"
proof (rule ext)
  fix b
  show "branch_of t (put_repo t0 (r\<lparr>rs_branches := bs\<rparr>) c) b =
    (if find_repo c t = Some r \<and> rr_full_path (tg_repo t) = rr_full_path (tg_repo t0)
     then (\<lambda>b. if b = '''' then None else bs b) else branch_of t c) b"
    using find_repoD [OF assms]
    by (auto simp: branch_of_def GetBranch_def with_repo_def find_repo_def lookup_put_repo branch_info_def
        split: option.splits if_splits)
qed

interpretation fake_branches: branch_manager "reachable cs" "branch_of t" create_branch cb_name branch_source
  for cs t
proof unfold_locales
  fix c q c' answer
  assume rc: "reachable cs c" and "create_branch q c = (c', answer)"
  then obtain a where cr: "CreateBranch q c = (c', a)" and answer: "answer = (case a of Answers i \<Rightarrow> Some (bi_sha i) | _ \<Rightarrow> None)"
    by (auto simp: create_branch_def split: prod.splits reply.splits)
  have r': "reachable cs c'" using reachable_step [OF rc CreateBranch [of c q]] cr by simp
  from CreateBranch_cases [OF cr] show "reachable cs c' \<and> (branch_of t c' = branch_of t c \<or>
      (\<exists>sha. answer = Some sha \<and> branch_of t c (branch_source q) = Some sha \<and> branch_of t c (cb_name q) = None \<and>
        branch_of t c' = (branch_of t c)(cb_name q \<mapsto> sha)))"
  proof (elim disjE exE conjE)
    assume "repos c' = repos c"
    then show ?thesis using r' branch_of_cong by blast
  next
    fix r sha i
    assume r: "find_repo c (cb_target q) = Some r" and a: "a = Answers i" "bi_sha i = sha" and n: "cb_name q \<noteq> ''''"
      and b: "rs_branches r (if cb_from q = '''' then rr_default_branch (rs_ref r) else cb_from q) = Some sha"
        "rs_branches r (cb_name q) = None"
      and c': "repos c' = repos (put_repo (cb_target q) (r\<lparr>rs_branches := (rs_branches r)(cb_name q \<mapsto> sha)\<rparr>) c)"
    show ?thesis
    proof (cases "find_repo c t = Some r \<and> rr_full_path (tg_repo t) = rr_full_path (tg_repo (cb_target q))")
      case True
      then have "branch_of t c' = (branch_of t c)(cb_name q \<mapsto> sha)"
        using n by (auto simp: branch_of_cong [OF c'] branch_of_put [OF r] branch_of_found fun_eq_iff)
      then show ?thesis
        using True r' n a b answer reachable_default_branch [OF rc r] by (auto simp: branch_of_found branch_source_def)
    next
      case False
      then have "branch_of t c' = branch_of t c" by (simp only: branch_of_cong [OF c'] branch_of_put [OF r] if_False)
      then show ?thesis using r' by blast
    qed
  qed
qed

lemma fst_create_branch: "fst (create_branch q c) = fst (CreateBranch q c)"
  by (simp add: create_branch_def split: prod.split reply.split)

text \<open>
  C23: creating branches never moves one and never invents a commit.  After any sequence of
  creations, on this repository and others, with or without idempotency keys, successful,
  refused or replayed: every branch that existed points to the same commit, every branch
  points to a commit some branch of the repository pointed to before, and a branch that is
  new has the name one of the requests asked for.
\<close>

theorem create_branches_safe:
  assumes "reachable cs c"
  shows "branch_of t c \<subseteq>\<^sub>m branch_of t (fold (\<lambda>q c. fst (CreateBranch q c)) qs c) \<and>
    ran (branch_of t (fold (\<lambda>q c. fst (CreateBranch q c)) qs c)) \<subseteq> ran (branch_of t c) \<and>
    dom (branch_of t (fold (\<lambda>q c. fst (CreateBranch q c)) qs c)) \<subseteq> dom (branch_of t c) \<union> cb_name ` set qs"
  using fake_branches.creations [where t = t, OF assms, of qs] by (simp only: fst_create_branch)

text \<open>A request without an idempotency key.\<close>

definition branch_request :: "Target \<Rightarrow> string \<times> string \<Rightarrow> CreateBranchRequest" where
  "branch_request t q = \<lparr>cb_target = t, cb_name = fst q, cb_from = snd q, cb_idempotency_key = ''''\<rparr>"

text \<open>
  The outcome of \<^verbatim>\<open>CreateBranch\<close> without an idempotency key is the one the interface
  documents: validation for an invalid name, not found for a missing source, conflict
  for a taken name, and otherwise the new branch, which \<^verbatim>\<open>GetBranch\<close> then returns.
\<close>

theorem create_branch_outcome:
  assumes rc: "reachable cs c" and r: "find_repo c t = Some r"
  shows "case CreateBranch (branch_request t (b, frm)) c of
      (c', Answers i) \<Rightarrow> validBranchName b \<and> branch_of t c b = None \<and>
        branch_of t c (if frm = '''' then ''main'' else frm) = Some (bi_sha i) \<and>
        GetBranch \<lparr>gb_target = t, gb_name = b\<rparr> c' = (c', Answers i)
    | (c', e) \<Rightarrow> c' = c \<and>
        (if \<not> validBranchName b then fails_with e CodeValidation
         else if branch_of t c (if frm = '''' then ''main'' else frm) = None then fails_with e CodeNotFound
         else fails_with e CodeConflict \<and> branch_of t c b \<noteq> None)"
proof -
  have d: "rr_default_branch (rs_ref r) = ''main''" using reachable_default_branch [OF rc r] .
  let ?f = "if frm = '''' then ''main'' else frm"
  show ?thesis
  proof (cases "validBranchName b")
    case True
    then have b: "b \<noteq> ''''" by (rule validBranchName_nonempty)
    have cr: "CreateBranch (branch_request t (b, frm)) c = (case rs_branches r ?f of
        None \<Rightarrow> (c, fails CodeNotFound ''source branch not found'')
      | Some sha \<Rightarrow> if rs_branches r b \<noteq> None then (c, fails CodeConflict ''branch already exists'')
          else (put_repo t (r\<lparr>rs_branches := (rs_branches r)(b \<mapsto> sha)\<rparr>) c, Answers (branch_info r b sha)))"
      using True d by (simp add: CreateBranch_def with_repo_found [OF r] branch_request_def once_branch_def once_def idemKey_def
        split: option.split)
    show ?thesis
    proof (cases "rs_branches r ?f")
      case None
      then show ?thesis using True by (simp add: cr branch_of_found [OF r] fails_with_def AsError_def Errorf_def)
    next
      case (Some sha)
      then show ?thesis using True b
        by (auto simp: cr branch_of_found [OF r] fails_with_def AsError_def Errorf_def branch_info_def GetBranch_def
          with_repo_found [OF find_put_repo [OF r]])
    qed
  qed (simp add: CreateBranch_def with_repo_found [OF r] branch_request_def fails_with_def AsError_def Errorf_def)
qed

section \<open>Webhooks\<close>

definition hooks_for :: "Core \<Rightarrow> Target \<Rightarrow> string \<Rightarrow> string list" where
  "hooks_for c t url = (case find_repo c t of
     Some r \<Rightarrow> map fst (filter (\<lambda>(i, u). u = url) (rs_hooks r)) | None \<Rightarrow> [])"

lemma filter_distinct_snd:
  "distinct (map snd xs) \<Longrightarrow> (i, u) \<in> set xs \<Longrightarrow> filter (\<lambda>(j, v). v = u) xs = [(i, u)]"
proof (induction xs)
  case (Cons p xs)
  show ?case
  proof (cases "p = (i, u)")
    case True
    with Cons.prems(1) have "u \<notin> snd ` set xs" by auto
    then have "filter (\<lambda>(j, v). v = u) xs = []" by (force simp: filter_empty_conv)
    then show ?thesis using True by simp
  next
    case False
    with Cons.prems have "(i, u) \<in> set xs" by simp
    moreover from this Cons.prems(1) have "snd p \<noteq> u" by (cases p) force
    ultimately show ?thesis using Cons by (cases p) auto
  qed
qed simp

lemma find_snd_None: "find (\<lambda>(i, v). v = u) xs = None \<longleftrightarrow> filter (\<lambda>(i, v). v = u) xs = []"
  by (induction xs) auto

lemma find_snd_Some: "find (\<lambda>(i, v). v = u) xs = Some (i, v) \<Longrightarrow> v = u \<and> (i, u) \<in> set xs"
  by (induction xs) (auto split: if_splits)

lemma find_snd_only: "filter (\<lambda>(j, v). v = u) xs = [(i, u)] \<Longrightarrow> find (\<lambda>(j, v). v = u) xs = Some (i, u)"
  by (induction xs) (auto split: if_splits)

lemma filter_delete_snd:
  "filter (\<lambda>(j, v). v = u) xs = [(i, u)] \<Longrightarrow> filter (\<lambda>(j, v). v = u) (AList.delete i xs) = []"
proof -
  assume one: "filter (\<lambda>(j, v). v = u) xs = [(i, u)]"
  have "filter (\<lambda>(j, v). v = u) (AList.delete i xs) = filter (\<lambda>(k, _). k \<noteq> i) (filter (\<lambda>(j, v). v = u) xs)"
    by (induction xs) auto
  then show ?thesis by (simp add: one)
qed

lemma EnsureWebhook_registers:
  assumes first: "EnsureWebhook req c = (c1, Answers w)"
  shows "\<exists>r1. find_repo c1 (ew_target req) = Some r1 \<and> ew_url req \<noteq> [] \<and> (wh_id w, ew_url req) \<in> set (rs_hooks r1)"
proof -
  let ?t = "ew_target req" and ?u = "ew_url req"
  obtain r where r: "find_repo c ?t = Some r" and u: "?u \<noteq> []"
    using first by (auto simp: EnsureWebhook_def with_repo_def split: option.splits if_splits)
  show ?thesis
  proof (cases "find (\<lambda>(i, v). v = ?u) (rs_hooks r)")
    case None
    let ?k = "nth_id ''hook'' (seq c + 1)"
    have "EnsureWebhook req c =
        (put_repo ?t (r\<lparr>rs_hooks := AList.update ?k ?u (rs_hooks r)\<rparr>) (c\<lparr>seq := seq c + 1\<rparr>), Answers \<lparr>wh_id = ?k\<rparr>)"
      using None u by (simp add: EnsureWebhook_def with_repo_found [OF r] next_id_eq)
    then have w: "w = \<lparr>wh_id = ?k\<rparr>" "c1 = put_repo ?t (r\<lparr>rs_hooks := AList.update ?k ?u (rs_hooks r)\<rparr>) (c\<lparr>seq := seq c + 1\<rparr>)"
      using first by simp_all
    have "find_repo (c\<lparr>seq := seq c + 1\<rparr>) ?t = Some r" using r by simp
    moreover have "map_of (AList.update ?k ?u (rs_hooks r)) ?k = Some ?u" by (simp add: AList.update_conv')
    ultimately show ?thesis
      using w u find_put_repo [of "c\<lparr>seq := seq c + 1\<rparr>" ?t r] map_of_SomeD [of "AList.update ?k ?u (rs_hooks r)" ?k ?u] by simp
  next
    case (Some p)
    obtain i v where p: "p = (i, v)" by (cases p)
    have i: "v = ?u" "(i, ?u) \<in> set (rs_hooks r)"
      using find_snd_Some [of ?u "rs_hooks r" i v] Some p by simp_all
    have "EnsureWebhook req c = (c, Answers \<lparr>wh_id = i\<rparr>)"
      using Some p u by (simp add: EnsureWebhook_def with_repo_found [OF r])
    then have "c1 = c" "wh_id w = i" using first by auto
    then show ?thesis using i r u by simp
  qed
qed

text \<open>
  A webhook is registered once.  After \<^verbatim>\<open>EnsureWebhook\<close> answered on a reachable world,
  exactly the answered webhook is registered for the URL, the same call again answers it
  and changes nothing, and removing it leaves the URL without a webhook.
\<close>

theorem ensure_webhook_once:
  assumes rc: "reachable cs c" and first: "EnsureWebhook req c = (c1, Answers w)"
  shows "hooks_for c1 (ew_target req) (ew_url req) = [wh_id w] \<and>
    EnsureWebhook req c1 = (c1, Answers w) \<and>
    hooks_for (fst (RemoveWebhook \<lparr>rw_target = ew_target req, rw_webhook = w\<rparr> c1)) (ew_target req) (ew_url req) = []"
proof -
  let ?t = "ew_target req" and ?u = "ew_url req"
  have "reachable cs c1" using reachable_step [OF rc EnsureWebhook [of c req]] first by simp
  then have wf: "wf_core c1" by (rule reachable_wf)
  obtain r1 where r1: "find_repo c1 ?t = Some r1" and u: "?u \<noteq> []" and w: "(wh_id w, ?u) \<in> set (rs_hooks r1)"
    using EnsureWebhook_registers [OF first] by blast
  have h: "hooks_ok (seq c1) r1" using find_repo_wf [OF wf r1] by (simp add: wf_repo_def)
  then have one: "filter (\<lambda>(j, v). v = ?u) (rs_hooks r1) = [(wh_id w, ?u)]"
    using filter_distinct_snd [OF _ w] by (simp add: hooks_ok_def)
  then have found: "find (\<lambda>(j, v). v = ?u) (rs_hooks r1) = Some (wh_id w, ?u)" by (rule find_snd_only)
  have "filter (\<lambda>(j, v). v = ?u) (AList.delete (wh_id w) (rs_hooks r1)) = []"
    by (rule filter_delete_snd [OF one])
  then show ?thesis
    using one found u
    by (simp add: hooks_for_def EnsureWebhook_def RemoveWebhook_def r1 with_repo_found [OF r1] find_put_repo [OF r1])
qed

section \<open>Comments\<close>

text \<open>
  A posted comment is there.  When \<^verbatim>\<open>Comment\<close> without an idempotency key answers, the
  comments of its subject are the ones from before followed by the new one, signed by the
  bot with the answered id, and the comments of every other subject are as before.
\<close>

theorem comment_appended:
  assumes "PostComment req c = (c1, Answers res)" "cmq_idempotency_key req = ''''"
  shows "snd (ListComments \<lparr>lc_target = cmq_target req, lc_subject = s, lc_cursor = ''''\<rparr> c1) =
    (case snd (ListComments \<lparr>lc_target = cmq_target req, lc_subject = s, lc_cursor = ''''\<rparr> c) of
       Answers page \<Rightarrow> Answers (if subjectKey s = subjectKey (cmq_subject req)
         then page\<lparr>cop_items := cop_items page @ [bot_comment (cmr_id res) (cmq_body req)]\<rparr> else page)
     | other \<Rightarrow> other)"
proof -
  obtain r where r: "find_repo c (cmq_target req) = Some r"
    using assms by (auto simp: PostComment_def with_repo_def split: option.splits)
  have r1: "find_repo (c\<lparr>seq := seq c + 1\<rparr>) (cmq_target req) = Some r" using r by simp
  have "c1 = put_repo (cmq_target req) (r\<lparr>rs_comments := (rs_comments r)(subjectKey (cmq_subject req) \<mapsto>
      comments_of r (subjectKey (cmq_subject req)) @ [bot_comment (cmr_id res) (cmq_body req)])\<rparr>) (c\<lparr>seq := seq c + 1\<rparr>)"
    using assms by (auto simp: PostComment_def with_repo_found [OF r] once_comment_def once_def idemKey_def
      next_id_eq Let_def split: if_splits option.splits)
  then show ?thesis
    by (simp add: ListComments_def with_repo_found [OF r] with_repo_found [OF find_put_repo [OF r1]] comments_of_def)
qed

end
