(* ===== verification/FakeReads.thy ===== *)
theory FakeReads
  imports FakeLifecycle "HOL-Library.Multiset"
begin

text \<open>
  What the fake's reading operations return: pages that cover everything once, texts cut
  on a rune boundary, credentials that expire, events only from signed deliveries.
\<close>

section \<open>Pages\<close>

text \<open>A client that follows \<^verbatim>\<open>next_cursor\<close> until it is empty, for at most \<open>n\<close> pages.\<close>

fun fetch_pages :: "nat \<Rightarrow> (string \<Rightarrow> ('a list \<times> string) option) \<Rightarrow> string \<Rightarrow> 'a list option" where
  "fetch_pages 0 get cur = None"
| "fetch_pages (Suc n) get cur =
     (case get cur of
        None \<Rightarrow> None
      | Some (items, nxt) \<Rightarrow>
          if nxt = '''' then Some items else map_option ((@) items) (fetch_pages n get nxt))"

text \<open>The contract of a paged listing: a cursor is the decimal offset of the next item.\<close>

locale paging =
  fixes inv :: "'s \<Rightarrow> bool"
    and get :: "'s \<Rightarrow> string \<Rightarrow> ('a list \<times> string) option"
    and everything :: "'s \<Rightarrow> 'a list"
    and width :: "'s \<Rightarrow> nat"
  assumes width: "inv s \<Longrightarrow> 0 < width s"
    and first: "inv s \<Longrightarrow> get s '''' = get s (itoa 0)"
    and pages: "inv s \<Longrightarrow> i \<le> length (everything s) \<Longrightarrow>
      get s (itoa (int i)) = Some (take (width s) (drop i (everything s)),
        if i + width s < length (everything s) then itoa (int (i + width s)) else '''')"
begin

lemma itoa_nonempty: "itoa (int k) \<noteq> ''''"
  by (simp add: itoa_def)

lemma pages_from:
  "inv s \<Longrightarrow> i \<le> length (everything s) \<Longrightarrow> length (everything s) - i < n \<Longrightarrow>
     fetch_pages n (get s) (itoa (int i)) = Some (drop i (everything s))"
proof (induction n arbitrary: i)
  case (Suc n)
  let ?w = "width s" and ?all = "everything s"
  show ?case
  proof (cases "i + ?w < length ?all")
    case True
    have "length ?all - (i + ?w) < n" using Suc.prems width [OF Suc.prems(1)] True by linarith
    then have "fetch_pages n (get s) (itoa (int (i + ?w))) = Some (drop (i + ?w) ?all)"
      using Suc.IH [of "i + ?w"] Suc.prems True by simp
    moreover have "drop i ?all = take ?w (drop i ?all) @ drop (i + ?w) ?all"
      by (metis add.commute append_take_drop_id drop_drop)
    ultimately show ?thesis
      using pages [OF Suc.prems(1,2)] True itoa_nonempty [of "i + ?w"] by simp
  next
    case False
    then have "take ?w (drop i ?all) = drop i ?all" by simp
    then show ?thesis using pages [OF Suc.prems(1,2)] False by simp
  qed
qed simp

lemma all_pages:
  assumes "inv s"
  shows "fetch_pages (Suc (length (everything s))) (get s) '''' = Some (everything s)"
proof -
  have "fetch_pages (Suc (length (everything s))) (get s) (itoa 0) = Some (everything s)"
    using pages_from [OF assms, of 0 "Suc (length (everything s))"] by simp
  then show ?thesis using first [OF assms] by simp
qed

end

text \<open>A page computed with \<open>go_slice\<close> from a small offset.\<close>

lemma go_slice_page:
  "i < length xs \<Longrightarrow> 0 < w \<Longrightarrow>
     go_slice xs (int i) (if int i + int w < int (length xs) then int i + int w else int (length xs)) =
       Some (take w (drop i xs))"
  by (auto simp: go_slice_def nat_add_distrib nat_diff_distrib)

definition small :: "nat \<Rightarrow> bool" where
  "small n \<longleftrightarrow> int n \<le> 2 ^ 61"

lemma atoi_small: "small n \<Longrightarrow> i \<le> n \<Longrightarrow> atoi (itoa (int i)) = (int i, True)"
  by (rule atoi_itoa) (simp_all add: small_def min_int64_def max_int64_def)

lemma wrap_small: "small n \<Longrightarrow> i \<le> n \<Longrightarrow> int w \<le> 2 ^ 62 \<Longrightarrow> wrap64 (int i + int w) = int i + int w"
  by (rule wrap64_id) (simp_all add: small_def min_int64_def max_int64_def)

lemma atoi_zero: "fst (atoi ''0'') = 0" "itoa 0 = ''0''"
  by code_simp+

section \<open>Changed files\<close>

definition files_of :: "Target \<Rightarrow> string \<Rightarrow> Core \<Rightarrow> ChangedFile list" where
  "files_of t n c = (case find_repo c t of None \<Rightarrow> [] | Some r \<Rightarrow>
     (case map_of (rs_crs r) n of None \<Rightarrow> [] | Some x \<Rightarrow> crs_files x))"

definition files_page :: "Target \<Rightarrow> string \<Rightarrow> Core \<Rightarrow> string \<Rightarrow> (ChangedFile list \<times> string) option" where
  "files_page t n c cur =
     (case snd (ListChangedFiles \<lparr>pcr_target = t, pcr_number = n, pcr_cursor = cur\<rparr> c) of
        Answers p \<Rightarrow> Some (cfp_items p, cfp_next_cursor p) | _ \<Rightarrow> None)"

definition has_files :: "Target \<Rightarrow> string \<Rightarrow> Core \<Rightarrow> bool" where
  "has_files t n c \<longleftrightarrow> (\<exists>r x. find_repo c t = Some r \<and> map_of (rs_crs r) n = Some x \<and> small (length (crs_files x)))"

interpretation changed_files: paging "has_files t n" "files_page t n" "files_of t n" "\<lambda>_. 2"
  for t n
proof unfold_locales
  fix c i
  assume "has_files t n c" and i: "i \<le> length (files_of t n c)"
  then obtain r x where r: "find_repo c t = Some r" and x: "map_of (rs_crs r) n = Some x" and s: "small (length (crs_files x))"
    by (auto simp: has_files_def)
  have f: "files_of t n c = crs_files x" by (simp add: files_of_def r x)
  have a: "atoi (itoa (int i)) = (int i, True)" "wrap64 (int i + 2) = int i + 2"
    using atoi_small [OF s] wrap_small [OF s, of i 2] i by (simp_all add: f)
  show "files_page t n c (itoa (int i)) = Some (take 2 (drop i (files_of t n c)),
      if i + 2 < length (files_of t n c) then itoa (int (i + 2)) else '''')"
  proof (cases "i < length (crs_files x)")
    case True
    then show ?thesis using go_slice_page [OF True, of 2] a
      by (auto simp: files_page_def ListChangedFiles_def with_cr_found [OF r] x f Let_def add.commute [of 2])
  next
    case False
    then show ?thesis using a i
      by (auto simp: files_page_def ListChangedFiles_def with_cr_found [OF r] x f Let_def)
  qed
next
  fix c
  show "files_page t n c '''' = files_page t n c (itoa 0)"
    using atoi_zero by (simp add: files_page_def ListChangedFiles_def atoi_zero)
qed simp

text \<open>
  C24: following the cursors of \<^verbatim>\<open>ListChangedFiles\<close> from the empty one gives every changed
  file exactly once, in order.
\<close>

theorem changed_files_complete:
  assumes "find_repo c t = Some r" "map_of (rs_crs r) n = Some x" "small (length (crs_files x))"
  shows "fetch_pages (Suc (length (crs_files x))) (files_page t n c) '''' = Some (crs_files x)"
proof -
  have "has_files t n c" "files_of t n c = crs_files x"
    using assms by (auto simp: has_files_def files_of_def)
  then show ?thesis using changed_files.all_pages [of t n c] by simp
qed

text \<open>
  A negative cursor stops the program.  \<^verbatim>\<open>ListChangedFiles\<close> on an existing change
  request panics exactly when its cursor is a negative number: it slices from there
  without a check.
\<close>

theorem changed_files_panic:
  assumes "find_repo c (pcr_target req) = Some r" "map_of (rs_crs r) (pcr_number req) = Some x"
    and "small (length (crs_files x))"
  shows "snd (ListChangedFiles req c) = Panics \<longleftrightarrow> fst (atoi (pcr_cursor req)) < 0"
proof -
  let ?s = "fst (atoi (pcr_cursor req))" and ?n = "int (length (crs_files x))"
  have s: "min_int64 \<le> ?s" "?s \<le> max_int64" using atoi_bounds by auto
  have "wrap64 (?s + 2) = ?s + 2" if "?s < ?n"
    using that s assms(3) by (intro wrap64_id) (auto simp: small_def max_int64_def)
  then show ?thesis
    by (auto simp: ListChangedFiles_def with_cr_found [OF assms(1,2)] Let_def go_slice_def)
qed

section \<open>Issues\<close>

definition issues_of :: "Target \<Rightarrow> string \<Rightarrow> Core \<Rightarrow> Issue list" where
  "issues_of t st c = (case find_repo c t of None \<Rightarrow> [] | Some r \<Rightarrow>
     sort_key iss_number (filter (\<lambda>i. st = ''all'' \<or> iss_state i = (if st = '''' then ''open'' else st))
       (map snd (rs_issues r))))"

definition issues_page :: "Target \<Rightarrow> string \<Rightarrow> Core \<Rightarrow> string \<Rightarrow> (Issue list \<times> string) option" where
  "issues_page t st c cur =
     (case snd (ListIssues \<lparr>li_target = t, li_state = st, li_cursor = cur\<rparr> c) of
        Answers p \<Rightarrow> Some (ip_items p, ip_next_cursor p) | _ \<Rightarrow> None)"

definition lists_issues :: "Target \<Rightarrow> string \<Rightarrow> Core \<Rightarrow> bool" where
  "lists_issues t st c \<longleftrightarrow> (\<exists>r. find_repo c t = Some r) \<and> st \<in> {'''', ''open'', ''closed'', ''all''} \<and>
     small (length (issues_of t st c))"

lemma issues_page_at:
  assumes r: "find_repo c t = Some r" and st: "st \<in> {'''', ''open'', ''closed'', ''all''}"
    and cur: "cur = '''' \<and> i = 0 \<or> cur \<noteq> '''' \<and> atoi cur = (int i, True)"
  shows "issues_page t st c cur = Some (take 2 (drop i (issues_of t st c)),
      if i + 2 < length (issues_of t st c) then itoa (int i + 2) else '''')"
proof -
  let ?st = "if st = '''' then ''open'' else st"
  have it: "issues_of t st c = sort_key iss_number (filter (\<lambda>i. ?st = ''all'' \<or> iss_state i = ?st) (map snd (rs_issues r)))"
    by (simp add: issues_of_def r)
  have ok: "?st \<in> {''open'', ''closed'', ''all''}" using st by auto
  have cur': "(if cur = '''' then (0, True) else atoi cur) = (int i, True)" using cur by auto
  have ok': "(?st \<notin> {''open'', ''closed'', ''all''}) = False" using ok by simp
  have eq: "ListIssues \<lparr>li_target = t, li_state = st, li_cursor = cur\<rparr> c =
      (let items = issues_of t st c; n = int (length items)
       in if int i < n
          then if int i + 2 < n
            then (c, Answers \<lparr>ip_items = take 2 (drop i items), ip_next_cursor = itoa (int i + 2)\<rparr>)
            else (c, Answers \<lparr>ip_items = drop i items, ip_next_cursor = ''''\<rparr>)
          else (c, Answers \<lparr>ip_items = [], ip_next_cursor = ''''\<rparr>))"
    unfolding ListIssues_def with_repo_def it
    by (simp only: r option.case Let_def ListIssuesRequest.simps ok' cur' prod.case if_False HOL.simp_thms)
      simp
  let ?n = "length (issues_of t st c)"
  consider "i + 2 < ?n" | "i < ?n" "?n \<le> i + 2" | "?n \<le> i" by linarith
  then show ?thesis by cases (simp_all add: issues_page_def eq Let_def)
qed

interpretation issues: paging "lists_issues t st" "issues_page t st" "issues_of t st" "\<lambda>_. 2"
  for t st
proof unfold_locales
  fix c i
  assume inv: "lists_issues t st c" and i: "i \<le> length (issues_of t st c)"
  then obtain r where r: "find_repo c t = Some r" by (auto simp: lists_issues_def)
  have "atoi (itoa (int i)) = (int i, True)" using inv i by (auto simp: lists_issues_def intro: atoi_small)
  then show "issues_page t st c (itoa (int i)) = Some (take 2 (drop i (issues_of t st c)),
      if i + 2 < length (issues_of t st c) then itoa (int (i + 2)) else '''')"
    using issues_page_at [OF r, of st "itoa (int i)" i] inv
    by (auto simp: lists_issues_def itoa_def add.commute)
next
  fix c
  assume inv: "lists_issues t st c"
  then obtain r where r: "find_repo c t = Some r" by (auto simp: lists_issues_def)
  have "atoi (itoa 0) = (0, True)" by (rule atoi_itoa) (simp_all add: min_int64_def max_int64_def)
  then show "issues_page t st c '''' = issues_page t st c (itoa 0)"
    using issues_page_at [OF r, of st "''''" 0] issues_page_at [OF r, of st "itoa 0" 0] inv
    by (auto simp: lists_issues_def itoa_def)
qed simp

text \<open>
  C25: \<^verbatim>\<open>ListIssues\<close> lists every issue of the requested state once.  Following its cursors
  gives the repository's issues of that state (open when none is named), all of them and
  sorted by number; it never panics, and every other state and every cursor that is not
  a non-negative number is a validation error.
\<close>

theorem list_issues_complete:
  assumes r: "find_repo c t = Some r" and st: "st \<in> {'''', ''open'', ''closed'', ''all''}"
    and n: "small (length (rs_issues r))"
  shows "\<exists>items. fetch_pages (Suc (length items)) (issues_page t st c) '''' = Some items \<and>
    sorted (map iss_number items) \<and>
    mset items = mset (filter (\<lambda>i. st = ''all'' \<or> iss_state i = (if st = '''' then ''open'' else st)) (map snd (rs_issues r)))"
proof -
  let ?items = "issues_of t st c"
  have m: "mset ?items = mset (filter (\<lambda>i. st = ''all'' \<or> iss_state i = (if st = '''' then ''open'' else st)) (map snd (rs_issues r)))"
    using mset_sort [of iss_number] by (simp add: issues_of_def r)
  then have "length ?items \<le> length (rs_issues r)"
    unfolding issues_of_def r by (simp add: le_trans [OF length_filter_le])
  then have "small (length ?items)" using n by (simp add: small_def)
  then have "lists_issues t st c" using r st by (simp add: lists_issues_def)
  then have "fetch_pages (Suc (length ?items)) (issues_page t st c) '''' = Some ?items"
    by (rule issues.all_pages)
  moreover have "sorted (map iss_number ?items)" by (simp add: issues_of_def r)
  ultimately show ?thesis using m by blast
qed

lemma ListIssues_shape:
  assumes r: "find_repo c (li_target req) = Some r"
  shows "\<exists>p. ListIssues req c =
    (if (if li_state req = '''' then ''open'' else li_state req) \<notin> {''open'', ''closed'', ''all''}
     then (c, fails CodeValidation ''invalid issue state'')
     else if li_cursor req \<noteq> '''' \<and> (\<not> snd (atoi (li_cursor req)) \<or> fst (atoi (li_cursor req)) < 0)
     then (c, fails CodeValidation ''invalid cursor'') else (c, Answers p))"
proof (cases "(if li_state req = '''' then ''open'' else li_state req) \<notin> {''open'', ''closed'', ''all''}")
  case True
  then show ?thesis unfolding ListIssues_def with_repo_found [OF r] Let_def by (simp only: not_False_eq_True if_True) blast
next
  case False
  obtain s k where sk: "(if li_cursor req = '''' then (0, True) else atoi (li_cursor req)) = (s, k)"
    by fastforce
  then have bad: "(\<not> k \<or> s < 0) \<longleftrightarrow>
      li_cursor req \<noteq> '''' \<and> (\<not> snd (atoi (li_cursor req)) \<or> fst (atoi (li_cursor req)) < 0)"
    by (auto split: if_splits)
  have pages: "\<exists>p. (if b then X else if d then if e then (c, Answers u) else (c, Answers v) else (c, Answers w)) =
      (if b then X else (c, Answers p))" for b d e X u v and w :: IssuePage
    by auto
  show ?thesis using False unfolding ListIssues_def with_repo_found [OF r] Let_def sk prod.case bad
    by (simp only: if_False) (rule pages)
qed

text \<open>
  What \<^verbatim>\<open>ListIssues\<close> refuses: exactly a repository the identity cannot see, an unknown
  state, or a cursor that is not a non-negative 64-bit number.  It never panics.
\<close>

theorem list_issues_errors:
  "case snd (ListIssues req c) of
     Answers p \<Rightarrow> find_repo c (li_target req) \<noteq> None \<and> li_state req \<in> {'''', ''open'', ''closed'', ''all''} \<and>
       (li_cursor req = '''' \<or> snd (atoi (li_cursor req)) \<and> 0 \<le> fst (atoi (li_cursor req)))
   | Fails e \<Rightarrow> find_repo c (li_target req) = None \<and> AsError e = Errorf CodeNotFound ''repository not found'' \<or>
       find_repo c (li_target req) \<noteq> None \<and> er_code (AsError e) = CodeValidation \<and>
       (li_state req \<notin> {'''', ''open'', ''closed'', ''all''} \<or>
        li_cursor req \<noteq> '''' \<and> (\<not> snd (atoi (li_cursor req)) \<or> fst (atoi (li_cursor req)) < 0))
   | Panics \<Rightarrow> False"
proof (cases "find_repo c (li_target req)")
  case None
  then show ?thesis by (simp add: ListIssues_def with_repo_def fails_def AsError_def Errorf_def)
next
  case (Some r)
  have st: "(if li_state req = '''' then ''open'' else li_state req) \<in> {''open'', ''closed'', ''all''} \<longleftrightarrow>
      li_state req \<in> {'''', ''open'', ''closed'', ''all''}" by auto
  show ?thesis
    using ListIssues_shape [OF Some] unfolding st
    by (elim exE) (simp add: Some AsError_def Errorf_def fails_def del: insert_iff split: if_split, blast?)
qed

end
