(* ===== verification/FakeTrust.thy ===== *)
theory FakeTrust
  imports FakeReads
begin

text \<open>
  What leaves and enters the fake under a bound or a secret: texts cut to a byte budget,
  credentials with a lifetime, webhook deliveries with a signature.
\<close>

section \<open>Texts cut on a rune boundary\<close>

lemma cut_index_le: "cut_index s n \<le> n"
  by (induction n) auto

lemma cut_index_start: "cut_index s n = 0 \<or> (cut_index s n < length s \<longrightarrow> RuneStart (s ! cut_index s n))"
  by (induction n) auto

lemma cut_index_last: "m \<le> n \<Longrightarrow> (m < length s \<longrightarrow> RuneStart (s ! m)) \<Longrightarrow> m \<le> cut_index s n"
  by (induction n) (auto simp: le_Suc_eq)

lemma skip_index_ge: "i \<le> skip_index s i"
proof (induction s i rule: skip_index.induct)
  case (1 s i)
  show ?case using 1 by (subst skip_index.simps) (auto dest: Suc_leD)
qed

lemma skip_index_start: "skip_index s i < length s \<Longrightarrow> RuneStart (s ! skip_index s i)"
proof (induction s i rule: skip_index.induct)
  case (1 s i)
  show ?case
  proof (cases "i < length s \<and> \<not> RuneStart (s ! i)")
    case True
    then have "skip_index s i = skip_index s (Suc i)" by (subst skip_index.simps) simp
    then show ?thesis using 1 True by simp
  next
    case False
    then have "skip_index s i = i" by (subst skip_index.simps) (simp only: if_False)
    then show ?thesis using 1 False by auto
  qed
qed

lemma skip_index_first: "i \<le> m \<Longrightarrow> (m < length s \<longrightarrow> RuneStart (s ! m)) \<Longrightarrow> skip_index s i \<le> m"
proof (induction s i rule: skip_index.induct)
  case (1 s i)
  show ?case
  proof (cases "i < length s \<and> \<not> RuneStart (s ! i)")
    case True
    then have "i \<noteq> m" "skip_index s i = skip_index s (Suc i)" using "1.prems" by (auto simp: skip_index.simps [of s i])
    then show ?thesis using 1 True by simp
  next
    case False
    then have "skip_index s i = i" by (subst skip_index.simps) (simp only: if_False)
    then show ?thesis using "1.prems" by simp
  qed
qed

lemma rune_start_after:
  assumes "valid_utf8 s" "n \<le> length s"
  shows "\<exists>m \<ge> n. m - n \<le> 3 \<and> m \<le> length s \<and> (m < length s \<longrightarrow> RuneStart (s ! m))"
  using assms
proof (induction s arbitrary: n rule: to_valid_utf8.induct)
  case (1 s)
  show ?case
  proof (cases "s = []")
    case False
    let ?k = "rune_len s"
    have k: "0 < ?k" "valid_utf8 (drop ?k s)" "?k \<le> length s" "?k \<le> 4"
      using 1 False valid_utf8_step rune_len_le rune_len_4 by auto
    have start: "RuneStart (t ! 0)" if "valid_utf8 t" "t \<noteq> []" for t
      using rune_start_near [OF that(1), of 0] that by auto
    show ?thesis
    proof (cases "n < ?k")
      case True
      show ?thesis
      proof (cases "n = 0")
        case True
        then show ?thesis using start [OF "1.prems"(1) False] by (intro exI [of _ 0]) auto
      next
        case nz: False
        have "RuneStart (s ! ?k)" if "?k < length s" using start [OF k(2)] that by simp
        then show ?thesis using True nz k by (intro exI [of _ ?k]) auto
      qed
    next
      case False
      then obtain m where "n - ?k \<le> m" "m - (n - ?k) \<le> 3" "m \<le> length (drop ?k s)"
          "m < length (drop ?k s) \<longrightarrow> RuneStart (drop ?k s ! m)"
        using "1.IH"(2) [of "n - ?k"] 1 k \<open>s \<noteq> []\<close> by fastforce
      with False k show ?thesis by (intro exI [of _ "?k + m"]) auto
    qed
  qed (use 1 in auto)
qed

text \<open>
  C26: a text cut to a byte budget is a piece of the original from the right end, within
  the budget, at most three bytes short of it, and valid UTF-8 when the original is: no
  character is broken.
\<close>

theorem cuts_on_runes:
  assumes s: "valid_utf8 s" and n: "n \<le> length s"
  shows "prefix (cutHead s n) s \<and> length (cutHead s n) \<le> n \<and> n \<le> length (cutHead s n) + 3 \<and> valid_utf8 (cutHead s n) \<and>
    suffix (cutTail s n) s \<and> length (cutTail s n) \<le> n \<and> n \<le> length (cutTail s n) + 3 \<and> valid_utf8 (cutTail s n)"
proof -
  let ?i = "cut_index s n" and ?j = "skip_index s (length s - n)"
  obtain m where m: "m \<le> n" "n - m \<le> 3" "m < length s \<longrightarrow> RuneStart (s ! m)"
    using rune_start_near [OF s n] by blast
  have i: "m \<le> ?i" "?i \<le> n" using cut_index_last [OF m(1,3)] cut_index_le by auto
  have vi: "valid_utf8 (take ?i s)"
    using cut_index_start [of s n] valid_cut [OF s, of ?i] i n by auto
  obtain k where k: "length s - n \<le> k" "k - (length s - n) \<le> 3" "k \<le> length s" "k < length s \<longrightarrow> RuneStart (s ! k)"
    using rune_start_after [OF s, of "length s - n"] by auto
  have j: "?j \<le> k" "length s - n \<le> ?j" using skip_index_first [OF k(1,4)] skip_index_ge by auto
  have vj: "valid_utf8 (drop ?j s)"
    using skip_index_start [of s "length s - n"] valid_cut [OF s, of ?j] j k by auto
  have "length (cutHead s n) = ?i" "length (cutTail s n) = length s - ?j" "?j \<le> length s"
    using i n j k by (simp_all add: cutHead_def cutTail_def)
  moreover have "n \<le> ?i + 3" "length s - ?j \<le> n" "n \<le> length s - ?j + 3" using i m j k n by linarith+
  moreover have "valid_utf8 (cutHead s n)" "valid_utf8 (cutTail s n)" "prefix (cutHead s n) s" "suffix (cutTail s n) s"
    using vi vj by (simp_all add: cutHead_def cutTail_def take_is_prefix suffix_drop)
  ultimately show ?thesis using i by simp
qed

theorem cuts_on_runes_witness:
  "let s = ''a'' @ [char_of (195::nat), char_of (169::nat)] @ ''b''
   in valid_utf8 s \<and> cutHead s 2 = ''a'' \<and> cutTail s 2 = ''b'' \<and> prefix (cutHead s 2) s \<and> valid_utf8 (cutTail s 2)"
proof -
  let ?s = "''a'' @ [char_of (195::nat), char_of (169::nat)] @ ''b''"
  have v: "valid_utf8 ?s" "cutHead ?s 2 = ''a''" "cutTail ?s 2 = ''b''" by code_simp+
  show ?thesis using cuts_on_runes [OF v(1), of 2] v by (simp add: Let_def)
qed

text \<open>The whole text a diff is cut from.\<close>

definition full_diff :: "DiffRequest \<Rightarrow> crState \<Rightarrow> string" where
  "full_diff req x = concat (map diff_of_file (filter (\<lambda>f. dr_path req = '''' \<or> cf_path f = dr_path req) (crs_files x)))"

lemma is_ascii_append: "is_ascii (s @ t) \<longleftrightarrow> is_ascii s \<and> is_ascii t"
  by (simp add: is_ascii_def)

lemma is_ascii_itoa: "is_ascii (itoa i)"
proof -
  have "is_ascii (digits n)" for n
    using digits_all [of _ n] by (fastforce simp: is_ascii_def list_all_iff is_digit_def)
  moreover have "byte_val (CHR ''-'') < 128" by code_simp
  ultimately show ?thesis by (auto simp: itoa_def is_ascii_def)
qed

lemma is_ascii_diff: "is_ascii (cf_path f) \<Longrightarrow> is_ascii (diff_of_file f)"
proof -
  have "is_ascii ''diff --git a/''" "is_ascii '' b/''" "is_ascii ''--- a/''" "is_ascii ''+++ b/''"
    "is_ascii ''@@ -1,1 +1,''" "is_ascii '' @@''" "is_ascii ''+changed ''" "is_ascii nl" by code_simp+
  then show "is_ascii (cf_path f) \<Longrightarrow> is_ascii (diff_of_file f)"
    by (simp only: diff_of_file_def is_ascii_append is_ascii_itoa simp_thms)
qed

lemma is_ascii_full_diff: "list_all (\<lambda>f. is_ascii (cf_path f)) (crs_files x) \<Longrightarrow> is_ascii (full_diff req x)"
proof -
  have concat: "is_ascii (concat l)" if "list_all is_ascii l" for l
    using that by (induction l) (auto simp: is_ascii_def)
  assume "list_all (\<lambda>f. is_ascii (cf_path f)) (crs_files x)"
  then show ?thesis
    unfolding full_diff_def by (intro concat) (auto simp: list_all_iff intro: is_ascii_diff)
qed

lemma GetDiff_eq:
  assumes "find_repo c (dr_target req) = Some r" "map_of (rs_crs r) (dr_number req) = Some x"
  shows "GetDiff req c =
    (if dr_path req \<noteq> '''' \<and> \<not> list_ex (\<lambda>f. cf_path f = dr_path req) (crs_files x)
     then (c, fails CodeNotFound ''file is not part of this change request'')
     else if 0 < dr_max_bytes req \<and> dr_max_bytes req < int (length (full_diff req x))
     then (c, Answers \<lparr>df_text = cutHead (full_diff req x) (nat (dr_max_bytes req)), df_truncated = True\<rparr>)
     else (c, Answers \<lparr>df_text = full_diff req x, df_truncated = False\<rparr>))"
proof -
  have f: "(\<lambda>f. \<not> (dr_path req \<noteq> '''' \<and> cf_path f \<noteq> dr_path req)) = (\<lambda>f. dr_path req = '''' \<or> cf_path f = dr_path req)"
    by auto
  have e: "(\<not> (dr_path req = '''' \<or> filter (\<lambda>f. dr_path req = '''' \<or> cf_path f = dr_path req) (crs_files x) \<noteq> [])) =
      (dr_path req \<noteq> '''' \<and> \<not> list_ex (\<lambda>f. cf_path f = dr_path req) (crs_files x))"
    by (auto simp: filter_empty_conv list_ex_iff)
  show ?thesis unfolding GetDiff_def with_cr_found [OF assms] Let_def f e full_diff_def ..
qed

text \<open>
  C27: a diff keeps its budget.  In every reachable world \<^verbatim>\<open>GetDiff\<close> of an existing change
  request answers a prefix of the whole diff, valid UTF-8 and, when a positive budget is
  given, no longer than it; it says truncated exactly when something is missing.  It
  fails only for a path that is not part of the change request.
\<close>

theorem diff_within_budget:
  assumes "reachable cs c" and r: "find_repo c (dr_target req) = Some r" and x: "map_of (rs_crs r) (dr_number req) = Some x"
  shows "case snd (GetDiff req c) of
      Answers d \<Rightarrow> prefix (df_text d) (full_diff req x) \<and> valid_utf8 (df_text d) \<and>
        (0 < dr_max_bytes req \<longrightarrow> int (length (df_text d)) \<le> dr_max_bytes req) \<and>
        (df_truncated d \<longleftrightarrow> df_text d \<noteq> full_diff req x)
    | Fails e \<Rightarrow> AsError e = Errorf CodeNotFound ''file is not part of this change request'' \<and>
        dr_path req \<notin> insert '''' (cf_path ` set (crs_files x))
    | Panics \<Rightarrow> False"
proof -
  have "wf_repo (seq c) (rr_full_path (tg_repo (dr_target req))) r"
    using find_repo_wf [OF reachable_wf [OF assms(1)] r] .
  then have "list_all (\<lambda>f. is_ascii (cf_path f)) (crs_files x)"
    using map_of_SomeD [OF x] by (auto simp: wf_repo_def cr_keys_ok_def cr_entry_ok_def)
  then have v: "valid_utf8 (full_diff req x)" using is_ascii_full_diff is_ascii_valid by blast
  consider "dr_path req \<noteq> '''' \<and> \<not> list_ex (\<lambda>f. cf_path f = dr_path req) (crs_files x)"
    | "\<not> (dr_path req \<noteq> '''' \<and> \<not> list_ex (\<lambda>f. cf_path f = dr_path req) (crs_files x))"
      "0 < dr_max_bytes req \<and> dr_max_bytes req < int (length (full_diff req x))"
    | "\<not> (dr_path req \<noteq> '''' \<and> \<not> list_ex (\<lambda>f. cf_path f = dr_path req) (crs_files x))"
      "\<not> (0 < dr_max_bytes req \<and> dr_max_bytes req < int (length (full_diff req x)))"
    by blast
  then show ?thesis
  proof cases
    case 1
    then show ?thesis by (auto simp: GetDiff_eq [OF r x] fails_def AsError_def list_ex_iff)
  next
    case 2
    let ?n = "nat (dr_max_bytes req)" and ?d = "full_diff req x"
    have n: "?n < length ?d" "0 < dr_max_bytes req" using 2 by auto
    have len: "length (cutHead ?d ?n) \<le> ?n" unfolding cutHead_def using cut_index_le [of ?d ?n] by simp
    have "valid_utf8 (cutHead ?d ?n)"
      unfolding cutHead_def using cut_index_start [of ?d ?n] valid_cut [OF v, of "cut_index ?d ?n"] n cut_index_le [of ?d ?n]
      by auto
    moreover have "prefix (cutHead ?d ?n) ?d" by (simp add: cutHead_def take_is_prefix)
    moreover have "cutHead ?d ?n \<noteq> ?d" using len n by auto
    moreover have "int (length (cutHead ?d ?n)) \<le> dr_max_bytes req" using len n by linarith
    moreover have "GetDiff req c = (c, Answers \<lparr>df_text = cutHead ?d ?n, df_truncated = True\<rparr>)"
      unfolding GetDiff_eq [OF r x] using 2 by (simp only: if_False if_True simp_thms)
    ultimately show ?thesis by simp
  next
    case 3
    have "GetDiff req c = (c, Answers \<lparr>df_text = full_diff req x, df_truncated = False\<rparr>)"
      unfolding GetDiff_eq [OF r x] using 3 by (simp only: if_False)
    then show ?thesis using 3 v by auto
  qed
qed

section \<open>Credentials\<close>

lemma nth_id_tok_distinct:
  assumes "0 \<le> i" "0 \<le> j" "i \<noteq> j" "a \<in> {AccessRead, AccessWrite}" "b \<in> {AccessRead, AccessWrite}"
  shows "nth_id (''tok-'' @ a) i \<noteq> nth_id (''tok-'' @ b) j"
  using assms itoa_inject [OF assms(1,2)] by (auto simp: nth_id_def wire_consts)

lemma MintCredential_short_lived:
  assumes "MintCredential now req c = (c1, Answers d)" "cap_credential_model (caps c) \<noteq> CredentialStatic"
  shows "mr_access req \<in> {AccessRead, AccessWrite} \<and> seq c1 = seq c + 1 \<and>
    cd_secret d = nth_id (''tok-'' @ mr_access req) (seq c + 1) \<and> now < cd_expires_at d \<and> cd_expires_at d \<le> now + hour"
  using assms
  by (auto simp: MintCredential_def with_repo_def Let_def next_id_eq hour_def tenMinutes_def split: option.splits if_splits)

text \<open>
  C28: a minted credential is short-lived and its own.  When the provider does not declare
  static credentials, whatever lifetime is asked for (also one whose nanoseconds do not
  fit 64 bits) the credential expires after now and within an hour of it, and no
  credential minted later in the run has the same secret.
\<close>

theorem minted_credentials:
  assumes "reachable cs c" "cap_credential_model cs \<noteq> CredentialStatic"
    and one: "MintCredential now req c = (c1, Answers d)" and later: "fake_run c1 c2"
    and two: "MintCredential now2 req2 c2 = (c3, Answers d2)"
  shows "now < cd_expires_at d \<and> cd_expires_at d \<le> now + hour \<and> cd_secret d \<noteq> cd_secret d2"
proof -
  have r1: "reachable cs c1" using reachable_step [OF assms(1) MintCredential [of c now req]] one by simp
  have "caps c = cs" "caps c2 = cs"
    using reachable_caps [OF assms(1)] reachable_caps [OF reachable_run [OF r1 later]] by auto
  then have m: "mr_access req \<in> {AccessRead, AccessWrite} \<and> seq c1 = seq c + 1 \<and>
      cd_secret d = nth_id (''tok-'' @ mr_access req) (seq c + 1) \<and> now < cd_expires_at d \<and> cd_expires_at d \<le> now + hour"
    "mr_access req2 \<in> {AccessRead, AccessWrite} \<and> seq c3 = seq c2 + 1 \<and>
      cd_secret d2 = nth_id (''tok-'' @ mr_access req2) (seq c2 + 1) \<and> now2 < cd_expires_at d2 \<and> cd_expires_at d2 \<le> now2 + hour"
    using MintCredential_short_lived [OF one] MintCredential_short_lived [OF two] assms(2) by auto
  have "seq c1 \<le> seq c2" "0 \<le> seq c"
    using run_evolves [OF reachable_wf [OF r1] later] reachable_wf [OF assms(1)] by (auto simp: evolves_def wf_core_def)
  then show ?thesis using m nth_id_tok_distinct [of "seq c + 1" "seq c2 + 1" "mr_access req" "mr_access req2"] by simp
qed

section \<open>Webhook deliveries\<close>

text \<open>What a mention is: an at sign that does not continue a word, the handle in any case.\<close>

lemma mentionsD:
  assumes "mentions text h"
  shows "\<exists>pre w post. text = pre @ ''@'' @ w @ post \<and> map lower_byte w = map lower_byte h \<and> \<not> folded_word_end pre"
proof -
  obtain i where i: "i < length text" "mention_at text h i"
    using assms by (auto simp: mentions_def list_ex_iff)
  obtain zs where zs: "map lower_byte (drop (i + 1) text) = map lower_byte h @ zs"
    using i(2) by (auto simp: mention_at_def prefix_def)
  have "map lower_byte (take (length h) (drop (i + 1) text)) = map lower_byte h"
    using arg_cong [OF zs, of "take (length h)"] by (simp add: take_map)
  moreover have "text = take i text @ ''@'' @ take (length h) (drop (i + 1) text) @ drop (length h) (drop (i + 1) text)"
  proof -
    have "drop (i + 1) text = take (length h) (drop (i + 1) text) @ drop (length h) (drop (i + 1) text)"
      by (rule append_take_drop_id [symmetric])
    then have "text ! i # drop (i + 1) text = ''@'' @ take (length h) (drop (i + 1) text) @ drop (length h) (drop (i + 1) text)"
      using i(2) by (simp add: mention_at_def del: append_take_drop_id drop_drop)
    then show ?thesis using id_take_nth_drop [OF i(1)] by (metis Suc_eq_plus1)
  qed
  moreover have "\<not> folded_word_end (take i text)" using i(2) by (simp add: mention_at_def)
  ultimately show ?thesis by blast
qed

definition mention_shape :: "string \<Rightarrow> bool" where
  "mention_shape text \<longleftrightarrow> (\<exists>pre w post. text = pre @ ''@'' @ w @ post \<and>
     map lower_byte w = IdentityHandle \<and> \<not> folded_word_end pre)"

lemma mentions_shape: "mentions text IdentityHandle \<Longrightarrow> mention_shape text"
proof -
  have "map lower_byte IdentityHandle = IdentityHandle" by code_simp
  then show "mentions text IdentityHandle \<Longrightarrow> mention_shape text"
    using mentionsD unfolding mention_shape_def by fastforce
qed

text \<open>An event of a delivery addresses the identity only by a declared trigger.\<close>

definition addressed_ok :: "Capabilities \<Rightarrow> fakeHook \<Rightarrow> Addressed \<Rightarrow> bool" where
  "addressed_ok cs h a \<longleftrightarrow> ad_identity_id a = IdentityID \<and>
     (ad_via a = ViaMention \<and> SupportsTrigger cs TriggerMention \<and> mention_shape (fh_text h) \<or>
      ad_via a = ViaReviewRequest \<and> SupportsTrigger cs TriggerReviewRequest \<and> fh_requested h = IdentityHandle \<or>
      ad_via a = ViaAssignment \<and> SupportsTrigger cs TriggerAssignment \<and> fh_assignee h = IdentityHandle)"

lemma hook_addressed_ok: "a \<in> set (hook_addressed cs h) \<Longrightarrow> addressed_ok cs h a"
  using mentions_shape by (auto simp: hook_addressed_def addressed_ok_def split: if_splits)

lemma event_kinds: "event_kind t = '''' \<or> event_kind t \<in> set AllEventKinds"
  by (auto simp: event_kind_def param_def AllEventKinds_def split: option.split)

text \<open>
  C29: only a signed delivery becomes an event.  A delivery without the HMAC of its body
  in the signature header is refused as such, whatever its body holds; a signed one gives
  at most one event, of a kind of the contract and about a repository of the provider,
  with the delivery's text, and it addresses nobody but the identity, and only by a
  trigger the provider declared: its handle mentioned on a word boundary, requested as
  reviewer, or assigned.
\<close>

theorem webhook_trusted:
  "case snd (VerifyAndParseWebhook mac parse req c) of
     Fails e \<Rightarrow>
       param (wr_headers req) ''x-fake-signature'' \<noteq> Sign mac (wr_body req) \<and>
         AsError e = Errorf CodeInvalidSignature ''signature mismatch'' \<or>
       param (wr_headers req) ''x-fake-signature'' = Sign mac (wr_body req) \<and> parse (wr_body req) = None \<and>
         AsError e = Errorf CodeValidation ''malformed payload''
   | Answers evs \<Rightarrow>
       param (wr_headers req) ''x-fake-signature'' = Sign mac (wr_body req) \<and>
       (\<exists>h. parse (wr_body req) = Some h \<and> length evs \<le> 1 \<and>
         (\<forall>ev \<in> set evs. \<exists>r. map_of (repos c) (fh_repo h) = Some r \<and> ev_repo ev = rs_ref r \<and>
            ev_kind ev \<in> set AllEventKinds \<and> ev_text ev = fh_text h \<and>
            (\<forall>a \<in> set (ev_addressed ev). addressed_ok (caps c) h a)))
   | Panics \<Rightarrow> False"
proof (cases "param (wr_headers req) ''x-fake-signature'' = Sign mac (wr_body req)")
  case False
  then show ?thesis by (simp add: VerifyAndParseWebhook_def fails_def AsError_def)
next
  case True
  show ?thesis
  proof (cases "parse (wr_body req)")
    case None
    then show ?thesis using True by (simp add: VerifyAndParseWebhook_def fails_def AsError_def)
  next
    case (Some h)
    have "ev_repo (hook_event cs r h k) = rs_ref r \<and> ev_kind (hook_event cs r h k) = k \<and>
        ev_text (hook_event cs r h k) = fh_text h \<and> ev_addressed (hook_event cs r h k) = hook_addressed cs h" for cs r k
      by (simp add: hook_event_def)
    then show ?thesis
      using True Some event_kinds [of "fh_type h"] hook_addressed_ok
      by (auto simp: VerifyAndParseWebhook_def split: option.split)
  qed
qed

end
