(* ===== verification/FakeExamples.thy ===== *)
theory FakeExamples
  imports FakeTrust
begin

text \<open>
  The properties of the fake at concrete inputs: the full provider, its repository
  \<^verbatim>\<open>acme/web\<close> and its one identity.
\<close>

section \<open>The world\<close>

definition demo_target :: Target where
  "demo_target = zero_Target\<lparr>tg_identity := zero_IdentityRef\<lparr>ir_id := IdentityID\<rparr>,
     tg_repo := zero_RepoRef\<lparr>rr_full_path := RepoPath\<rparr>\<rparr>"

definition demo_open :: OpenCRRequest where
  "demo_open = zero_OpenCRRequest\<lparr>oc_target := demo_target, oc_title := ''New'', oc_head := ''feat/y'',
     oc_base := ''main'', oc_idempotency_key := ''k1''\<rparr>"

definition demo_comment :: CommentRequest where
  "demo_comment = zero_CommentRequest\<lparr>cmq_target := demo_target,
     cmq_subject := \<lparr>sr_kind = SubjectChangeRequest, sr_number = SeedCRNumber\<rparr>, cmq_body := ''hi''\<rparr>"

definition demo_merge :: MergeRequest where
  "demo_merge = zero_MergeRequest\<lparr>mg_target := demo_target, mg_number := SeedCRNumber, mg_expected_head_sha := SeedHeadSHA\<rparr>"

lemma demo_full: "reachable fullCapabilities NewFull"
  by (simp add: NewFull_def reachable_new)

lemma demo_repo: "find_repo NewFull demo_target = Some (seedRepo RepoPath False)"
  by (simp add: find_repo_def NewFull_def newCore_def allRepoPaths_def enumerate_eq_zip demo_target_def
    zero_Target_def zero_IdentityRef_def RepoPath_def IdentityID_def)

lemma demo_cr: "map_of (rs_crs (seedRepo RepoPath False)) SeedCRNumber = Some (seed_cr RepoPath)"
  by (simp add: seedRepo_def)

lemma answered: "snd p = Answers v \<Longrightarrow> p = (fst p, Answers v)"
  by (metis prod.collapse)

section \<open>Runs\<close>

text \<open>A comment and a merge: only the state of the merged change request may be another.\<close>

theorem fake_run_history_witness:
  "\<exists>c. acts_run {Merges RepoPath SeedCRNumber} NewFull c \<and> seq c = 1 \<and> wf_core c \<and> evolves NewFull c \<and>
     settles {Merges RepoPath SeedCRNumber} NewFull c"
proof -
  let ?b = "fst (PostComment demo_comment NewFull)"
  let ?c = "fst (MergeChangeRequest demo_merge ?b)"
  have comment: "fake_act {} NewFull ?b" by (rule fake_act.intros)
  have merge: "fake_act {Merges RepoPath SeedCRNumber} ?b ?c"
    using fake_act.intros(14) [of demo_merge ?b] by (simp add: demo_merge_def demo_target_def)
  have run: "acts_run {Merges RepoPath SeedCRNumber} NewFull ?c"
    using acts_run.more [OF acts_run.more [OF acts_run.stop comment] merge] by (simp only: Un_empty_left)
  have "seq ?c = 1" by code_simp
  then show ?thesis using run fake_run_history [OF demo_full run] by blast
qed

theorem open_retry_replays_witness:
  "\<exists>c1. OpenChangeRequest demo_open NewFull = (c1, Answers (new_cr demo_open ''101'')) \<and>
     OpenChangeRequest demo_open (fst (PostComment demo_comment c1)) =
       (fst (PostComment demo_comment c1), Answers (json_ChangeRequest (new_cr demo_open ''101'')))"
proof -
  let ?c1 = "fst (OpenChangeRequest demo_open NewFull)"
  have "snd (OpenChangeRequest demo_open NewFull) = Answers (new_cr demo_open ''101'')" by code_simp
  then have one: "OpenChangeRequest demo_open NewFull = (?c1, Answers (new_cr demo_open ''101''))" by (rule answered)
  have "fake_run ?c1 (fst (PostComment demo_comment ?c1))"
    by (rule fake_run.more [OF fake_run.stop fake_step.PostComment])
  moreover have "cap_idempotent_writes fullCapabilities" "oc_idempotency_key demo_open \<noteq> ''''" by code_simp+
  moreover have "idem NewFull (idemKey ''open'' (oc_idempotency_key demo_open)) = None"
    by (simp add: NewFull_def newCore_def)
  ultimately show ?thesis using open_retry_replays [OF demo_full _ _ _ one] one by blast
qed

definition demo_begin :: BeginAccessRequest where
  "demo_begin = zero_BeginAccessRequest\<lparr>ba_identity := zero_IdentityRef\<lparr>ir_id := IdentityID\<rparr>, ba_callback_url := ''cb''\<rparr>"

definition demo_complete :: CompleteAccessRequest where
  "demo_complete = zero_CompleteAccessRequest\<lparr>ca_identity := zero_IdentityRef\<lparr>ir_id := IdentityID\<rparr>, ca_state := ''grant-1'',
     ca_params := [(''owner'', ''acme'')]\<rparr>"

theorem access_grant_once_witness:
  "let c0 = fst (BeginAccessGrant demo_begin NewFull); c1 = fst (CompleteAccessGrant demo_complete c0);
       c2 = fst (PostComment demo_comment c1)
   in snd (CompleteAccessGrant demo_complete c0) = Answers \<lparr>ag_owner = ''acme''\<rparr> \<and>
      CompleteAccessGrant demo_complete c2 = (c2, fails CodeForbidden ''unknown or already used state'')"
proof -
  let ?c0 = "fst (BeginAccessGrant demo_begin NewFull)" let ?c1 = "fst (CompleteAccessGrant demo_complete ?c0)"
  have a: "snd (CompleteAccessGrant demo_complete ?c0) = Answers \<lparr>ag_owner = ''acme''\<rparr>" by code_simp
  have "fake_run ?c1 (fst (PostComment demo_comment ?c1))"
    by (rule fake_run.more [OF fake_run.stop fake_step.PostComment])
  moreover have "ir_id (ca_identity demo_complete) = IdentityID" by code_simp
  ultimately have "CompleteAccessGrant demo_complete (fst (PostComment demo_comment ?c1)) =
      (fst (PostComment demo_comment ?c1), fails CodeForbidden ''unknown or already used state'')"
    using access_grant_once [OF reachable_step [OF demo_full BeginAccessGrant] answered [OF a]] by blast
  then show ?thesis using a by (simp add: Let_def)
qed

text \<open>
  An idempotency key is not bound to a repository: after a change request was opened on
  \<^verbatim>\<open>acme/web\<close>, the same request with the same key on \<^verbatim>\<open>acme/api\<close> opens nothing there and
  answers the change request of \<^verbatim>\<open>acme/web\<close>.
\<close>

lemma key_crosses_repositories:
  "let c = fst (OpenChangeRequest demo_open NewFull);
       other = demo_open\<lparr>oc_target := demo_target\<lparr>tg_repo := zero_RepoRef\<lparr>rr_full_path := ''acme/api''\<rparr>\<rparr>\<rparr>;
       (c', answer) = OpenChangeRequest other c
   in answer = Answers (json_ChangeRequest (new_cr demo_open ''101'')) \<and>
      map (\<lambda>(path, r). (path, length (rs_crs r))) (repos c') = [(''acme/web'', 2), (''acme/api'', 1), (''tools/docs'', 1)]"
  by code_simp

theorem target_isolation_witness:
  "let c = fst (MergeChangeRequest demo_merge NewFull)
   in map_of (repos c) ''acme/api'' = map_of (repos NewFull) ''acme/api'' \<and> seq c \<in> {0, 1} \<and>
      cr_state (crs_cr (the (map_of (rs_crs (the (find_repo c demo_target))) SeedCRNumber))) = CRMerged"
proof -
  have t: "mg_target demo_merge = demo_target" "rr_full_path (tg_repo demo_target) \<noteq> ''acme/api''" by (simp add: demo_merge_def) code_simp
  have "cr_state (crs_cr (the (map_of (rs_crs (the (find_repo (fst (MergeChangeRequest demo_merge NewFull)) demo_target))) SeedCRNumber))) = CRMerged"
    by code_simp
  moreover have "seq NewFull = 0" by code_simp
  ultimately show ?thesis
    using target_isolation [OF target_step.intros(13) [of demo_merge NewFull]] t by (simp add: Let_def)
qed

section \<open>Change requests\<close>

theorem merge_guarded_witness:
  "\<exists>c'. MergeChangeRequest demo_merge NewFull = (c', Answers \<lparr>mgr_sha = ''merge-abc123''\<rparr>) \<and>
     MergeChangeRequest demo_merge c' = (c', fails CodeConflict ''change request is not open'')"
proof -
  have "snd (MergeChangeRequest demo_merge NewFull) = Answers \<lparr>mgr_sha = ''merge-abc123''\<rparr>" by code_simp
  then have m: "MergeChangeRequest demo_merge NewFull =
      (fst (MergeChangeRequest demo_merge NewFull), Answers \<lparr>mgr_sha = ''merge-abc123''\<rparr>)" by (rule answered)
  have "find_repo NewFull (mg_target demo_merge) = Some (seedRepo RepoPath False)"
    "map_of (rs_crs (seedRepo RepoPath False)) (mg_number demo_merge) = Some (seed_cr RepoPath)"
    using demo_repo demo_cr by (simp_all add: demo_merge_def)
  from merge_guarded [OF this] show ?thesis by (subst (asm) m, subst m) simp
qed

definition demo_update :: UpdateCRRequest where
  "demo_update = zero_UpdateCRRequest\<lparr>uc_target := demo_target, uc_number := SeedCRNumber, uc_title := Some ''Other'',
     uc_state := Some ''merged''\<rparr>"

theorem update_refused_but_applied_witness:
  "fails_with (snd (UpdateChangeRequest demo_update NewFull)) CodeValidation \<and>
   (\<exists>y. snd (GetChangeRequest \<lparr>crq_target = demo_target, crq_number = SeedCRNumber\<rparr>
          (fst (UpdateChangeRequest demo_update NewFull))) = Answers y \<and> cr_title y = ''Other'')"
proof -
  have h: "uc_target demo_update = demo_target" "uc_number demo_update = SeedCRNumber"
    "uc_title demo_update = Some ''Other''" "uc_state demo_update = Some ''merged''"
    "''merged'' \<noteq> CROpen" "''merged'' \<noteq> CRClosed"
    by (simp_all add: demo_update_def wire_consts)
  show ?thesis
    using update_refused_but_applied [of NewFull demo_update "seedRepo RepoPath False" "seed_cr RepoPath" "''Other''" "''merged''"]
      h demo_repo demo_cr by (simp add: case_prod_beta)
qed

definition demo_reopen :: UpdateCRRequest where
  "demo_reopen = zero_UpdateCRRequest\<lparr>uc_target := demo_target, uc_number := SeedCRNumber, uc_state := Some CROpen\<rparr>"

theorem merged_reopens_witness:
  "\<exists>c1 m1 c2 y c3 m2. MergeChangeRequest demo_merge NewFull = (c1, Answers m1) \<and>
     UpdateChangeRequest demo_reopen c1 = (c2, Answers y) \<and> cr_state y = CROpen \<and>
     MergeChangeRequest demo_merge c2 = (c3, Answers m2)"
proof -
  let ?x = "(seed_cr RepoPath)\<lparr>crs_cr := (crs_cr (seed_cr RepoPath))\<lparr>cr_state := CRMerged\<rparr>\<rparr>"
  let ?r = "(seedRepo RepoPath False)\<lparr>rs_crs := AList.update SeedCRNumber ?x (rs_crs (seedRepo RepoPath False))\<rparr>"
  let ?c1 = "put_cr demo_target SeedCRNumber ?x (seedRepo RepoPath False) NewFull"
  have s: "br_sha (cr_head (crs_cr (seed_cr RepoPath))) = SeedHeadSHA" "SeedHeadSHA \<noteq> ''''"
    "cr_state (crs_cr (seed_cr RepoPath)) = CROpen" by (simp_all add: seed_cr_def wire_consts)
  have "MergeChangeRequest demo_merge NewFull = (?c1, Answers \<lparr>mgr_sha = ''merge-'' @ SeedHeadSHA\<rparr>)"
    using s by (simp add: MergeChangeRequest_def demo_merge_def with_cr_found [OF demo_repo demo_cr])
  moreover have "demo_merge = \<lparr>mg_target = uc_target demo_reopen, mg_number = uc_number demo_reopen, mg_method = '''',
      mg_expected_head_sha = br_sha (cr_head (crs_cr ?x))\<rparr>"
    using s by (simp add: demo_merge_def demo_reopen_def zero_MergeRequest_def)
  moreover have "find_repo ?c1 (uc_target demo_reopen) = Some ?r" "map_of (rs_crs ?r) (uc_number demo_reopen) = Some ?x"
    using find_put_cr [OF demo_repo] by (simp_all add: demo_reopen_def AList.update_conv')
  ultimately show ?thesis
    using merged_reopens [of ?c1 demo_reopen ?r ?x] s
    by (simp add: demo_reopen_def)
qed

section \<open>Branches, webhooks, comments\<close>

text \<open>A keyed creation, its retry, and another creation with the same key.\<close>

definition demo_branches :: "CreateBranchRequest list" where
  "demo_branches =
     [\<lparr>cb_target = demo_target, cb_name = ''feat/y'', cb_from = ''main'', cb_idempotency_key = ''b1''\<rparr>,
      \<lparr>cb_target = demo_target, cb_name = ''feat/y'', cb_from = ''main'', cb_idempotency_key = ''b1''\<rparr>,
      \<lparr>cb_target = demo_target, cb_name = ''feat/z'', cb_from = ''main'', cb_idempotency_key = ''b1''\<rparr>]"

theorem create_branches_safe_witness:
  "branch_of demo_target NewFull ''main'' = Some ''base000'' \<and>
   (let c = fold (\<lambda>q c. fst (CreateBranch q c)) demo_branches NewFull
    in branch_of demo_target NewFull \<subseteq>\<^sub>m branch_of demo_target c \<and>
       branch_of demo_target c ''feat/y'' = Some ''base000'' \<and> branch_of demo_target c ''feat/z'' = None \<and>
       dom (branch_of demo_target c) \<subseteq> dom (branch_of demo_target NewFull) \<union> cb_name ` set demo_branches)"
proof -
  have "branch_of demo_target NewFull ''main'' = Some ''base000''" by code_simp
  moreover have "branch_of demo_target (fold (\<lambda>q c. fst (CreateBranch q c)) demo_branches NewFull) ''feat/y'' = Some ''base000''"
    by code_simp
  moreover have "branch_of demo_target (fold (\<lambda>q c. fst (CreateBranch q c)) demo_branches NewFull) ''feat/z'' = None"
    by code_simp
  ultimately show ?thesis
    using create_branches_safe [OF demo_full, of demo_target demo_branches] by (simp only: Let_def)
qed

definition demo_hook :: EnsureWebhookRequest where
  "demo_hook = \<lparr>ew_target = demo_target, ew_url = ''https://paca.test/hook''\<rparr>"

section \<open>Reads\<close>

theorem changed_files_complete_witness:
  "length (crs_files (seed_cr RepoPath)) = 3 \<and>
   fetch_pages 4 (files_page demo_target SeedCRNumber NewFull) '''' = Some (crs_files (seed_cr RepoPath))"
proof -
  have l: "length (crs_files (seed_cr RepoPath)) = 3" by (simp add: seed_cr_def)
  then show ?thesis using changed_files_complete [OF demo_repo demo_cr] by (simp add: small_def eval_nat_numeral)
qed

lemma mset_single: "mset xs = mset [x] \<Longrightarrow> xs = [x]"
  by simp

theorem list_issues_complete_witness:
  "\<exists>items. fetch_pages (Suc (length items)) (issues_page demo_target '''' NewFull) '''' = Some items \<and>
     map iss_number items = [''7'']"
proof -
  have "small (length (rs_issues (seedRepo RepoPath False)))" by (simp add: seedRepo_def small_def)
  from list_issues_complete [OF demo_repo _ this, of "''''"] obtain items where
    i: "fetch_pages (Suc (length items)) (issues_page demo_target '''' NewFull) '''' = Some items"
    "mset items = mset (filter (\<lambda>i. '''' = ''all'' \<or> iss_state i = (if '''' = '''' then ''open'' else ''''))
       (map snd (rs_issues (seedRepo RepoPath False))))"
    by (metis insertI1)
  have "map iss_number (filter (\<lambda>i. '''' = ''all'' \<or> iss_state i = (if '''' = '''' then ''open'' else ''''))
      (map snd (rs_issues (seedRepo RepoPath False)))) = [''7'']"
    by (simp add: seedRepo_def)
  note seven = this
  have "mset (map iss_number items) = mset [''7'']" unfolding mset_map i(2) unfolding mset_map [symmetric] seven ..
  then have "map iss_number items = [''7'']" by (rule mset_single)
  with i(1) show ?thesis by (intro exI [of _ items] conjI)
qed

theorem diff_within_budget_witness:
  "\<exists>d. snd (GetDiff \<lparr>dr_target = demo_target, dr_number = SeedCRNumber, dr_path = '''', dr_max_bytes = 12\<rparr> NewFull) = Answers d \<and>
     df_text d = ''diff --git a'' \<and> df_truncated d \<and> valid_utf8 (df_text d)"
proof -
  let ?q = "\<lparr>dr_target = demo_target, dr_number = SeedCRNumber, dr_path = '''', dr_max_bytes = 12\<rparr>"
  have "snd (GetDiff ?q NewFull) = Answers \<lparr>df_text = ''diff --git a'', df_truncated = True\<rparr>" by code_simp
  then show ?thesis using diff_within_budget [OF demo_full, of ?q] demo_repo demo_cr by simp
qed

definition demo_mint :: MintRequest where
  "demo_mint = \<lparr>mr_target = demo_target, mr_access = AccessWrite, mr_ttl_seconds = 9223372037\<rparr>"

theorem minted_credentials_witness:
  "let c1 = fst (MintCredential 0 demo_mint NewFull)
   in \<exists>d d2. snd (MintCredential 0 demo_mint NewFull) = Answers d \<and> snd (MintCredential 5 demo_mint c1) = Answers d2 \<and>
      cd_expires_at d \<le> hour \<and> cd_secret d \<noteq> cd_secret d2"
proof -
  let ?c1 = "fst (MintCredential 0 demo_mint NewFull)"
  let ?d = "\<lparr>cd_username = ''x-access-token'', cd_secret = ''tok-write-1'', cd_expires_at = tenMinutes\<rparr>"
  let ?d2 = "\<lparr>cd_username = ''x-access-token'', cd_secret = ''tok-write-2'', cd_expires_at = 5 + tenMinutes\<rparr>"
  have "snd (MintCredential 0 demo_mint NewFull) = Answers ?d" "snd (MintCredential 5 demo_mint ?c1) = Answers ?d2"
    "cap_credential_model fullCapabilities \<noteq> CredentialStatic" by code_simp+
  then show ?thesis
    using minted_credentials [OF demo_full _ answered fake_run.stop answered, of 0 demo_mint ?d 5 demo_mint ?d2]
    by (simp add: Let_def)
qed

definition demo_payload :: fakeHook where
  "demo_payload = \<lparr>fh_delivery = ''d1'', fh_type = ''comment'', fh_action = ''created'', fh_repo = RepoPath,
     fh_subject = ''change_request'', fh_number = ''1'', fh_actor = ''octocat'', fh_actor_kind = '''',
     fh_text = ''ping @Paca-Bot, a@paca-bot'', fh_path = '''', fh_line = 0, fh_thread = '''', fh_comment = '''', fh_head_ref = '''',
     fh_head_sha = '''', fh_base = '''', fh_draft = False, fh_label = '''', fh_check = '''', fh_created = False,
     fh_deleted = False, fh_conclusion = '''', fh_requested = '''', fh_assignee = ''''\<rparr>"

definition demo_delivery :: WebhookRequest where
  "demo_delivery = \<lparr>wr_identity = zero_IdentityRef, wr_method = ''POST'', wr_headers = [(''x-fake-signature'', ''sha256=2a'')],
     wr_query = [], wr_body = ''body''\<rparr>"

theorem webhook_trusted_witness:
  "let mac = (\<lambda>key body. ''*''); parse = (\<lambda>body. Some demo_payload)
   in \<exists>ev. snd (VerifyAndParseWebhook mac parse demo_delivery NewFull) = Answers [ev] \<and> ev_kind ev = EventComment \<and>
      map ad_via (ev_addressed ev) = [ViaMention] \<and> (\<forall>a \<in> {a. a \<in> set (ev_addressed ev)}. addressed_ok fullCapabilities demo_payload a)"
proof -
  let ?r = "VerifyAndParseWebhook (\<lambda>key body. ''*'') (\<lambda>body. Some demo_payload) demo_delivery NewFull"
  have "case snd ?r of Answers [ev] \<Rightarrow> ev_kind ev = EventComment \<and> map ad_via (ev_addressed ev) = [ViaMention] | _ \<Rightarrow> False"
    by code_simp
  moreover have "caps NewFull = fullCapabilities" by (simp add: NewFull_def)
  ultimately show ?thesis
    using webhook_trusted [of demo_delivery "\<lambda>key body. ''*''" "\<lambda>body. Some demo_payload" NewFull]
    by (auto simp: Let_def split: reply.splits list.splits)
qed

end
