(* ===== verification/Routing.thy ===== *)
theory Routing
  imports GoStrings
begin

text \<open>
  \<^verbatim>\<open>context.go\<close>: the registration tables of a \<^verbatim>\<open>Context\<close>, the matching of a request
  path against the registered route patterns, and what the winner of the match is.
\<close>

section \<open>The registration tables\<close>

record route_key =
  rk_method :: string
  rk_path :: string

text \<open>
  The handlers are functions of the plugin, so their types are parameters.  The
  code ranges over \<^verbatim>\<open>routes\<close> only; that map is the association list of its entries
  in the order of one run.  \<open>backends\<close> stands for the six service helpers
  (\<^verbatim>\<open>db\<close>, \<^verbatim>\<open>kv\<close>, \<^verbatim>\<open>cache\<close>, \<^verbatim>\<open>log\<close>, \<^verbatim>\<open>cfg\<close>, \<^verbatim>\<open>perm\<close>) the context hands out unchanged.
\<close>

record ('rh, 'eh, 'ch, 'ah, 'b) plugin_context =
  routes :: "(route_key \<times> 'rh) list"
  events :: "string \<rightharpoonup> 'eh"
  conditions :: "string \<rightharpoonup> 'ch"
  actions :: "string \<rightharpoonup> 'ah"
  backends :: 'b

definition newContext :: "'b \<Rightarrow> ('rh, 'eh, 'ch, 'ah, 'b) plugin_context" where
  "newContext b =
     \<lparr>routes = [], events = Map.empty, conditions = Map.empty, actions = Map.empty, backends = b\<rparr>"

definition Route ::
    "(string \<Rightarrow> string) \<Rightarrow> string \<Rightarrow> string \<Rightarrow> 'rh \<Rightarrow>
     ('rh, 'eh, 'ch, 'ah, 'b) plugin_context \<Rightarrow> ('rh, 'eh, 'ch, 'ah, 'b) plugin_context" where
  "Route uc method path handler c =
     c\<lparr>routes := AList.update \<lparr>rk_method = to_upper uc method, rk_path = path\<rparr> handler (routes c)\<rparr>"

definition On :: "string \<Rightarrow> 'eh \<Rightarrow> ('rh, 'eh, 'ch, 'ah, 'b) plugin_context \<Rightarrow> ('rh, 'eh, 'ch, 'ah, 'b) plugin_context" where
  "On topic handler c = c\<lparr>events := (events c)(topic \<mapsto> handler)\<rparr>"

definition Condition :: "string \<Rightarrow> 'ch \<Rightarrow> ('rh, 'eh, 'ch, 'ah, 'b) plugin_context \<Rightarrow> ('rh, 'eh, 'ch, 'ah, 'b) plugin_context" where
  "Condition nodeType handler c = c\<lparr>conditions := (conditions c)(nodeType \<mapsto> handler)\<rparr>"

definition Action :: "string \<Rightarrow> 'ah \<Rightarrow> ('rh, 'eh, 'ch, 'ah, 'b) plugin_context \<Rightarrow> ('rh, 'eh, 'ch, 'ah, 'b) plugin_context" where
  "Action nodeType handler c = c\<lparr>actions := (actions c)(nodeType \<mapsto> handler)\<rparr>"

text \<open>The keys of the route table stay distinct, as the keys of a Go map are.\<close>

definition wf_context :: "('rh, 'eh, 'ch, 'ah, 'b) plugin_context \<Rightarrow> bool" where
  "wf_context c \<longleftrightarrow> distinct (map fst (routes c))"

section \<open>Matching one pattern\<close>

definition splitPathSegments :: "string \<Rightarrow> string list" where
  "splitPathSegments path =
     (let trimmed = trim_char CHR ''/'' path
      in if trimmed = '''' then [] else split trimmed ''/'')"

definition is_param :: "string \<Rightarrow> bool" where
  "is_param seg \<longleftrightarrow> has_prefix seg '':''"

definition routeSpecificity :: "string \<Rightarrow> int" where
  "routeSpecificity pattern =
     (let segments = splitPathSegments pattern;
          segments' = (if 2 \<le> length segments \<and> segments ! 0 = ''projects'' \<and> is_param (segments ! 1)
                       then drop 2 segments else segments)
      in int (length (filter (\<lambda>seg. \<not> is_param seg) segments')))"

definition splitProjectPath :: "string \<Rightarrow> (string \<times> string) option" where
  "splitProjectPath path =
     (let trimmed = trim_char CHR ''/'' path
      in if trimmed = '''' then None
         else let segments = split trimmed ''/''
              in if length segments < 2 \<or> segments ! 0 \<noteq> ''projects'' then None
                 else if length segments = 2 then Some (segments ! 1, ''/'')
                 else Some (segments ! 1, ''/'' @ join (drop 2 segments) ''/''))"

fun match_segments :: "string list \<Rightarrow> string list \<Rightarrow> (string \<rightharpoonup> string) \<Rightarrow> (string \<rightharpoonup> string) option" where
  "match_segments (pat # pats) (seg # segs) params =
     (if is_param pat then
        (let name = trim_prefix pat '':''
         in if name = '''' then None else match_segments pats segs (params(name \<mapsto> seg)))
      else if pat \<noteq> seg then None
      else match_segments pats segs params)"
| "match_segments _ _ params = Some params"

definition matchRoutePattern :: "string \<Rightarrow> string \<Rightarrow> (string \<rightharpoonup> string) option" where
  "matchRoutePattern pattern path =
     (let patternSegments = splitPathSegments pattern; pathSegments = splitPathSegments path
      in if length patternSegments \<noteq> length pathSegments then None
         else match_segments patternSegments pathSegments Map.empty)"

section \<open>Choosing among the registered patterns\<close>

text \<open>The variables the closure \<^verbatim>\<open>consider\<close> of \<^verbatim>\<open>matchRoute\<close> updates.\<close>

record 'rh best =
  bestHandler :: "'rh option"
  bestParams :: "string \<rightharpoonup> string"
  bestSpecificity :: int
  found :: bool

definition consider_pattern :: "string \<Rightarrow> string \<Rightarrow> 'rh \<Rightarrow> string \<Rightarrow> bool \<Rightarrow> 'rh best \<Rightarrow> 'rh best" where
  "consider_pattern projectID pattern handler tryPath withProjectID b =
     (case matchRoutePattern pattern tryPath of
        None \<Rightarrow> b
      | Some params \<Rightarrow>
          (let specificity = routeSpecificity pattern
           in if specificity \<le> bestSpecificity b then b
              else \<lparr>bestHandler = Some handler,
                    bestParams = (if withProjectID then params(''projectId'' \<mapsto> projectID) else params),
                    bestSpecificity = specificity, found = True\<rparr>))"

definition consider_entry ::
    "(string \<times> string) option \<Rightarrow> string \<Rightarrow> string \<Rightarrow> route_key \<times> 'rh \<Rightarrow> 'rh best \<Rightarrow> 'rh best" where
  "consider_entry scope method path entry b =
     (let (key, handler) = entry
      in if rk_method key \<noteq> method then b
         else (let b1 = consider_pattern '''' (rk_path key) handler path False b
               in (case scope of
                     None \<Rightarrow> b1
                   | Some (projectID, relativePath) \<Rightarrow>
                       consider_pattern projectID (rk_path key) handler relativePath True b1)))"

definition no_match :: "'rh best" where
  "no_match = \<lparr>bestHandler = None, bestParams = Map.empty, bestSpecificity = -1, found = False\<rparr>"

definition matchRoute ::
    "(string \<Rightarrow> string) \<Rightarrow> ('rh, 'eh, 'ch, 'ah, 'b) plugin_context \<Rightarrow> string \<Rightarrow> string \<Rightarrow>
     ('rh \<times> (string \<rightharpoonup> string)) option" where
  "matchRoute uc c method0 path =
     (let method = to_upper uc method0
      in case map_of (routes c) \<lparr>rk_method = method, rk_path = path\<rparr> of
           Some handler \<Rightarrow> Some (handler, Map.empty)
         | None \<Rightarrow>
             (let b = fold (consider_entry (splitProjectPath path) method path) (routes c) no_match
              in case bestHandler b of
                   Some h \<Rightarrow> if found b then Some (h, bestParams b) else None
                 | None \<Rightarrow> None))"

section \<open>Paths written from their segments\<close>

definition ok_seg :: "string \<Rightarrow> bool" where
  "ok_seg s \<longleftrightarrow> s \<noteq> '''' \<and> CHR ''/'' \<notin> set s"

definition path_of :: "string list \<Rightarrow> string" where
  "path_of segs = ''/'' @ join segs ''/''"

lemma join_hd: "xs \<noteq> [] \<Longrightarrow> ok_seg (hd xs) \<Longrightarrow> hd (join xs sep) = hd (hd xs)"
  by (induction xs sep rule: join.induct) (auto simp: ok_seg_def)

lemma join_last:
  "xs \<noteq> [] \<Longrightarrow> ok_seg (last xs) \<Longrightarrow> join xs sep \<noteq> [] \<and> last (join xs sep) = last (last xs)"
  by (induction xs sep rule: join.induct) (auto simp: ok_seg_def)

lemma trim_char_id: "s \<noteq> [] \<Longrightarrow> hd s \<noteq> c \<Longrightarrow> last s \<noteq> c \<Longrightarrow> trim_char c s = s"
proof -
  assume s: "s \<noteq> []" "hd s \<noteq> c" "last s \<noteq> c"
  then have "dropWhile (\<lambda>x. x = c) s = s" "dropWhile (\<lambda>x. x = c) (rev s) = rev s"
    by (simp_all add: dropWhile_eq_self_iff hd_rev)
  then show ?thesis by (simp add: trim_char_def)
qed

lemma trim_char_Cons: "trim_char c (c # s) = trim_char c s"
  by (simp add: trim_char_def)

lemma trim_path_of:
  assumes "xs \<noteq> []" "\<forall>x \<in> set xs. ok_seg x"
  shows "trim_char CHR ''/'' (path_of xs) = join xs ''/''"
proof -
  have "ok_seg (hd xs)" "ok_seg (last xs)" using assms by auto
  then have "hd (join xs ''/'') = hd (hd xs)" "join xs ''/'' \<noteq> []"
    "last (join xs ''/'') = last (last xs)"
    using assms(1) join_hd join_last by blast+
  moreover have "hd (hd xs) \<noteq> CHR ''/''" "last (last xs) \<noteq> CHR ''/''"
    using \<open>ok_seg (hd xs)\<close> \<open>ok_seg (last xs)\<close>
    by (metis hd_in_set ok_seg_def, metis last_in_set ok_seg_def)
  ultimately show ?thesis
    by (simp add: path_of_def trim_char_Cons trim_char_id)
qed

lemma splitPathSegments_path_of:
  assumes "\<forall>x \<in> set xs. ok_seg x"
  shows "splitPathSegments (path_of xs) = xs"
proof (cases "xs = []")
  case True
  then show ?thesis by (simp add: splitPathSegments_def path_of_def trim_char_def)
next
  case False
  then have "join xs ''/'' \<noteq> []" using assms join_last [of xs "''/''"] by auto
  then show ?thesis
    using False assms by (simp add: splitPathSegments_def trim_path_of split_join ok_seg_def)
qed

lemma splitProjectPath_path_of:
  assumes "ok_seg pid" "\<forall>x \<in> set xs. ok_seg x"
  shows "splitProjectPath (path_of (''projects'' # pid # xs)) = Some (pid, path_of xs)"
proof -
  define s where "s = ''projects'' # pid # xs"
  have ok: "\<forall>x \<in> set s. ok_seg x" "s \<noteq> []" using assms by (auto simp: ok_seg_def s_def)
  have "trim_char CHR ''/'' (path_of s) = join s ''/''" "join s ''/'' \<noteq> []"
    "split (join s ''/'') ''/'' = s"
    using ok trim_path_of join_last [of s "''/''"]
    by (auto simp: ok_seg_def intro!: split_join)
  then have "splitProjectPath (path_of s) =
      (if length s = 2 then Some (s ! 1, ''/'') else Some (s ! 1, ''/'' @ join (drop 2 s) ''/''))"
    by (simp add: splitProjectPath_def s_def)
  then show ?thesis by (cases xs) (simp_all add: s_def path_of_def)
qed

section \<open>What a successful match of one pattern means\<close>

text \<open>The text a pattern segment stands for under a binding of the parameters.\<close>

definition subst_seg :: "(string \<rightharpoonup> string) \<Rightarrow> string \<Rightarrow> string option" where
  "subst_seg ps seg = (if is_param seg then ps (trim_prefix seg '':'') else Some seg)"

definition param_names :: "string list \<Rightarrow> string list" where
  "param_names segs = map (\<lambda>s. trim_prefix s '':'') (filter is_param segs)"

lemma param_names_simps [simp]:
  "param_names [] = []"
  "param_names (s # ss) = (if is_param s then trim_prefix s '':'' # param_names ss else param_names ss)"
  by (simp_all add: param_names_def)

lemma match_segments_params:
  "match_segments pats segs params = Some ps \<Longrightarrow> length pats = length segs \<Longrightarrow>
     '''' \<notin> set (param_names pats) \<and> dom ps = dom params \<union> set (param_names pats) \<and>
     (\<forall>k. k \<notin> set (param_names pats) \<longrightarrow> ps k = params k)"
proof (induction pats segs params arbitrary: ps rule: match_segments.induct)
  case (1 pat pats seg segs params)
  show ?case
  proof (cases "is_param pat")
    case True
    let ?n = "trim_prefix pat '':''"
    have m: "match_segments pats segs (params(?n \<mapsto> seg)) = Some ps" and ne: "?n \<noteq> ''''"
      using True "1.prems"(1) by (auto simp: Let_def split: if_splits)
    show ?thesis
      using "1.IH"(1) [OF True refl ne m] "1.prems"(2) True ne by auto
  next
    case False
    then have "pat = seg" and m: "match_segments pats segs params = Some ps"
      using "1.prems"(1) by (auto split: if_splits)
    then show ?thesis using "1.IH"(2) [OF False _ m] "1.prems"(2) False by simp
  qed
qed auto

lemma match_segments_sound:
  "match_segments pats segs params = Some ps \<Longrightarrow> length pats = length segs \<Longrightarrow>
     distinct (param_names pats) \<Longrightarrow> map (subst_seg ps) pats = map Some segs"
proof (induction pats segs params arbitrary: ps rule: match_segments.induct)
  case (1 pat pats seg segs params)
  show ?case
  proof (cases "is_param pat")
    case True
    let ?n = "trim_prefix pat '':''"
    have m: "match_segments pats segs (params(?n \<mapsto> seg)) = Some ps" and ne: "?n \<noteq> ''''"
      using True "1.prems"(1) by (auto simp: Let_def split: if_splits)
    have "ps ?n = Some seg"
      using match_segments_params [OF m] "1.prems" True by auto
    then show ?thesis
      using "1.IH"(1) [OF True refl ne m] "1.prems" True by (simp add: subst_seg_def)
  next
    case False
    then have "pat = seg" and m: "match_segments pats segs params = Some ps"
      using "1.prems"(1) by (auto split: if_splits)
    then show ?thesis
      using "1.IH"(2) [OF False _ m] "1.prems" False by (simp add: subst_seg_def)
  qed
qed auto

lemma match_segments_complete:
  "map (subst_seg ps) pats = map Some segs \<Longrightarrow> '''' \<notin> set (param_names pats) \<Longrightarrow>
     \<exists>qs. match_segments pats segs params = Some qs \<and>
       (\<forall>k. qs k = (if k \<in> set (param_names pats) then ps k else params k))"
proof (induction pats segs params rule: match_segments.induct)
  case (1 pat pats seg segs params)
  have rest: "map (subst_seg ps) pats = map Some segs" "subst_seg ps pat = Some seg"
    using "1.prems"(1) by simp_all
  show ?case
  proof (cases "is_param pat")
    case True
    let ?n = "trim_prefix pat '':''"
    have "?n \<noteq> ''''" "'''' \<notin> set (param_names pats)" "ps ?n = Some seg"
      using "1.prems"(2) rest(2) True by (auto simp: subst_seg_def)
    then obtain qs where q: "match_segments pats segs (params(?n \<mapsto> seg)) = Some qs"
      "\<forall>k. qs k = (if k \<in> set (param_names pats) then ps k else (params(?n \<mapsto> seg)) k)"
      using "1.IH"(1) [OF True refl _ rest(1)] by blast
    have "match_segments (pat # pats) (seg # segs) params = Some qs"
      using True \<open>?n \<noteq> ''''\<close> q(1) by (simp add: Let_def)
    moreover have "\<forall>k. qs k = (if k \<in> set (param_names (pat # pats)) then ps k else params k)"
      using True q(2) \<open>ps ?n = Some seg\<close> by simp
    ultimately show ?thesis by blast
  next
    case False
    then have "pat = seg" "'''' \<notin> set (param_names pats)"
      using "1.prems"(2) rest(2) by (auto simp: subst_seg_def)
    with "1.IH"(2) [OF False _ rest(1)] False show ?thesis by auto
  qed
qed auto

lemma matchRoutePattern_length:
  "matchRoutePattern pattern path = Some ps \<Longrightarrow>
     length (splitPathSegments pattern) = length (splitPathSegments path)"
  by (auto simp: matchRoutePattern_def Let_def split: if_splits)

section \<open>What the loop over the routes computes\<close>

text \<open>
  The ways the registered patterns of a method serve a path, each with its
  specificity, in the order \<^verbatim>\<open>matchRoute\<close> considers them.
\<close>

definition direct_match :: "string \<Rightarrow> 'rh \<Rightarrow> string \<Rightarrow> (int \<times> 'rh \<times> (string \<rightharpoonup> string)) list" where
  "direct_match pattern h path =
     (case matchRoutePattern pattern path of
        None \<Rightarrow> [] | Some ps \<Rightarrow> [(routeSpecificity pattern, h, ps)])"

definition scoped_match ::
    "(string \<times> string) option \<Rightarrow> string \<Rightarrow> 'rh \<Rightarrow> (int \<times> 'rh \<times> (string \<rightharpoonup> string)) list" where
  "scoped_match scope pattern h =
     (case scope of
        None \<Rightarrow> []
      | Some (pid, rel) \<Rightarrow>
          map (\<lambda>(n, h, ps). (n, h, ps(''projectId'' \<mapsto> pid))) (direct_match pattern h rel))"

definition candidates ::
    "string \<Rightarrow> string \<Rightarrow> (route_key \<times> 'rh) list \<Rightarrow> (int \<times> 'rh \<times> (string \<rightharpoonup> string)) list" where
  "candidates method path rs =
     concat (map (\<lambda>(key, h).
       if rk_method key \<noteq> method then []
       else direct_match (rk_path key) h path @
            scoped_match (splitProjectPath path) (rk_path key) h) rs)"

text \<open>Keeping the best so far: a later candidate must be strictly more specific.\<close>

fun keep_best :: "int \<times> 'rh \<times> (string \<rightharpoonup> string) \<Rightarrow> 'rh best \<Rightarrow> 'rh best" where
  "keep_best (n, h, ps) b =
     (if n \<le> bestSpecificity b then b
      else \<lparr>bestHandler = Some h, bestParams = ps, bestSpecificity = n, found = True\<rparr>)"

lemma consider_direct:
  "consider_pattern pid pattern h path False b = fold keep_best (direct_match pattern h path) b"
  by (simp add: consider_pattern_def direct_match_def Let_def split: option.split)

lemma consider_scoped:
  "consider_pattern pid pattern h rel True b = fold keep_best (scoped_match (Some (pid, rel)) pattern h) b"
  by (simp add: consider_pattern_def scoped_match_def direct_match_def Let_def split: option.split)

lemma fold_consider_entry:
  "fold (consider_entry (splitProjectPath path) method path) rs b =
     fold keep_best (candidates method path rs) b"
proof (induction rs arbitrary: b)
  case Nil
  then show ?case by (simp add: candidates_def)
next
  case (Cons e rs)
  obtain key h where e: "e = (key, h)" by (cases e)
  have "consider_entry (splitProjectPath path) method path e b =
      fold keep_best (candidates method path [e]) b"
    by (cases "splitProjectPath path")
       (auto simp: e consider_entry_def candidates_def consider_direct consider_scoped
          scoped_match_def [of None] Let_def)
  then show ?case using Cons.IH by (simp add: candidates_def)
qed

text \<open>The loop ends with the first candidate of the greatest specificity.\<close>

definition best_inv :: "(int \<times> 'rh \<times> (string \<rightharpoonup> string)) list \<Rightarrow> 'rh best \<Rightarrow> bool" where
  "best_inv cs b \<longleftrightarrow>
     (if cs = [] then b = no_match
      else \<exists>h. bestHandler b = Some h \<and> found b \<and>
             (bestSpecificity b, h, bestParams b) \<in> set cs \<and>
             (\<forall>(n, h', ps') \<in> set cs. n \<le> bestSpecificity b))"

lemma best_inv_step: "best_inv cs b \<Longrightarrow> 0 \<le> fst c \<Longrightarrow> best_inv (cs @ [c]) (keep_best c b)"
  by (cases c) (force simp: best_inv_def no_match_def split: if_splits)

lemma best_inv_fold:
  "best_inv ds b \<Longrightarrow> \<forall>c \<in> set cs. 0 \<le> fst c \<Longrightarrow> best_inv (ds @ cs) (fold keep_best cs b)"
proof (induction cs arbitrary: ds b)
  case (Cons c cs)
  then show ?case using best_inv_step [of ds b c] Cons.IH [of "ds @ [c]" "keep_best c b"] by simp
qed simp

lemma routeSpecificity_nonneg: "0 \<le> routeSpecificity pattern"
  by (simp add: routeSpecificity_def Let_def)

lemma candidates_nonneg: "c \<in> set (candidates method path rs) \<Longrightarrow> 0 \<le> fst c"
  by (auto simp: candidates_def direct_match_def scoped_match_def routeSpecificity_nonneg
      split: if_splits option.splits)

lemma loop_best_inv:
  "best_inv (candidates method path rs)
     (fold (consider_entry (splitProjectPath path) method path) rs no_match)"
proof -
  have "best_inv ([] @ candidates method path rs) (fold keep_best (candidates method path rs) no_match)"
    by (rule best_inv_fold) (auto simp: best_inv_def dest: candidates_nonneg)
  then show ?thesis by (simp add: fold_consider_entry)
qed

section \<open>The declarative reading of a match\<close>

text \<open>
  \<open>serves rs method path h ps n\<close>: a pattern registered for \<open>method\<close> with handler \<open>h\<close>
  and specificity \<open>n\<close> matches the path, or matches what follows the project scope
  of the path, and binds the parameters \<open>ps\<close>.
\<close>

definition serves ::
    "(route_key \<times> 'rh) list \<Rightarrow> string \<Rightarrow> string \<Rightarrow> 'rh \<Rightarrow> (string \<rightharpoonup> string) \<Rightarrow> int \<Rightarrow> bool" where
  "serves rs method path h ps n \<longleftrightarrow>
     (\<exists>pattern. (\<lparr>rk_method = method, rk_path = pattern\<rparr>, h) \<in> set rs \<and> n = routeSpecificity pattern \<and>
        (matchRoutePattern pattern path = Some ps \<or>
         (\<exists>pid rel qs. splitProjectPath path = Some (pid, rel) \<and>
            matchRoutePattern pattern rel = Some qs \<and> ps = qs(''projectId'' \<mapsto> pid))))"

lemma mem_direct_match:
  "(n, h, ps) \<in> set (direct_match pattern h0 path) \<longleftrightarrow>
     h = h0 \<and> n = routeSpecificity pattern \<and> matchRoutePattern pattern path = Some ps"
  by (auto simp: direct_match_def split: option.split)

lemma mem_scoped_match:
  "(n, h, ps) \<in> set (scoped_match scope pattern h0) \<longleftrightarrow>
     (\<exists>pid rel qs. scope = Some (pid, rel) \<and> h = h0 \<and> n = routeSpecificity pattern \<and>
        matchRoutePattern pattern rel = Some qs \<and> ps = qs(''projectId'' \<mapsto> pid))"
proof (cases scope)
  case (Some sc)
  then show ?thesis
    by (cases "matchRoutePattern pattern (snd sc)")
       (auto simp: scoped_match_def direct_match_def fun_upd_def split: prod.split)
qed (simp add: scoped_match_def)

lemma ex_key_iff:
  "(\<exists>key h0. (key, h0) \<in> A \<and> rk_method key = method \<and> Q (rk_path key) h0) \<longleftrightarrow>
   (\<exists>pattern h0. (\<lparr>rk_method = method, rk_path = pattern\<rparr>, h0) \<in> A \<and> Q pattern h0)"
proof
  assume "\<exists>key h0. (key, h0) \<in> A \<and> rk_method key = method \<and> Q (rk_path key) h0"
  then obtain key h0 where k: "(key, h0) \<in> A" "rk_method key = method" "Q (rk_path key) h0" by blast
  then have "key = \<lparr>rk_method = method, rk_path = rk_path key\<rparr>" by simp
  with k show "\<exists>pattern h0. (\<lparr>rk_method = method, rk_path = pattern\<rparr>, h0) \<in> A \<and> Q pattern h0"
    by metis
qed fastforce

lemma candidates_serves: "(n, h, ps) \<in> set (candidates method path rs) \<longleftrightarrow> serves rs method path h ps n"
proof -
  let ?Q = "\<lambda>pattern h0. (n, h, ps) \<in> set (direct_match pattern h0 path @
              scoped_match (splitProjectPath path) pattern h0)"
  have "(n, h, ps) \<in> set (candidates method path rs) \<longleftrightarrow>
      (\<exists>key h0. (key, h0) \<in> set rs \<and> rk_method key = method \<and> ?Q (rk_path key) h0)"
    unfolding candidates_def by (auto split: if_splits)
  also have "\<dots> \<longleftrightarrow> (\<exists>pattern h0. (\<lparr>rk_method = method, rk_path = pattern\<rparr>, h0) \<in> set rs \<and> ?Q pattern h0)"
    by (rule ex_key_iff)
  also have "\<dots> \<longleftrightarrow> serves rs method path h ps n"
    unfolding serves_def set_append Un_iff mem_direct_match mem_scoped_match by blast
  finally show ?thesis .
qed

lemma best_inv_found: "best_inv cs b \<Longrightarrow> found b \<longleftrightarrow> cs \<noteq> []"
  by (auto simp: best_inv_def no_match_def)

lemma best_inv_handler: "best_inv cs b \<Longrightarrow> bestHandler b = None \<longleftrightarrow> cs = []"
  by (auto simp: best_inv_def no_match_def split: if_splits)

lemma Nil_iff_no_triple: "xs = [] \<longleftrightarrow> (\<forall>h ps n. (n, h, ps) \<notin> set xs)"
  by (cases xs) auto

lemma matchRoute_exact:
  "map_of (routes c) \<lparr>rk_method = to_upper uc method, rk_path = path\<rparr> = Some h \<Longrightarrow>
     matchRoute uc c method path = Some (h, Map.empty)"
  by (simp add: matchRoute_def)

lemma matchRoute_loop:
  assumes "map_of (routes c) \<lparr>rk_method = to_upper uc method, rk_path = path\<rparr> = None"
  shows "matchRoute uc c method path =
    (let cs = candidates (to_upper uc method) path (routes c); b = fold keep_best cs no_match
     in if cs = [] then None else Some (the (bestHandler b), bestParams b))"
proof -
  let ?cs = "candidates (to_upper uc method) path (routes c)"
  have inv: "best_inv ?cs (fold keep_best ?cs no_match)"
    using loop_best_inv [of "to_upper uc method" path "routes c"] by (simp add: fold_consider_entry)
  then show ?thesis
    using assms best_inv_found [OF inv] best_inv_handler [OF inv]
    by (auto simp: matchRoute_def Let_def fold_consider_entry split: option.split)
qed

lemma matchRoute_best:
  assumes "matchRoute uc c method path = Some (h, ps)"
    and "map_of (routes c) \<lparr>rk_method = to_upper uc method, rk_path = path\<rparr> = None"
  shows "\<exists>n. serves (routes c) (to_upper uc method) path h ps n \<and>
    (\<forall>h' ps' n'. serves (routes c) (to_upper uc method) path h' ps' n' \<longrightarrow> n' \<le> n)"
proof -
  let ?cs = "candidates (to_upper uc method) path (routes c)"
  let ?b = "fold keep_best ?cs no_match"
  have "best_inv ?cs ?b"
    using loop_best_inv [of "to_upper uc method" path "routes c"] by (simp add: fold_consider_entry)
  moreover have "?cs \<noteq> []" "h = the (bestHandler ?b)" "ps = bestParams ?b"
    using assms by (auto simp: matchRoute_loop Let_def split: if_splits)
  ultimately have "(bestSpecificity ?b, h, ps) \<in> set ?cs"
    and "\<forall>(n, h', ps') \<in> set ?cs. n \<le> bestSpecificity ?b"
    by (auto simp: best_inv_def)
  then show ?thesis unfolding candidates_serves [symmetric] by blast
qed

lemma matchRoute_None:
  "matchRoute uc c method path = None \<longleftrightarrow>
     map_of (routes c) \<lparr>rk_method = to_upper uc method, rk_path = path\<rparr> = None \<and>
     (\<forall>h ps n. \<not> serves (routes c) (to_upper uc method) path h ps n)"
proof (cases "map_of (routes c) \<lparr>rk_method = to_upper uc method, rk_path = path\<rparr>")
  case None
  have "candidates (to_upper uc method) path (routes c) = [] \<longleftrightarrow>
      (\<forall>h ps n. \<not> serves (routes c) (to_upper uc method) path h ps n)"
    unfolding candidates_serves [symmetric] by (rule Nil_iff_no_triple)
  with None show ?thesis by (simp add: matchRoute_loop Let_def)
qed (simp add: matchRoute_exact)

text \<open>A pattern that matches the request, whatever its handler.\<close>

definition matching_pattern :: "(route_key \<times> 'rh) list \<Rightarrow> string \<Rightarrow> string \<Rightarrow> string \<Rightarrow> bool" where
  "matching_pattern rs method path pattern \<longleftrightarrow>
     \<lparr>rk_method = method, rk_path = pattern\<rparr> \<in> fst ` set rs \<and>
     (matchRoutePattern pattern path \<noteq> None \<or>
      (\<exists>pid rel. splitProjectPath path = Some (pid, rel) \<and> matchRoutePattern pattern rel \<noteq> None))"

text \<open>A pattern cannot match both the whole path and what follows its project scope.\<close>

lemma splitProjectPath_shorter:
  assumes "splitProjectPath path = Some (pid, rel)"
  shows "length (splitPathSegments rel) < length (splitPathSegments path)"
proof -
  let ?segs = "split (trim_char CHR ''/'' path) ''/''"
  have segs: "2 \<le> length ?segs" "splitPathSegments path = ?segs"
    and rel: "rel = (if length ?segs = 2 then ''/'' else ''/'' @ join (drop 2 ?segs) ''/'')"
    using assms by (auto simp: splitProjectPath_def splitPathSegments_def Let_def split: if_splits)
  show ?thesis
  proof (cases "length ?segs = 2")
    case True
    then show ?thesis using rel segs by (simp add: splitPathSegments_def trim_char_def)
  next
    case False
    let ?r = "drop 2 ?segs"
    have ne: "?r \<noteq> []" using False segs by auto
    have "split (join ?r ''/'') ''/'' = ?r"
      using ne by (intro split_join) (auto dest!: in_set_dropD dest: split_char_parts)
    then have "Suc (count_list (join ?r ''/'') CHR ''/'') = length ?r"
      using length_split_char [of "join ?r ''/''" "CHR ''/''"] by simp
    then have "length (splitPathSegments rel) \<le> length ?r"
      using False rel ne count_list_trim_char [of "CHR ''/''" "join ?r ''/''" "CHR ''/''"]
      by (auto simp: splitPathSegments_def trim_char_Cons length_split_char Let_def)
    then show ?thesis using segs False by simp
  qed
qed

lemma match_not_both:
  "splitProjectPath path = Some (pid, rel) \<Longrightarrow> matchRoutePattern pattern path = Some ps \<Longrightarrow>
     matchRoutePattern pattern rel = None"
  using splitProjectPath_shorter [of path pid rel] matchRoutePattern_length [of pattern path]
    matchRoutePattern_length [of pattern rel]
  by (cases "matchRoutePattern pattern rel") auto

text \<open>The binding one pattern gives a request is unique.\<close>

definition pattern_binds :: "string \<Rightarrow> string \<Rightarrow> (string \<rightharpoonup> string) \<Rightarrow> bool" where
  "pattern_binds pattern path ps \<longleftrightarrow>
     matchRoutePattern pattern path = Some ps \<or>
     (\<exists>pid rel qs. splitProjectPath path = Some (pid, rel) \<and>
        matchRoutePattern pattern rel = Some qs \<and> ps = qs(''projectId'' \<mapsto> pid))"

lemma pattern_binds_unique: "pattern_binds p path ps \<Longrightarrow> pattern_binds p path ps' \<Longrightarrow> ps = ps'"
  unfolding pattern_binds_def using match_not_both [of path _ _ p] by fastforce

lemma serves_pattern:
  "serves rs method path h ps n \<Longrightarrow>
     \<exists>p. (\<lparr>rk_method = method, rk_path = p\<rparr>, h) \<in> set rs \<and> n = routeSpecificity p \<and>
       pattern_binds p path ps \<and> matching_pattern rs method path p"
  unfolding serves_def pattern_binds_def matching_pattern_def by force

lemma serves_same_pattern:
  assumes wf: "distinct (map fst rs)"
    and one: "\<forall>p q. matching_pattern rs m path p \<and> matching_pattern rs m path q \<and>
                 routeSpecificity p = routeSpecificity q \<longrightarrow> p = q"
    and "serves rs m path h ps n" "serves rs m path h' ps' n"
  shows "h = h' \<and> ps = ps'"
proof -
  obtain p where p: "(\<lparr>rk_method = m, rk_path = p\<rparr>, h) \<in> set rs" "n = routeSpecificity p"
      "pattern_binds p path ps" "matching_pattern rs m path p"
    using serves_pattern [OF assms(3)] by blast
  obtain q where q: "(\<lparr>rk_method = m, rk_path = q\<rparr>, h') \<in> set rs" "n = routeSpecificity q"
      "pattern_binds q path ps'" "matching_pattern rs m path q"
    using serves_pattern [OF assms(4)] by blast
  have "p = q" using one p q by metis
  then show ?thesis
    using p q eq_key_imp_eq_value [OF wf] pattern_binds_unique by blast
qed

lemma serves_cong: "set rs = set rs' \<Longrightarrow> serves rs = serves rs'"
  by (intro ext) (simp add: serves_def)

section \<open>Properties of the router\<close>

text \<open>
  C1: a route found by pattern is a most specific one.  When no route is registered
  under the literal request path, the handler and the parameters \<^verbatim>\<open>matchRoute\<close>
  returns come from a registered pattern of the method that matches the path (or what
  follows its project scope), and no other pattern that matches has more literal
  segments; and when a pattern matches at all, some route is returned.
\<close>

theorem matchRoute_most_specific:
  assumes "map_of (routes c) \<lparr>rk_method = to_upper uc method, rk_path = path\<rparr> = None"
  shows "case matchRoute uc c method path of
      None \<Rightarrow> \<not> (\<exists>h ps n. serves (routes c) (to_upper uc method) path h ps n)
    | Some (h, ps) \<Rightarrow>
        \<exists>n. serves (routes c) (to_upper uc method) path h ps n \<and>
          (\<forall>h' ps' n'. serves (routes c) (to_upper uc method) path h' ps' n' \<longrightarrow> n' \<le> n)"
  using matchRoute_best [OF _ assms] matchRoute_None [of uc c "method" path]
  by (auto split: option.split)

text \<open>A route table with a literal and a parameterised pattern of the same length.\<close>

definition task_routes :: "(nat, unit, unit, unit, unit) plugin_context" where
  "task_routes = (newContext ())\<lparr>routes :=
     [(\<lparr>rk_method = ''GET'', rk_path = ''/tasks/:taskId''\<rparr>, 1), (\<lparr>rk_method = ''GET'', rk_path = ''/tasks/all''\<rparr>, 2)]\<rparr>"

theorem matchRoute_most_specific_witness:
  "\<exists>ps n. serves (routes task_routes) ''GET'' ''/tasks/all/'' 2 ps n \<and>
     (\<forall>h' ps' n'. serves (routes task_routes) ''GET'' ''/tasks/all/'' h' ps' n' \<longrightarrow> n' \<le> n)"
proof -
  have up: "to_upper id ''get'' = ''GET''" by code_simp
  have "map_option fst (matchRoute id task_routes ''get'' ''/tasks/all/'') = Some 2" by code_simp
  then obtain ps where "matchRoute id task_routes ''get'' ''/tasks/all/'' = Some (2, ps)" by auto
  moreover have "map_of (routes task_routes) \<lparr>rk_method = to_upper id ''get'', rk_path = ''/tasks/all/''\<rparr> = None"
    by (simp add: up) code_simp
  ultimately show ?thesis
    using matchRoute_most_specific [of task_routes id "''get''" "''/tasks/all/''"] up by auto
qed

text \<open>
  C2: the answer of \<^verbatim>\<open>matchRoute\<close> does not depend on the order in which Go visits the
  route table, provided no two patterns that match the request are equally specific.
  This is the determinism the comment on \<^verbatim>\<open>matchRoute\<close> promises, with the condition
  under which the code keeps the promise.
\<close>

theorem matchRoute_order_independent:
  assumes "same_entries (routes c) (routes c')"
    and "\<forall>p q. matching_pattern (routes c) (to_upper uc method) path p \<and>
               matching_pattern (routes c) (to_upper uc method) path q \<and>
               routeSpecificity p = routeSpecificity q \<longrightarrow> p = q"
  shows "matchRoute uc c method path = matchRoute uc c' method path"
proof -
  let ?m = "to_upper uc method" and ?k = "\<lparr>rk_method = to_upper uc method, rk_path = path\<rparr>"
  have look: "map_of (routes c) = map_of (routes c')" and sv: "serves (routes c) = serves (routes c')"
    and wf: "distinct (map fst (routes c))"
    using assms(1) same_entries_map_of same_entries_set serves_cong
    by (blast, blast, simp add: same_entries_def)
  show ?thesis
  proof (cases "map_of (routes c) ?k")
    case None
    show ?thesis
    proof (cases "matchRoute uc c method path")
      case None
      then have "matchRoute uc c' method path = None"
        unfolding matchRoute_None using look sv by simp
      then show ?thesis using None by simp
    next
      case (Some r)
      then obtain h ps where r: "matchRoute uc c method path = Some (h, ps)" by (cases r) auto
      then obtain h' ps' where r': "matchRoute uc c' method path = Some (h', ps')"
        using matchRoute_None [of uc c "method" path] matchRoute_None [of uc c' "method" path] look sv
        by fastforce
      obtain n where n: "serves (routes c) ?m path h ps n"
          "\<forall>h' ps' n'. serves (routes c) ?m path h' ps' n' \<longrightarrow> n' \<le> n"
        using matchRoute_best [OF r None] by blast
      obtain n' where n': "serves (routes c) ?m path h' ps' n'"
          "\<forall>h ps n. serves (routes c) ?m path h ps n \<longrightarrow> n \<le> n'"
        using matchRoute_best [OF r'] None look sv by auto
      have "n = n'" using n n' by (meson order_antisym)
      then show ?thesis using serves_same_pattern [OF wf assms(2) n(1)] n'(1) r r' by simp
    qed
  qed (simp add: matchRoute_exact look)
qed

theorem matchRoute_order_independent_witness:
  "map_option fst (matchRoute id (task_routes\<lparr>routes := rev (routes task_routes)\<rparr>) ''get'' ''/tasks/all/'') = Some 2"
proof -
  have up: "to_upper id ''get'' = ''GET''" by code_simp
  have se: "same_entries (routes task_routes) (routes (task_routes\<lparr>routes := rev (routes task_routes)\<rparr>))"
    by (auto simp: same_entries_def task_routes_def newContext_def)
  have one: "p = ''/tasks/:taskId'' \<or> p = ''/tasks/all''"
    if "matching_pattern (routes task_routes) ''GET'' path p" for p path
    using that by (auto simp: matching_pattern_def task_routes_def newContext_def)
  have spec: "routeSpecificity ''/tasks/:taskId'' = 1" "routeSpecificity ''/tasks/all'' = 2"
    by code_simp+
  have "matchRoute id task_routes ''get'' ''/tasks/all/'' =
      matchRoute id (task_routes\<lparr>routes := rev (routes task_routes)\<rparr>) ''get'' ''/tasks/all/''"
  proof (intro matchRoute_order_independent [OF se] allI impI, unfold up, elim conjE)
    fix p q
    assume "matching_pattern (routes task_routes) ''GET'' ''/tasks/all/'' p"
      "matching_pattern (routes task_routes) ''GET'' ''/tasks/all/'' q"
      "routeSpecificity p = routeSpecificity q"
    then show "p = q" using one [of _ p] one [of _ q] spec by fastforce
  qed
  moreover have "map_option fst (matchRoute id task_routes ''get'' ''/tasks/all/'') = Some 2" by code_simp
  ultimately show ?thesis by simp
qed

text \<open>
  C3: the promise fails without that condition.  \<^verbatim>\<open>/a/:x\<close> and \<^verbatim>\<open>/:y/b\<close> are equally
  specific and both match \<^verbatim>\<open>/a/b\<close>; the handler that answers is the one Go's
  unspecified map order happens to visit first.
\<close>

theorem matchRoute_tie_depends_on_order:
  "\<exists>(c :: (nat, unit, unit, unit, unit) plugin_context)
      (c' :: (nat, unit, unit, unit, unit) plugin_context).
     same_entries (routes c) (routes c') \<and>
     map_option fst (matchRoute id c ''GET'' ''/a/b'') = Some 1 \<and>
     map_option fst (matchRoute id c' ''GET'' ''/a/b'') = Some 2"
proof -
  let ?r1 = "(\<lparr>rk_method = ''GET'', rk_path = ''/a/:x''\<rparr>, 1::nat)"
  let ?r2 = "(\<lparr>rk_method = ''GET'', rk_path = ''/:y/b''\<rparr>, 2::nat)"
  let ?c = "\<lambda>rs. (newContext ())\<lparr>routes := rs\<rparr> :: (nat, unit, unit, unit, unit) plugin_context"
  have "map_option fst (matchRoute id (?c [?r1, ?r2]) ''GET'' ''/a/b'') = Some 1"
    "map_option fst (matchRoute id (?c [?r2, ?r1]) ''GET'' ''/a/b'') = Some 2"
    by code_simp+
  moreover have "same_entries (routes (?c [?r1, ?r2])) (routes (?c [?r2, ?r1]))"
    by (auto simp: same_entries_def)
  ultimately show ?thesis
    by blast
qed

text \<open>
  C4: a pattern matches exactly the paths it describes, and binds exactly its
  parameters.  For a pattern with distinct, non-empty parameter names, a match with
  bindings \<open>ps\<close> means that \<open>ps\<close> is defined on those names only and that substituting
  it into the pattern's segments gives the request's segments; conversely every such
  substitution is found again.
\<close>

theorem matchRoutePattern_iff:
  assumes "\<forall>x \<in> set pats. ok_seg x" and "\<forall>x \<in> set segs. ok_seg x"
    and "distinct (param_names pats)" and "'''' \<notin> set (param_names pats)"
  shows "matchRoutePattern (path_of pats) (path_of segs) = Some ps \<longleftrightarrow>
    dom ps = set (param_names pats) \<and> map (subst_seg ps) pats = map Some segs"
proof -
  have m: "matchRoutePattern (path_of pats) (path_of segs) =
      (if length pats = length segs then match_segments pats segs Map.empty else None)"
    using assms by (simp add: matchRoutePattern_def splitPathSegments_path_of Let_def)
  show ?thesis
  proof
    assume "matchRoutePattern (path_of pats) (path_of segs) = Some ps"
    then have "match_segments pats segs Map.empty = Some ps" "length pats = length segs"
      by (auto simp: m split: if_splits)
    then show "dom ps = set (param_names pats) \<and> map (subst_seg ps) pats = map Some segs"
      using match_segments_params [of pats segs Map.empty ps]
        match_segments_sound [of pats segs Map.empty ps] assms(3) by simp
  next
    assume r: "dom ps = set (param_names pats) \<and> map (subst_seg ps) pats = map Some segs"
    then obtain qs where q: "match_segments pats segs Map.empty = Some qs"
      "\<forall>k. qs k = (if k \<in> set (param_names pats) then ps k else Map.empty k)"
      using match_segments_complete [of ps pats segs Map.empty] assms(4) by blast
    have "ps k = None" if "k \<notin> set (param_names pats)" for k using r that by blast
    then have "qs = ps" using q(2) by (simp add: fun_eq_iff)
    moreover have "length pats = length segs" using r by (metis length_map)
    ultimately show "matchRoutePattern (path_of pats) (path_of segs) = Some ps"
      using q(1) m by simp
  qed
qed

theorem matchRoutePattern_iff_witness:
  "matchRoutePattern (path_of [''tasks'', '':taskId'']) (path_of [''tasks'', ''t-1'']) =
     Some [''taskId'' \<mapsto> ''t-1'']"
proof -
  have names: "param_names [''tasks'', '':taskId''] = [''taskId'']"
    by (simp add: param_names_def is_param_def has_prefix_def trim_prefix_def)
  show ?thesis
    using matchRoutePattern_iff [of "[''tasks'', '':taskId'']" "[''tasks'', ''t-1'']" "[''taskId'' \<mapsto> ''t-1'']"]
    by (simp add: names ok_seg_def subst_seg_def is_param_def has_prefix_def trim_prefix_def)
qed

text \<open>
  Project scope.  A plugin that registers only a relative pattern still serves the
  host's project-scoped path: the handler is found and the project id of the path is
  bound to \<^verbatim>\<open>projectId\<close> beside the pattern's own parameters.
\<close>

theorem matchRoute_project_scope:
  assumes "ok_seg pid" and "\<forall>x \<in> set segs. ok_seg x"
    and "matchRoutePattern pattern (path_of segs) = Some ps"
  shows "matchRoute uc (Route uc method pattern h (newContext b)) method
           (path_of (''projects'' # pid # segs)) = Some (h, ps(''projectId'' \<mapsto> pid))"
proof -
  let ?path = "path_of (''projects'' # pid # segs)" and ?m = "to_upper uc method"
  have scope: "splitProjectPath ?path = Some (pid, path_of segs)"
    using assms by (simp add: splitProjectPath_path_of)
  have "matchRoutePattern pattern ?path = None"
    using match_not_both [OF scope] assms(3) by (cases "matchRoutePattern pattern ?path") auto
  then have c: "candidates ?m ?path [(\<lparr>rk_method = ?m, rk_path = pattern\<rparr>, h)] =
      [(routeSpecificity pattern, h, ps(''projectId'' \<mapsto> pid))]"
    using assms(3) scope by (simp add: candidates_def direct_match_def scoped_match_def fun_upd_def)
  have "length (splitPathSegments pattern) = length segs"
    "length (splitPathSegments ?path) = length segs + 2"
    using assms matchRoutePattern_length [OF assms(3)]
    by (simp_all add: splitPathSegments_path_of ok_seg_def)
  then have "pattern \<noteq> ?path" by force
  then show ?thesis
    using routeSpecificity_nonneg [of pattern]
    by (subst matchRoute_loop) (auto simp: Route_def newContext_def c no_match_def Let_def)
qed

end
