(* ===== verification/PluginDispatch.thy ===== *)
theory PluginDispatch
  imports Routing Automation
begin

text \<open>
  \<^verbatim>\<open>dispatch.go\<close>, \<^verbatim>\<open>testing.go\<close>, \<^verbatim>\<open>plugin.go\<close>: how a host call reaches a plugin's handler, in
  production and in a plugin's unit tests.  What handlers, \<^verbatim>\<open>Init\<close> and \<^verbatim>\<open>Shutdown\<close> do beyond
  their arguments they do to a world of type \<open>'w\<close>; each may panic, which nothing on the way
  recovers.  A handler does not register routes of its own.
\<close>

section \<open>Plugins\<close>

type_synonym 'w RouteHandler = "Request \<Rightarrow> Response \<Rightarrow> 'w \<Rightarrow> ('w \<times> Response) outcome"
type_synonym 'w EventHandler = "PluginEvent \<Rightarrow> 'w \<Rightarrow> 'w outcome"
type_synonym 'w ConditionHandler = "ConditionRequest \<Rightarrow> 'w \<Rightarrow> ('w \<times> ConditionResult) outcome"
type_synonym 'w ActionHandler = "ActionRequest \<Rightarrow> 'w \<Rightarrow> ('w \<times> ActionResult) outcome"

type_synonym ('w, 'b) ctx =
  "('w RouteHandler, 'w EventHandler, 'w ConditionHandler, 'w ActionHandler, 'b) plugin_context"

text \<open>\<^verbatim>\<open>Init\<close> registers on the context it is given; an error is its text.\<close>

record ('w, 'b) Plugin =
  pl_Init :: "('w, 'b) ctx \<Rightarrow> 'w \<Rightarrow> ('w \<times> ('w, 'b) ctx \<times> string option) outcome"
  pl_Shutdown :: "'w \<Rightarrow> 'w outcome"

record ('w, 'b) dispatcher =
  ds_plugin :: "('w, 'b) Plugin"
  ds_ctx :: "('w, 'b) ctx option"
  ds_initted :: bool

definition newDispatcher :: "('w, 'b) Plugin \<Rightarrow> ('w, 'b) dispatcher" where
  "newDispatcher p = \<lparr>ds_plugin = p, ds_ctx = None, ds_initted = False\<rparr>"

text \<open>\<open>b\<close> is the set of host backends a fresh context gets.\<close>

definition dispatcher_init ::
    "'b \<Rightarrow> ('w, 'b) dispatcher \<Rightarrow> 'w \<Rightarrow> ('w \<times> ('w, 'b) dispatcher \<times> string option) outcome" where
  "dispatcher_init b d w =
     (if ds_initted d then Returned (w, d, None)
      else bind_outcome (pl_Init (ds_plugin d) (newContext b) w) (\<lambda>(w', c, err).
        Returned (w', d\<lparr>ds_ctx := Some c, ds_initted := (err = None)\<rparr>, err)))"

section \<open>Requests\<close>

record hostRequest =
  hr_Method :: string
  hr_Path :: string
  hr_PathParams :: "(string \<times> string) list"
  hr_Query :: "(string \<times> string) list"
  hr_ProjectID :: string
  hr_CallerID :: string
  hr_UserID :: string
  hr_CallerRole :: string
  hr_Headers :: "(string \<times> string) list"
  hr_Body :: bytes

definition zero_hostRequest :: hostRequest where
  "zero_hostRequest = \<lparr>hr_Method = '''', hr_Path = '''', hr_PathParams = [], hr_Query = [], hr_ProjectID = '''',
     hr_CallerID = '''', hr_UserID = '''', hr_CallerRole = '''', hr_Headers = [], hr_Body = []\<rparr>"

definition d_hostRequest :: "hostRequest decoder" where [codec]:
  "d_hostRequest = d_struct
    [(''method'', fld d_str hr_Method (\<lambda>y. hr_Method_update (\<lambda>_. y))),
     (''path'', fld d_str hr_Path (\<lambda>y. hr_Path_update (\<lambda>_. y))),
     (''path_params'', fld d_map hr_PathParams (\<lambda>y. hr_PathParams_update (\<lambda>_. y))),
     (''query'', fld d_map hr_Query (\<lambda>y. hr_Query_update (\<lambda>_. y))),
     (''project_id'', fld d_str hr_ProjectID (\<lambda>y. hr_ProjectID_update (\<lambda>_. y))),
     (''caller_id'', fld d_str hr_CallerID (\<lambda>y. hr_CallerID_update (\<lambda>_. y))),
     (''user_id'', fld d_str hr_UserID (\<lambda>y. hr_UserID_update (\<lambda>_. y))),
     (''caller_role'', fld d_str hr_CallerRole (\<lambda>y. hr_CallerRole_update (\<lambda>_. y))),
     (''headers'', fld d_map hr_Headers (\<lambda>y. hr_Headers_update (\<lambda>_. y))),
     (''body'', fld d_bytes hr_Body (\<lambda>y. hr_Body_update (\<lambda>_. y)))]"

text \<open>
  The library's part of a host call: \<open>up\<close> is \<^verbatim>\<open>strings.ToUpper\<close> beyond ASCII, \<open>json_error\<close>
  the text of the error \<^verbatim>\<open>json.Unmarshal\<close> returns for a payload it rejects.
\<close>

definition request_of :: "(string \<Rightarrow> string) \<Rightarrow> hostRequest \<Rightarrow> Request" where
  "request_of up hr = \<lparr>req_Method = to_upper up (hr_Method hr), req_Path = hr_Path hr,
     req_PathParams = map_of (hr_PathParams hr), req_Query = map_of (hr_Query hr), req_Headers = map_of (hr_Headers hr),
     req_Body = hr_Body hr,
     req_Caller = \<lparr>ci_CallerID = hr_CallerID hr, ci_UserID = hr_UserID hr, ci_CallerRole = hr_CallerRole hr,
                   ci_ProjectID = hr_ProjectID hr\<rparr>\<rparr>"

text \<open>Parameters the host sent win over those the pattern binds.\<close>

definition with_params :: "(string \<rightharpoonup> string) \<Rightarrow> Request \<Rightarrow> Request" where
  "with_params matched req = req\<lparr>req_PathParams := fill_missing matched (req_PathParams req)\<rparr>"

text \<open>
  What every host call does before its handler: initialise, answer with the error if that
  failed, else go on with the context.
\<close>

definition with_init ::
    "'b \<Rightarrow> ('w, 'b) dispatcher \<Rightarrow> 'w \<Rightarrow> (string \<Rightarrow> 'r) \<Rightarrow> (('w, 'b) ctx \<Rightarrow> 'w \<Rightarrow> ('w \<times> 'r) outcome) \<Rightarrow>
     ('w \<times> ('w, 'b) dispatcher \<times> 'r) outcome" where
  "with_init b d w failed k =
     bind_outcome (dispatcher_init b d w) (\<lambda>(w1, d1, err).
       case err of
         Some text \<Rightarrow> Returned (w1, d1, failed text)
       | None \<Rightarrow>
           (case ds_ctx d1 of
              None \<Rightarrow> Panicked
            | Some c \<Rightarrow> bind_outcome (k c w1) (\<lambda>(w2, r). Returned (w2, d1, r))))"

definition handleRequest ::
    "(string \<Rightarrow> string) \<Rightarrow> (bytes \<Rightarrow> string) \<Rightarrow> 'b \<Rightarrow> bytes \<Rightarrow> ('w, 'b) dispatcher \<Rightarrow> 'w \<Rightarrow>
     ('w \<times> ('w, 'b) dispatcher \<times> bytes) outcome" where
  "handleRequest up json_error b payload d w =
     (case unmarshal zero_hostRequest d_hostRequest payload of
        None \<Rightarrow> Returned (w, d, errorResponse 400 (''bad request payload: '' @ json_error payload))
      | Some hr \<Rightarrow>
          with_init b d w (\<lambda>text. errorResponse 500 (''plugin init failed: '' @ text)) (\<lambda>c w1.
            let req = request_of up hr
            in case matchRoute up c (req_Method req) (req_Path req) of
                 None \<Rightarrow> Returned (w1, errorResponse 404 (''no handler for '' @ req_Method req @ '' '' @ req_Path req))
               | Some (handler, matched) \<Rightarrow>
                   bind_outcome (handler (with_params matched req) NewResponse w1) (\<lambda>(w2, res).
                     Returned (w2, marshalResponse res))))"

definition handleEvent ::
    "'b \<Rightarrow> string \<Rightarrow> bytes \<Rightarrow> ('w, 'b) dispatcher \<Rightarrow> 'w \<Rightarrow> ('w \<times> ('w, 'b) dispatcher \<times> unit) outcome" where
  "handleEvent b topic payload d w =
     with_init b d w (\<lambda>text. ()) (\<lambda>c w1.
       case events c topic of
         None \<Rightarrow> Returned (w1, ())
       | Some handler \<Rightarrow>
           bind_outcome (handler \<lparr>evt_Topic = topic, evt_Payload = payload\<rparr> w1) (\<lambda>w2. Returned (w2, ())))"

definition condition_error :: "string \<Rightarrow> bytes" where
  "condition_error msg = marshalConditionResult \<lparr>cr_Matched = False, cr_Error = msg\<rparr>"

definition evaluateCondition ::
    "(bytes \<Rightarrow> string) \<Rightarrow> 'b \<Rightarrow> bytes \<Rightarrow> ('w, 'b) dispatcher \<Rightarrow> 'w \<Rightarrow> ('w \<times> ('w, 'b) dispatcher \<times> bytes) outcome" where
  "evaluateCondition json_error b payload d w =
     (case unmarshal zero_ConditionRequest d_ConditionRequest payload of
        None \<Rightarrow> Returned (w, d, condition_error (''bad request payload: '' @ json_error payload))
      | Some req \<Rightarrow>
          with_init b d w (\<lambda>text. condition_error (''plugin init failed: '' @ text)) (\<lambda>c w1.
            case conditions c (cnd_NodeType req) of
              None \<Rightarrow> Returned (w1, condition_error (''no condition handler registered for node type '' @ cnd_NodeType req))
            | Some handler \<Rightarrow> bind_outcome (handler req w1) (\<lambda>(w2, res). Returned (w2, marshalConditionResult res))))"

definition action_error :: "string \<Rightarrow> bytes" where
  "action_error msg = marshalActionResult \<lparr>ar_Applied = False, ar_Error = msg\<rparr>"

definition runAction ::
    "(bytes \<Rightarrow> string) \<Rightarrow> 'b \<Rightarrow> bytes \<Rightarrow> ('w, 'b) dispatcher \<Rightarrow> 'w \<Rightarrow> ('w \<times> ('w, 'b) dispatcher \<times> bytes) outcome" where
  "runAction json_error b payload d w =
     (case unmarshal zero_ActionRequest d_ActionRequest payload of
        None \<Rightarrow> Returned (w, d, action_error (''bad request payload: '' @ json_error payload))
      | Some req \<Rightarrow>
          with_init b d w (\<lambda>text. action_error (''plugin init failed: '' @ text)) (\<lambda>c w1.
            case actions c (act_NodeType req) of
              None \<Rightarrow> Returned (w1, action_error (''no action handler registered for node type '' @ act_NodeType req))
            | Some handler \<Rightarrow> bind_outcome (handler req w1) (\<lambda>(w2, res). Returned (w2, marshalActionResult res))))"

section \<open>Dispatch in unit tests\<close>

definition DispatchRoute ::
    "(string \<Rightarrow> string) \<Rightarrow> ('w, 'b) ctx \<Rightarrow> string \<Rightarrow> string \<Rightarrow> Request \<Rightarrow> Response \<Rightarrow> 'w \<Rightarrow> ('w \<times> Response \<times> bool) outcome" where
  "DispatchRoute up c meth path req res w =
     (case matchRoute up c meth path of
        None \<Rightarrow> Returned (w, Response_Error 404 (''no handler for '' @ meth @ '' '' @ path) res, False)
      | Some (handler, matched) \<Rightarrow>
          bind_outcome (handler (with_params matched req) res w) (\<lambda>(w', res'). Returned (w', res', True)))"

definition DispatchEvent :: "('w, 'b) ctx \<Rightarrow> string \<Rightarrow> bytes \<Rightarrow> 'w \<Rightarrow> ('w \<times> bool) outcome" where
  "DispatchEvent c topic payload w =
     (case events c topic of
        None \<Rightarrow> Returned (w, False)
      | Some handler \<Rightarrow> bind_outcome (handler \<lparr>evt_Topic = topic, evt_Payload = payload\<rparr> w) (\<lambda>w'. Returned (w', True)))"

definition DispatchCondition :: "('w, 'b) ctx \<Rightarrow> ConditionRequest \<Rightarrow> 'w \<Rightarrow> ('w \<times> ConditionResult \<times> bool) outcome" where
  "DispatchCondition c req w =
     (case conditions c (cnd_NodeType req) of
        None \<Rightarrow> Returned (w, zero_ConditionResult, False)
      | Some handler \<Rightarrow> bind_outcome (handler req w) (\<lambda>(w', res). Returned (w', res, True)))"

definition DispatchAction :: "('w, 'b) ctx \<Rightarrow> ActionRequest \<Rightarrow> 'w \<Rightarrow> ('w \<times> ActionResult \<times> bool) outcome" where
  "DispatchAction c req w =
     (case actions c (act_NodeType req) of
        None \<Rightarrow> Returned (w, zero_ActionResult, False)
      | Some handler \<Rightarrow> bind_outcome (handler req w) (\<lambda>(w', res). Returned (w', res, True)))"

end
