(* ===== verification/PluginFacts.thy ===== *)
theory PluginFacts
  imports PluginDispatch
begin

text \<open>
  What the host and a plugin's author can rely on: a plugin is initialised once, its
  handlers are those that initialisation registered, a malformed payload never reaches the
  plugin, the response the host reads is the one the handler wrote, and the dispatch of the
  unit tests is that of production.
\<close>

section \<open>Runs of host calls\<close>

datatype host_call = Request_call bytes | Event_call string bytes | Condition_call bytes | Action_call bytes

text \<open>One exported call; an event returns nothing.\<close>

fun host_step ::
    "(string \<Rightarrow> string) \<Rightarrow> (bytes \<Rightarrow> string) \<Rightarrow> 'b \<Rightarrow> host_call \<Rightarrow> ('w, 'b) dispatcher \<Rightarrow> 'w \<Rightarrow>
     ('w \<times> ('w, 'b) dispatcher \<times> bytes) outcome" where
  "host_step up je b (Request_call payload) d w = handleRequest up je b payload d w"
| "host_step up je b (Event_call topic payload) d w =
     bind_outcome (handleEvent b topic payload d w) (\<lambda>(w', d', u). Returned (w', d', []))"
| "host_step up je b (Condition_call payload) d w = evaluateCondition je b payload d w"
| "host_step up je b (Action_call payload) d w = runAction je b payload d w"

inductive host_run ::
    "(string \<Rightarrow> string) \<Rightarrow> (bytes \<Rightarrow> string) \<Rightarrow> 'b \<Rightarrow> ('w, 'b) dispatcher \<times> 'w \<Rightarrow> ('w, 'b) dispatcher \<times> 'w \<Rightarrow> bool"
  for up je b where
  stop: "host_run up je b s s"
| call: "host_run up je b s (d, w) \<Longrightarrow> host_step up je b call d w = Returned (w', d', out) \<Longrightarrow> host_run up je b s (d', w')"

text \<open>How a call changes the dispatcher: not at all, or by initialising.\<close>

definition init_moves :: "'b \<Rightarrow> ('w, 'b) dispatcher \<Rightarrow> ('w, 'b) dispatcher \<Rightarrow> bool" where
  "init_moves b d d' \<longleftrightarrow> d' = d \<or>
     \<not> ds_initted d \<and> (\<exists>w0 w1 c err. pl_Init (ds_plugin d) (newContext b) w0 = Returned (w1, c, err) \<and>
        d' = d\<lparr>ds_ctx := Some c, ds_initted := (err = None)\<rparr>)"

lemma init_moves_refl [simp]: "init_moves b d d"
  by (simp add: init_moves_def)

lemma dispatcher_init_moves: "dispatcher_init b d w = Returned (w1, d1, err) \<Longrightarrow> init_moves b d d1"
  unfolding dispatcher_init_def init_moves_def
  by (force simp: bind_outcome_eq_Returned split: if_splits)

lemma dispatcher_init_ok: "dispatcher_init b d w = Returned (w1, d1, None) \<Longrightarrow> ds_initted d1"
  unfolding dispatcher_init_def by (auto simp: bind_outcome_eq_Returned split: if_splits)

lemma with_init_moves: "with_init b d w failed k = Returned (w', d', out) \<Longrightarrow> init_moves b d d'"
proof -
  assume a: "with_init b d w failed k = Returned (w', d', out)"
  then obtain w1 d1 err where i: "dispatcher_init b d w = Returned (w1, d1, err)"
    unfolding with_init_def by (auto simp: bind_outcome_eq_Returned)
  then have "d' = d1" using a unfolding with_init_def by (auto simp: bind_outcome_eq_Returned split: option.splits)
  then show ?thesis using dispatcher_init_moves [OF i] by simp
qed

lemmas host_calls_def = handleRequest_def handleEvent_def evaluateCondition_def runAction_def

lemma host_step_moves: "host_step up je b call d w = Returned (w', d', out) \<Longrightarrow> init_moves b d d'"
  by (cases call) (auto simp: host_calls_def bind_outcome_eq_Returned intro: with_init_moves split: option.splits)

text \<open>The context of an initialised dispatcher is what one successful \<^verbatim>\<open>Init\<close> made.\<close>

definition dispatcher_inv :: "'b \<Rightarrow> ('w, 'b) Plugin \<Rightarrow> ('w, 'b) dispatcher \<Rightarrow> bool" where
  "dispatcher_inv b p d \<longleftrightarrow> ds_plugin d = p \<and>
     (ds_initted d \<longrightarrow> (\<exists>w0 w1 c. pl_Init p (newContext b) w0 = Returned (w1, c, None) \<and> ds_ctx d = Some c))"

lemma init_moves_inv: "init_moves b d d' \<Longrightarrow> dispatcher_inv b p d \<Longrightarrow> dispatcher_inv b p d'"
  unfolding init_moves_def dispatcher_inv_def by fastforce

lemma init_moves_stable: "init_moves b d d' \<Longrightarrow> ds_initted d \<Longrightarrow> d' = d"
  by (auto simp: init_moves_def)

lemma host_run_inv:
  assumes "host_run up je b s s'" "dispatcher_inv b p (fst s)"
  shows "dispatcher_inv b p (fst s')"
  using assms by (induction rule: host_run.induct) (auto intro: init_moves_inv host_step_moves)

lemma host_run_stable:
  assumes "host_run up je b s s'" "ds_initted (fst s)"
  shows "fst s' = fst s"
  using assms
proof (induction rule: host_run.induct)
  case (call s d w cl w' d' out)
  then show ?case using init_moves_stable host_step_moves by (metis fst_conv)
qed simp

lemma newDispatcher_inv: "dispatcher_inv b p (newDispatcher p)"
  by (simp add: dispatcher_inv_def newDispatcher_def)

text \<open>
  C30: whatever the host calls, in whatever order and with whatever bytes: once the plugin is
  initialised, the handlers its calls go to are those one successful \<^verbatim>\<open>Init\<close> registered on a
  fresh context, and no later call changes them or initialises again.
\<close>

theorem handlers_of_one_init:
  assumes "host_run up je b (newDispatcher p, w0) (d, w)" "ds_initted d"
  shows "(\<exists>w1 w2 c. pl_Init p (newContext b) w1 = Returned (w2, c, None) \<and> ds_ctx d = Some c) \<and>
     (\<forall>d' w'. host_run up je b (d, w) (d', w') \<longrightarrow> d' = d)"
proof -
  have "dispatcher_inv b p d" using host_run_inv [OF assms(1), of p] newDispatcher_inv [of b p] by simp
  moreover have "d' = d" if "host_run up je b (d, w) (d', w')" for d' w'
    using host_run_stable [OF that] assms(2) by simp
  ultimately show ?thesis using assms(2) by (auto simp: dispatcher_inv_def)
qed

section \<open>Malformed payloads\<close>

lemma error_back:
  assumes "min_int64 \<le> status" "status \<le> max_int64"
  shows "\<exists>h. unmarshal zero_hostResponse d_hostResponse (errorResponse status msg) = Some h \<and> hs_status h = status \<and>
     map_of (hs_headers h) = [''Content-Type'' \<mapsto> ''application/json''] \<and> hs_body h = marshal_or_nil (error_object msg)"
  using host_response_back [of "\<lparr>hs_status = status, hs_headers = [(''Content-Type'', ''application/json'')],
      hs_body = marshal_or_nil (error_object msg)\<rparr>"] assms
  by (auto simp: errorResponse_def valid_map_def is_ascii_valid)

text \<open>
  C31: a payload that is not the JSON of its request is answered before the plugin sees
  anything: it is not initialised, nothing changes, and the host reads a response with status
  400, a condition that does not match, or an action that was not applied, the last two with
  an error that tells them from a handler's own answer.
\<close>

theorem malformed_fails_fast:
  "(unmarshal zero_hostRequest d_hostRequest payload = None \<longrightarrow>
      (\<exists>out h. handleRequest up je b payload d w = Returned (w, d, out) \<and>
         unmarshal zero_hostResponse d_hostResponse out = Some h \<and> hs_status h = 400)) \<and>
   (unmarshal zero_ConditionRequest d_ConditionRequest payload = None \<longrightarrow>
      (\<exists>out r. evaluateCondition je b payload d w = Returned (w, d, out) \<and>
         unmarshal zero_ConditionResult d_ConditionResult out = Some r \<and> \<not> cr_Matched r \<and> cr_Error r \<noteq> '''')) \<and>
   (unmarshal zero_ActionRequest d_ActionRequest payload = None \<longrightarrow>
      (\<exists>out r. runAction je b payload d w = Returned (w, d, out) \<and>
         unmarshal zero_ActionResult d_ActionResult out = Some r \<and> \<not> ar_Applied r \<and> ar_Error r \<noteq> ''''))"
proof -
  have nonempty: "to_valid_utf8 (c # s) \<noteq> ''''" for c s
    by (auto simp: to_valid_utf8.simps [of "c # s"] replacement_def)
  have "\<exists>h. unmarshal zero_hostResponse d_hostResponse (errorResponse 400 msg) = Some h \<and> hs_status h = 400" for msg
    using error_back [of 400 msg] by (auto simp: min_int64_def max_int64_def)
  then show ?thesis
    by (auto simp: handleRequest_def evaluateCondition_def runAction_def condition_error_def action_error_def
        condition_result_back action_result_back nonempty)
qed

section \<open>Requests that are served\<close>

lemma with_init_ready:
  "ds_initted d \<Longrightarrow> ds_ctx d = Some c \<Longrightarrow>
     with_init b d w failed k = bind_outcome (k c w) (\<lambda>(w', r). Returned (w', d, r))"
  by (simp add: with_init_def dispatcher_init_def)

fun map_outcome :: "('a \<Rightarrow> 'b) \<Rightarrow> 'a outcome \<Rightarrow> 'b outcome" where
  "map_outcome f Panicked = Panicked"
| "map_outcome f (Returned x) = Returned (f x)"

lemma bind_Returned: "bind_outcome m (\<lambda>x. Returned (f x)) = map_outcome f m"
  by (cases m) simp_all

lemma map_outcome_comp: "map_outcome f (map_outcome g m) = map_outcome (\<lambda>x. f (g x)) m"
  by (cases m) simp_all

text \<open>
  The dispatch of the unit tests is that of production.  For a plugin that is
  initialised, a request of the host ends as \<^verbatim>\<open>DispatchRoute\<close> ends on the same request, with
  the same changes to the world, the same panics, and the response \<^verbatim>\<open>DispatchRoute\<close> wrote as
  the host's bytes, whether a handler is registered or not.
\<close>

theorem production_is_as_tested:
  assumes "unmarshal zero_hostRequest d_hostRequest payload = Some hr" "ds_initted d" "ds_ctx d = Some c"
  shows "handleRequest up je b payload d w =
    map_outcome (\<lambda>(w', res, ok). (w', d, marshalResponse res))
      (DispatchRoute up c (to_upper up (hr_Method hr)) (hr_Path hr) (request_of up hr) NewResponse w)"
proof -
  have req: "req_Method (request_of up hr) = to_upper up (hr_Method hr)" "req_Path (request_of up hr) = hr_Path hr"
    by (simp_all add: request_of_def)
  show ?thesis
  proof (cases "matchRoute up c (to_upper up (hr_Method hr)) (hr_Path hr)")
    case None
    then show ?thesis
      by (simp add: handleRequest_def assms with_init_ready Let_def req DispatchRoute_def errorResponse_Error)
  next
    case (Some hm)
    obtain handler matched where hm: "hm = (handler, matched)" by (cases hm)
    show ?thesis
      by (cases "handler (with_params matched (request_of up hr)) NewResponse w")
         (auto simp: handleRequest_def assms with_init_ready Let_def req DispatchRoute_def Some hm)
  qed
qed

text \<open>
  C32: the host reads what the handler wrote.  When a handler is registered for the path of a
  well-formed request and returns a response whose headers are valid text, the bytes of
  \<^verbatim>\<open>HandleRequest\<close> read back to its status, its headers and its body, byte for byte.
\<close>

theorem response_reaches_host:
  assumes "unmarshal zero_hostRequest d_hostRequest payload = Some hr" "ds_initted d" "ds_ctx d = Some c"
    and "matchRoute up c (to_upper up (hr_Method hr)) (hr_Path hr) = Some (handler, matched)"
    and "handler (with_params matched (request_of up hr)) NewResponse w = Returned (w', res)"
    and "min_int64 \<le> res_StatusCode res" "res_StatusCode res \<le> max_int64" "valid_map (res_Headers res)"
  shows "\<exists>out h. handleRequest up je b payload d w = Returned (w', d, out) \<and>
     unmarshal zero_hostResponse d_hostResponse out = Some h \<and> hs_status h = res_StatusCode res \<and>
     map_of (hs_headers h) = map_of (res_Headers res) \<and> hs_body h = res_Body res"
proof -
  have "handleRequest up je b payload d w = Returned (w', d, marshalResponse res)"
    using assms(1-5) by (simp add: handleRequest_def with_init_ready Let_def) (simp add: request_of_def)
  then show ?thesis using response_back [OF assms(6-8)] by blast
qed

end
