(* ===== verification/Serve.thy ===== *)
theory Serve
  imports PluginFacts WireFacts
begin

text \<open>
  \<^verbatim>\<open>gitprovider/serve/serve.go\<close>: a provider mounted on a plugin's routes, and a host call
  followed from its bytes to the provider and back.  The world of the plugin is the state of
  the provider.  The deadline of the call's context is not modelled.
\<close>

definition RoutePrefix :: string where
  "RoutePrefix = ''/_git''"

text \<open>The header a throttled or transient failure gets from its envelope.\<close>

definition retry_header :: "int \<Rightarrow> bytes \<Rightarrow> Response \<Rightarrow> Response" where
  "retry_header status body res =
     (if status = 429 \<or> status = 503 then
        (case unmarshal zero_Envelope d_Envelope body of
           None \<Rightarrow> res
         | Some env \<Rightarrow>
             (case env_error env of
                None \<Rightarrow> res
              | Some e \<Rightarrow> if 0 < er_retry_after_seconds e then set_header ''Retry-After'' (itoa (er_retry_after_seconds e)) res else res))
      else res)"

definition serve_handler :: "(string \<Rightarrow> string) \<Rightarrow> 's Provider \<Rightarrow> 's RouteHandler" where
  "serve_handler quote p req res s =
     (let (s', status, body) = Dispatch quote p (PathParam req ''op'') (req_Body req) s;
          res1 = set_header ''Content-Type'' ''application/json'' (res\<lparr>res_StatusCode := status\<rparr>)
      in Returned (s', (retry_header status body res1)\<lparr>res_Body := body\<rparr>))"

definition Register ::
    "(string \<Rightarrow> string) \<Rightarrow> (string \<Rightarrow> string) \<Rightarrow> 's Provider \<Rightarrow> ('s, 'b) ctx \<Rightarrow> ('s, 'b) ctx" where
  "Register up quote p c = Route up ''POST'' (RoutePrefix @ ''/:op'') (serve_handler quote p) c"

text \<open>The plugin whose \<^verbatim>\<open>Init\<close> registers the provider and does nothing else.\<close>

definition serving_plugin :: "(string \<Rightarrow> string) \<Rightarrow> (string \<Rightarrow> string) \<Rightarrow> 's Provider \<Rightarrow> ('s, 'b) Plugin" where
  "serving_plugin up quote p =
     \<lparr>pl_Init = (\<lambda>c s. Returned (s, Register up quote p c, None)), pl_Shutdown = (\<lambda>s. Returned s)\<rparr>"

section \<open>The route of an operation\<close>

lemma to_upper_POST: "to_upper up ''POST'' = ''POST''"
  by (simp add: to_upper_def upper_byte_def byte_val_def)

lemma pattern_segments: "splitPathSegments (RoutePrefix @ ''/:op'') = [''_git'', '':op'']"
  using splitPathSegments_path_of [of "[''_git'', '':op'']"] by (simp add: path_of_def ok_seg_def RoutePrefix_def)

definition op_path :: "string \<Rightarrow> string" where
  "op_path op = RoutePrefix @ ''/'' @ op"

lemma op_segments: "ok_seg op \<Longrightarrow> splitPathSegments (op_path op) = [''_git'', op]"
  using splitPathSegments_path_of [of "[''_git'', op]"] by (simp add: path_of_def ok_seg_def RoutePrefix_def op_path_def)

lemma op_binds: "ok_seg op \<Longrightarrow> matchRoutePattern (RoutePrefix @ ''/:op'') (op_path op) = Some [''op'' \<mapsto> op]"
  by (simp add: matchRoutePattern_def pattern_segments op_segments Let_def is_param_def has_prefix_def trim_prefix_def)

lemma op_no_project: "ok_seg op \<Longrightarrow> splitProjectPath (op_path op) = None"
proof -
  assume "ok_seg op"
  then have "splitPathSegments (op_path op) = [''_git'', op]" by (rule op_segments)
  then show ?thesis by (auto simp: splitPathSegments_def splitProjectPath_def Let_def split: if_splits)
qed

lemma op_route:
  assumes "ok_seg op" "op \<noteq> '':op''"
  shows "matchRoute up (Register up quote p (newContext b)) ''POST'' (op_path op) =
    Some (serve_handler quote p, [''op'' \<mapsto> op])"
proof -
  have "routes (Register up quote p (newContext b)) =
      [(\<lparr>rk_method = ''POST'', rk_path = RoutePrefix @ ''/:op''\<rparr>, serve_handler quote p)]"
    by (simp add: Register_def Route_def newContext_def to_upper_POST)
  moreover have "0 \<le> routeSpecificity (RoutePrefix @ ''/:op'')" by (simp add: routeSpecificity_def Let_def)
  moreover have "op_path op \<noteq> RoutePrefix @ ''/:op''" using assms(2) by (simp add: op_path_def)
  ultimately show ?thesis
    using assms(1)
    by (simp add: matchRoute_def to_upper_POST consider_entry_def consider_pattern_def op_no_project op_binds no_match_def Let_def)
qed

section \<open>A call from its bytes to the provider and back\<close>

lemma dispatch_status: "fst (snd (Dispatch quote p opn body s)) = 200 \<or> (\<exists>c. fst (snd (Dispatch quote p opn body s)) = HTTPStatus c)"
  by (auto simp: Dispatch_def Let_def fail_def split: option.split prod.split reply.split outcome.split)

lemma dispatch_status_range:
  assumes "Dispatch quote p opn body s = (s', status, out)"
  shows "min_int64 \<le> status \<and> status \<le> max_int64"
proof -
  have "status = 200 \<or> (\<exists>c. status = HTTPStatus c)" using dispatch_status [of quote p opn body s] assms by simp
  then have "status \<in> {200, 400, 401, 403, 404, 409, 429, 500, 501, 503}" using HTTPStatus_range by fastforce
  then show ?thesis by (auto simp: min_int64_def max_int64_def)
qed

definition retry_after :: "int \<Rightarrow> bytes \<Rightarrow> string option" where
  "retry_after status body =
     (if status = 429 \<or> status = 503 then
        Option.bind (unmarshal zero_Envelope d_Envelope body) (\<lambda>env. Option.bind (env_error env) (\<lambda>e.
          if 0 < er_retry_after_seconds e then Some (itoa (er_retry_after_seconds e)) else None))
      else None)"

lemma retry_header_eq:
  "retry_header status body res =
     (case retry_after status body of None \<Rightarrow> res | Some v \<Rightarrow> set_header ''Retry-After'' v res)"
  by (auto simp: retry_header_def retry_after_def split: option.split)

lemma itoa_ascii: "is_ascii (itoa i)"
proof -
  have "is_digit c \<Longrightarrow> byte_val c < 128" for c by (simp add: is_digit_def)
  then have "is_ascii (digits n)" for n using digits_all by (fastforce simp: is_ascii_def list_all_iff)
  then show ?thesis by (simp add: itoa_def)
qed

lemma retry_after_valid: "retry_after status body = Some v \<Longrightarrow> valid_utf8 v"
  by (auto simp: retry_after_def is_ascii_valid itoa_ascii bind_eq_Some_conv split: if_splits)

lemma retry_after_fail:
  assumes "(status, body) = fail e" "int64 (er_retry_after_seconds e)"
  shows "retry_after status body =
    (if er_code e \<in> {CodeRateLimited, CodeTransient} \<and> 0 < er_retry_after_seconds e
     then Some (itoa (er_retry_after_seconds e)) else None)"
proof -
  have "status = HTTPStatus (er_code e)" "body = snd (fail e)" using assms(1) by (simp_all add: prod_eq_iff fail_def)
  moreover have "HTTPStatus (er_code e) = 429 \<or> HTTPStatus (er_code e) = 503 \<longleftrightarrow> er_code e \<in> {CodeRateLimited, CodeTransient}"
    by (auto simp: HTTPStatus_def CodeNotFound_def CodeForbidden_def CodeInvalidSignature_def CodeConflict_def
      CodeRateLimited_def CodeValidation_def CodeUnsupported_def CodeTransient_def)
  ultimately show ?thesis using fail_reads_back [OF assms(2)] by (simp add: retry_after_def json_Error_def)
qed

lemma serving_init:
  assumes "host_run up je b (newDispatcher (serving_plugin up quote p), s0) (d, s)"
  shows "\<exists>d'. \<forall>k failed. with_init b d s failed k =
    bind_outcome (k (Register up quote p (newContext b)) s) (\<lambda>(s', r). Returned (s', d', r))"
proof -
  have inv: "dispatcher_inv b (serving_plugin up quote p) d"
    using host_run_inv [OF assms, of "serving_plugin up quote p"] newDispatcher_inv [of b "serving_plugin up quote p"] by simp
  show ?thesis
  proof (cases "ds_initted d")
    case True
    then have "ds_ctx d = Some (Register up quote p (newContext b))"
      using inv by (auto simp: dispatcher_inv_def serving_plugin_def)
    then show ?thesis using with_init_ready [OF True] by blast
  next
    case False
    then show ?thesis using inv
      by (intro exI [of _ "d\<lparr>ds_ctx := Some (Register up quote p (newContext b)), ds_initted := True\<rparr>"])
         (simp add: with_init_def dispatcher_init_def dispatcher_inv_def serving_plugin_def)
  qed
qed

text \<open>
  C33: a plugin that serves a provider answers a host call with what \<^verbatim>\<open>Dispatch\<close> answers.
  After any host calls before it, a well-formed POST of the host to an operation's path changes
  the provider as \<^verbatim>\<open>Dispatch\<close> does with that operation and the decoded body, and the host reads
  back its status, its body byte for byte and the JSON content type; a failure with a retry
  time has it as \<^verbatim>\<open>Retry-After\<close> exactly when its code is one that can be retried.
\<close>

theorem host_call_served:
  assumes "host_run up je b (newDispatcher (serving_plugin up quote p), s0) (d, s)"
    and "unmarshal zero_hostRequest d_hostRequest payload = Some hr"
    and "to_upper up (hr_Method hr) = ''POST''" "hr_Path hr = op_path op" "ok_seg op" "op \<noteq> '':op''"
    and "map_of (hr_PathParams hr) ''op'' = None"
    and "Dispatch quote p op (hr_Body hr) s = (s', status, body)"
  shows "\<exists>d' out h. handleRequest up je b payload d s = Returned (s', d', out) \<and>
     unmarshal zero_hostResponse d_hostResponse out = Some h \<and> hs_status h = status \<and> hs_body h = body \<and>
     map_of (hs_headers h) ''Content-Type'' = Some ''application/json'' \<and>
     (\<forall>e. (status, body) = fail e \<and> int64 (er_retry_after_seconds e) \<longrightarrow>
        map_of (hs_headers h) ''Retry-After'' =
          (if er_code e \<in> {CodeRateLimited, CodeTransient} \<and> 0 < er_retry_after_seconds e
           then Some (itoa (er_retry_after_seconds e)) else None))"
proof -
  obtain d' where d': "with_init b d s failed k =
      bind_outcome (k (Register up quote p (newContext b)) s) (\<lambda>(s', r). Returned (s', d', r))"
    for failed :: "string \<Rightarrow> bytes" and k using serving_init [OF assms(1)] by blast
  let ?res = "(retry_header status body (set_header ''Content-Type'' ''application/json'' (NewResponse\<lparr>res_StatusCode := status\<rparr>)))\<lparr>res_Body := body\<rparr>"
  have param: "PathParam (with_params [''op'' \<mapsto> op] (request_of up hr)) ''op'' = op"
    using assms(7) by (simp add: PathParam_def with_params_def request_of_def fill_missing_absent index_map_def)
  have "req_Body (with_params [''op'' \<mapsto> op] (request_of up hr)) = hr_Body hr"
    by (simp add: with_params_def request_of_def)
  then have "serve_handler quote p (with_params [''op'' \<mapsto> op] (request_of up hr)) NewResponse s = Returned (s', ?res)"
    using assms(8) by (simp add: serve_handler_def param)
  then have run: "handleRequest up je b payload d s = Returned (s', d', marshalResponse ?res)"
    using assms(2-6) op_route [OF assms(5,6), of up quote p b]
    by (simp add: handleRequest_def d' Let_def) (simp add: request_of_def)
  have hdr: "res_StatusCode ?res = status" "res_Body ?res = body"
    "res_Headers ?res = (''Content-Type'', ''application/json'') # (case retry_after status body of None \<Rightarrow> [] | Some v \<Rightarrow> [(''Retry-After'', v)])"
    by (simp_all add: retry_header_eq set_header_def NewResponse_def split: option.split)
  then have "valid_map (res_Headers ?res)"
    using retry_after_valid [of status body] by (auto simp: valid_map_def is_ascii_valid split: option.split)
  then obtain h where "unmarshal zero_hostResponse d_hostResponse (marshalResponse ?res) = Some h" "hs_status h = status"
      "map_of (hs_headers h) = map_of (res_Headers ?res)" "hs_body h = body"
    using response_back [of ?res] dispatch_status_range [OF assms(8)] hdr(1,2) by auto
  then show ?thesis
    using run hdr(3) retry_after_fail by (intro exI [of _ d'] exI [of _ "marshalResponse ?res"] exI [of _ h]) (auto split: option.split)
qed

end
