(* ===== verification/PluginExamples.thy ===== *)
theory PluginExamples
  imports Serve WireExamples
begin

text \<open>
  The properties of the plugin's dispatch at two plugins: one that counts what reaches it
  and echoes a path parameter, and one that serves the full fake.
\<close>

section \<open>A plugin that counts\<close>

definition byte_upper :: "string \<Rightarrow> string" where
  "byte_upper s = map upper_byte s"

definition echo_handler :: "nat RouteHandler" where
  "echo_handler req res w = Returned (w + 1, Response_Text 201 (PathParam req ''id'') res)"

definition echo_ctx :: "(nat, unit) ctx" where
  "echo_ctx = Route byte_upper ''get'' ''/items/:id'' echo_handler (newContext ())"

definition echo_plugin :: "(nat, unit) Plugin" where
  "echo_plugin = \<lparr>pl_Init = (\<lambda>c w. Returned (w + 100, Route byte_upper ''get'' ''/items/:id'' echo_handler c, None)),
     pl_Shutdown = (\<lambda>w. Returned w)\<rparr>"

definition echo_dispatcher :: "(nat, unit) dispatcher" where
  "echo_dispatcher = \<lparr>ds_plugin = echo_plugin, ds_ctx = Some echo_ctx, ds_initted = True\<rparr>"

text \<open>The host's request for \<^verbatim>\<open>/items/7\<close>.\<close>

definition item_json :: json where
  "item_json = JObj [(''method'', '''', JStr ''get''), (''path'', '''', JStr ''/items/7''), (''body'', '''', JNull)]"

definition item_request :: hostRequest where
  "item_request = zero_hostRequest\<lparr>hr_Method := ''get'', hr_Path := ''/items/7''\<rparr>"

lemma item_payload: "unmarshal zero_hostRequest d_hostRequest (print_json item_json) = Some item_request"
proof -
  have "unmarshal zero_hostRequest d_hostRequest (print_json item_json) =
      d_hostRequest zero_hostRequest (print_json item_json, norm_json item_json)"
    by (intro unmarshal_print) (simp_all add: item_json_def max_depth_def)
  then show ?thesis
    by (simp add: item_json_def d_hostRequest_def d_struct_Cons d_struct_Nil fld_def d_str_def d_bytes_def
        zero_hostRequest_def item_request_def)
qed

lemma upper_get: "to_upper byte_upper ''get'' = ''GET''"
  by code_simp

lemma item_segments: "splitPathSegments ''/items/7'' = [''items'', ''7'']" "splitPathSegments ''/items/:id'' = [''items'', '':id'']"
  using splitPathSegments_path_of [of "[''items'', ''7'']"] splitPathSegments_path_of [of "[''items'', '':id'']"]
  by (simp_all add: path_of_def ok_seg_def)

lemma item_route: "matchRoute byte_upper echo_ctx ''GET'' ''/items/7'' = Some (echo_handler, [''id'' \<mapsto> ''7''])"
proof -
  have r: "routes echo_ctx = [(\<lparr>rk_method = ''GET'', rk_path = ''/items/:id''\<rparr>, echo_handler)]"
    by (simp add: echo_ctx_def Route_def newContext_def upper_get)
  have "splitProjectPath ''/items/7'' = None"
    using item_segments(1) by (auto simp: splitPathSegments_def splitProjectPath_def Let_def split: if_splits)
  moreover have "matchRoutePattern ''/items/:id'' ''/items/7'' = Some [''id'' \<mapsto> ''7'']"
    by (simp add: matchRoutePattern_def item_segments Let_def is_param_def has_prefix_def trim_prefix_def)
  moreover have "0 \<le> routeSpecificity ''/items/:id''" by (simp add: routeSpecificity_def Let_def)
  moreover have "to_upper byte_upper ''GET'' = ''GET''" by code_simp
  ultimately show ?thesis
    by (simp add: matchRoute_def r consider_entry_def consider_pattern_def no_match_def Let_def)
qed

lemma echo_runs:
  "echo_handler (with_params [''id'' \<mapsto> ''7''] (request_of byte_upper item_request)) NewResponse w =
     Returned (w + 1, \<lparr>res_StatusCode = 201, res_Headers = [(''Content-Type'', ''text/plain'')], res_Body = ''7''\<rparr>)"
  by (simp add: echo_handler_def Response_Text_def NewResponse_def set_header_def PathParam_def with_params_def request_of_def
      item_request_def zero_hostRequest_def fill_missing_absent index_map_def)

theorem response_reaches_host_witness:
  "\<exists>out h. handleRequest byte_upper (\<lambda>p. ''bad'') () (print_json item_json) echo_dispatcher 5 = Returned (6, echo_dispatcher, out) \<and>
     unmarshal zero_hostResponse d_hostResponse out = Some h \<and> hs_status h = 201 \<and>
     map_of (hs_headers h) = [''Content-Type'' \<mapsto> ''text/plain''] \<and> hs_body h = ''7''"
proof -
  have m: "matchRoute byte_upper echo_ctx (to_upper byte_upper (hr_Method item_request)) (hr_Path item_request) = Some (echo_handler, [''id'' \<mapsto> ''7''])"
    using item_route by (simp add: item_request_def upper_get)
  show ?thesis
    using response_reaches_host [OF item_payload _ _ m echo_runs [of 5], of echo_dispatcher "\<lambda>p. ''bad''" "()"]
    by (simp add: echo_dispatcher_def min_int64_def max_int64_def valid_map_def is_ascii_valid)
qed

lemma echo_run:
  "host_run byte_upper (\<lambda>p. ''bad'') () (newDispatcher echo_plugin, 5) (echo_dispatcher, 106)"
proof -
  have "host_step byte_upper (\<lambda>p. ''bad'') () (Event_call ''t'' []) (newDispatcher echo_plugin) 5 = Returned (105, echo_dispatcher, [])"
    by (simp add: handleEvent_def with_init_def dispatcher_init_def newDispatcher_def echo_plugin_def echo_dispatcher_def echo_ctx_def
        Route_def newContext_def)
  moreover have "host_step byte_upper (\<lambda>p. ''bad'') () (Request_call (print_json item_json)) echo_dispatcher 105 =
      Returned (106, echo_dispatcher, marshalResponse \<lparr>res_StatusCode = 201, res_Headers = [(''Content-Type'', ''text/plain'')], res_Body = ''7''\<rparr>)"
    using item_route echo_runs [of 105]
    by (simp add: handleRequest_def item_payload with_init_ready echo_dispatcher_def Let_def)
       (simp add: item_request_def request_of_def zero_hostRequest_def upper_get)
  ultimately show ?thesis by (rule host_run.call [OF host_run.call [OF host_run.stop]])
qed

theorem handlers_of_one_init_witness:
  "(\<exists>w1 w2 c. pl_Init echo_plugin (newContext ()) w1 = Returned (w2, c, None) \<and> ds_ctx echo_dispatcher = Some c) \<and>
     fst ` Collect (host_run byte_upper (\<lambda>p. ''bad'') () (echo_dispatcher, 106)) = {echo_dispatcher}"
proof -
  have "(\<exists>w1 w2 c. pl_Init echo_plugin (newContext ()) w1 = Returned (w2, c, None) \<and> ds_ctx echo_dispatcher = Some c) \<and>
     (\<forall>d' w'. host_run byte_upper (\<lambda>p. ''bad'') () (echo_dispatcher, 106) (d', w') \<longrightarrow> d' = echo_dispatcher)"
    by (rule handlers_of_one_init [OF echo_run]) (simp add: echo_dispatcher_def)
  moreover have "host_run byte_upper (\<lambda>p. ''bad'') () (echo_dispatcher, 106) (echo_dispatcher, 106)" by (rule host_run.stop)
  ultimately show ?thesis by force
qed

theorem malformed_fails_fast_witness:
  "\<exists>out h. handleRequest byte_upper (\<lambda>p. ''bad'') () ''{'' (newDispatcher echo_plugin) 5 = Returned (5, newDispatcher echo_plugin, out) \<and>
     unmarshal zero_hostResponse d_hostResponse out = Some h \<and> hs_status h = 400"
  using malformed_fails_fast [of "''{''" byte_upper "\<lambda>p. ''bad''" "()" "newDispatcher echo_plugin" 5]
  by (simp add: unmarshal_def parse_broken)

section \<open>The served fake\<close>

text \<open>A host's POST of \<^verbatim>\<open>null\<close> to \<^verbatim>\<open>/_git/delete_identity\<close>.\<close>

definition git_json :: json where
  "git_json = JObj [(''method'', '''', JStr ''post''), (''path'', '''', JStr (op_path ''delete_identity'')),
     (''body'', '''', JStr (b64_encode ''null''))]"

definition git_request :: hostRequest where
  "git_request = zero_hostRequest\<lparr>hr_Method := ''post'', hr_Path := op_path ''delete_identity'', hr_Body := ''null''\<rparr>"

lemma git_payload: "unmarshal zero_hostRequest d_hostRequest (print_json git_json) = Some git_request"
proof -
  have "is_ascii (op_path ''delete_identity'')" by code_simp
  moreover have "unmarshal zero_hostRequest d_hostRequest (print_json git_json) =
      d_hostRequest zero_hostRequest (print_json git_json, norm_json git_json)"
    by (intro unmarshal_print) (simp_all add: git_json_def max_depth_def)
  ultimately show ?thesis
    by (simp add: git_json_def d_hostRequest_def d_struct_Cons d_struct_Nil fld_def d_str_def d_bytes_def b64_encode_ascii
        b64_roundtrip zero_hostRequest_def git_request_def del: b64_encode.simps)
qed

theorem host_call_served_witness:
  "\<exists>s' status body d' out h.
     Dispatch plain_quote full0 ''delete_identity'' ''null'' NewFull = (s', status, body) \<and>
     handleRequest byte_upper (\<lambda>p. ''bad'') () (print_json git_json)
       (newDispatcher (serving_plugin byte_upper plain_quote full0)) NewFull = Returned (s', d', out) \<and>
     unmarshal zero_hostResponse d_hostResponse out = Some h \<and> hs_status h = status \<and> hs_body h = body"
proof -
  obtain s' status body where d: "Dispatch plain_quote full0 ''delete_identity'' (hr_Body git_request) NewFull = (s', status, body)"
    using prod_cases3 by blast
  have "to_upper byte_upper (hr_Method git_request) = ''POST''" "hr_Path git_request = op_path ''delete_identity''"
    "ok_seg ''delete_identity''" "''delete_identity'' \<noteq> '':op''" "map_of (hr_PathParams git_request) ''op'' = None"
    by (code_simp, simp add: git_request_def, simp add: ok_seg_def, simp, simp add: git_request_def zero_hostRequest_def)
  from host_call_served [OF host_run.stop git_payload this d, of "\<lambda>p. ''bad''" "()"] d show ?thesis
    by (auto simp: git_request_def)
qed

end
