(* ===== verification/TestKit.thy ===== *)
theory TestKit
  imports PluginFacts InMemoryDB Backends
begin

text \<open>
  \<^verbatim>\<open>plugintest/plugintest.go\<close>: the harness of a plugin's unit tests, and the stub backends of a
  native build (\<^verbatim>\<open>native_backends.go\<close>).  The world of the handlers is what the in-memory backends
  hold.
\<close>

section \<open>The harness\<close>

record kit_world =
  kw_DB :: InMemoryDB
  kw_KV :: InMemoryKV
  kw_Cache :: InMemoryCache
  kw_Log :: "LogEntry list"
  kw_Config :: "string \<rightharpoonup> string"
  kw_Permissions :: "string \<rightharpoonup> bool"

text \<open>
  Whether an effect of the test failed it: \<^verbatim>\<open>t.Fatalf\<close> ends the test with its message.
\<close>

record TestContext =
  tc_world :: kit_world
  tc_pluginCtx :: "(kit_world, unit) ctx"

definition NewContext :: TestContext where
  "NewContext =
     \<lparr>tc_world = \<lparr>kw_DB = newInMemoryDB, kw_KV = newInMemoryKV, kw_Cache = newInMemoryCache, kw_Log = [],
        kw_Config = Map.empty, kw_Permissions = Map.empty\<rparr>,
      tc_pluginCtx = newContext ()\<rparr>"

text \<open>\<^verbatim>\<open>p.Init(ctx.PluginContext())\<close> of a test.\<close>

definition init_in_test :: "(kit_world, unit) Plugin \<Rightarrow> TestContext \<Rightarrow> (TestContext \<times> string option) outcome" where
  "init_in_test p tc =
     map_outcome (\<lambda>(w, c, e). (\<lparr>tc_world = w, tc_pluginCtx = c\<rparr>, e)) (pl_Init p (tc_pluginCtx tc) (tc_world tc))"

record TestRequest =
  tr_PathParams :: "(string \<rightharpoonup> string) option"
  tr_Query :: "(string \<rightharpoonup> string) option"
  tr_Headers :: "(string \<rightharpoonup> string) option"
  tr_Body :: bytes
  tr_Caller :: CallerIdentity

definition or_empty :: "(string \<rightharpoonup> string) option \<Rightarrow> (string \<rightharpoonup> string)" where
  "or_empty m = (case m of None \<Rightarrow> Map.empty | Some x \<Rightarrow> x)"

text \<open>\<open>None\<close> is a \<^verbatim>\<open>nil\<close> map.  A map that is there is the caller's own and changes with the copy.\<close>

definition WithJSONBody :: "json option \<Rightarrow> TestRequest \<Rightarrow> TestRequest" where
  "WithJSONBody v r = r\<lparr>tr_Body := marshal_or_nil v,
     tr_Headers := Some ((or_empty (tr_Headers r))(''content-type'' \<mapsto> ''application/json''))\<rparr>"

definition plugin_request :: "string \<Rightarrow> string \<Rightarrow> TestRequest \<Rightarrow> Request" where
  "plugin_request httpMethod path r =
     \<lparr>req_Method = httpMethod, req_Path = path, req_PathParams = or_empty (tr_PathParams r), req_Query = or_empty (tr_Query r),
      req_Headers = or_empty (tr_Headers r), req_Body = tr_Body r, req_Caller = tr_Caller r\<rparr>"

definition Call ::
    "(string \<Rightarrow> string) \<Rightarrow> string \<Rightarrow> string \<Rightarrow> TestRequest \<Rightarrow> TestContext \<Rightarrow> (TestContext \<times> Response) outcome" where
  "Call up httpMethod path r tc =
     map_outcome (\<lambda>(w, res, found). (tc\<lparr>tc_world := w\<rparr>, res))
       (DispatchRoute up (tc_pluginCtx tc) httpMethod path (plugin_request httpMethod path r) NewResponse (tc_world tc))"

section \<open>Conditions and actions\<close>

record TestConditionRequest =
  tcr_Config :: bytes
  tcr_Task :: TaskSnapshot
  tcr_ProjectID :: string

record TestActionRequest =
  tar_Config :: bytes
  tar_Task :: TaskSnapshot
  tar_ProjectID :: string
  tar_IdempotencyKey :: string

definition condition_with_config :: "json option \<Rightarrow> TestConditionRequest \<Rightarrow> TestConditionRequest" where
  "condition_with_config v r = r\<lparr>tcr_Config := marshal_or_nil v\<rparr>"

definition action_with_config :: "json option \<Rightarrow> TestActionRequest \<Rightarrow> TestActionRequest" where
  "action_with_config v r = r\<lparr>tar_Config := marshal_or_nil v\<rparr>"

text \<open>The left result is the message \<^verbatim>\<open>t.Fatalf\<close> ended the test with; \<open>q\<close> is \<^verbatim>\<open>%q\<close>.\<close>

definition test_condition :: "string \<Rightarrow> TestConditionRequest \<Rightarrow> ConditionRequest" where
  "test_condition nodeType r = \<lparr>cnd_NodeType = nodeType, cnd_Config = tcr_Config r, cnd_Task = tcr_Task r,
     cnd_ProjectID = tcr_ProjectID r\<rparr>"

definition EvaluateInTest ::
    "(string \<Rightarrow> string) \<Rightarrow> string \<Rightarrow> TestConditionRequest \<Rightarrow> TestContext \<Rightarrow> (TestContext \<times> (string + ConditionResult)) outcome" where
  "EvaluateInTest q nodeType r tc =
     map_outcome (\<lambda>(w, res, found).
         (tc\<lparr>tc_world := w\<rparr>,
          if found then Inr res else Inl (''plugintest: no condition handler registered for node type '' @ q nodeType)))
       (DispatchCondition (tc_pluginCtx tc) (test_condition nodeType r) (tc_world tc))"

definition test_action :: "string \<Rightarrow> TestActionRequest \<Rightarrow> ActionRequest" where
  "test_action nodeType r = \<lparr>act_NodeType = nodeType, act_Config = tar_Config r, act_Task = tar_Task r,
     act_ProjectID = tar_ProjectID r, act_IdempotencyKey = tar_IdempotencyKey r\<rparr>"

definition RunInTest ::
    "(string \<Rightarrow> string) \<Rightarrow> string \<Rightarrow> TestActionRequest \<Rightarrow> TestContext \<Rightarrow> (TestContext \<times> (string + ActionResult)) outcome" where
  "RunInTest q nodeType r tc =
     map_outcome (\<lambda>(w, res, found).
         (tc\<lparr>tc_world := w\<rparr>,
          if found then Inr res else Inl (''plugintest: no action handler registered for node type '' @ q nodeType)))
       (DispatchAction (tc_pluginCtx tc) (test_action nodeType r) (tc_world tc))"

section \<open>What a test sees is what the host gets\<close>

definition init_test :: "(kit_world, unit) Plugin \<Rightarrow> kit_world \<Rightarrow> (TestContext \<times> string option) outcome" where
  "init_test p w = init_in_test p \<lparr>tc_world = w, tc_pluginCtx = newContext ()\<rparr>"

definition live_dispatcher :: "(kit_world, unit) Plugin \<Rightarrow> TestContext \<Rightarrow> (kit_world, unit) dispatcher" where
  "live_dispatcher p tc = \<lparr>ds_plugin = p, ds_ctx = Some (tc_pluginCtx tc), ds_initted = True\<rparr>"

text \<open>A host's request as a test would write it.\<close>

definition test_request :: "hostRequest \<Rightarrow> TestRequest" where
  "test_request hr = \<lparr>tr_PathParams = Some (map_of (hr_PathParams hr)), tr_Query = Some (map_of (hr_Query hr)),
     tr_Headers = Some (map_of (hr_Headers hr)), tr_Body = hr_Body hr,
     tr_Caller = \<lparr>ci_CallerID = hr_CallerID hr, ci_UserID = hr_UserID hr, ci_CallerRole = hr_CallerRole hr,
                  ci_ProjectID = hr_ProjectID hr\<rparr>\<rparr>"

definition test_condition_request :: "ConditionRequest \<Rightarrow> TestConditionRequest" where
  "test_condition_request r = \<lparr>tcr_Config = cnd_Config r, tcr_Task = cnd_Task r, tcr_ProjectID = cnd_ProjectID r\<rparr>"

definition test_action_request :: "ActionRequest \<Rightarrow> TestActionRequest" where
  "test_action_request r = \<lparr>tar_Config = act_Config r, tar_Task = act_Task r, tar_ProjectID = act_ProjectID r,
     tar_IdempotencyKey = act_IdempotencyKey r\<rparr>"

lemma plugin_request_back:
  "plugin_request (to_upper up (hr_Method hr)) (hr_Path hr) (test_request hr) = request_of up hr"
  by (simp add: plugin_request_def test_request_def request_of_def or_empty_def)

lemma test_requests_back:
  "test_condition (cnd_NodeType c) (test_condition_request c) = c" "test_action (act_NodeType a) (test_action_request a) = a"
  by (simp_all add: test_condition_def test_condition_request_def test_action_def test_action_request_def)

lemma init_test_dispatcher:
  "init_test p w = Returned (tc, None) \<Longrightarrow> dispatcher_init () (newDispatcher p) w = Returned (tc_world tc, live_dispatcher p tc, None)"
  by (cases "pl_Init p (newContext ()) w")
     (auto simp: init_test_def init_in_test_def dispatcher_init_def newDispatcher_def live_dispatcher_def)

lemma with_init_after:
  assumes "init_test p w = Returned (tc, None)"
  shows "with_init () (newDispatcher p) w failed k = with_init () (live_dispatcher p tc) (tc_world tc) failed k"
  using init_test_dispatcher [OF assms] by (simp add: with_init_def dispatcher_init_def live_dispatcher_def)

lemma live_dispatcher_ready: "ds_initted (live_dispatcher p tc)" "ds_ctx (live_dispatcher p tc) = Some (tc_pluginCtx tc)"
  by (simp_all add: live_dispatcher_def)

lemma condition_in_test:
  assumes "unmarshal zero_ConditionRequest d_ConditionRequest payload = Some c" "ds_initted d" "ds_ctx d = Some (tc_pluginCtx tc)"
  shows "evaluateCondition je b payload d (tc_world tc) =
    map_outcome (\<lambda>(tc', r). (tc_world tc', d, case r of Inr res \<Rightarrow> marshalConditionResult res
        | Inl _ \<Rightarrow> condition_error (''no condition handler registered for node type '' @ cnd_NodeType c)))
      (EvaluateInTest q (cnd_NodeType c) (test_condition_request c) tc)"
proof (cases "conditions (tc_pluginCtx tc) (cnd_NodeType c)")
  case None
  then show ?thesis
    by (simp add: evaluateCondition_def assms with_init_ready EvaluateInTest_def test_requests_back DispatchCondition_def)
next
  case (Some h)
  then show ?thesis
    by (cases "h c (tc_world tc)")
       (auto simp: evaluateCondition_def assms with_init_ready EvaluateInTest_def test_requests_back DispatchCondition_def)
qed

lemma action_in_test:
  assumes "unmarshal zero_ActionRequest d_ActionRequest payload = Some a" "ds_initted d" "ds_ctx d = Some (tc_pluginCtx tc)"
  shows "runAction je b payload d (tc_world tc) =
    map_outcome (\<lambda>(tc', r). (tc_world tc', d, case r of Inr res \<Rightarrow> marshalActionResult res
        | Inl _ \<Rightarrow> action_error (''no action handler registered for node type '' @ act_NodeType a)))
      (RunInTest q (act_NodeType a) (test_action_request a) tc)"
proof (cases "actions (tc_pluginCtx tc) (act_NodeType a)")
  case None
  then show ?thesis
    by (simp add: runAction_def assms with_init_ready RunInTest_def test_requests_back DispatchAction_def)
next
  case (Some h)
  then show ?thesis
    by (cases "h a (tc_world tc)")
       (auto simp: runAction_def assms with_init_ready RunInTest_def test_requests_back DispatchAction_def)
qed

lemma route_in_test:
  assumes "unmarshal zero_hostRequest d_hostRequest payload = Some hr" "ds_initted d" "ds_ctx d = Some (tc_pluginCtx tc)"
  shows "handleRequest up je b payload d (tc_world tc) =
    map_outcome (\<lambda>(tc', res). (tc_world tc', d, marshalResponse res))
      (Call up (to_upper up (hr_Method hr)) (hr_Path hr) (test_request hr) tc)"
  unfolding production_is_as_tested [OF assms] Call_def plugin_request_back map_outcome_comp
  by (rule arg_cong [where f = "\<lambda>f. map_outcome f _"]) (auto simp: fun_eq_iff)

text \<open>
  C35: what a test of the kit sees is what the host gets.  For a plugin that \<^verbatim>\<open>Init\<close> accepts, a
  request, a condition or an action of the host ends, from a fresh dispatcher, as \<^verbatim>\<open>Call\<close>,
  \<^verbatim>\<open>EvaluateCondition\<close> or \<^verbatim>\<open>RunAction\<close> of the test context ends on the same request (the method in
  capitals): with the same changes to the backends, the same panics and the bytes of the same result; where
  the test is failed because no handler is registered, the host gets an error that says so.
\<close>

theorem tests_see_production:
  assumes "init_test p w = Returned (tc, None)"
  shows "(unmarshal zero_hostRequest d_hostRequest payload = Some hr \<longrightarrow>
      handleRequest up je () payload (newDispatcher p) w =
        map_outcome (\<lambda>(tc', res). (tc_world tc', live_dispatcher p tc, marshalResponse res))
          (Call up (to_upper up (hr_Method hr)) (hr_Path hr) (test_request hr) tc)) \<and>
    (unmarshal zero_ConditionRequest d_ConditionRequest payload = Some c \<longrightarrow>
      evaluateCondition je () payload (newDispatcher p) w =
        map_outcome (\<lambda>(tc', r). (tc_world tc', live_dispatcher p tc, case r of Inr res \<Rightarrow> marshalConditionResult res
            | Inl _ \<Rightarrow> condition_error (''no condition handler registered for node type '' @ cnd_NodeType c)))
          (EvaluateInTest q (cnd_NodeType c) (test_condition_request c) tc)) \<and>
    (unmarshal zero_ActionRequest d_ActionRequest payload = Some a \<longrightarrow>
      runAction je () payload (newDispatcher p) w =
        map_outcome (\<lambda>(tc', r). (tc_world tc', live_dispatcher p tc, case r of Inr res \<Rightarrow> marshalActionResult res
            | Inl _ \<Rightarrow> action_error (''no action handler registered for node type '' @ act_NodeType a)))
          (RunInTest q (act_NodeType a) (test_action_request a) tc))"
proof -
  let ?d = "live_dispatcher p tc"
  have r: "handleRequest up je () payload (newDispatcher p) w = handleRequest up je () payload ?d (tc_world tc)"
    if "unmarshal zero_hostRequest d_hostRequest payload = Some hr"
    using that with_init_after [OF assms] by (simp add: handleRequest_def)
  have c: "evaluateCondition je () payload (newDispatcher p) w = evaluateCondition je () payload ?d (tc_world tc)"
    if "unmarshal zero_ConditionRequest d_ConditionRequest payload = Some c"
    using that with_init_after [OF assms] by (simp add: evaluateCondition_def)
  have a: "runAction je () payload (newDispatcher p) w = runAction je () payload ?d (tc_world tc)"
    if "unmarshal zero_ActionRequest d_ActionRequest payload = Some a"
    using that with_init_after [OF assms] by (simp add: runAction_def)
  show ?thesis
    using r c a route_in_test [OF _ live_dispatcher_ready, of payload hr up je "()" p]
      condition_in_test [OF _ live_dispatcher_ready, of payload c je "()" p]
      action_in_test [OF _ live_dispatcher_ready, of payload a je "()" p] by simp
qed

end
