(* ===== verification/TestKitExamples.thy ===== *)
theory TestKitExamples
  imports TestKit PluginExamples
begin

text \<open>The test kit at a plugin that remembers in its key-value store what it was asked for.\<close>

definition seen_handler :: "kit_world RouteHandler" where
  "seen_handler req res w =
     Returned (w\<lparr>kw_KV := InMemoryKV_Set ''seen'' (PathParam req ''id'') (kw_KV w)\<rparr>, NoContent res)"

definition seen_plugin :: "(kit_world, unit) Plugin" where
  "seen_plugin = \<lparr>pl_Init = (\<lambda>c w. Returned (w, Route byte_upper ''get'' ''/items/:id'' seen_handler c, None)),
     pl_Shutdown = (\<lambda>w. Returned w)\<rparr>"

definition seen_test :: TestContext where
  "seen_test = NewContext\<lparr>tc_pluginCtx := Route byte_upper ''get'' ''/items/:id'' seen_handler (newContext ())\<rparr>"

lemma seen_init: "init_test seen_plugin (tc_world NewContext) = Returned (seen_test, None)"
  by (simp add: init_test_def init_in_test_def seen_plugin_def seen_test_def NewContext_def)

theorem tests_see_production_witness:
  "handleRequest byte_upper (\<lambda>b. ''bad'') () (print_json item_json) (newDispatcher seen_plugin) (tc_world NewContext) =
    map_outcome (\<lambda>(tc', res). (tc_world tc', live_dispatcher seen_plugin seen_test, marshalResponse res))
      (Call byte_upper ''GET'' ''/items/7'' (test_request item_request) seen_test)"
  using tests_see_production [OF seen_init, of "print_json item_json" item_request byte_upper "\<lambda>b. ''bad''"
      zero_ConditionRequest "\<lambda>s. s" zero_ActionRequest] item_payload
  by (simp add: item_request_def upper_get)

text \<open>The call that the witness is about, run.\<close>

lemma seen_call:
  "map_outcome (\<lambda>(tc, res). (kw_KV (tc_world tc) ''seen'', res_StatusCode res))
     (Call byte_upper ''get'' ''/items/7'' (test_request item_request) seen_test) = Returned (Some ''7'', 204)"
  by code_simp

end
