(* ===== verification/WasmFacts.thy ===== *)
theory WasmFacts
  imports WasmHost
begin

text \<open>
  What the guest gets from a host that keeps to the protocol of the arena: a value that was
  put into the arena and whose address and length were stored is read, copied and released, so
  any number of calls can follow; the store in production answers as the one of the test kit,
  but for empty values and values longer than the room the arena has left; and a body parked by the host arrives whole.
\<close>

section \<open>Words in the output buffer\<close>

lemma le32_at: "le32 (xs @ le32_bytes w @ ys) (length xs) = w"
  using le32_append_left [of xs "le32_bytes w @ ys" 0] le32_append_right [of 0 "le32_bytes w" ys]
  by (simp add: le32_bytes_roundtrip)

lemma decode_pair_buffer [simp]: "decode_pair (pair_buffer p n) = (p, n)"
  using le32_at [of "[]" p "le32_bytes n"] le32_at [of "le32_bytes p" n "[]"]
  by (simp add: decode_pair_def pair_buffer_def)

lemma query2_buffer_back [simp]: "decodeQuery2Output (query2_buffer ((rp, rl), ep, el)) = Returned (rp, rl, ep, el)"
  by (simp add: query2_buffer_def decodeQuery2Output_roundtrip)

lemma length_le64_bytes [simp]: "length (le64_bytes w) = 8"
  by (simp add: le64_bytes_def)

lemma le64_bytes_roundtrip: "le64 (le64_bytes w @ r) = w"
proof -
  have "take_bit 8 w OR push_bit 8 (take_bit 8 (drop_bit 8 w)) OR push_bit 16 (take_bit 8 (drop_bit 16 w)) OR
      push_bit 24 (take_bit 8 (drop_bit 24 w)) OR push_bit 32 (take_bit 8 (drop_bit 32 w)) OR
      push_bit 40 (take_bit 8 (drop_bit 40 w)) OR push_bit 48 (take_bit 8 (drop_bit 48 w)) OR
      push_bit 56 (take_bit 8 (drop_bit 56 w)) = w"
  proof (rule bit_word_eqI)
    fix n
    assume n: "n < LENGTH(64)"
    then consider "n < 8" | "8 \<le> n \<and> n < 16" | "16 \<le> n \<and> n < 24" | "24 \<le> n \<and> n < 32" | "32 \<le> n \<and> n < 40" |
      "40 \<le> n \<and> n < 48" | "48 \<le> n \<and> n < 56" | "56 \<le> n" by linarith
    then show "bit (take_bit 8 w OR push_bit 8 (take_bit 8 (drop_bit 8 w)) OR push_bit 16 (take_bit 8 (drop_bit 16 w)) OR
      push_bit 24 (take_bit 8 (drop_bit 24 w)) OR push_bit 32 (take_bit 8 (drop_bit 32 w)) OR
      push_bit 40 (take_bit 8 (drop_bit 40 w)) OR push_bit 48 (take_bit 8 (drop_bit 48 w)) OR
      push_bit 56 (take_bit 8 (drop_bit 56 w))) n = bit w n"
      using n by cases (auto simp: bit_simps)
  qed
  then show ?thesis by (simp add: le64_def le64_bytes_def of_char_of_word)
qed

lemma exec_buffer_back:
  "le64 (exec_buffer (rows, ep, el)) = rows" "le32 (exec_buffer (rows, ep, el)) 8 = ep" "le32 (exec_buffer (rows, ep, el)) 12 = el"
  using le64_bytes_roundtrip le32_at [of "le64_bytes rows" ep "le32_bytes el"] le32_at [of "le64_bytes rows @ le32_bytes ep" el "[]"]
  by (simp_all add: exec_buffer_def)

section \<open>A delivery\<close>

text \<open>The arena is in order and nothing in it is waiting to be read.\<close>

definition fresh :: "i32 \<Rightarrow> 'h guest \<Rightarrow> bool" where
  "fresh addr g \<longleftrightarrow> ready_arena addr (gu_arena g) \<and> arena_room (gu_arena g) = arena_len"

text \<open>
  The protocol of a call that delivers \<open>v\<close>: the host allocates room for it in the arena, writes
  it there and stores its address and length; when it is empty or does not fit it stores zeros.
\<close>

definition hands_over :: "i32 \<Rightarrow> 'h guest \<Rightarrow> bytes \<Rightarrow> 'h guest \<times> i32 \<times> i32 \<Rightarrow> bool" where
  "hands_over addr g v call \<longleftrightarrow>
     (let (g', p, n) = call
      in if v = [] \<or> arena_room (gu_arena g) < length v
         then n = 0 \<and> ready_arena addr (gu_arena g') \<and> arena_room (gu_arena g') = arena_room (gu_arena g)
         else n = of_nat (length v) \<and> (p, gu_arena g') = host_put addr v (gu_arena g))"

text \<open>What arrives of a value when the arena has some room left, and when it has all of it.\<close>

definition arrives_in :: "nat \<Rightarrow> bytes \<Rightarrow> bytes option" where
  "arrives_in room v = (if v = [] \<or> room < length v then None else Some v)"

definition arrives :: "bytes \<Rightarrow> bytes option" where
  "arrives v = (if v = [] \<or> arena_len < length v then None else Some v)"

lemma arrives_in_all: "arrives_in arena_len v = arrives v"
  by (simp add: arrives_in_def arrives_def)

lemma length_word: "0 < n \<Longrightarrow> n \<le> arena_len \<Longrightarrow> (of_nat n :: i32) \<noteq> 0"
  using unat_of_nat_small [of n] by (auto simp: arena_len_def)

text \<open>
  In an arena that may hold other things (in a handler, the payload of the call): what was
  delivered leaves the whole arena free, and a miss leaves it as it was.
\<close>

lemma hands_over_within:
  assumes f: "ready_arena addr (gu_arena g)" and "hands_over addr g v call"
  shows "\<exists>g'. delivered addr call = Returned (g', arrives_in (arena_room (gu_arena g)) v) \<and> ready_arena addr (gu_arena g') \<and>
    arena_room (gu_arena g') = (if arrives_in (arena_room (gu_arena g)) v = None then arena_room (gu_arena g) else arena_len) \<and>
    gu_host g' = gu_host (fst call)"
proof -
  obtain g1 p n where c: "call = (g1, p, n)" by (cases call)
  show ?thesis
  proof (cases "v = [] \<or> arena_room (gu_arena g) < length v")
    case True
    then show ?thesis using assms(2) f c by (auto simp: hands_over_def delivered_def arrives_in_def)
  next
    case False
    then have n: "n = of_nat (length v)" and put: "host_put addr v (gu_arena g) = (p, gu_arena g1)"
      using assms(2) f c by (auto simp: hands_over_def)
    have "arena_room (gu_arena g) \<le> arena_len" by (simp add: arena_room_def)
    then have nz: "n \<noteq> 0" using length_word [of "length v"] False by (simp add: n)
    obtain p' a' where a: "host_put addr v (gu_arena g) = (p', a')" "ready_arena addr a'" "holds addr a' p' v"
      using arena_memory.put_fits [OF f(1), of v] False by auto
    then obtain a2 where a2: "wasmSlice addr p n (gu_arena g1) = (Returned (Some v), a2)" "ready_arena addr a2"
      using arena_memory.get_stored [of addr a' p' v] put n by auto
    let ?g = "release (g1\<lparr>gu_arena := a2\<rparr>)"
    have "delivered addr call = Returned (?g, Some v)"
      using nz a2(1) by (simp add: delivered_def c copy_slice_def)
    moreover have "ready_arena addr (gu_arena ?g)" "arena_room (gu_arena ?g) = arena_len"
      using arena_memory.invar_reset [OF a2(2)] arena_memory.room_reset [OF a2(2)] by (simp_all add: release_def)
    ultimately show ?thesis using False by (intro exI [of _ ?g]) (simp add: arrives_in_def c release_def)
  qed
qed

lemma hands_over_delivered:
  assumes "fresh addr g" "hands_over addr g v call"
  shows "\<exists>g'. delivered addr call = Returned (g', arrives v) \<and> fresh addr g' \<and> gu_host g' = gu_host (fst call)"
  using hands_over_within [of addr g v call] assms by (auto simp: fresh_def arrives_in_all)

section \<open>The stores in production and in tests\<close>

text \<open>A read import of a host whose store is \<open>look\<close> of its state.\<close>

definition honest_store :: "i32 \<Rightarrow> 'h reads \<Rightarrow> ('h \<Rightarrow> InMemoryKV) \<Rightarrow> bool" where
  "honest_store addr imp look \<longleftrightarrow>
     (\<forall>g key. ready_arena addr (gu_arena g) \<longrightarrow> gu_host (fst (imp key g)) = gu_host g \<and>
        hands_over addr g (case look (gu_host g) key of None \<Rightarrow> [] | Some v \<Rightarrow> v) (imp key g))"

text \<open>Any reads of a plugin, one after the other.\<close>

fun kv_gets :: "'h host_imports \<Rightarrow> i32 \<Rightarrow> string list \<Rightarrow> 'h guest \<Rightarrow> ('h guest \<times> string option list) outcome" where
  "kv_gets I addr [] g = Returned (g, [])"
| "kv_gets I addr (key # keys) g =
     bind_outcome (wasmKV_Get I addr key g) (\<lambda>(g1, v).
       bind_outcome (kv_gets I addr keys g1) (\<lambda>(g2, vs). Returned (g2, v # vs)))"

lemma arrives_Nil [simp]: "arrives [] = None"
  by (simp add: arrives_def)

text \<open>
  What a sequence of reads answers when the store has the values \<open>vs\<close> and the arena some room
  left: a value that does not fit the room is missing; one that was delivered frees the whole
  arena for those after it.
\<close>

fun within :: "nat \<Rightarrow> string option list \<Rightarrow> string option list" where
  "within room [] = []"
| "within room (v # vs) =
     (case Option.bind v (arrives_in room) of
        None \<Rightarrow> None # within room vs
      | Some x \<Rightarrow> Some x # within arena_len vs)"

lemma within_fresh: "within arena_len vs = map (\<lambda>v. Option.bind v arrives) vs"
  by (induction vs) (auto simp: arrives_in_all [abs_def] split: option.split)

text \<open>
  The same value can be missing at first and be there later: with one byte of the arena taken,
  a value as long as the arena is missed until some other read delivered.
\<close>

lemma within_grows:
  assumes "length big = arena_len"
  shows "within (arena_len - 1) [Some big, Some ''x'', Some big] = [None, Some ''x'', Some big]"
proof -
  have "big \<noteq> []" using assms by (auto simp: arena_len_def)
  then show ?thesis using assms by (simp add: arrives_in_def arena_len_def)
qed

lemma kv_get_honest:
  assumes "honest_store addr (hostStorageGet I) look" "ready_arena addr (gu_arena g)"
  shows "\<exists>g'. wasmKV_Get I addr key g =
      Returned (g', Option.bind (snd (InMemoryKV_Get key (look (gu_host g)))) (arrives_in (arena_room (gu_arena g)))) \<and>
    ready_arena addr (gu_arena g') \<and> gu_host g' = gu_host g \<and>
    arena_room (gu_arena g') =
      (if Option.bind (snd (InMemoryKV_Get key (look (gu_host g)))) (arrives_in (arena_room (gu_arena g))) = None
       then arena_room (gu_arena g) else arena_len)"
proof -
  let ?c = "hostStorageGet I key g" and ?v = "case look (gu_host g) key of None \<Rightarrow> [] | Some v \<Rightarrow> v"
  have h: "gu_host (fst ?c) = gu_host g" "hands_over addr g ?v ?c"
    using assms by (auto simp: honest_store_def)
  have "arrives_in (arena_room (gu_arena g)) ?v =
      Option.bind (snd (InMemoryKV_Get key (look (gu_host g)))) (arrives_in (arena_room (gu_arena g)))"
    by (auto simp: InMemoryKV_Get_def arrives_in_def split: option.split)
  then show ?thesis using hands_over_within [OF assms(2) h(2)] h(1) by (auto simp: wasmKV_Get_def)
qed

text \<open>
  C38: the key-value store of production answers as that of the test kit, as far as the arena
  has room.  Over a host that keeps to the protocol, in an arena that is in order, however much
  of it is taken (in a handler the payload of the call still is), any sequence of reads, however
  long, answers for every key what \<^verbatim>\<open>InMemoryKV.Get\<close> answers on the same store, except that a
  value that is empty or longer than the room left is answered as missing.  The first read that
  delivers leaves the whole arena free, so from then on only values longer than the arena are
  missed; a miss frees nothing, so until then the room is the one the reads began with.  No read
  changes the store.
\<close>

theorem kv_agrees_with_double:
  assumes "honest_store addr (hostStorageGet I) look" "ready_arena addr (gu_arena g)"
  shows "\<exists>g' answers. kv_gets I addr keys g = Returned (g', answers) \<and>
    answers = within (arena_room (gu_arena g)) (map (\<lambda>k. snd (InMemoryKV_Get k (look (gu_host g)))) keys) \<and>
    ready_arena addr (gu_arena g') \<and> gu_host g' = gu_host g \<and>
    arena_room (gu_arena g') = (if list_all (\<lambda>a. a = None) answers then arena_room (gu_arena g) else arena_len)"
  using assms(2)
proof (induction keys arbitrary: g)
  case (Cons k ks)
  let ?v = "Option.bind (snd (InMemoryKV_Get k (look (gu_host g)))) (arrives_in (arena_room (gu_arena g)))"
  obtain g1 where g1: "wasmKV_Get I addr k g = Returned (g1, ?v)" "ready_arena addr (gu_arena g1)" "gu_host g1 = gu_host g"
      "arena_room (gu_arena g1) = (if ?v = None then arena_room (gu_arena g) else arena_len)"
    using kv_get_honest [OF assms(1) Cons.prems] by blast
  then show ?case using Cons.IH [OF g1(2)] by (cases ?v) auto
qed simp

section \<open>A parked body\<close>

text \<open>
  A host that holds \<open>whole\<close> under the handle and answers a request for a chunk with JSON that
  decodes to the next bytes of it; a chunk of more than \<open>fit\<close> bytes it may refuse, with a reply
  that says so or that does not fit the arena.
\<close>

definition chunk_reply :: "bytes \<Rightarrow> int \<Rightarrow> nat \<Rightarrow> int \<Rightarrow> bytes \<Rightarrow> bool" where
  "chunk_reply whole fit off lim reply \<longleftrightarrow>
     (if arrives reply = None then fit < lim
      else (case unmarshal zero_fetchChunk d_fetchChunk reply of
              None \<Rightarrow> False
            | Some c \<Rightarrow>
                (if chunk_error c \<noteq> '''' then chunk_code c = hostCodeResponseTooLarge \<and> fit < lim
                 else (\<exists>rest. drop off whole = chunk c @ rest \<and> (done_flag c \<longleftrightarrow> rest = []) \<and> (chunk c = [] \<longrightarrow> rest = [])))))"

definition serves_chunks :: "i32 \<Rightarrow> 'h host_imports \<Rightarrow> string \<Rightarrow> bytes \<Rightarrow> int \<Rightarrow> bool" where
  "serves_chunks addr I handle whole fit \<longleftrightarrow>
     (\<forall>g off lim. fresh addr g \<longrightarrow> off \<le> length whole \<longrightarrow> 0 < lim \<longrightarrow>
        (\<exists>reply. hands_over addr g reply (hostFetch I (marshal_or_nil (e_chunk_request handle (int off) lim)) g) \<and>
           chunk_reply whole fit off lim reply))"

lemma callFetchHost_delivers:
  assumes "fresh addr g" "hands_over addr g reply (hostFetch I req g)"
  shows "\<exists>g'. callFetchHost I addr req g =
      Returned (g', case arrives reply of None \<Rightarrow> Inl (errEmptyHostResponse ''fetch'') | Some b \<Rightarrow> Inr b) \<and> fresh addr g'"
  using hands_over_delivered [OF assms] by (auto simp: callFetchHost_def answered_bytes_def)

lemma host_error_kinds:
  "errors_Is (hostResultError op msg hostCodeResponseTooLarge) ErrResponseTooLarge"
  "errors_Is (errEmptyHostResponse op) ErrHostNoData"
  by (simp_all add: hostResultError_def errEmptyHostResponse_def errors_Is_def Let_def)

lemma chunk_reader_honest:
  assumes "serves_chunks addr I handle whole fit"
  shows "honest_host (\<lambda>s. fresh addr (fst s) \<and> \<not> snd s) (chunk_reader I addr je) handle whole fit"
  unfolding honest_host_def
proof (intro allI impI)
  fix s :: "'a guest \<times> bool" and off :: nat and lim :: int
  assume s: "fresh addr (fst s) \<and> \<not> snd s" and off: "off \<le> length whole" "0 < lim"
  let ?req = "marshal_or_nil (e_chunk_request handle (int off) lim)"
  obtain reply where reply: "hands_over addr (fst s) reply (hostFetch I ?req (fst s))" "chunk_reply whole fit off lim reply"
    using assms s off unfolding serves_chunks_def by blast
  obtain g' where g': "callFetchHost I addr ?req (fst s) =
      Returned (g', case arrives reply of None \<Rightarrow> Inl (errEmptyHostResponse ''fetch'') | Some b \<Rightarrow> Inr b)" "fresh addr g'"
    using callFetchHost_delivers [OF conjunct1 [OF s] reply(1)] by blast
  have b: "b = reply" if "arrives reply = Some b" for b using that by (auto simp: arrives_def split: if_splits)
  show "(fresh addr (fst (fst (chunk_reader I addr je s handle (int off) lim))) \<and>
      \<not> snd (fst (chunk_reader I addr je s handle (int off) lim))) \<and>
    (case snd (chunk_reader I addr je s handle (int off) lim) of
       Inl e \<Rightarrow> fit < lim \<and> (errors_Is e ErrResponseTooLarge \<or> errors_Is e ErrHostNoData)
     | Inr c \<Rightarrow> \<exists>rest. drop off whole = chunk c @ rest \<and> done_flag c = (rest = []) \<and> (chunk c = [] \<longrightarrow> rest = []))"
    using s g' reply(2) b host_error_kinds
    by (auto simp: chunk_reader_def readFetchChunk_def chunk_reply_def split: option.splits if_splits)
qed

text \<open>
  C39: a response body that does not fit the arena arrives whole.  From an empty arena, which
  any delivered reply leaves, when the host parks a body of
  at most 64 MiB under a handle and serves chunks of it of at least 4 KiB, whatever it refuses
  on the way, \<^verbatim>\<open>Fetch\<close> returns the envelope's status and headers with exactly that body, and
  leaves nothing in the arena.
\<close>

theorem fetch_returns_parked_body:
  assumes "fresh addr g"
    and "hands_over addr g reply (hostFetch I (marshal_or_nil (e_fetch_request httpMethod url headers body)) g)"
    and "arrives reply = Some reply" "unmarshal zero_fetchEnvelope d_fetchEnvelope reply = Some env"
    and "fr_Error env = ''''" "fe_BodyHandle env \<noteq> ''''" "fe_BodySize env = int (length whole)"
    and "serves_chunks addr I (fe_BodyHandle env) whole fit" "4096 \<le> fit" "int (length whole) \<le> 64 * 2 ^ 20"
  shows "\<exists>g'. Fetch I addr je httpMethod url headers body g =
      Returned (g', Inr (FetchResponse.truncate (env\<lparr>fr_Body := whole\<rparr>))) \<and> fresh addr g'"
proof -
  obtain g1 where g1: "callFetchHost I addr (marshal_or_nil (e_fetch_request httpMethod url headers body)) g =
      Returned (g1, Inr reply)" "fresh addr g1"
    using callFetchHost_delivers [OF assms(1,2)] assms(3) by auto
  have "fresh addr (fst (g1, False)) \<and> \<not> snd (g1, False)" using g1(2) by simp
  then obtain s' where s': "readBodyChunks (fe_BodyHandle env) (int (length whole)) (chunk_reader I addr je) (g1, False) = (s', Inr whole)"
      "fresh addr (fst s') \<and> \<not> snd s'"
    using readBodyChunks_honest [OF chunk_reader_honest [OF assms(8)] assms(9,10)] by blast
  then show ?thesis using g1 assms(4-7)
    by (cases s') (auto simp: Fetch_def parked_body_def)
qed

end
