(* ===== verification/WasmExports.thy ===== *)
theory WasmExports
  imports WasmFacts PluginFacts
begin

text \<open>
  \<^verbatim>\<open>wasm_exports.go\<close>: the functions the host calls.  A module is the guest, the dispatcher
  \<^verbatim>\<open>plugin.Run\<close> installed and the result kept alive for the host; the world of its handlers is
  the guest, so that their host calls are those of \<^theory_text>\<open>WasmHost\<close>.  \<open>addr\<close> is where the linker put the
  arena and \<open>place\<close> where the heap put a result.
\<close>

section \<open>The exports\<close>

record ('h, 'b) module =
  mo_guest :: "'h guest"
  mo_dispatcher :: "('h guest, 'b) dispatcher option"
  mo_result :: "bytes option"

definition Run :: "('h guest, 'b) Plugin \<Rightarrow> ('h, 'b) module \<Rightarrow> ('h, 'b) module" where
  "Run p m = m\<lparr>mo_dispatcher := Some (newDispatcher p)\<rparr>"

definition malloc :: "i32 \<Rightarrow> i32 \<Rightarrow> ('h, 'b) module \<Rightarrow> i32 \<times> ('h, 'b) module" where
  "malloc addr n m =
     (let (p, a) = wasmMalloc addr n (gu_arena (mo_guest m)) in (p, m\<lparr>mo_guest := (mo_guest m)\<lparr>gu_arena := a\<rparr>\<rparr>))"

definition free :: "i32 \<Rightarrow> ('h, 'b) module \<Rightarrow> ('h, 'b) module" where
  "free ptr m = m"

definition ResetAllocator :: "('h, 'b) module \<Rightarrow> ('h, 'b) module" where
  "ResetAllocator m = m\<lparr>mo_guest := release (mo_guest m)\<rparr>"

definition Init :: "'b \<Rightarrow> ('h, 'b) module \<Rightarrow> (('h, 'b) module \<times> i32) outcome" where
  "Init b m =
     (case mo_dispatcher m of
        None \<Rightarrow> Returned (m, 1)
      | Some d \<Rightarrow>
          bind_outcome (dispatcher_init b d (mo_guest m)) (\<lambda>(g, d', err).
            Returned (m\<lparr>mo_guest := g, mo_dispatcher := Some d'\<rparr>, case err of None \<Rightarrow> 0 | Some _ \<Rightarrow> 1)))"

text \<open>
  The three exports with a result differ in what they pass the payload to and in how they say
  that a result is too large.
\<close>

definition with_payload ::
    "i32 \<Rightarrow> (bytes \<Rightarrow> i32) \<Rightarrow> (bytes \<Rightarrow> ('h guest, 'b) dispatcher \<Rightarrow> 'h guest \<Rightarrow> ('h guest \<times> ('h guest, 'b) dispatcher \<times> bytes) outcome) \<Rightarrow>
     (string \<Rightarrow> bytes) \<Rightarrow> i32 \<Rightarrow> i32 \<Rightarrow> ('h, 'b) module \<Rightarrow> (('h, 'b) module \<times> i64) outcome" where
  "with_payload addr place handle tooLarge ptr len m =
     (case mo_dispatcher m of
        None \<Rightarrow> Returned (m, 0)
      | Some d \<Rightarrow>
          bind_outcome (copy_slice addr ptr len (mo_guest m)) (\<lambda>(g, payload).
            bind_outcome (handle payload d g) (\<lambda>(g', d', result).
              let (packed, buf) = packWASMResult place result tooLarge
              in Returned (\<lparr>mo_guest = release g', mo_dispatcher = Some d', mo_result = buf\<rparr>, packed))))"

definition HandleRequest ::
    "(string \<Rightarrow> string) \<Rightarrow> (bytes \<Rightarrow> string) \<Rightarrow> 'b \<Rightarrow> i32 \<Rightarrow> (bytes \<Rightarrow> i32) \<Rightarrow> i32 \<Rightarrow> i32 \<Rightarrow> ('h, 'b) module \<Rightarrow>
     (('h, 'b) module \<times> i64) outcome" where
  "HandleRequest up je b addr place = with_payload addr place (handleRequest up je b) (errorResponse 500)"

definition EvaluateCondition ::
    "(bytes \<Rightarrow> string) \<Rightarrow> 'b \<Rightarrow> i32 \<Rightarrow> (bytes \<Rightarrow> i32) \<Rightarrow> i32 \<Rightarrow> i32 \<Rightarrow> ('h, 'b) module \<Rightarrow> (('h, 'b) module \<times> i64) outcome" where
  "EvaluateCondition je b addr place = with_payload addr place (evaluateCondition je b) condition_error"

definition RunAction ::
    "(bytes \<Rightarrow> string) \<Rightarrow> 'b \<Rightarrow> i32 \<Rightarrow> (bytes \<Rightarrow> i32) \<Rightarrow> i32 \<Rightarrow> i32 \<Rightarrow> ('h, 'b) module \<Rightarrow> (('h, 'b) module \<times> i64) outcome" where
  "RunAction je b addr place = with_payload addr place (runAction je b) action_error"

definition HandleEvent ::
    "'b \<Rightarrow> i32 \<Rightarrow> i32 \<Rightarrow> i32 \<Rightarrow> i32 \<Rightarrow> i32 \<Rightarrow> ('h, 'b) module \<Rightarrow> ('h, 'b) module outcome" where
  "HandleEvent b addr topicPtr topicLen payloadPtr payloadLen m =
     (case mo_dispatcher m of
        None \<Rightarrow> Returned m
      | Some d \<Rightarrow>
          bind_outcome (copy_slice addr topicPtr topicLen (mo_guest m)) (\<lambda>(g1, topic).
            bind_outcome (copy_slice addr payloadPtr payloadLen g1) (\<lambda>(g2, payload).
              bind_outcome (handleEvent b topic payload d g2) (\<lambda>(g3, d', u).
                Returned (m\<lparr>mo_guest := g3, mo_dispatcher := Some d'\<rparr>)))))"

definition Shutdown :: "('h, 'b) module \<Rightarrow> ('h, 'b) module outcome" where
  "Shutdown m =
     (case mo_dispatcher m of
        None \<Rightarrow> Returned m
      | Some d \<Rightarrow> bind_outcome (pl_Shutdown (ds_plugin d) (mo_guest m)) (\<lambda>g. Returned (m\<lparr>mo_guest := g\<rparr>)))"

section \<open>A call with a payload\<close>

datatype entry = Request_entry | Condition_entry | Action_entry

fun call_export ::
    "entry \<Rightarrow> (string \<Rightarrow> string) \<Rightarrow> (bytes \<Rightarrow> string) \<Rightarrow> 'b \<Rightarrow> i32 \<Rightarrow> (bytes \<Rightarrow> i32) \<Rightarrow> i32 \<Rightarrow> i32 \<Rightarrow> ('h, 'b) module \<Rightarrow>
     (('h, 'b) module \<times> i64) outcome" where
  "call_export Request_entry up je b addr place = HandleRequest up je b addr place"
| "call_export Condition_entry up je b addr place = EvaluateCondition je b addr place"
| "call_export Action_entry up je b addr place = RunAction je b addr place"

fun entry_call :: "entry \<Rightarrow> bytes \<Rightarrow> host_call" where
  "entry_call Request_entry payload = Request_call payload"
| "entry_call Condition_entry payload = Condition_call payload"
| "entry_call Action_entry payload = Action_call payload"

fun too_large :: "entry \<Rightarrow> string \<Rightarrow> bytes" where
  "too_large Request_entry msg = errorResponse 500 msg"
| "too_large Condition_entry msg = condition_error msg"
| "too_large Action_entry msg = action_error msg"

lemma entry_steps:
  "(\<lambda>payload. host_step up je b (Request_call payload)) = handleRequest up je b"
  "(\<lambda>payload. host_step up je b (Condition_call payload)) = evaluateCondition je b"
  "(\<lambda>payload. host_step up je b (Action_call payload)) = runAction je b"
  by (simp_all add: fun_eq_iff)

lemma too_large_entries:
  "too_large Request_entry = errorResponse 500" "too_large Condition_entry = condition_error" "too_large Action_entry = action_error"
  by (simp_all add: fun_eq_iff)

lemma call_export_eq:
  "call_export e up je b addr place = with_payload addr place (\<lambda>payload. host_step up je b (entry_call e payload)) (too_large e)"
  by (cases e) (simp_all add: HandleRequest_def EvaluateCondition_def RunAction_def entry_steps too_large_entries del: too_large.simps)

text \<open>The host's side: the payload into the arena, and the result at the address it is given.\<close>

definition host_deliver :: "i32 \<Rightarrow> bytes \<Rightarrow> ('h, 'b) module \<Rightarrow> i32 \<times> ('h, 'b) module" where
  "host_deliver addr payload m =
     (let (p, a) = host_put addr payload (gu_arena (mo_guest m)) in (p, m\<lparr>mo_guest := (mo_guest m)\<lparr>gu_arena := a\<rparr>\<rparr>))"

text \<open>The result is at the address and of the length the packed value says.\<close>

definition result_at :: "(bytes \<Rightarrow> i32) \<Rightarrow> i64 \<Rightarrow> ('h, 'b) module \<Rightarrow> bytes \<Rightarrow> bool" where
  "result_at place packed m r \<longleftrightarrow>
     (if r = [] then packed = 0
      else mo_result m = Some r \<and> ucast (drop_bit 32 packed) = place r \<and> unat (take_bit 32 packed) = length r)"

lemma result_packed:
  assumes "packWASMResult place out toolarge = (packed, buf)" "length (boundResult out toolarge) < 2 ^ 32" "mo_result m = buf"
  shows "result_at place packed m (boundResult out toolarge)"
  using packWASMResult_unpack [OF assms(2), of place] assms(1,3) by (auto simp: result_at_def split: option.splits)

lemma delivered_payload:
  assumes "ready_arena addr (gu_arena (mo_guest m))" "payload \<noteq> []" "length payload \<le> arena_room (gu_arena (mo_guest m))"
  shows "\<exists>p m1 g. host_deliver addr payload m = (p, m1) \<and> p \<noteq> 0 \<and> mo_dispatcher m1 = mo_dispatcher m \<and>
    copy_slice addr p (of_nat (length payload)) (mo_guest m1) = Returned (g, payload) \<and> gu_host g = gu_host (mo_guest m)"
proof -
  obtain p a a2 where "host_put addr payload (gu_arena (mo_guest m)) = (p, a)" "p \<noteq> 0"
      "wasmSlice addr p (of_nat (length payload)) a = (Returned (Some payload), a2)"
    using arena_memory.put_get [OF assms] by blast
  then show ?thesis by (auto simp: host_deliver_def copy_slice_def)
qed

text \<open>
  C36: the WASM boundary is transparent.  A payload that fits what is left of the arena gets a
  non-null pointer, and the export called with it does to the dispatcher and to the world what the
  dispatcher's own entry point does with exactly that payload, panics included; afterwards the arena
  is released and the packed value gives the address and the length of the entry point's result,
  or of a well-formed message of its kind when the result exceeds the limit.
\<close>

theorem boundary_transparent:
  assumes "mo_dispatcher m = Some d" "ready_arena addr (gu_arena (mo_guest m))" "payload \<noteq> []"
    and "length payload \<le> arena_room (gu_arena (mo_guest m))"
  shows "\<exists>p m1 g. host_deliver addr payload m = (p, m1) \<and> p \<noteq> 0 \<and> gu_host g = gu_host (mo_guest m) \<and>
    (case host_step up je b (entry_call e payload) d g of
       Panicked \<Rightarrow> call_export e up je b addr place p (of_nat (length payload)) m1 = Panicked
     | Returned (g', d', out) \<Rightarrow>
         (let r = (if length out \<le> 16 * 2 ^ 20 then out else too_large e (resultTooLarge (length out)))
          in \<exists>m2 packed. call_export e up je b addr place p (of_nat (length payload)) m1 = Returned (m2, packed) \<and>
               mo_guest m2 = release g' \<and> mo_dispatcher m2 = Some d' \<and>
               (length r < 2 ^ 32 \<longrightarrow> result_at place packed m2 r)))"
proof -
  obtain p m1 g where p: "host_deliver addr payload m = (p, m1)" "p \<noteq> 0" "mo_dispatcher m1 = mo_dispatcher m"
      "copy_slice addr p (of_nat (length payload)) (mo_guest m1) = Returned (g, payload)" "gu_host g = gu_host (mo_guest m)"
    using delivered_payload [OF assms(2-4)] by blast
  have r: "(if length out \<le> 16 * 2 ^ 20 then out else too_large e (resultTooLarge (length out))) = boundResult out (too_large e)" for out
    by (simp add: boundResult_def maxResultBytes_def)
  have "case host_step up je b (entry_call e payload) d g of
       Panicked \<Rightarrow> call_export e up je b addr place p (of_nat (length payload)) m1 = Panicked
     | Returned (g', d', out) \<Rightarrow>
         \<exists>m2 packed. call_export e up je b addr place p (of_nat (length payload)) m1 = Returned (m2, packed) \<and>
               mo_guest m2 = release g' \<and> mo_dispatcher m2 = Some d' \<and>
               (length (boundResult out (too_large e)) < 2 ^ 32 \<longrightarrow> result_at place packed m2 (boundResult out (too_large e)))"
    using p(3,4) assms(1)
    by (auto simp: call_export_eq with_payload_def intro: result_packed split: outcome.splits prod.splits)
  then show ?thesis using p(1,2,5) unfolding r Let_def by blast
qed

lemma deliver_fits: "host_put addr d (gu_arena (mo_guest m)) = (p, a) \<Longrightarrow>
    host_deliver addr d m = (p, m\<lparr>mo_guest := (mo_guest m)\<lparr>gu_arena := a\<rparr>\<rparr>)"
  by (simp add: host_deliver_def)

text \<open>
  C37: an event reaches its handler as the host sent it.  A topic and a payload that together fit
  what is left of the arena both get non-null pointers, and \<^verbatim>\<open>HandleEvent\<close> called with them does what
  the dispatcher does with exactly that topic and payload, panics included.  Unlike the other exports it does
  not release the arena: both pieces are still allocated when the handler starts, so only a host
  call of a handler or the host's own \<^verbatim>\<open>ResetAllocator\<close> makes room for the next ones.
\<close>

theorem events_reach_handlers:
  assumes "mo_dispatcher m = Some d" "ready_arena addr (gu_arena (mo_guest m))" "topic \<noteq> []" "payload \<noteq> []"
    and "length topic + length payload \<le> arena_room (gu_arena (mo_guest m))"
  shows "\<exists>p m1 q m2 g. host_deliver addr topic m = (p, m1) \<and> host_deliver addr payload m1 = (q, m2) \<and> p \<noteq> 0 \<and> q \<noteq> 0 \<and>
    gu_host g = gu_host (mo_guest m) \<and>
    arena_room (gu_arena g) = arena_room (gu_arena (mo_guest m)) - length topic - length payload \<and>
    HandleEvent b addr p (of_nat (length topic)) q (of_nat (length payload)) m2 =
      map_outcome (\<lambda>(g', d', u). m2\<lparr>mo_guest := g', mo_dispatcher := Some d'\<rparr>) (handleEvent b topic payload d g)"
proof -
  obtain p a1 q a2 a3 a4 where a: "host_put addr topic (gu_arena (mo_guest m)) = (p, a1)" "host_put addr payload a1 = (q, a2)"
      "p \<noteq> 0" "q \<noteq> 0" "wasmSlice addr p (of_nat (length topic)) a2 = (Returned (Some topic), a3)"
      "wasmSlice addr q (of_nat (length payload)) a3 = (Returned (Some payload), a4)"
      "arena_room a4 = arena_room (gu_arena (mo_guest m)) - length topic - length payload"
    using arena_memory.put_get_two [OF assms(2-5)] by blast
  let ?m1 = "m\<lparr>mo_guest := (mo_guest m)\<lparr>gu_arena := a1\<rparr>\<rparr>" and ?g = "(mo_guest m)\<lparr>gu_arena := a4\<rparr>"
  let ?m2 = "m\<lparr>mo_guest := (mo_guest m)\<lparr>gu_arena := a2\<rparr>\<rparr>"
  have "host_deliver addr topic m = (p, ?m1)" "host_deliver addr payload ?m1 = (q, ?m2)"
    using deliver_fits [OF a(1)] deliver_fits [of addr payload ?m1 q a2] a(2) by simp_all
  moreover have "HandleEvent b addr p (of_nat (length topic)) q (of_nat (length payload)) ?m2 =
      map_outcome (\<lambda>(g', d', u). ?m2\<lparr>mo_guest := g', mo_dispatcher := Some d'\<rparr>) (handleEvent b topic payload d ?g)"
    using a(5,6) assms(1) by (cases "handleEvent b topic payload d ?g") (auto simp: HandleEvent_def copy_slice_def)
  ultimately show ?thesis using a(3,4,7) by (intro exI [of _ p] exI [of _ ?m1] exI [of _ q] exI [of _ ?m2] exI [of _ ?g]) simp
qed

end
