(* ===== verification/WasmExamples.thy ===== *)
theory WasmExamples
  imports WasmExports PluginExamples
begin

text \<open>
  The properties of the WASM boundary at a host with a small store, a parked body of three bytes
  and a module linked at 64 KiB.
\<close>

section \<open>A host\<close>

text \<open>A host's answer by the protocol.\<close>

definition put_reply :: "bytes \<Rightarrow> 'h guest \<Rightarrow> 'h guest \<times> i32 \<times> i32" where
  "put_reply v g =
     (if v = [] \<or> arena_room (gu_arena g) < length v then (g, 0, 0)
      else let (p, a) = host_put 0x10000 v (gu_arena g) in (g\<lparr>gu_arena := a\<rparr>, p, of_nat (length v)))"

lemma put_reply_protocol:
  "ready_arena 0x10000 (gu_arena g) \<Longrightarrow>
     hands_over 0x10000 g v (put_reply v g) \<and> gu_host (fst (put_reply v g)) = gu_host g"
  by (auto simp: put_reply_def hands_over_def split: prod.splits)

lemma fresh_ready: "fresh addr g \<Longrightarrow> ready_arena addr (gu_arena g)"
  by (simp add: fresh_def)

type_synonym demo_host = InMemoryKV

text \<open>The offset a request for a chunk ends with; any other request is for the document itself.\<close>

definition req_offset :: "bytes \<Rightarrow> bytes" where
  "req_offset req = rev (takeWhile is_digit (drop 1 (rev req)))"

definition envelope_json :: json where
  "envelope_json = JObj [(''status'', '''', JNum (itoa 200)), (''body_handle'', '''', JStr ''h''),
     (''body_size'', '''', JNum (itoa 3))]"

definition chunk_json :: "nat \<Rightarrow> json" where
  "chunk_json off = JObj [(''chunk'', '''', JStr (b64_encode (drop off ''abc''))), (''done'', '''', JBool True)]"

definition demo_fetch :: "demo_host reads" where
  "demo_fetch req g =
     put_reply (print_json (if req_offset req = [] then envelope_json else chunk_json (digits_val (req_offset req)))) g"

definition demo_imports :: "demo_host host_imports" where
  "demo_imports = \<lparr>hostLog = (\<lambda>l m g. g), hostDBQuery2 = (\<lambda>q p g. (g, (0, 0), 0, 0)), hostDBExec = (\<lambda>q p g. (g, 0, 0, 0)),
     hostStorageGet = (\<lambda>k g. put_reply (case gu_host g k of None \<Rightarrow> [] | Some v \<Rightarrow> v) g),
     hostStorageSet = (\<lambda>k v g. g\<lparr>gu_host := (gu_host g)(k \<mapsto> v)\<rparr>),
     hostStorageDelete = (\<lambda>k g. g\<lparr>gu_host := (gu_host g)(k := None)\<rparr>),
     hostCacheGet = (\<lambda>k g. (g, 0, 0)), hostCacheSet = (\<lambda>k v t g. g), hostCacheDelete = (\<lambda>k g. g),
     hostEventEmit = (\<lambda>t p g. g), hostFetch = demo_fetch, hostActivityRecord = (\<lambda>p g. g),
     hostConfigGet = (\<lambda>k g. (g, 0, 0)), hostPermissionCheck = (\<lambda>p g. (g, 1)), hostSettingsGet = (\<lambda>g. (g, 0, 0))\<rparr>"

definition demo_guest :: "demo_host guest" where
  "demo_guest = \<lparr>gu_arena = linked_arena 0, gu_host = [''greeting'' \<mapsto> ''hello'', ''blank'' \<mapsto> '''']\<rparr>"

lemma demo_fresh: "fresh 0x10000 demo_guest"
  using linked_arena_ready(1) by (simp add: fresh_def demo_guest_def arena_room_def used_def linked_arena_def)

lemma demo_store: "honest_store 0x10000 (hostStorageGet demo_imports) (\<lambda>h. h)"
  using put_reply_protocol by (auto simp: honest_store_def demo_imports_def)

text \<open>
  In a handler whose payload takes a byte of the arena, with a value that takes all of it.
\<close>

definition demo_big :: bytes where
  "demo_big = replicate arena_len (CHR ''a'')"

lemma demo_big_length: "length demo_big = arena_len" "demo_big \<noteq> []"
proof -
  show "length demo_big = arena_len" unfolding demo_big_def by (rule length_replicate)
  then show "demo_big \<noteq> []" by (auto simp: arena_len_def)
qed

definition demo_handler :: "demo_host guest" where
  "demo_handler = \<lparr>gu_arena = linked_arena 1, gu_host = [''greeting'' \<mapsto> ''hello'', ''big'' \<mapsto> demo_big, ''blank'' \<mapsto> '''']\<rparr>"

lemma demo_handler_room: "arena_room (gu_arena demo_handler) = 1048575"
  by (simp add: demo_handler_def arena_room_def used_def linked_arena_def arena_len_def)

theorem kv_agrees_with_double_witness:
  "\<exists>g'. kv_gets demo_imports 0x10000 [''big'', ''blank'', ''greeting'', ''big'', ''other''] demo_handler =
     Returned (g', [None, None, Some ''hello'', Some demo_big, None])"
proof -
  have "ready_arena 0x10000 (gu_arena demo_handler)" using linked_arena_ready(2) by (simp add: demo_handler_def)
  from kv_agrees_with_double [OF demo_store this, of "[''big'', ''blank'', ''greeting'', ''big'', ''other'']"] show ?thesis
    using demo_big_length
    by (auto simp: demo_handler_room InMemoryKV_Get_def arrives_in_def) (auto simp: demo_handler_def arrives_in_def arena_len_def)
qed

section \<open>The document\<close>

lemma envelope_back: "unmarshal zero_fetchEnvelope d_fetchEnvelope (print_json envelope_json) =
    Some (zero_fetchEnvelope\<lparr>fr_Status := 200, fe_BodyHandle := ''h'', fe_BodySize := 3\<rparr>)"
proof -
  have "unmarshal zero_fetchEnvelope d_fetchEnvelope (print_json envelope_json) =
      d_fetchEnvelope zero_fetchEnvelope (print_json envelope_json, norm_json envelope_json)"
    by (intro unmarshal_print) (simp_all add: envelope_json_def max_depth_def atoi_itoa_id min_int64_def max_int64_def)
  then show ?thesis
    by (simp add: envelope_json_def d_fetchEnvelope_def d_struct_Cons d_struct_Nil fld_def d_str_def d_int_def
        zero_fetchEnvelope_def atoi_itoa min_int64_def max_int64_def)
qed

lemma chunk_back: "unmarshal zero_fetchChunk d_fetchChunk (print_json (chunk_json off)) =
    Some (zero_fetchChunk\<lparr>chunk := drop off ''abc'', done_flag := True\<rparr>)"
proof -
  have "unmarshal zero_fetchChunk d_fetchChunk (print_json (chunk_json off)) =
      d_fetchChunk zero_fetchChunk (print_json (chunk_json off), norm_json (chunk_json off))"
    by (intro unmarshal_print) (simp_all add: chunk_json_def max_depth_def)
  then show ?thesis
    by (simp add: chunk_json_def d_fetchChunk_def d_struct_Cons d_struct_Nil fld_def d_bytes_def d_bool_def
        zero_fetchChunk_def b64_encode_ascii b64_roundtrip del: b64_encode.simps)
qed

lemma offset_at_end: "req_offset (x @ CHR '':'' # digits n @ ''}'') = digits n"
proof -
  have "\<not> is_digit CHR '':''" by code_simp
  moreover have "list_all is_digit (rev (digits n))" using digits_all by (auto simp: list_all_iff)
  ultimately have "takeWhile is_digit (rev (digits n) @ CHR '':'' # rev x) = rev (digits n)"
    by (subst takeWhile_append2) (simp_all add: list_all_iff)
  then show ?thesis by (simp add: req_offset_def)
qed

lemma chunk_request_offset: "req_offset (marshal_or_nil (e_chunk_request handle (int off) lim)) = digits off"
proof -
  have "\<exists>x. marshal_or_nil (e_chunk_request handle (int off) lim) = x @ CHR '':'' # digits off @ ''}''"
    by (simp add: marshal_or_nil_def marshal_def e_chunk_request_def e_struct_def e_str_def e_int_def itoa_def)
  then show ?thesis using offset_at_end by metis
qed

lemma document_request: "req_offset (marshal_or_nil (e_fetch_request ''GET'' ''https://example.com'' [] '''')) = []"
  by code_simp

lemma replies_arrive:
  "arrives (print_json envelope_json) = Some (print_json envelope_json)"
  "off \<le> 3 \<Longrightarrow> arrives (print_json (chunk_json off)) = Some (print_json (chunk_json off))"
proof -
  have e: "print_json envelope_json \<noteq> [] \<and> length (print_json envelope_json) \<le> 1000" by code_simp
  have "list_all (\<lambda>off. print_json (chunk_json off) \<noteq> [] \<and> length (print_json (chunk_json off)) \<le> 1000) [0, 1, 2, 3]" by code_simp
  moreover have "off \<le> 3 \<Longrightarrow> off \<in> set [0, 1, 2, 3]" by auto
  ultimately have c: "off \<le> 3 \<Longrightarrow> print_json (chunk_json off) \<noteq> [] \<and> length (print_json (chunk_json off)) \<le> 1000"
    unfolding list_all_iff by blast
  show "arrives (print_json envelope_json) = Some (print_json envelope_json)" using e by (simp add: arrives_def arena_len_def)
  show "off \<le> 3 \<Longrightarrow> arrives (print_json (chunk_json off)) = Some (print_json (chunk_json off))"
    using c by (simp add: arrives_def arena_len_def)
qed

lemma demo_serves: "serves_chunks 0x10000 demo_imports handle ''abc'' 4096"
  unfolding serves_chunks_def
proof (intro allI impI)
  fix g :: "demo_host guest" and off :: nat and lim :: int
  assume g: "fresh 0x10000 g" "off \<le> length ''abc''"
  let ?reply = "print_json (chunk_json off)"
  have "hands_over 0x10000 g ?reply (hostFetch demo_imports (marshal_or_nil (e_chunk_request handle (int off) lim)) g)"
    using put_reply_protocol [OF fresh_ready [OF g(1)]]
    by (simp add: demo_imports_def demo_fetch_def chunk_request_offset digits_val_digits)
  moreover have "chunk_reply ''abc'' 4096 off lim ?reply"
    using replies_arrive(2) [of off] g(2) unfolding chunk_reply_def chunk_back by (simp add: zero_fetchChunk_def)
  ultimately show "\<exists>reply. hands_over 0x10000 g reply (hostFetch demo_imports (marshal_or_nil (e_chunk_request handle (int off) lim)) g) \<and>
      chunk_reply ''abc'' 4096 off lim reply" by blast
qed

theorem fetch_returns_parked_body_witness:
  "\<exists>g'. Fetch demo_imports 0x10000 (\<lambda>b. ''bad'') ''GET'' ''https://example.com'' [] '''' demo_guest =
     Returned (g', Inr \<lparr>fr_Status = 200, fr_Body = ''abc'', fr_Headers = [], fr_Error = '''', fr_Code = ''''\<rparr>)"
proof -
  have "hands_over 0x10000 demo_guest (print_json envelope_json)
      (hostFetch demo_imports (marshal_or_nil (e_fetch_request ''GET'' ''https://example.com'' [] '''')) demo_guest)"
    using put_reply_protocol [OF fresh_ready [OF demo_fresh]] by (simp add: demo_imports_def demo_fetch_def document_request)
  from fetch_returns_parked_body [OF demo_fresh this replies_arrive(1) envelope_back, of "''abc''" 4096 "\<lambda>b. ''bad''"]
  show ?thesis using demo_serves by (auto simp: zero_fetchEnvelope_def FetchResponse.truncate_def)
qed

section \<open>A module\<close>

definition idle_plugin :: "(demo_host guest, unit) Plugin" where
  "idle_plugin = \<lparr>pl_Init = (\<lambda>c w. Returned (w, c, None)), pl_Shutdown = (\<lambda>w. Returned w)\<rparr>"

definition demo_module :: "(demo_host, unit) module" where
  "demo_module = Run idle_plugin \<lparr>mo_guest = demo_guest, mo_dispatcher = None, mo_result = None\<rparr>"

lemma demo_module_ready:
  "mo_dispatcher demo_module = Some (newDispatcher idle_plugin)"
  "ready_arena 0x10000 (gu_arena (mo_guest demo_module))" "arena_room (gu_arena (mo_guest demo_module)) = arena_len"
  using demo_fresh by (simp_all add: demo_module_def Run_def fresh_def)

theorem boundary_transparent_witness:
  "\<exists>p m1 m2 packed. host_deliver 0x10000 ''{'' demo_module = (p, m1) \<and>
     HandleRequest byte_upper (\<lambda>b. ''bad'') () 0x10000 (\<lambda>b. 0x20000) p 1 m1 = Returned (m2, packed) \<and>
     result_at (\<lambda>b. 0x20000) packed m2 (errorResponse 400 ''bad request payload: bad'')"
proof -
  have s: "handleRequest byte_upper (\<lambda>b. ''bad'') () ''{'' (newDispatcher idle_plugin) g =
      Returned (g, newDispatcher idle_plugin, errorResponse 400 ''bad request payload: bad'')" for g :: "demo_host guest"
    by (simp add: handleRequest_def unmarshal_def parse_broken)
  have l: "length (errorResponse 400 ''bad request payload: bad'') \<le> 1000" by code_simp
  have room: "length ''{'' \<le> arena_room (gu_arena (mo_guest demo_module))"
    by (simp add: demo_module_ready arena_len_def)
  show ?thesis
    using boundary_transparent [OF demo_module_ready(1,2) _ room, where up = byte_upper and je = "\<lambda>b. ''bad''" and b = "()"
        and e = Request_entry and place = "\<lambda>b. 0x20000"] l
    by (auto simp: s Let_def)
qed

theorem events_reach_handlers_witness:
  "\<exists>p m1 q m2 m3. host_deliver 0x10000 ''task.created'' demo_module = (p, m1) \<and> host_deliver 0x10000 ''{}'' m1 = (q, m2) \<and>
     HandleEvent () 0x10000 p 12 q 2 m2 = Returned m3 \<and> arena_room (gu_arena (mo_guest m3)) = 1048576 - 14"
proof -
  have e: "\<exists>d'. handleEvent () ''task.created'' ''{}'' (newDispatcher idle_plugin) g = Returned (g, d', ())"
    for g :: "demo_host guest"
    by (simp add: handleEvent_def with_init_def dispatcher_init_def newDispatcher_def idle_plugin_def newContext_def)
  have room: "length ''task.created'' + length ''{}'' \<le> arena_room (gu_arena (mo_guest demo_module))"
    by (simp add: demo_module_ready arena_len_def)
  obtain p m1 q m2 g where h: "host_deliver 0x10000 ''task.created'' demo_module = (p, m1)"
      "host_deliver 0x10000 ''{}'' m1 = (q, m2)"
      "arena_room (gu_arena g) = arena_room (gu_arena (mo_guest demo_module)) - length ''task.created'' - length ''{}''"
      "HandleEvent () 0x10000 p (of_nat (length ''task.created'')) q (of_nat (length ''{}'')) m2 =
        map_outcome (\<lambda>(g', d', u). m2\<lparr>mo_guest := g', mo_dispatcher := Some d'\<rparr>)
          (handleEvent () ''task.created'' ''{}'' (newDispatcher idle_plugin) g)"
    using events_reach_handlers [OF demo_module_ready(1,2) _ _ room, of "()"] by auto
  obtain d' where "handleEvent () ''task.created'' ''{}'' (newDispatcher idle_plugin) g = Returned (g, d', ())" using e by blast
  with h show ?thesis by (auto simp: demo_module_ready arena_len_def)
qed

end
