(* ===== verification/InMemoryFacts.thy ===== *)
theory InMemoryFacts
  imports InMemoryDB
begin

text \<open>
  What a plugin's tests can rely on in \<^verbatim>\<open>InMemoryDB\<close>: the \<^verbatim>\<open>WHERE\<close> clauses of the documented
  form are read back exactly, and SELECT and DELETE act on the rows that satisfy all of
  their predicates and on no other.
\<close>

section \<open>Searching and splitting\<close>

lemma prefix_before: "prefix sub (u @ c # v) \<Longrightarrow> c \<notin> set sub \<Longrightarrow> prefix sub u"
  by (auto simp: prefix_append prefix_Cons)

lemma index_of_prefix: "prefix sub s \<Longrightarrow> index_of sub s = Some 0"
  by (cases s) simp_all

lemma index_of_here: "index_of sub (sub @ r) = Some 0"
  by (rule index_of_prefix) simp

lemma index_of_skip: "\<not> prefix sub (c # s) \<Longrightarrow> index_of sub (c # s) = map_option Suc (index_of sub s)"
  by simp

lemma index_of_separated:
  "c \<notin> set sub \<Longrightarrow> sub \<noteq> [] \<Longrightarrow> \<not> sublist sub x \<Longrightarrow> index_of sub (x @ c # sub @ r) = Some (length x + 1)"
proof (induction x)
  case Nil
  then have "\<not> prefix sub (c # sub @ r)" by (cases sub) auto
  then have "index_of sub (c # sub @ r) = map_option Suc (index_of sub (sub @ r))" by (rule index_of_skip)
  then show ?case by (simp only: append_Nil index_of_here option.map list.size) simp
next
  case (Cons a x)
  have "\<not> prefix sub (a # x)" using Cons.prems(3) prefix_imp_sublist by blast
  then have "\<not> prefix sub (a # (x @ c # sub @ r))"
    using prefix_before [of sub "a # x" c "sub @ r"] Cons.prems(1) by auto
  then have "index_of sub (a # (x @ c # sub @ r)) = map_option Suc (index_of sub (x @ c # sub @ r))" by (rule index_of_skip)
  then show ?case using Cons by (simp only: append_Cons sublist_Cons_right) simp
qed

lemma index_of_first:
  "c \<notin> set x \<Longrightarrow> index_of (c # sub) (x @ c # sub @ r) = Some (length x)"
proof (induction x)
  case Nil
  then show ?case using index_of_here [of "c # sub" r] by simp
qed simp

lemma index_of_absent: "c \<in> set sub \<Longrightarrow> c \<notin> set s \<Longrightarrow> index_of sub s = None"
  unfolding index_of_None by (meson set_mono_sublist subsetD)

section \<open>Words\<close>

definition visible :: "char \<Rightarrow> bool" where
  "visible c \<longleftrightarrow> byte_val c < 128 \<and> \<not> ascii_space c"

lemma wide_spaces_code [code]:
  "wide_spaces =
     [[CHR 0xC2, CHR 0x85],
      [CHR 0xC2, CHR 0xA0],
      [CHR 0xE1, CHR 0x9A, CHR 0x80],
      [CHR 0xE2, CHR 0x80, CHR 0xA8],
      [CHR 0xE2, CHR 0x80, CHR 0xA9],
      [CHR 0xE2, CHR 0x80, CHR 0xAF],
      [CHR 0xE2, CHR 0x81, CHR 0x9F],
      [CHR 0xE3, CHR 0x80, CHR 0x80],
      [CHR 0xE2, CHR 0x80, CHR 0x80],
      [CHR 0xE2, CHR 0x80, CHR 0x81],
      [CHR 0xE2, CHR 0x80, CHR 0x82],
      [CHR 0xE2, CHR 0x80, CHR 0x83],
      [CHR 0xE2, CHR 0x80, CHR 0x84],
      [CHR 0xE2, CHR 0x80, CHR 0x85],
      [CHR 0xE2, CHR 0x80, CHR 0x86],
      [CHR 0xE2, CHR 0x80, CHR 0x87],
      [CHR 0xE2, CHR 0x80, CHR 0x88],
      [CHR 0xE2, CHR 0x80, CHR 0x89],
      [CHR 0xE2, CHR 0x80, CHR 0x8A]]"
  by code_simp

lemma wide_all: "list_all (\<lambda>w. w \<noteq> [] \<and> 128 \<le> byte_val (hd w) \<and> 128 \<le> byte_val (last w)) wide_spaces"
  by code_simp

lemma wide_first: "w \<in> set wide_spaces \<Longrightarrow> w \<noteq> [] \<and> 128 \<le> byte_val (hd w) \<and> 128 \<le> byte_val (last w)"
  using wide_all unfolding list_all_iff by blast

lemma space_len_visible [simp]: "visible c \<Longrightarrow> space_len (c # s) = 0"
proof -
  assume c: "visible c"
  have "\<not> prefix w (c # s)" if "w \<in> set wide_spaces" for w
    using wide_first [OF that] c by (auto simp: visible_def prefix_Cons)
  then have "find (\<lambda>w. prefix w (c # s)) wide_spaces = None" by (simp add: find_None_iff)
  then show ?thesis using c by (simp add: space_len_def visible_def)
qed

lemma space_suffix_visible [simp]: "s \<noteq> [] \<Longrightarrow> visible (last s) \<Longrightarrow> space_suffix_len s = 0"
proof -
  assume s: "s \<noteq> []" "visible (last s)"
  have "\<not> suffix w s" if "w \<in> set wide_spaces" for w
  proof
    assume "suffix w s"
    then have "last s = last w" using wide_first [OF that] by (auto simp: suffix_def)
    then show False using wide_first [OF that] s by (simp add: visible_def)
  qed
  then have "find (\<lambda>w. suffix w s) wide_spaces = None" by (simp add: find_None_iff)
  then show ?thesis using s by (simp add: space_suffix_len_def visible_def)
qed

definition SP :: char where "SP = CHR '' ''"

lemma space_len_SP [simp]: "space_len (SP # s) = 1"
  by (simp add: space_len_def SP_def ascii_space_def byte_val_def)

lemma trim_left_visible: "visible c \<Longrightarrow> trim_left_space (c # s) = c # s"
  by (subst trim_left_space.simps) simp

lemma trim_left_SP: "trim_left_space (SP # s) = trim_left_space s"
  by (subst trim_left_space.simps) simp

lemma trim_right_visible: "s \<noteq> [] \<Longrightarrow> visible (last s) \<Longrightarrow> trim_right_space s = s"
  by (subst trim_right_space.simps) simp

lemma trim_right_SP: "trim_right_space (s @ [SP]) = trim_right_space s"
proof -
  have "space_suffix_len (s @ [SP]) = 1" by (simp add: space_suffix_len_def SP_def ascii_space_def byte_val_def)
  then show ?thesis by (subst trim_right_space.simps) simp
qed

definition framed :: "string \<Rightarrow> bool" where
  "framed s \<longleftrightarrow> s \<noteq> [] \<and> visible (hd s) \<and> visible (last s)"

lemma trim_framed: "framed s \<Longrightarrow> trim_space s = s"
  by (cases s) (auto simp: framed_def trim_space_def trim_left_visible trim_right_visible)

lemma trim_space_SP: "trim_space (SP # s) = trim_space s"
  by (simp add: trim_space_def trim_left_SP)

lemma trim_framed_SP: "framed s \<Longrightarrow> trim_space (s @ [SP]) = s"
proof -
  assume f: "framed s"
  then obtain c t where s: "s = c # t" by (cases s) (auto simp: framed_def)
  have "trim_left_space (s @ [SP]) = s @ [SP]" using f unfolding s framed_def by (simp add: trim_left_visible)
  then show ?thesis using f by (simp add: trim_space_def trim_right_SP trim_right_visible framed_def)
qed

lemma fields_word:
  "list_all visible w \<Longrightarrow> fields_aux (length w + n) acc (w @ s) = fields_aux n (acc @ w) s"
  by (induction w arbitrary: acc) auto

lemma fields_join:
  "ws \<noteq> [] \<Longrightarrow> list_all (\<lambda>w. w \<noteq> [] \<and> list_all visible w) ws \<Longrightarrow>
     fields_aux (length (join ws [SP])) [] (join ws [SP]) = ws"
proof (induction ws rule: induct_list012)
  case (2 x)
  then show ?case using fields_word [of x 0 "[]" "[]"] by simp
next
  case (3 x y ys)
  have "fields_aux (length x + Suc (length (join (y # ys) [SP]))) [] (x @ SP # join (y # ys) [SP]) =
      fields_aux (Suc (length (join (y # ys) [SP]))) x (SP # join (y # ys) [SP])"
    using 3(4) fields_word [of x "Suc (length (join (y # ys) [SP]))" "[]" "SP # join (y # ys) [SP]"] by simp
  then show ?case using 3 by simp
qed simp

lemma fields_words:
  "ws \<noteq> [] \<Longrightarrow> list_all (\<lambda>w. w \<noteq> [] \<and> list_all visible w) ws \<Longrightarrow> GoStrings.fields (join ws [SP]) = ws"
  by (subst GoStrings.fields_def) (rule fields_join)

section \<open>Conditions as text\<close>

definition AND :: string where "AND = ''AND''"

definition column_name :: "string \<Rightarrow> bool" where
  "column_name s \<longleftrightarrow> s \<noteq> [] \<and> list_all visible s \<and> \<not> sublist AND s"

definition cond_words :: "condition \<Rightarrow> string list" where
  "cond_words c =
     (if cond_isNull c then [cond_column c, ''IS'', ''NULL'']
      else if cond_isNotNull c then [cond_column c, ''IS'', ''NOT'', ''NULL'']
      else [cond_column c, ''='', CHR ''$'' # itoa (cond_paramIdx c)])"

definition cond_text :: "condition \<Rightarrow> string" where
  "cond_text c = join (cond_words c) [SP]"

definition where_text :: "condition list \<Rightarrow> string" where
  "where_text cs = join (map cond_text cs) (SP # AND @ [SP])"

definition wf_cond :: "condition \<Rightarrow> bool" where
  "wf_cond c \<longleftrightarrow> column_name (cond_column c) \<and>
     (if cond_isNull c then \<not> cond_isNotNull c \<and> cond_paramIdx c = 0
      else if cond_isNotNull c then cond_paramIdx c = 0
      else 0 < cond_paramIdx c \<and> cond_paramIdx c \<le> max_int64)"

lemma AND_no_space: "SP \<notin> set AND" "AND \<noteq> []"
  by (simp_all add: AND_def SP_def)

lemma sublist_over_gap: "c \<notin> set sub \<Longrightarrow> sub \<noteq> [] \<Longrightarrow> sublist sub (x @ c # y) \<longleftrightarrow> sublist sub x \<or> sublist sub y"
proof -
  assume c: "c \<notin> set sub" "sub \<noteq> []"
  have 1: "xs2 = []" if "sub = xs1 @ xs2" "prefix xs2 (c # y)" for xs1 xs2
    using c that by (cases xs2) auto
  have 2: "\<not> prefix sub (c # y)" using c by (cases sub) auto
  show ?thesis
    unfolding sublist_append sublist_Cons_right using 1 2 by (metis append_Nil2 suffix_imp_sublist)
qed

lemma keywords_visible:
  "list_all visible ''IS'' \<and> list_all visible ''NULL'' \<and> list_all visible ''NOT'' \<and> list_all visible ''='' \<and> visible (CHR ''$'')"
  by code_simp

lemma keywords_no_AND:
  "\<not> sublist AND ''IS'' \<and> \<not> sublist AND ''NULL'' \<and> \<not> sublist AND ''NOT'' \<and> \<not> sublist AND ''=''"
  by code_simp

lemma digit_visible: "is_digit c \<Longrightarrow> visible c"
  by (auto simp: is_digit_def visible_def ascii_space_def)

lemma A_no_digit: "\<not> is_digit CHR ''A''"
  by code_simp

lemma itoa_digits: "0 \<le> i \<Longrightarrow> list_all is_digit (itoa i) \<and> itoa i \<noteq> []"
  using digits_all by (auto simp: itoa_def list_all_iff)

lemma no_A_no_AND: "CHR ''A'' \<notin> set s \<Longrightarrow> \<not> sublist AND s"
  by (auto simp: AND_def sublist_def)

lemma param_word:
  assumes "0 \<le> i"
  shows "list_all visible (CHR ''$'' # itoa i)" "\<not> sublist AND (CHR ''$'' # itoa i)"
  using itoa_digits [OF assms] keywords_visible digit_visible A_no_digit
  by (auto simp: list_all_iff intro!: no_A_no_AND)

lemma cond_words_ok:
  assumes "wf_cond c"
  shows "list_all (\<lambda>w. w \<noteq> [] \<and> list_all visible w \<and> \<not> sublist AND w) (cond_words c)" "cond_words c \<noteq> []"
  using assms keywords_visible keywords_no_AND param_word [of "cond_paramIdx c"]
  by (auto simp: cond_words_def wf_cond_def column_name_def split: if_splits)

lemma join_words:
  assumes "ws \<noteq> []" "list_all (\<lambda>w. w \<noteq> [] \<and> list_all visible w \<and> \<not> sublist AND w) ws"
  shows "framed (join ws [SP]) \<and> \<not> sublist AND (join ws [SP]) \<and> list_all (\<lambda>c. visible c \<or> c = SP) (join ws [SP])"
  using assms
proof (induction ws rule: induct_list012)
  case (2 x)
  then show ?case by (auto simp: framed_def list_all_iff)
next
  case (3 x y ys)
  then have "framed (join (y # ys) [SP])" "\<not> sublist AND (join (y # ys) [SP])"
    "list_all (\<lambda>c. visible c \<or> c = SP) (join (y # ys) [SP])" by simp_all
  moreover have "\<not> sublist AND (x @ SP # join (y # ys) [SP])"
    using 3(4) calculation(2) sublist_over_gap [OF AND_no_space] by simp
  moreover have "x \<noteq> []" "visible (hd x)" "list_all (\<lambda>c. visible c \<or> c = SP) x"
    using 3(4) by (auto simp: list_all_iff)
  ultimately show ?case by (auto simp: framed_def)
qed simp

lemmas cond_text_ok = join_words [OF cond_words_ok(2) cond_words_ok(1), folded cond_text_def]

text \<open>Splitting at \<^verbatim>\<open>AND\<close> and trimming gives the conditions back.\<close>

lemma split_at:
  assumes "index_of sep s = Some i" "sep \<noteq> []"
  shows "split s sep = take i s # split (drop (i + length sep) s) sep"
  using assms by (subst split.simps) simp

lemma split_none: "\<not> sublist sep s \<Longrightarrow> sep \<noteq> [] \<Longrightarrow> split s sep = [s]"
  by (subst split.simps) (simp add: index_of_None [THEN iffD2])

lemma split_AND: "\<not> sublist AND x \<Longrightarrow> split (x @ SP # AND @ r) AND = (x @ [SP]) # split r AND"
  using split_at [OF index_of_separated [OF AND_no_space, of x r] AND_no_space(2)] by simp

lemma split_conditions:
  assumes "ts \<noteq> []" "list_all (\<lambda>t. framed t \<and> \<not> sublist AND t) ts"
  shows "map trim_space (split (join ts (SP # AND @ [SP])) AND) = ts \<and>
    map trim_space (split (SP # join ts (SP # AND @ [SP])) AND) = ts"
  using assms
proof (induction ts rule: induct_list012)
  case (2 t)
  then have "\<not> sublist AND (SP # t)" using sublist_over_gap [OF AND_no_space, of "[]" t] AND_no_space by simp
  then show ?case using 2 by (simp add: split_none AND_no_space trim_space_SP trim_framed)
next
  case (3 t u ts)
  let ?r = "SP # join (u # ts) (SP # AND @ [SP])"
  have t: "framed t" "\<not> sublist AND t" "\<not> sublist AND (SP # t)"
    using 3(4) sublist_over_gap [OF AND_no_space, of "[]" t] AND_no_space by simp_all
  have "map trim_space (split ?r AND) = u # ts" using 3 by simp
  moreover have "split (t @ SP # AND @ ?r) AND = (t @ [SP]) # split ?r AND" by (rule split_AND) (rule t)
  moreover have "split ((SP # t) @ SP # AND @ ?r) AND = ((SP # t) @ [SP]) # split ?r AND" by (rule split_AND) (rule t)
  ultimately show ?case using t by (simp add: trim_space_SP trim_framed_SP)
qed simp

section \<open>Conditions are read back\<close>

lemma cond_fields: "wf_cond c \<Longrightarrow> GoStrings.fields (cond_text c) = cond_words c"
  using cond_words_ok [of c] unfolding cond_text_def by (intro fields_words) (auto simp: list_all_iff)

lemma scan_d_itoa:
  assumes "0 < i" "i \<le> max_int64"
  shows "scan_d (itoa i) = Some i"
proof -
  let ?n = "nat i"
  have i: "itoa i = digits ?n" using assms by (simp add: itoa_def)
  have d: "list_all is_digit (digits ?n)" using digits_all by (auto simp: list_all_iff)
  have "\<not> has_prefix (digits ?n) ''-''" "\<not> has_prefix (digits ?n) ''+''"
    using d digits_nonempty [of ?n] by (auto simp: has_prefix_def prefix_def dest: digit_not_sign)
  moreover have t: "takeWhile is_digit (digits ?n) = digits ?n" using d by (simp add: takeWhile_eq_all_conv list_all_iff)
  ultimately show ?thesis using assms unfolding scan_d_def i Let_def by (simp add: t digits_val_digits min_int64_def del: takeWhile_eq_all_conv)
qed

lemma keyword_folds:
  "equal_fold ''IS'' ''IS''" "equal_fold ''NULL'' ''NULL''" "equal_fold ''NOT'' ''NOT''" "\<not> equal_fold ''='' ''IS''"
  "\<not> equal_fold ''NOT'' ''NULL''"
  by code_simp+

lemma parseCondition_text: "wf_cond c \<Longrightarrow> parseCondition L (cond_text c) = ok c"
  by (cases c) (auto simp: parseCondition_def cond_fields Let_def cond_words_def keyword_folds parseColParam_def
      has_prefix_def scan_d_itoa wf_cond_def split: if_splits)

lemma map_res_all: "list_all2 (\<lambda>x y. f x = ok y) xs ys \<Longrightarrow> map_res f xs = ok ys"
  by (induction xs ys rule: list_all2_induct) simp_all

lemma map_res_map: "map_res (\<lambda>x. f (g x)) xs = map_res f (map g xs)"
  by (induction xs) simp_all

lemma parseConditions_text:
  assumes "cs \<noteq> []" "list_all wf_cond cs"
  shows "parseConditions L (where_text cs) = ok cs"
proof -
  have "list_all (\<lambda>t. framed t \<and> \<not> sublist AND t) (map cond_text cs)"
    using assms(2) cond_text_ok by (auto simp: list_all_iff)
  then have "map trim_space (split (where_text cs) AND) = map cond_text cs"
    using split_conditions [of "map cond_text cs"] assms(1) by (simp add: where_text_def)
  moreover have "map_res (parseCondition L) (map cond_text cs) = ok cs"
    using assms(2) parseCondition_text by (intro map_res_all) (auto simp: list_all2_conv_all_nth list_all_length)
  ultimately show ?thesis
    unfolding parseConditions_def map_res_map [of "parseCondition L" trim_space] AND_def [symmetric] by simp
qed

section \<open>Statements\<close>

definition FROM :: string where "FROM = '' FROM ''"
definition WHERE :: string where "WHERE = '' WHERE ''"

text \<open>
  \<open>SELECT * FROM t\<close>, \<open>SELECT c, d FROM t\<close> and \<open>DELETE FROM t\<close>, with or without \<open>WHERE ...\<close>; an
  empty list of columns stands for the star.
\<close>

definition from_where :: "string \<Rightarrow> condition list \<Rightarrow> string" where
  "from_where t cs = (if cs = [] then t else t @ WHERE @ where_text cs)"

fun column_list :: "string list \<Rightarrow> string list" where
  "column_list [] = [''*'']"
| "column_list [c] = [c]"
| "column_list (c # d # cs) = (c @ '','') # column_list (d # cs)"

definition SELECT :: "string list \<Rightarrow> string" where "SELECT cols = join (''SELECT'' # column_list cols) [SP]"
definition DELETE :: string where "DELETE = ''DELETE''"

definition select_sql :: "string list \<Rightarrow> string \<Rightarrow> condition list \<Rightarrow> string" where
  "select_sql cols t cs = SELECT cols @ FROM @ from_where t cs"

definition delete_sql :: "string \<Rightarrow> condition list \<Rightarrow> string" where
  "delete_sql t cs = DELETE @ FROM @ from_where t cs"

definition table_name :: "string \<Rightarrow> bool" where
  "table_name t \<longleftrightarrow> t \<noteq> [] \<and> list_all visible t"

text \<open>A column between \<open>SELECT\<close> and \<open>FROM\<close>: a word that is not read as \<open>FROM\<close> itself.\<close>

definition listed_column :: "string \<Rightarrow> bool" where
  "listed_column c \<longleftrightarrow> c \<noteq> [] \<and> list_all visible c \<and> map upper_byte c \<noteq> ''FROM''"

lemma upper_space: "upper_byte c = SP \<longleftrightarrow> c = SP"
proof -
  have "upper_byte SP = SP" by code_simp
  moreover have "byte_val (upper_byte c) = 32 \<Longrightarrow> byte_val c = 32" by (auto simp: byte_val_upper split: if_splits)
  moreover have "byte_val SP = 32" by code_simp
  ultimately show ?thesis by (metis byte_val_def char_of_char)
qed

lemma upper_visible: "visible c \<Longrightarrow> visible (upper_byte c)"
  by (auto simp: visible_def ascii_space_def byte_val_upper)

lemma upper_framed: "framed s \<Longrightarrow> framed (map upper_byte s)"
  by (simp add: framed_def hd_map last_map upper_visible)

lemma framed_append: "framed x \<Longrightarrow> framed y \<Longrightarrow> framed (x @ z @ y)"
  by (simp add: framed_def)

definition sql_chars :: "string \<Rightarrow> bool" where
  "sql_chars s \<longleftrightarrow> list_all (\<lambda>c. visible c \<or> c = SP) s"

lemma sql_chars_append [simp]: "sql_chars (x @ y) \<longleftrightarrow> sql_chars x \<and> sql_chars y"
  by (simp add: sql_chars_def)

lemma sql_ascii: "sql_chars s \<Longrightarrow> is_ascii s"
proof -
  have "byte_val SP < 128" by code_simp
  then show "sql_chars s \<Longrightarrow> is_ascii s" by (auto simp: sql_chars_def is_ascii_def list_all_iff visible_def)
qed

lemma where_text_ok:
  assumes "cs \<noteq> []" "list_all wf_cond cs"
  shows "framed (where_text cs) \<and> sql_chars (where_text cs)"
  using assms
proof (induction cs rule: induct_list012)
  case (2 c)
  then show ?case using cond_text_ok [of c] by (simp add: where_text_def sql_chars_def)
next
  case (3 c d cs)
  have "sql_chars (SP # AND @ [SP])" by code_simp
  moreover have "where_text (c # d # cs) = cond_text c @ (SP # AND @ [SP]) @ where_text (d # cs)"
    by (simp add: where_text_def)
  moreover have "framed (cond_text c @ (SP # AND @ [SP]) @ where_text (d # cs))"
    using 3 cond_text_ok [of c] by (intro framed_append) simp_all
  ultimately show ?case using 3 cond_text_ok [of c] by (simp add: sql_chars_def)
qed simp

lemma from_where_ok:
  assumes "table_name t" "list_all wf_cond cs"
  shows "framed (from_where t cs) \<and> sql_chars (from_where t cs)"
proof -
  have "framed t" "sql_chars t" using assms(1) by (auto simp: framed_def sql_chars_def table_name_def list_all_iff)
  moreover have "sql_chars WHERE" by code_simp
  ultimately show ?thesis using where_text_ok [OF _ assms(2)] framed_append by (simp add: from_where_def)
qed

lemma upper_words:
  "map upper_byte DELETE = DELETE" "map upper_byte FROM = FROM" "map upper_byte WHERE = WHERE" "sql_chars DELETE"
  "sql_chars FROM" "framed DELETE" "length FROM = 6" "length WHERE = 7"
  by code_simp+

lemma visible_no_SP: "list_all visible t \<Longrightarrow> SP \<notin> set (map upper_byte t) \<and> SP \<notin> set t"
proof -
  have "\<not> visible SP" by code_simp
  then show "list_all visible t \<Longrightarrow> SP \<notin> set (map upper_byte t) \<and> SP \<notin> set t"
    by (auto simp: list_all_iff upper_space eq_commute [of SP])
qed

subsection \<open>Where FROM and WHERE are found\<close>

lemma where_found: "SP \<notin> set x \<Longrightarrow> index_of WHERE (x @ WHERE @ r) = Some (length x)"
proof -
  assume x: "SP \<notin> set x"
  have w: "WHERE = SP # ''WHERE ''" by (simp add: WHERE_def SP_def)
  show ?thesis using index_of_first [OF x, of "''WHERE ''" r] unfolding w by simp
qed

lemma where_absent: "SP \<notin> set x \<Longrightarrow> index_of WHERE x = None"
proof -
  have "SP \<in> set WHERE" by code_simp
  then show "SP \<notin> set x \<Longrightarrow> index_of WHERE x = None" by (rule index_of_absent)
qed

lemma index_of_past: "c \<notin> set x \<Longrightarrow> index_of (c # sub) (x @ s) = map_option (\<lambda>i. length x + i) (index_of (c # sub) s)"
  by (cases "index_of (c # sub) s"; induction x) simp_all

lemma word_before_gap: "c \<notin> set w \<Longrightarrow> c \<notin> set y \<Longrightarrow> prefix (w @ [c]) (y @ c # t) \<Longrightarrow> y = w"
proof (induction w arbitrary: y)
  case Nil
  then show ?case by (cases y) auto
next
  case (Cons a w)
  then show ?case by (cases y) auto
qed

lemma from_words:
  assumes "ws \<noteq> []" "list_all (\<lambda>w. SP \<notin> set w \<and> w \<noteq> ''FROM'') ws"
  shows "index_of FROM (join ws [SP] @ FROM @ r) = Some (length (join ws [SP]))"
  using assms
proof (induction ws rule: induct_list012)
  case (2 x)
  have f: "FROM = SP # ''FROM ''" by (simp add: FROM_def SP_def)
  show ?case using 2 index_of_first [of SP x "''FROM ''" r] unfolding f by simp
next
  case (3 x y ys)
  have f: "FROM = SP # ''FROM'' @ [SP]" "SP \<notin> set ''FROM''" by (simp add: FROM_def SP_def) (simp add: SP_def)
  let ?s = "join (y # ys) [SP] @ FROM @ r"
  obtain t where t: "?s = y @ SP # t" by (cases ys) (auto simp: f(1))
  have "\<not> prefix (''FROM'' @ [SP]) ?s"
    using word_before_gap [OF f(2), of y t] 3(4) unfolding t by auto
  then have "\<not> prefix FROM (SP # ?s)" by (simp only: f(1) Cons_prefix_Cons) simp
  then have skip: "index_of FROM (SP # ?s) = map_option Suc (index_of FROM ?s)" by (rule index_of_skip)
  have "index_of FROM ?s = Some (length (join (y # ys) [SP]))" using 3(2) 3(4) by simp
  then have "index_of FROM (SP # ?s) = Some (Suc (length (join (y # ys) [SP])))"
    unfolding skip by (rule ssubst) (rule option.map)
  moreover have "index_of FROM (x @ SP # ?s) = map_option (\<lambda>i. length x + i) (index_of FROM (SP # ?s))"
    using index_of_past [of SP x "''FROM'' @ [SP]" "SP # ?s"] 3(4) unfolding f(1) by simp
  ultimately show ?case by simp
qed simp

lemma column_list_ok:
  assumes "list_all listed_column cols"
  shows "list_all (\<lambda>w. w \<noteq> [] \<and> list_all visible w \<and> map upper_byte w \<noteq> ''FROM'') (column_list cols)"
  using assms
proof (induction cols rule: column_list.induct)
  case 1
  show ?case by code_simp
next
  case (3 c d cs)
  have comma: "visible CHR '',''" "upper_byte CHR '','' = CHR '',''" by code_simp+
  have "map upper_byte (c @ '','') \<noteq> ''FROM''"
  proof
    assume "map upper_byte (c @ '','') = ''FROM''"
    then have "last (map upper_byte (c @ '','')) = last ''FROM''" by (rule arg_cong)
    then show False using comma(2) by simp
  qed
  then show ?case using 3 comma(1) by (simp add: listed_column_def)
qed (simp add: listed_column_def)

lemma join_map: "map f (join ws [c]) = join (map (map f) ws) [f c]"
  by (induction ws rule: induct_list012) simp_all

lemma join_framed:
  "ws \<noteq> [] \<Longrightarrow> list_all (\<lambda>w. w \<noteq> [] \<and> list_all visible w) ws \<Longrightarrow> framed (join ws [SP]) \<and> sql_chars (join ws [SP])"
proof (induction ws rule: induct_list012)
  case (3 x y ys)
  then show ?case by (auto simp: framed_def sql_chars_def list_all_iff)
qed (auto simp: framed_def sql_chars_def list_all_iff)

lemma SELECT_ok:
  assumes "list_all listed_column cols"
  shows "framed (SELECT cols)" "sql_chars (SELECT cols)"
    "index_of FROM (map upper_byte (SELECT cols) @ FROM @ r) = Some (length (SELECT cols))"
    "prefix ''SELECT'' (map upper_byte (SELECT cols) @ s)"
proof -
  let ?ws = "''SELECT'' # column_list cols"
  have word: "list_all visible ''SELECT''" "map upper_byte ''SELECT'' = ''SELECT''" by code_simp+
  have ws: "list_all (\<lambda>w. w \<noteq> [] \<and> list_all visible w \<and> map upper_byte w \<noteq> ''FROM'') ?ws"
    using column_list_ok [OF assms] word by simp
  then have "list_all (\<lambda>w. w \<noteq> [] \<and> list_all visible w) ?ws" by (rule list.pred_mono_strong) blast
  then show "framed (SELECT cols)" "sql_chars (SELECT cols)" using join_framed [of ?ws] by (simp_all add: SELECT_def)
  have up: "map upper_byte (SELECT cols) = join (map (map upper_byte) ?ws) [SP]"
    using upper_space [of SP] unfolding SELECT_def join_map by simp
  have "list_all (\<lambda>w. SP \<notin> set w \<and> w \<noteq> ''FROM'') (map (map upper_byte) ?ws)"
    unfolding list.pred_map by (rule list.pred_mono_strong [OF ws]) (simp only: comp_apply visible_no_SP, simp)
  then have "index_of FROM (map upper_byte (SELECT cols) @ FROM @ r) = Some (length (map upper_byte (SELECT cols)))"
    unfolding up by (intro from_words) simp_all
  then show "index_of FROM (map upper_byte (SELECT cols) @ FROM @ r) = Some (length (SELECT cols))" by simp
  obtain c cs where c: "column_list cols = c # cs" by (cases cols rule: column_list.cases) auto
  have "join (map (map upper_byte) (w # c # cs)) [SP] = map upper_byte w @ SP # join (map (map upper_byte) (c # cs)) [SP]" for w
    by simp
  then have "map upper_byte (SELECT cols) = ''SELECT'' @ SP # join (map (map upper_byte) (c # cs)) [SP]"
    unfolding up c by (simp only: word(2))
  then show "prefix ''SELECT'' (map upper_byte (SELECT cols) @ s)" by simp
qed

lemma delete_prefix:
  "\<not> prefix ''INSERT'' (DELETE @ r)" "\<not> prefix ''UPDATE'' (DELETE @ r)" "prefix ''DELETE'' (DELETE @ r)"
  "index_of FROM (DELETE @ FROM @ r) = Some (length DELETE)"
  by (simp_all add: DELETE_def FROM_def)

lemma first_field_name: "table_name t \<Longrightarrow> first_field t = ok t"
  using fields_words [of "[t]"] by (simp add: first_field_def table_name_def)

text \<open>The part after the command word.\<close>

lemma parse_tail:
  assumes "table_name t" "list_all wf_cond cs" "sql = p @ FROM @ from_where t cs"
    and "index_of FROM (to_upper (lib_upper L) sql) = Some (length p)"
  shows "parseTableAndConditions L sql = ok (t, cs)"
proof -
  let ?r = "from_where t cs"
  have r: "framed ?r" "sql_chars ?r" using from_where_ok [OF assms(1,2)] by simp_all
  have tail: "slice_from sql (length p + 6) = ok ?r" "trim_space ?r = ?r"
    using assms(3) trim_framed [OF r(1)] by (simp_all add: slice_from_def upper_words)
  have no: "SP \<notin> set (map upper_byte t)" using visible_no_SP assms(1) by (simp add: table_name_def)
  show ?thesis
  proof (cases "cs = []")
    case True
    then have w: "index_of WHERE (to_upper (lib_upper L) ?r) = None"
      using no sql_ascii [OF r(2)] where_absent by (simp add: to_upper_def from_where_def)
    show ?thesis using assms(4) tail w first_field_name [OF assms(1)] True
      unfolding parseTableAndConditions_def FROM_def [symmetric] WHERE_def [symmetric] by (simp add: from_where_def)
  next
    case False
    have up: "to_upper (lib_upper L) ?r = map upper_byte t @ WHERE @ map upper_byte (where_text cs)"
      using sql_ascii [OF r(2)] False by (simp add: to_upper_def from_where_def upper_words)
    have w: "index_of WHERE (to_upper (lib_upper L) ?r) = Some (length t)"
      unfolding up using where_found [OF no] by simp
    have "slice_to ?r (length t) = ok t" "slice_from ?r (length t + 7) = ok (where_text cs)"
      using False by (simp_all add: slice_to_def slice_from_def from_where_def upper_words)
    moreover have "trim_space (where_text cs) = where_text cs" using where_text_ok [OF False assms(2)] trim_framed by simp
    ultimately show ?thesis
      using assms(4) tail w first_field_name [OF assms(1)] parseConditions_text [OF False assms(2)]
      unfolding parseTableAndConditions_def FROM_def [symmetric] WHERE_def [symmetric] by simp
  qed
qed

lemma upper_statement:
  assumes "table_name t" "list_all wf_cond cs" "sql_chars p" "framed p"
  shows "to_upper up (p @ FROM @ from_where t cs) = map upper_byte p @ FROM @ map upper_byte (from_where t cs)"
    and "trim_space (to_upper up (p @ FROM @ from_where t cs)) = map upper_byte p @ FROM @ map upper_byte (from_where t cs)"
proof -
  have r: "framed (from_where t cs)" "sql_chars (from_where t cs)" using from_where_ok [OF assms(1,2)] by simp_all
  show u: "to_upper up (p @ FROM @ from_where t cs) = map upper_byte p @ FROM @ map upper_byte (from_where t cs)"
    using sql_ascii [of "p @ FROM @ from_where t cs"] assms(3) r upper_words by (simp add: to_upper_def)
  show "trim_space (to_upper up (p @ FROM @ from_where t cs)) = map upper_byte p @ FROM @ map upper_byte (from_where t cs)"
    unfolding u by (intro trim_framed framed_append assms upper_framed r)
qed

section \<open>SELECT and DELETE are exact\<close>

text \<open>The meaning of a condition on a row.\<close>

definition satisfies :: "golib \<Rightarrow> string list \<Rightarrow> go_any list \<Rightarrow> go_any list \<Rightarrow> condition \<Rightarrow> bool" where
  "satisfies L columns params row c \<longleftrightarrow>
     (let v = row ! the (colIndex L columns (cond_column c))
      in if cond_isNull c then v = GoNil else if cond_isNotNull c then v \<noteq> GoNil
         else sprint v = sprint (params ! nat (cond_paramIdx c - 1)))"

definition meets :: "golib \<Rightarrow> table \<Rightarrow> go_any list \<Rightarrow> condition list \<Rightarrow> go_any list \<Rightarrow> bool" where
  "meets L t params cs row \<longleftrightarrow> list_all (satisfies L (tb_columns t) params row) cs"

definition full_rows :: "table \<Rightarrow> bool" where
  "full_rows t \<longleftrightarrow> list_all (\<lambda>r. length r = length (tb_columns t)) (tb_rows t)"

definition applicable :: "golib \<Rightarrow> table \<Rightarrow> go_any list \<Rightarrow> condition list \<Rightarrow> bool" where
  "applicable L t params cs \<longleftrightarrow> full_rows t \<and>
     list_all (\<lambda>c. wf_cond c \<and> colIndex L (tb_columns t) (cond_column c) \<noteq> None \<and> cond_paramIdx c \<le> int (length params)) cs"

lemma colIndex_from_range: "colIndex_from lc i cs col = Some j \<Longrightarrow> i \<le> j \<and> j < i + length cs"
proof (induction cs arbitrary: i)
  case (Cons c cs)
  show ?case using Cons.prems Cons.IH [of "i + 1"] by (auto split: if_splits)
qed simp

lemma colIndex_range: "colIndex L columns col = Some j \<Longrightarrow> j < length columns"
  using colIndex_from_range [of "lib_lower L" 0 columns col j] by (auto simp: colIndex_def split: if_splits)

lemma matchesConditions_meets:
  assumes "length row = length columns"
    and "list_all (\<lambda>c. wf_cond c \<and> colIndex L columns (cond_column c) \<noteq> None \<and> cond_paramIdx c \<le> int (length params)) cs"
  shows "matchesConditions L columns row cs params = ok (list_all (satisfies L columns params row) cs)"
  using assms(2)
proof (induction cs)
  case (Cons c cs)
  then obtain i where i: "colIndex L columns (cond_column c) = Some i" by auto
  then have "\<not> length row \<le> i" using colIndex_range assms(1) by fastforce
  then show ?case using Cons i by (auto simp: satisfies_def wf_cond_def Let_def)
qed simp

lemma applicable_rows:
  assumes "applicable L t params cs" "row \<in> set (tb_rows t)"
  shows "matchesConditions L (tb_columns t) row cs params = ok (meets L t params cs row)"
  using assms unfolding meets_def by (intro matchesConditions_meets) (auto simp: applicable_def full_rows_def list_all_iff)

lemma select_rows_filter:
  "(\<And>row. row \<in> set rows \<Longrightarrow> matchesConditions L cols row cs params = ok (P row)) \<Longrightarrow>
     select_rows L cols cs params rows = ok (filter P rows)"
  by (induction rows) simp_all

lemma keep_rows_filter:
  "(\<And>row. row \<in> set rows \<Longrightarrow> matchesConditions L cols row cs params = ok (P row)) \<Longrightarrow>
     keep_rows L cols cs params rows = ok (filter (\<lambda>r. \<not> P r) rows, int (length (filter P rows)))"
  by (induction rows) simp_all

lemma parse_select: "table_name t \<Longrightarrow> list_all listed_column cols \<Longrightarrow> list_all wf_cond cs \<Longrightarrow>
    parseTableAndConditions L (select_sql cols t cs) = ok (t, cs)"
  by (rule parse_tail [of t cs _ "SELECT cols"]) (simp_all add: select_sql_def upper_statement(1) SELECT_ok)

lemma parse_delete: "table_name t \<Longrightarrow> list_all wf_cond cs \<Longrightarrow> parseTableAndConditions L (delete_sql t cs) = ok (t, cs)"
  by (rule parse_tail [of t cs _ DELETE]) (simp_all add: delete_sql_def upper_statement(1) upper_words delete_prefix)

lemma statement_kinds:
  assumes "table_name t" "list_all wf_cond cs"
  shows "list_all listed_column cols \<Longrightarrow>
      db_Query L (select_sql cols t cs) params db = (db, querySelect L (select_sql cols t cs) params db)"
    and "db_Exec L (delete_sql t cs) params db = execDelete L (delete_sql t cs) params db"
  unfolding db_Query_def db_Exec_def select_sql_def delete_sql_def has_prefix_def Let_def
  by (simp_all only: upper_statement(2) [OF assms] SELECT_ok upper_words delete_prefix if_True if_False)

text \<open>
  C40: SELECT and DELETE act on exactly the rows that satisfy all of the predicates.  For a
  statement of the documented form, SELECT of the star or of any list of columns, and DELETE,
  with or without a WHERE of predicates \<open>c = $n\<close>, \<open>c IS NULL\<close> and \<open>c IS NOT NULL\<close> joined by AND,
  over a seeded table with full rows, whose columns exist and whose parameters are given:
  SELECT answers the rows that meet every predicate, in order and with all the columns of the
  table whatever columns it lists, and changes nothing; DELETE removes exactly those rows,
  keeps the others in order, reports how many it removed and touches no other table.  The names
  are ASCII words without spaces; a name in WHERE must not contain the capitals AND, and a
  column SELECT lists must not spell FROM, because the code looks for these letters and not for
  words (\<open>and_inside_a_name\<close>).
\<close>

theorem where_is_exact:
  assumes "table_name t" "table_named L db t = Some tb" "list_all listed_column cols" "applicable L tb params cs"
  shows "db_Query L (select_sql cols t cs) params db =
      (db, ok \<lparr>qr_Columns = tb_columns tb, qr_Rows = filter (meets L tb params cs) (tb_rows tb)\<rparr>) \<and>
    db_Exec L (delete_sql t cs) params db =
      (put_table L t (tb\<lparr>tb_rows := filter (\<lambda>r. \<not> meets L tb params cs r) (tb_rows tb)\<rparr>) db,
       ok (int (length (filter (meets L tb params cs) (tb_rows tb)))))"
proof -
  have wf: "list_all wf_cond cs" using assms(4) by (auto simp: applicable_def list_all_iff)
  note rows = select_rows_filter [OF applicable_rows [OF assms(4)]] keep_rows_filter [OF applicable_rows [OF assms(4)]]
  have "querySelect L (select_sql cols t cs) params db =
      ok \<lparr>qr_Columns = tb_columns tb, qr_Rows = filter (meets L tb params cs) (tb_rows tb)\<rparr>"
    using rows(1) by (simp add: querySelect_def parse_select [OF assms(1,3) wf] assms(2))
  moreover have "execDelete L (delete_sql t cs) params db =
      (put_table L t (tb\<lparr>tb_rows := filter (\<lambda>r. \<not> meets L tb params cs r) (tb_rows tb)\<rparr>) db,
       ok (int (length (filter (meets L tb params cs) (tb_rows tb)))))"
    using rows(2) parse_delete [OF assms(1) wf] assms(2) by (simp add: execDelete_def ok_def)
  ultimately show ?thesis by (simp add: statement_kinds [OF assms(1) wf] assms(3))
qed

text \<open>A table of three items, and the items of a kind that are not deleted.\<close>

definition ascii_lib :: golib where
  "ascii_lib = \<lparr>lib_upper = (\<lambda>s. s), lib_lower = (\<lambda>s. s), lib_quote = (\<lambda>s. s), lib_scan_error = (\<lambda>s. ''expected integer'')\<rparr>"

definition demo_items :: table where
  "demo_items = \<lparr>tb_columns = [''id'', ''Kind'', ''deleted_at''],
     tb_rows = [[GoStr ''1'', GoStr ''a'', GoNil], [GoStr ''2'', GoStr ''b'', GoNil], [GoStr ''3'', GoStr ''a'', GoInt 5]]\<rparr>"

definition live_kind :: "condition list" where
  "live_kind = [\<lparr>cond_column = ''kind'', cond_paramIdx = 1, cond_isNull = False, cond_isNotNull = False\<rparr>,
     \<lparr>cond_column = ''deleted_at'', cond_paramIdx = 0, cond_isNull = True, cond_isNotNull = False\<rparr>]"

theorem where_is_exact_witness:
  "select_sql [''id'', ''kind''] ''items'' live_kind = ''SELECT id, kind FROM items WHERE kind = $1 AND deleted_at IS NULL'' \<and>
   snd (db_Query ascii_lib (select_sql [''id'', ''kind''] ''items'' live_kind) [GoStr ''a''] [''items'' \<mapsto> demo_items]) =
     ok \<lparr>qr_Columns = [''id'', ''Kind'', ''deleted_at''], qr_Rows = [[GoStr ''1'', GoStr ''a'', GoNil]]\<rparr> \<and>
   snd (db_Exec ascii_lib (delete_sql ''items'' live_kind) [GoStr ''a''] [''items'' \<mapsto> demo_items]) = ok 1"
proof -
  have "select_sql [''id'', ''kind''] ''items'' live_kind = ''SELECT id, kind FROM items WHERE kind = $1 AND deleted_at IS NULL''" by code_simp
  moreover have "list_all listed_column [''id'', ''kind'']" by code_simp
  moreover have "table_name ''items''" by code_simp
  moreover have "table_named ascii_lib [''items'' \<mapsto> demo_items] ''items'' = Some demo_items" by code_simp
  moreover have "applicable ascii_lib demo_items [GoStr ''a''] live_kind" by code_simp
  moreover have "filter (meets ascii_lib demo_items [GoStr ''a''] live_kind) (tb_rows demo_items) = [[GoStr ''1'', GoStr ''a'', GoNil]]"
    by code_simp
  ultimately show ?thesis
    using where_is_exact [of "''items''" ascii_lib "[''items'' \<mapsto> demo_items]" demo_items "[''id'', ''kind'']" "[GoStr ''a'']" live_kind]
    by (simp add: demo_items_def)
qed

section \<open>Statements outside that form\<close>

text \<open>
  \<^verbatim>\<open>parseConditions\<close> splits at the letters \<^verbatim>\<open>AND\<close> wherever they are, so a predicate on a column whose
  name contains them is an error, and so is the whole SELECT.
\<close>

lemma and_inside_a_name:
  "parseConditions ascii_lib ''BRAND = $1'' = err ''parseColParam: unexpected BR''"
  "db_Query ascii_lib ''SELECT * FROM items WHERE BRAND = $1'' [GoStr ''a'']
     [''items'' \<mapsto> \<lparr>tb_columns = [''BRAND''], tb_rows = [[GoStr ''a'']]\<rparr>] =
   ([''items'' \<mapsto> \<lparr>tb_columns = [''BRAND''], tb_rows = [[GoStr ''a'']]\<rparr>], err ''parseColParam: unexpected BR'')"
proof -
  show "parseConditions ascii_lib ''BRAND = $1'' = err ''parseColParam: unexpected BR''" by code_simp
  have "querySelect ascii_lib ''SELECT * FROM items WHERE BRAND = $1'' [GoStr ''a''] db = err ''parseColParam: unexpected BR''" for db
  proof -
    have "parseTableAndConditions ascii_lib ''SELECT * FROM items WHERE BRAND = $1'' = err ''parseColParam: unexpected BR''" by code_simp
    then show ?thesis by (simp add: querySelect_def)
  qed
  moreover have "has_prefix (trim_space (to_upper (lib_upper ascii_lib) ''SELECT * FROM items WHERE BRAND = $1'')) ''SELECT''"
    by code_simp
  ultimately show "db_Query ascii_lib ''SELECT * FROM items WHERE BRAND = $1'' [GoStr ''a'']
     [''items'' \<mapsto> \<lparr>tb_columns = [''BRAND''], tb_rows = [[GoStr ''a'']]\<rparr>] =
   ([''items'' \<mapsto> \<lparr>tb_columns = [''BRAND''], tb_rows = [[GoStr ''a'']]\<rparr>], err ''parseColParam: unexpected BR'')"
    unfolding db_Query_def Let_def by (simp only: if_True)
qed

text \<open>
  \<^verbatim>\<open>AND\<close> is looked for in capitals only and the text after a condition is not looked at, so a
  lower-case \<^verbatim>\<open>and\<close> drops every predicate after the first; nor is the operator looked at.
\<close>

lemma lower_case_and_drops:
  "parseConditions ascii_lib ''id = $1 and project_id = $2'' = parseConditions ascii_lib ''id = $1''"
  "parseCondition ascii_lib ''id <> $1'' = parseCondition ascii_lib ''id = $1''"
  by code_simp+

text \<open>The form of INSERT that the comment of \<^verbatim>\<open>Exec\<close> gives is read as a table named \<^verbatim>\<open>items VALUES\<close>.\<close>

lemma insert_values_table:
  "parseInsertColumns ascii_lib ''INSERT INTO items VALUES ($1)'' = ok (''items VALUES'', [''$1''])"
  by code_simp

text \<open>A parameter index out of range is an error in a condition and a panic in an assignment.\<close>

lemma assignment_panics:
  "snd (assign_row ascii_lib ''items'' [''id''] [] [\<lparr>cp_column = ''id'', cp_paramIdx = 1\<rparr>] [GoNil]) = Panicked"
  by code_simp

end
