(* ===== verification/Spec2Isabelle.thy ===== *)
theory Spec2Isabelle
  imports FakeConforms NativeBackends FakeExamples WireExamples PluginExamples TestKitExamples WasmExamples InMemoryFacts
begin

text \<open>
  The Paca plugin SDK for Go, modelled and verified.

  \<^bold>\<open>The program.\<close>  A plugin is a Go program compiled to WebAssembly.  Its host calls a few
  exported functions (\<^verbatim>\<open>wasm_exports.go\<close>) with a payload it has placed in the plugin's memory;
  the export copies it out, hands it to the dispatcher (\<^verbatim>\<open>dispatch.go\<close>), which initialises the
  plugin once, finds a handler among the registered routes, conditions, actions and event
  handlers (\<^verbatim>\<open>context.go\<close>) and runs it, and returns the bytes of the answer packed in one
  64-bit value.  A handler reaches the host through backends (\<^verbatim>\<open>backends.go\<close>) that place their
  arguments in memory, call an imported function and read the result out of the same memory
  (\<^verbatim>\<open>wasm_backends.go\<close>, \<^verbatim>\<open>fetch_chunks.go\<close>).  Tests replace the backends by doubles in memory
  (\<^verbatim>\<open>plugintest\<close>).  On top of this sits a contract for Git platforms (\<^verbatim>\<open>gitprovider\<close>): an
  interface \<^verbatim>\<open>Provider\<close>, its types and errors, \<^verbatim>\<open>Dispatch\<close>, which serves it as JSON over the
  plugin's routes (\<^verbatim>\<open>serve\<close>), a reference provider in memory (\<^verbatim>\<open>fakeprovider\<close>) and the suite
  every provider must pass (\<^verbatim>\<open>conformance\<close>).

  \<^bold>\<open>The theories.\<close>
  \<^item> \<open>Prelude\<close>: outcomes that may panic, Go maps, generic lemmas.
  \<^item> \<open>GoStrings\<close>, \<open>GoUtf8\<close>, \<open>GoJson\<close>, \<open>GoCodec\<close>, \<open>GoUrl\<close>, \<open>GoTest\<close>: what the program uses of
    \<^verbatim>\<open>strings\<close>, \<^verbatim>\<open>strconv\<close>, \<^verbatim>\<open>unicode/utf8\<close>, \<^verbatim>\<open>encoding/json\<close>, \<^verbatim>\<open>net/url\<close> and \<^verbatim>\<open>testing\<close>.  A string is a list
    of bytes.  The parser, the printer and the struct codecs of JSON are executable; the
    printed form of a value reads back to the value (\<open>parse_print\<close>, \<open>unmarshal_print\<close>).
  \<^item> \<open>Routing\<close> (\<^verbatim>\<open>context.go\<close>): the context as a record of tables, \<open>matchRoute\<close>,
    \<open>matchRoutePattern\<close> and \<open>routeSpecificity\<close> after the functions of the same names.  Which
    pattern wins, what it binds, and when the order of Go's map iteration shows.
  \<^item> \<open>Http\<close>, \<open>Automation\<close>, \<open>PluginDispatch\<close>, \<open>PluginFacts\<close> (\<^verbatim>\<open>request.go\<close>, \<^verbatim>\<open>response.go\<close>,
    \<^verbatim>\<open>automation.go\<close>, \<^verbatim>\<open>event.go\<close>, \<^verbatim>\<open>dispatch.go\<close>): the dispatcher as a state machine over the
    world \<open>'w\<close> its plugin acts on, its handlers on every branch, runs of host calls.
  \<^item> \<open>WasmMemory\<close> (the arena of \<^verbatim>\<open>wasm_backends.go\<close>, \<^verbatim>\<open>wasm_result.go\<close>, \<^verbatim>\<open>wasm_output.go\<close>): bump
    allocation at 32 bits, slices, packed results at 64 bits; the locale \<open>host_memory\<close> is what
    a host may rely on.  \<open>FetchChunks\<close> (\<^verbatim>\<open>fetch_chunks.go\<close>, \<^verbatim>\<open>host_limits.go\<close>): the loop that reads
    a body in chunks from a stateful host.
  \<^item> \<open>WasmHost\<close>, \<open>WasmFacts\<close>, \<open>WasmExports\<close> (\<^verbatim>\<open>wasm_backends.go\<close>, \<^verbatim>\<open>custom_host_call.go\<close>,
    \<^verbatim>\<open>wasm_exports.go\<close>): the record \<open>host_imports\<close> holds the imported functions, which act on the
    host's state and the guest's arena; a backend and an export are functions on both.
    \<open>NativeBackends\<close> (\<^verbatim>\<open>native_backends.go\<close>) holds the stubs of a build outside WASM.
  \<^item> \<open>Backends\<close> (\<^verbatim>\<open>backends.go\<close> and the small stores of \<^verbatim>\<open>plugintest/backends.go\<close>), \<open>InMemoryDB\<close>,
    \<open>InMemoryFacts\<close> (its database), \<open>TestKit\<close> (\<^verbatim>\<open>plugintest/plugintest.go\<close>).  The locale
    \<open>kv_store\<close> is interpreted on the store and on the cache.
  \<^item> \<open>GitTypes\<close>, \<open>GitErrors\<close>, \<open>GitJson\<close>, \<open>Provider\<close> (\<^verbatim>\<open>gitprovider/types.go\<close>, \<^verbatim>\<open>errors.go\<close>,
    \<^verbatim>\<open>provider.go\<close>): a record per struct, an encoder and a decoder per struct from its tags, the
    interface as a record of operations \<open>'q \<Rightarrow> 's \<Rightarrow> 's \<times> 'r reply\<close>; a reply is an answer, an
    error or a panic.
  \<^item> \<open>Wire\<close>, \<open>WireFacts\<close>, \<open>Serve\<close> (\<^verbatim>\<open>gitprovider/wire.go\<close>, \<^verbatim>\<open>serve/serve.go\<close>): the table of the
    operations, \<open>Dispatch\<close>, and the route that serves it.
  \<^item> \<open>FakeState\<close>, \<open>FakeCore\<close>, \<open>FakeWebhook\<close>, \<open>FakeFull\<close>, \<open>FakeProvider\<close> (\<^verbatim>\<open>fakeprovider/fake.go\<close>,
    \<^verbatim>\<open>variants.go\<close>): the world of the reference provider, one function per operation, and the
    two providers.  \<open>FakeInv\<close> and \<open>FakeSteps\<close> hold the invariant, the step relation
    \<open>fake_step\<close> and its reachable states, \<open>FakeSettled\<close> the runs that record what their requests
    asked to change; \<open>FakeHistory\<close>, \<open>FakeLifecycle\<close>, \<open>FakeReads\<close> and
    \<open>FakeTrust\<close> the properties.  The locales \<open>branch_manager\<close>, \<open>paging\<close> and \<open>served_provider\<close>
    are the interfaces they implement.
  \<^item> \<open>Conformance\<close>, \<open>ConformanceReads\<close>, \<open>ConformanceWrites\<close>, \<open>FakeHarness\<close>
    (\<^verbatim>\<open>conformance/conformance.go\<close>, \<^verbatim>\<open>fakeprovider/harness.go\<close>): every test of the suite as a
    computation over the provider's state; \<open>ConformanceFacts\<close> says what a verdict means.
    \<open>FakeHooks\<close>, \<open>FakeConformance\<close> and \<open>FakeConforms\<close> run the suite on the two fakes: the locales
    \<open>fake_core\<close>, \<open>fake_full\<close> and \<open>fake_minimal\<close> are what it uses of a provider, each test is evaluated in
    them on the seed state, and both providers interpret them.
  \<^item> \<open>WireExamples\<close>, \<open>FakeExamples\<close>, \<open>PluginExamples\<close>, \<open>WasmExamples\<close>, \<open>TestKitExamples\<close>: the
    properties at concrete inputs.

  \<^bold>\<open>What the theorems show.\<close>  Routing: the most specific pattern wins, a pattern matches exactly
  what substituting its parameters gives.  Boundary: a payload crosses the arena unchanged and
  leaves it empty, reads of the production store answer as the double's as far as the arena
  has room (in a handler the payload of the call takes some of it until a read delivers), a
  parked body is fetched whole, every loop over chunks ends after a bounded number of calls.
  Dispatcher:
  handlers come from one successful initialisation, malformed payloads are refused before it,
  a response reaches the host byte by byte, the test kit shows what production does.  Wire:
  what \<^verbatim>\<open>Dispatch\<close> refuses, how a failure names its status, that a result reads back.  Fake:
  no sequence of requests breaks its invariant, loses anything, or changes what no request
  named; an operation touches one repository, the shared counter and the shared memo of
  idempotency keys; retries replay, access grants work once, a
  merge happens at the reviewed head, pages cover everything once, texts keep their budget on
  a rune boundary, only signed deliveries become events.  Suite: passing the description test
  is being honest about capabilities, the wire tests pass for every provider whose description
  returns and fail for one whose description panics, and both fakes pass every test.  Test
  database: SELECT and DELETE act on the rows their WHERE describes, for column names without
  the letters AND.  Where the
  code departs from what it means to do, the theorem shows the departure (the overflow in
  \<^verbatim>\<open>wasmMalloc\<close>, the update that is applied though refused, the merged change request that
  reopens, the tie between routes, the value that is missing until a read made room); a lemma
  beside it shows the others (the key that crosses repositories, the column name that breaks a
  WHERE, the negative cursor, the time to live that wraps).

  \<^bold>\<open>Bounds and fuel.\<close>  Pointers and lengths of the WASM boundary are 32-bit words with the
  wrap-around of \<^verbatim>\<open>int32\<close>, packed results 64-bit words, durations 64-bit; \<^verbatim>\<open>int\<close> data of the
  contract is unbounded with the width stated where the code computes.  \<open>parse_json\<close> runs with
  twice the length of its input as fuel, which \<open>parse_fuel\<close> shows to be enough.  Pagination in
  the suite runs for the 100 pages the code allows; the loop over issues ends because each turn
  adds a cursor and at most 100 are taken.  All other loops are structural or have a measure.

  \<^bold>\<open>Parameters.\<close>  Code outside the repository is an argument: HMAC-SHA256 (\<open>mac\<close>), the quoting
  of \<^verbatim>\<open>%q\<close> (\<open>quote\<close>, it consults Unicode tables), case mapping outside ASCII (\<open>uc\<close>, \<open>lc\<close>), the
  clock (\<open>now\<close>, \<open>wall\<close>), the address of the arena, the host's imported functions, and the
  plugin's own handlers.  Assumptions about them are premises of the theorems that need them.
  \<^verbatim>\<open>Describe\<close> of a provider is documented to return static information: it is a function of the
  provider's state that changes nothing and may panic.

  \<^bold>\<open>Not modelled.\<close>  The bodyless declarations of \<^verbatim>\<open>wasm_imports.go\<close> are the parameters above; \<^verbatim>\<open>wiretypes.go\<close> is a table of
  reflected types for a golden-file test; the assertions of the test kit only read recorded
  values.  Mutexes are left out, an operation is one atomic step.  A slice shared between the
  fake and a direct Go caller, and a value returned beside an error, are not represented.  A
  nil and an empty slice or map are one value, printed as the nil one.  The counters of the
  fake do not wrap.  The suite reads one clock: the time between minting a credential and
  checking its expiry is zero.  Handlers are registered during \<^verbatim>\<open>Init\<close>; one that keeps its
  context and registers more later is outside the model.
\<close>

end
